(* ===== verification/Prelude.thy ===== *)
theory Prelude
  imports Complex_Main "HOL-Library.Word" "HOL-Library.Char_ord" "HOL-Library.List_Lexorder"
    "HOL-Library.AList"
begin

text \<open>
  The shared base of the RockServer development: the Rust types every component uses
  (\<open>Uuid\<close>, fixed-width integers, \<open>Result\<close>, UTF-8 strings, \<open>f64\<close>, the ordered set behind
  \<open>BTreeSet\<close>), the combinators behind the \<open>?\<close> operator and \<open>try_for_each\<close>, the functions of
  the Rust standard library that the source calls on strings, and the generic lemmas and
  \<^theory_text>\<open>named_theorems\<close> collections the component theories share.
\<close>

section \<open>Names of the model's types\<close>

text \<open>
  A \<open>Uuid\<close> is only ever compared, hashed and used as a key, so it is a number. An
  \<open>OffsetDateTime\<close> (an instant) and a \<open>Duration\<close> are whole nanoseconds.
\<close>

type_synonym uuid = nat
type_synonym u8 = "8 word"
type_synonym i8 = "8 word"
type_synonym u16 = "16 word"
type_synonym u32 = "32 word"
type_synonym u64 = "64 word"
type_synonym instant = int
type_synonym ('e, 'a) result = "'e + 'a"

abbreviation Err :: "'e \<Rightarrow> 'e + 'a" where
  "Err \<equiv> Inl"

abbreviation Ok :: "'a \<Rightarrow> 'e + 'a" where
  "Ok \<equiv> Inr"

named_theorems rs_simps \<open>characteristic equations used by component proofs\<close>
named_theorems rs_defs \<open>definitions that component proofs unfold together\<close>

definition nanos_per_second :: int where
  "nanos_per_second = 1000000000"

definition seconds :: "int \<Rightarrow> int" where
  "seconds n = n * nanos_per_second"

definition days :: "int \<Rightarrow> int" where
  "days n = seconds (86400 * n)"

text \<open>\<open>Duration::whole_seconds\<close> drops the fraction, towards zero.\<close>

definition whole_seconds :: "int \<Rightarrow> int" where
  "whole_seconds d = sgn d * (\<bar>d\<bar> div nanos_per_second)"

section \<open>Results and the question-mark operator\<close>

definition and_then :: "'e + 'a \<Rightarrow> ('a \<Rightarrow> 'e + 'b) \<Rightarrow> 'e + 'b" where
  "and_then r f = (case r of Inl e \<Rightarrow> Inl e | Inr x \<Rightarrow> f x)"

definition map_err :: "('e \<Rightarrow> 'f) \<Rightarrow> 'e + 'a \<Rightarrow> 'f + 'a" where
  "map_err g r = (case r of Inl e \<Rightarrow> Inl (g e) | Inr x \<Rightarrow> Inr x)"

definition is_ok :: "'e + 'a \<Rightarrow> bool" where
  "is_ok r = (case r of Inl _ \<Rightarrow> False | Inr _ \<Rightarrow> True)"

definition ok_or :: "'e \<Rightarrow> 'a option \<Rightarrow> 'e + 'a" where
  "ok_or e v = (case v of None \<Rightarrow> Inl e | Some x \<Rightarrow> Inr x)"

definition require :: "bool \<Rightarrow> 'e \<Rightarrow> 'e + unit" where
  "require b e = (if b then Inr () else Inl e)"

fun try_for_each :: "('a \<Rightarrow> 'e + unit) \<Rightarrow> 'a list \<Rightarrow> 'e + unit" where
  "try_for_each f [] = Inr ()"
| "try_for_each f (x # xs) = and_then (f x) (\<lambda>_. try_for_each f xs)"

text \<open>\<open>Option\<close> helpers: \<open>is_some_and\<close>, \<open>is_none_or\<close>, \<open>filter\<close> and \<open>or\<close>.\<close>

definition is_some :: "'a option \<Rightarrow> bool" where
  "is_some v = (v \<noteq> None)"

definition is_some_and :: "'a option \<Rightarrow> ('a \<Rightarrow> bool) \<Rightarrow> bool" where
  "is_some_and v p = (case v of None \<Rightarrow> False | Some x \<Rightarrow> p x)"

definition is_none_or :: "'a option \<Rightarrow> ('a \<Rightarrow> bool) \<Rightarrow> bool" where
  "is_none_or v p = (case v of None \<Rightarrow> True | Some x \<Rightarrow> p x)"

definition opt_filter :: "('a \<Rightarrow> bool) \<Rightarrow> 'a option \<Rightarrow> 'a option" where
  "opt_filter p v = (case v of None \<Rightarrow> None | Some x \<Rightarrow> if p x then Some x else None)"

definition opt_or :: "'a option \<Rightarrow> 'a option \<Rightarrow> 'a option" where
  "opt_or a b = (case a of None \<Rightarrow> b | Some x \<Rightarrow> Some x)"

lemma and_then_simps [simp, rs_simps]:
  "and_then (Inl e) f = Inl e"
  "and_then (Inr x) f = f x"
  by (simp_all add: and_then_def)

lemma and_then_Ok [rs_simps]:
  "and_then r f = Inr y \<longleftrightarrow> (\<exists>x. r = Inr x \<and> f x = Inr y)"
  by (cases r) auto

lemma and_then_Err [rs_simps]:
  "and_then r f = Inl e \<longleftrightarrow> r = Inl e \<or> (\<exists>x. r = Inr x \<and> f x = Inl e)"
  by (cases r) auto

lemma map_err_simps [simp]:
  "map_err g (Inl e) = Inl (g e)"
  "map_err g (Inr x) = Inr x"
  by (simp_all add: map_err_def)

lemma map_err_Ok [simp]: "map_err g r = Inr x \<longleftrightarrow> r = Inr x"
  by (cases r) auto

lemma is_ok_simps [simp]:
  "\<not> is_ok (Inl e)"
  "is_ok (Inr x)"
  by (simp_all add: is_ok_def)

lemma is_ok_unit: "is_ok (r :: 'e + unit) \<longleftrightarrow> r = Inr ()"
  by (cases r) auto

lemma ok_or_simps [simp]:
  "ok_or e None = Inl e"
  "ok_or e (Some x) = Inr x"
  by (simp_all add: ok_or_def)

lemma ok_or_Ok [rs_simps]: "ok_or e v = Inr x \<longleftrightarrow> v = Some x"
  by (cases v) auto

lemma require_Ok [simp]: "require b e = Inr () \<longleftrightarrow> b"
  by (simp add: require_def)

lemma require_Err [simp]: "require b e = Inl e' \<longleftrightarrow> \<not> b \<and> e' = e"
  by (auto simp: require_def)

lemma try_for_each_Ok [rs_simps]:
  "try_for_each f xs = Inr () \<longleftrightarrow> (\<forall>x \<in> set xs. f x = Inr ())"
  by (induction xs) (auto simp: and_then_Ok)

lemma opt_simps [simp]:
  "is_some (Some x)" "\<not> is_some None"
  "is_some_and None p = False" "is_some_and (Some x) p = p x"
  "is_none_or None p = True" "is_none_or (Some x) p = p x"
  "opt_filter p None = None" "opt_filter p (Some x) = (if p x then Some x else None)"
  "opt_or None b = b" "opt_or (Some x) b = Some x"
  by (simp_all add: is_some_def is_some_and_def is_none_or_def opt_filter_def opt_or_def)

lemma opt_filter_Some [rs_simps]: "opt_filter p v = Some x \<longleftrightarrow> v = Some x \<and> p x"
  by (cases v) auto

lemma opt_filter_None [rs_simps]: "opt_filter p v = None \<longleftrightarrow> (\<forall>x. v = Some x \<longrightarrow> \<not> p x)"
  by (cases v) auto

section \<open>Ordered sets and association lists\<close>

text \<open>
  A \<open>BTreeSet\<close> or \<open>BTreeMap\<close> iterates in key order and holds each key once: a strictly sorted
  list. \<open>btree_insert\<close> keeps the key that is there, as the library's set does; \<open>amap_insert\<close>
  replaces the value.
\<close>

fun btree_insert :: "'a::linorder \<Rightarrow> 'a list \<Rightarrow> 'a list" where
  "btree_insert x [] = [x]"
| "btree_insert x (y # ys) =
     (if x < y then x # y # ys else if x = y then y # ys else y # btree_insert x ys)"

definition btree_set :: "'a::linorder list \<Rightarrow> 'a list" where
  "btree_set xs = fold btree_insert xs []"

fun amap_insert :: "'k::linorder \<Rightarrow> 'v \<Rightarrow> ('k \<times> 'v) list \<Rightarrow> ('k \<times> 'v) list" where
  "amap_insert k v [] = [(k, v)]"
| "amap_insert k v ((k', v') # m) =
     (if k < k' then (k, v) # (k', v') # m
      else if k = k' then (k, v) # m else (k', v') # amap_insert k v m)"

lemma set_btree_insert [simp]: "set (btree_insert x ys) = insert x (set ys)"
  by (induction ys) auto

lemma sorted_btree_insert: "sorted_wrt (<) ys \<Longrightarrow> sorted_wrt (<) (btree_insert x ys)"
  by (induction ys) auto

lemma fold_btree_insert:
  "sorted_wrt (<) ys \<Longrightarrow>
     sorted_wrt (<) (fold btree_insert xs ys) \<and> set (fold btree_insert xs ys) = set xs \<union> set ys"
proof (induction xs arbitrary: ys)
  case (Cons x xs)
  from Cons.IH [OF sorted_btree_insert [OF Cons.prems, of x]] show ?case by auto
qed simp

lemma btree_set_props [simp]:
  "sorted_wrt (<) (btree_set xs)"
  "set (btree_set xs) = set xs"
  using fold_btree_insert [of "[]" xs] by (simp_all add: btree_set_def)

lemma distinct_btree_set: "distinct (btree_set xs)"
  using btree_set_props(1) [of xs] by (simp add: strict_sorted_iff)

lemma length_btree_set: "length (btree_set xs) = length xs \<longleftrightarrow> distinct xs"
proof -
  have "length (btree_set xs) = card (set xs)"
    using distinct_card [OF distinct_btree_set, of xs] by simp
  then show ?thesis
    using card_distinct [of xs] distinct_card [of xs] by fastforce
qed

lemma map_of_amap_insert [simp]: "map_of (amap_insert k v m) = (map_of m)(k \<mapsto> v)"
  by (induction m) (auto simp: fun_eq_iff)

lemma keys_amap_insert: "fst ` set (amap_insert k v m) = insert k (fst ` set m)"
proof -
  have "dom (map_of (amap_insert k v m)) = insert k (dom (map_of m))" by simp
  then show ?thesis by (simp only: dom_map_of_conv_image_fst)
qed

lemma map_of_update [simp]: "map_of (AList.update k v m) = (map_of m)(k \<mapsto> v)"
  by (simp add: update_conv' fun_eq_iff)

lemma map_of_delete [simp]: "map_of (AList.delete k m) = (map_of m)(k := None)"
  by (simp add: delete_conv' fun_eq_iff)

lemma sorted_amap_insert:
  "sorted_wrt (<) (map fst m) \<Longrightarrow> sorted_wrt (<) (map fst (amap_insert k v m))"
proof (induction m)
  case (Cons p m)
  obtain a b where p: "p = (a, b)" by (cases p)
  from Cons keys_amap_insert [of k v m] show ?case by (auto simp: p)
qed simp

lemma in_set_tl: "x \<in> set (tl xs) \<Longrightarrow> x \<in> set xs"
  by (cases xs) auto

section \<open>Floating-point values\<close>

text \<open>
  An \<open>f64\<close> is a finite value (exactly a rational), an infinity or NaN. Comparisons are those
  of IEEE 754: every comparison with NaN is false.
\<close>

datatype f64 = Fin rat | PosInf | NegInf | NaN

fun is_finite :: "f64 \<Rightarrow> bool" where
  "is_finite (Fin _) = True"
| "is_finite _ = False"

fun f64_less :: "f64 \<Rightarrow> f64 \<Rightarrow> bool" where
  "f64_less NaN _ = False"
| "f64_less _ NaN = False"
| "f64_less (Fin a) (Fin b) = (a < b)"
| "f64_less NegInf b = (b \<noteq> NegInf)"
| "f64_less (Fin a) PosInf = True"
| "f64_less (Fin a) NegInf = False"
| "f64_less PosInf _ = False"

definition f64_le_zero :: "f64 \<Rightarrow> bool" where
  "f64_le_zero s = (s = Fin 0 \<or> f64_less s (Fin 0))"

lemma f64_less_fin [simp]: "f64_less (Fin a) (Fin b) = (a < b)"
  by simp

section \<open>UTF-8 strings\<close>

text \<open>
  A Rust string is the list of its UTF-8 bytes: \<open>len\<close> is \<open>length\<close>. \<open>chars\<close> decodes the code
  points, for the calls that count or classify characters.
\<close>

definition byte :: "char \<Rightarrow> nat" where
  "byte c = of_char c"

fun utf8_chars :: "nat list \<Rightarrow> nat list" where
  "utf8_chars [] = []"
| "utf8_chars [b] = [b]"
| "utf8_chars (b # c # bs) =
     (if b < 128 then b # utf8_chars (c # bs)
      else if b < 224 then ((b mod 32) * 64 + c mod 64) # utf8_chars bs
      else if b < 240 then
        (case bs of d # bs' \<Rightarrow> (((b mod 16) * 64 + c mod 64) * 64 + d mod 64) # utf8_chars bs'
         | [] \<Rightarrow> [])
      else
        (case bs of d # e # bs' \<Rightarrow>
           ((((b mod 8) * 64 + c mod 64) * 64 + d mod 64) * 64 + e mod 64) # utf8_chars bs'
         | _ \<Rightarrow> []))"

definition chars :: "string \<Rightarrow> nat list" where
  "chars s = utf8_chars (map byte s)"

definition is_control :: "nat \<Rightarrow> bool" where
  "is_control c = (c < 32 \<or> (127 \<le> c \<and> c \<le> 159))"

definition is_whitespace :: "nat \<Rightarrow> bool" where
  "is_whitespace c =
     ((9 \<le> c \<and> c \<le> 13) \<or> c = 32 \<or> c = 133 \<or> c = 160 \<or> c = 5760 \<or> (8192 \<le> c \<and> c \<le> 8202)
      \<or> c = 8232 \<or> c = 8233 \<or> c = 8239 \<or> c = 8287 \<or> c = 12288)"

definition is_ascii_lowercase :: "char \<Rightarrow> bool" where
  "is_ascii_lowercase c = (97 \<le> byte c \<and> byte c \<le> 122)"

definition is_ascii_digit :: "char \<Rightarrow> bool" where
  "is_ascii_digit c = (48 \<le> byte c \<and> byte c \<le> 57)"

definition is_ascii_whitespace :: "char \<Rightarrow> bool" where
  "is_ascii_whitespace c = (byte c \<in> {9, 10, 12, 13, 32})"

definition is_ascii_control :: "char \<Rightarrow> bool" where
  "is_ascii_control c = (byte c < 32 \<or> byte c = 127)"

definition to_ascii_lowercase :: "char \<Rightarrow> char" where
  "to_ascii_lowercase c = (if 65 \<le> byte c \<and> byte c \<le> 90 then char_of (byte c + 32) else c)"

definition eq_ignore_ascii_case :: "string \<Rightarrow> string \<Rightarrow> bool" where
  "eq_ignore_ascii_case a b = (map to_ascii_lowercase a = map to_ascii_lowercase b)"

definition trimmed_is_empty :: "string \<Rightarrow> bool" where
  "trimmed_is_empty s = list_all is_whitespace (chars s)"

definition strip_prefix :: "string \<Rightarrow> string \<Rightarrow> string option" where
  "strip_prefix p s = (if take (length p) s = p then Some (drop (length p) s) else None)"

fun split_on :: "char \<Rightarrow> string \<Rightarrow> string list" where
  "split_on c [] = [[]]"
| "split_on c (x # xs) =
     (if x = c then [] # split_on c xs
      else (case split_on c xs of [] \<Rightarrow> [[x]] | p # ps \<Rightarrow> (x # p) # ps))"

definition split_once :: "char \<Rightarrow> string \<Rightarrow> (string \<times> string) option" where
  "split_once c s =
     (case dropWhile (\<lambda>x. x \<noteq> c) s of [] \<Rightarrow> None
      | _ # tail \<Rightarrow> Some (takeWhile (\<lambda>x. x \<noteq> c) s, tail))"

fun digits_value :: "nat \<Rightarrow> string \<Rightarrow> nat" where
  "digits_value acc [] = acc"
| "digits_value acc (c # cs) = digits_value (acc * 10 + (byte c - 48)) cs"

text \<open>\<open>str::parse::<u32>\<close>: an optional plus sign, then at least one digit, within range.\<close>

definition parse_u32 :: "string \<Rightarrow> nat option" where
  "parse_u32 s =
     (let ds = (case s of CHR ''+'' # r \<Rightarrow> r | _ \<Rightarrow> s)
      in if ds = [] \<or> \<not> list_all is_ascii_digit ds then None
         else if digits_value 0 ds < 2 ^ 32 then Some (digits_value 0 ds) else None)"

lemma strip_prefix_Some: "strip_prefix p s = Some r \<longleftrightarrow> s = p @ r"
proof -
  have "take (length p) s = p \<and> drop (length p) s = r \<longleftrightarrow> s = p @ r"
    by (metis append_eq_conv_conj append_take_drop_id)
  then show ?thesis by (auto simp: strip_prefix_def)
qed

lemma strip_prefix_None: "strip_prefix p s = None \<longleftrightarrow> (\<forall>r. s \<noteq> p @ r)"
  by (metis not_Some_eq strip_prefix_Some)

lemma split_once_Some:
  "split_once c s = Some (a, b) \<Longrightarrow> s = a @ c # b \<and> c \<notin> set a"
proof -
  assume h: "split_once c s = Some (a, b)"
  then obtain x where d: "dropWhile (\<lambda>x. x \<noteq> c) s = x # b" and a: "a = takeWhile (\<lambda>x. x \<noteq> c) s"
    by (auto simp: split_once_def split: list.splits)
  have "x = c" using hd_dropWhile [of "\<lambda>x. x \<noteq> c" s] d by simp
  moreover have "s = takeWhile (\<lambda>x. x \<noteq> c) s @ dropWhile (\<lambda>x. x \<noteq> c) s" by simp
  moreover have "c \<notin> set (takeWhile (\<lambda>x. x \<noteq> c) s)" by (auto dest: set_takeWhileD)
  ultimately show ?thesis using d a by metis
qed

lemma split_once_None: "split_once c s = None \<longleftrightarrow> c \<notin> set s"
proof (cases "dropWhile (\<lambda>x. x \<noteq> c) s")
  case Nil
  then have "c \<notin> set s" by (simp only: dropWhile_eq_Nil_conv) blast
  with Nil show ?thesis by (simp add: split_once_def del: dropWhile_eq_Nil_conv)
next
  case (Cons x xs)
  then have "dropWhile (\<lambda>x. x \<noteq> c) s \<noteq> []" by simp
  then have "c \<in> set s" by (simp only: dropWhile_eq_Nil_conv) blast
  with Cons show ?thesis by (simp add: split_once_def)
qed

lemma digits_value_bound: "parse_u32 s = Some n \<Longrightarrow> n < 2 ^ 32"
  by (auto simp: parse_u32_def Let_def split: if_splits)

end
