(* ===== verification/Json.thy ===== *)
theory Json
  imports Prelude
begin

text \<open>
  The JSON values the hand-written codecs of the protocol read and write. An object is the
  ordered map of \<open>serde_json\<close> (a strictly sorted association list, inserted into with
  \<open>amap_insert\<close>); a number is an integer or a float. The accessors are the ones the source
  applies to a \<open>Value\<close>: \<open>get\<close>, \<open>as_str\<close>, \<open>as_u64\<close>, \<open>as_f64\<close> and \<open>from_value\<close> at the types the
  codecs ask for. Each \<open>from_\<close> function fails exactly when the JSON type or range does not fit.
\<close>

datatype json =
    JNull
  | JBool bool
  | JInt int
  | JFloat f64
  | JStr string
  | JArr "json list"
  | JObj "(string \<times> json) list"

type_synonym jmap = "(string \<times> json) list"

text \<open>A decoding failure: a message of the codec's own, or a type mismatch found by serde.\<close>

datatype de_error = Custom string | Mismatch

definition wf_jmap :: "jmap \<Rightarrow> bool" where
  "wf_jmap m = sorted_wrt (<) (map fst m)"

definition json_object :: "jmap \<Rightarrow> jmap" where
  "json_object kvs = fold (\<lambda>(k, v) m. amap_insert k v m) kvs []"

fun as_str :: "json \<Rightarrow> string option" where
  "as_str (JStr s) = Some s"
| "as_str _ = None"

fun as_u64 :: "json \<Rightarrow> nat option" where
  "as_u64 (JInt n) = (if 0 \<le> n then Some (nat n) else None)"
| "as_u64 _ = None"

text \<open>
  The conversion \<open>as f64\<close> of an integer: exact up to 53 significant bits, otherwise rounded to
  the nearest such value, ties to the even one.
\<close>

fun excess_bits :: "nat \<Rightarrow> nat" where
  "excess_bits n = (if n < 2 ^ 53 then 0 else Suc (excess_bits (n div 2)))"

declare excess_bits.simps [simp del]

definition round_half_even :: "nat \<Rightarrow> nat \<Rightarrow> nat" where
  "round_half_even n k =
     (let q = n div 2 ^ k; r = n mod 2 ^ k; h = 2 ^ k
      in if 2 * r < h \<or> (2 * r = h \<and> even q) then q else Suc q)"

definition f64_of_int :: "int \<Rightarrow> f64" where
  "f64_of_int i =
     (let n = nat \<bar>i\<bar>; k = excess_bits n
      in Fin (of_int (sgn i) * of_nat (if k = 0 then n else round_half_even n k * 2 ^ k)))"

fun as_f64 :: "json \<Rightarrow> f64 option" where
  "as_f64 (JInt n) = Some (f64_of_int n)"
| "as_f64 (JFloat x) = Some x"
| "as_f64 _ = None"

definition is_number :: "json \<Rightarrow> bool" where
  "is_number v = (as_f64 v \<noteq> None)"

fun from_string :: "json \<Rightarrow> de_error + string" where
  "from_string (JStr s) = Ok s"
| "from_string _ = Err Mismatch"

fun from_bool :: "json \<Rightarrow> de_error + bool" where
  "from_bool (JBool b) = Ok b"
| "from_bool _ = Err Mismatch"

fun from_uint :: "nat \<Rightarrow> json \<Rightarrow> de_error + nat" where
  "from_uint w (JInt n) = (if 0 \<le> n \<and> n < 2 ^ w then Ok (nat n) else Err Mismatch)"
| "from_uint w _ = Err Mismatch"

fun from_i8 :: "json \<Rightarrow> de_error + i8" where
  "from_i8 (JInt n) = (if - 128 \<le> n \<and> n \<le> 127 then Ok (of_int n) else Err Mismatch)"
| "from_i8 _ = Err Mismatch"

fun from_f64 :: "json \<Rightarrow> de_error + f64" where
  "from_f64 (JInt n) = Ok (f64_of_int n)"
| "from_f64 (JFloat x) = Ok x"
| "from_f64 _ = Err Mismatch"

text \<open>\<open>json!\<close> of an \<open>f64\<close>: a value that is not finite becomes \<open>null\<close>.\<close>

definition json_f64 :: "f64 \<Rightarrow> json" where
  "json_f64 x = (if is_finite x then JFloat x else JNull)"

fun from_vec_with :: "(json \<Rightarrow> de_error + 'a) \<Rightarrow> json list \<Rightarrow> de_error + 'a list" where
  "from_vec_with f [] = Ok []"
| "from_vec_with f (v # vs) =
     and_then (f v) (\<lambda>x. and_then (from_vec_with f vs) (\<lambda>xs. Ok (x # xs)))"

fun from_vec :: "(json \<Rightarrow> de_error + 'a) \<Rightarrow> json \<Rightarrow> de_error + 'a list" where
  "from_vec f (JArr vs) = from_vec_with f vs"
| "from_vec f _ = Err Mismatch"

text \<open>A derived \<open>Option\<close> field: \<open>null\<close> is absence.\<close>

fun from_option :: "(json \<Rightarrow> de_error + 'a) \<Rightarrow> json \<Rightarrow> de_error + 'a option" where
  "from_option f JNull = Ok None"
| "from_option f v = and_then (f v) (\<lambda>x. Ok (Some x))"

fun json_opt :: "('a \<Rightarrow> json) \<Rightarrow> 'a option \<Rightarrow> json" where
  "json_opt f None = JNull"
| "json_opt f (Some x) = f x"

definition get_field :: "jmap \<Rightarrow> string \<Rightarrow> de_error + json" where
  "get_field m k = ok_or (Custom (''missing '' @ k)) (map_of m k)"

section \<open>Generic facts\<close>

lemma from_vec_map [simp]:
  "(\<And>x. x \<in> set xs \<Longrightarrow> f (g x) = Ok x) \<Longrightarrow> from_vec_with f (map g xs) = Ok xs"
  by (induction xs) auto

lemma from_vec_strings [simp]: "from_vec from_string (JArr (map JStr xs)) = Ok xs"
  by simp

lemma f64_of_small_int [simp]: "\<bar>i\<bar> < 2 ^ 53 \<Longrightarrow> f64_of_int i = Fin (of_int i)"
proof -
  assume "\<bar>i\<bar> < 2 ^ 53"
  then have "nat \<bar>i\<bar> < 2 ^ 53" by (simp add: nat_less_iff)
  then have k: "excess_bits (nat \<bar>i\<bar>) = 0" by (subst excess_bits.simps) simp
  have "of_int (sgn i) * of_nat (nat \<bar>i\<bar>) = (of_int (sgn i * \<bar>i\<bar>) :: rat)" by simp
  also have "sgn i * \<bar>i\<bar> = i" by (rule sgn_mult_abs)
  finally show ?thesis by (simp add: f64_of_int_def Let_def k)
qed

lemma is_finite_f64_of_int [simp]: "is_finite (f64_of_int i)"
  by (simp add: f64_of_int_def Let_def)

lemma amap_insert_same:
  "wf_jmap m \<Longrightarrow> map_of m k = Some v \<Longrightarrow> amap_insert k v m = m"
  by (induction m) (auto simp: wf_jmap_def dest!: map_of_SomeD split: if_splits)

lemma wf_jmap_insert: "wf_jmap m \<Longrightarrow> wf_jmap (amap_insert k v m)"
  unfolding wf_jmap_def by (rule sorted_amap_insert)

lemma wf_json_object: "wf_jmap (json_object kvs)"
proof -
  have "wf_jmap m \<Longrightarrow> wf_jmap (fold (\<lambda>(k, v) m. amap_insert k v m) kvs m)" for m
    by (induction kvs arbitrary: m) (auto simp: wf_jmap_insert)
  then show ?thesis by (simp add: json_object_def wf_jmap_def)
qed

lemma map_of_json_object: "map_of (json_object kvs) = map_of (rev kvs)"
proof -
  have "map_of (fold (\<lambda>(k, v) m. amap_insert k v m) kvs m) = map_of m ++ map_of (rev kvs)" for m
    by (induction kvs arbitrary: m) (auto simp: map_add_def fun_eq_iff split: option.splits)
  then show ?thesis by (simp add: json_object_def)
qed

lemma get_field_Ok [rs_simps]: "get_field m k = Ok v \<longleftrightarrow> map_of m k = Some v"
  by (simp add: get_field_def ok_or_Ok)

end
