(* ===== verification/Foundation.thy ===== *)
theory Foundation
  imports Json
begin

text \<open>
  Protocol identities, timestamps, validation errors and validation primitives of
  device-control protocol v1 (\<open>src/src/device_control/foundation.rs\<close>, \<open>validation.rs\<close>,
  \<open>revision.rs\<close>, \<open>lifecycle.rs\<close>). The RFC 3339 parser of the \<open>time\<close> crate is the argument
  \<open>rfc3339\<close> of \<open>Timestamp_parse\<close>; a parsed timestamp carries its text and its instant, and
  \<open>instant()\<close>, which re-parses the checked text, is the field \<open>ts_instant\<close>.
\<close>

type_synonym device_id = uuid
type_synonym command_id = uuid
type_synonym connection_id = uuid
type_synonym user_id = uuid

section \<open>Validation errors and timestamps\<close>

datatype validation_error =
    InvalidPayload string
  | StaleRevision
  | ConflictingRevision
  | ResyncRequired
  | CapabilityNotSupported
  | UnsupportedCommand

fun validation_code :: "validation_error \<Rightarrow> string" where
  "validation_code (InvalidPayload _) = ''invalid_payload''"
| "validation_code StaleRevision = ''stale_revision''"
| "validation_code ConflictingRevision = ''stale_revision''"
| "validation_code ResyncRequired = ''stale_revision''"
| "validation_code CapabilityNotSupported = ''capability_not_supported''"
| "validation_code UnsupportedCommand = ''unsupported_command''"

record timestamp =
  ts_text :: string
  ts_instant :: instant

definition Timestamp_parse ::
  "(string \<Rightarrow> instant option) \<Rightarrow> string \<Rightarrow> validation_error + timestamp" where
  "Timestamp_parse rfc3339 value =
     (case rfc3339 value of
        None \<Rightarrow> Err (InvalidPayload ''timestamp'')
      | Some i \<Rightarrow> Ok \<lparr>ts_text = value, ts_instant = i\<rparr>)"

section \<open>Validation primitives\<close>

definition namespaced :: "string \<Rightarrow> bool" where
  "namespaced value =
     (let parts = split_on CHR ''.'' value
      in 2 \<le> length parts \<and> length value \<le> 96 \<and>
         list_all (\<lambda>part. case part of
             [] \<Rightarrow> False
           | c # cs \<Rightarrow> is_ascii_lowercase c \<and>
               list_all (\<lambda>c. is_ascii_lowercase c \<or> is_ascii_digit c \<or> c = CHR ''_'') cs) parts)"

definition valid_entity_id :: "string \<Rightarrow> validation_error + unit" where
  "valid_entity_id value =
     (if \<not> (3 \<le> length value \<and> length value \<le> 128) \<or> \<not> namespaced value
      then Err (InvalidPayload ''id'') else Ok ())"

definition bounded :: "string \<Rightarrow> nat \<Rightarrow> nat \<Rightarrow> string \<Rightarrow> validation_error + unit" where
  "bounded value minimum maximum field =
     (if \<not> (minimum \<le> length value \<and> length value \<le> maximum) then Err (InvalidPayload field) else Ok ())"

definition unique :: "'a::linorder list \<Rightarrow> string \<Rightarrow> validation_error + unit" where
  "unique values field =
     (if length (btree_set values) = length values then Ok () else Err (InvalidPayload field))"

definition list_within :: "'a::linorder list \<Rightarrow> nat \<Rightarrow> string \<Rightarrow> validation_error + unit" where
  "list_within values maximum field =
     (if maximum < length values then Err (InvalidPayload field) else unique values field)"

definition numbers :: "f64 option \<Rightarrow> f64 option \<Rightarrow> f64 option \<Rightarrow> validation_error + unit" where
  "numbers minimum maximum step =
     (if \<not> list_all is_finite (List.map_filter (\<lambda>n. n) [minimum, maximum, step])
      then Err (InvalidPayload ''numeric bounds'')
      else if is_some_and step f64_le_zero \<or>
              (case (minimum, maximum) of (Some a, Some b) \<Rightarrow> f64_less b a | _ \<Rightarrow> False)
      then Err (InvalidPayload ''numeric bounds'') else Ok ())"

section \<open>Revision ordering\<close>

datatype revision_order = Next | Stale | Replay | Conflict | Gap

definition revision_order :: "u64 \<Rightarrow> 'a \<Rightarrow> u64 \<Rightarrow> 'a \<Rightarrow> u64 option \<Rightarrow> revision_order" where
  "revision_order accepted_revision accepted incoming_revision incoming required_base =
     (if incoming_revision < accepted_revision then Stale
      else if incoming_revision = accepted_revision then
        (if accepted = incoming then Replay else Conflict)
      else if is_some_and required_base (\<lambda>base. base \<noteq> accepted_revision)
              \<or> incoming_revision \<noteq> accepted_revision + 1 then Gap
      else Next)"

section \<open>Command lifecycle values\<close>

record command_received =
  cr_command_id :: command_id
  cr_received_at :: timestamp
  cr_duplicate :: bool

record command_accepted =
  ca_command_id :: command_id
  ca_accepted_at :: timestamp

datatype command_status = Succeeded | Failed

record domain_error =
  de_code :: string
  de_message :: string
  de_request_id :: string
  de_details :: jmap

record command_result =
  res_command_id :: command_id
  res_status :: command_status
  res_completed_at :: timestamp
  res_error :: "domain_error option"

definition command_result_validate :: "command_result \<Rightarrow> validation_error + unit" where
  "command_result_validate r =
     (case (res_status r, res_error r) of
        (Succeeded, None) \<Rightarrow> Ok ()
      | (Failed, Some _) \<Rightarrow> Ok ()
      | _ \<Rightarrow> Err (InvalidPayload ''command result''))"

section \<open>Lemmas\<close>

lemma bounded_Ok [simp]: "bounded v lo hi f = Ok () \<longleftrightarrow> lo \<le> length v \<and> length v \<le> hi"
  by (simp add: bounded_def)

lemma unique_Ok [simp]: "unique vs f = Ok () \<longleftrightarrow> distinct vs"
  by (simp add: unique_def length_btree_set)

lemma list_within_Ok [simp]: "list_within vs n f = Ok () \<longleftrightarrow> length vs \<le> n \<and> distinct vs"
  by (simp add: list_within_def)

lemma valid_entity_id_Ok: "valid_entity_id v = Ok () \<longleftrightarrow> 3 \<le> length v \<and> length v \<le> 96 \<and> namespaced v"
  by (auto simp: valid_entity_id_def namespaced_def Let_def)

lemma u64_succ_unat: "(a :: u64) < b \<Longrightarrow> unat (a + 1) = unat a + 1"
proof -
  assume "a < b"
  then have "unat a < unat b" by (simp add: word_less_nat_alt)
  moreover have "unat b < 2 ^ 64" using unsigned_less [of b] by simp
  ultimately show ?thesis by (simp add: unat_word_ariths)
qed

lemma revision_order_self [simp]: "revision_order r x r x base = Replay"
  by (simp add: revision_order_def)

text \<open>
  The classification in terms of the numbers the revisions stand for. The successor
  \<open>accepted + 1\<close> is only formed when the incoming revision is larger, so it never wraps.
\<close>

lemma revision_order_cases:
  "revision_order a x i y base =
     (if unat i < unat a then Stale
      else if unat i = unat a then (if x = y then Replay else Conflict)
      else if unat i = unat a + 1 \<and> (base = None \<or> base = Some a) then Next else Gap)"
proof -
  have succ: "a < i \<Longrightarrow> (i = a + 1) = (unat i = unat a + 1)"
    using u64_succ_unat [of a i] by (metis unsigned_word_eqI)
  have less: "(i < a) = (unat i < unat a)" by (rule word_less_nat_alt)
  have eq: "(i = a) = (unat i = unat a)" by (auto intro: unsigned_word_eqI)
  have base: "is_some_and base (\<lambda>b. b \<noteq> a) = (\<not> (base = None \<or> base = Some a))"
    by (cases base) auto
  show ?thesis
  proof (cases "a < i")
    case True
    then have "\<not> i < a" "i \<noteq> a" by auto
    with less eq succ [OF True] show ?thesis by (auto simp: revision_order_def base)
  next
    case False
    with less eq show ?thesis by (auto simp: revision_order_def)
  qed
qed

lemma revision_order_Next:
  "revision_order a x i y base = Next \<longleftrightarrow> unat i = unat a + 1 \<and> (base = None \<or> base = Some a)"
  by (simp add: revision_order_cases)

lemma command_result_validate_Ok:
  "command_result_validate r = Ok () \<longleftrightarrow> (res_status r = Failed \<longleftrightarrow> res_error r \<noteq> None)"
  by (auto simp: command_result_validate_def split: command_status.splits option.splits)

section \<open>Properties\<close>

text \<open>Revision ordering classifies every pair of 64-bit revisions by the numbers they stand for:
  older is stale, equal is a replay or a conflict, the successor (on the required base, if one is
  required) is next and anything further is a gap. The successor is never taken of the largest
  revision, so the addition does not wrap.\<close>

theorem revision_order_total:
  "revision_order a x i y base =
     (if unat i < unat a then Stale
      else if unat i = unat a then (if x = y then Replay else Conflict)
      else if unat i = unat a + 1 \<and> (base = None \<or> base = Some a) then Next else Gap)"
  by (rule revision_order_cases)

end
