(* ===== verification/Manifest.thy ===== *)
theory Manifest
  imports Foundation
begin

text \<open>
  Static device declarations (\<open>src/src/device_control/manifest.rs\<close>): roles, scopes, entities,
  surfaces, capabilities and the manifest, each with its \<open>validate\<close>, and the hand-written JSON
  codec of \<open>DeviceCapability\<close>. The enums that the source orders (\<open>derive(Ord)\<close>) get their
  declaration order as a \<open>linorder\<close> instance, which \<open>unique\<close> relies on.
\<close>

section \<open>Enums and their order\<close>

datatype device_role =
    Controller | Player | DisplaySurface | VoiceEndpoint | SensorSource | ActuatorRole
  | IntegrationAdapter

datatype device_control_scope =
    DirectoryRead | PresenceRead | EntityStateRead | MediaControl | DisplayControl
  | ActuatorControl

datatype entity_domain = Sensor | Switch | Light | MediaPlayer

datatype actuator_action = TurnOn | TurnOff | SetValue

datatype surface_kind = DisplayKind | VoiceKind | MobileKind

datatype view_kind = TextView | NowPlayingView | SensorGridView

fun role_rank :: "device_role \<Rightarrow> nat" where
  "role_rank Controller = 0"
| "role_rank Player = 1"
| "role_rank DisplaySurface = 2"
| "role_rank VoiceEndpoint = 3"
| "role_rank SensorSource = 4"
| "role_rank ActuatorRole = 5"
| "role_rank IntegrationAdapter = 6"

fun action_rank :: "actuator_action \<Rightarrow> nat" where
  "action_rank TurnOn = 0"
| "action_rank TurnOff = 1"
| "action_rank SetValue = 2"

fun view_rank :: "view_kind \<Rightarrow> nat" where
  "view_rank TextView = 0"
| "view_rank NowPlayingView = 1"
| "view_rank SensorGridView = 2"

lemma role_rank_inj: "role_rank a = role_rank b \<Longrightarrow> a = b"
  by (cases a; cases b) simp_all

lemma action_rank_inj: "action_rank a = action_rank b \<Longrightarrow> a = b"
  by (cases a; cases b) simp_all

lemma view_rank_inj: "view_rank a = view_rank b \<Longrightarrow> a = b"
  by (cases a; cases b) simp_all

instantiation device_role :: linorder
begin

definition less_eq_device_role :: "device_role \<Rightarrow> device_role \<Rightarrow> bool" where
  "less_eq_device_role a b = (role_rank a \<le> role_rank b)"

definition less_device_role :: "device_role \<Rightarrow> device_role \<Rightarrow> bool" where
  "less_device_role a b = (role_rank a < role_rank b)"

instance
  by standard (auto simp: less_eq_device_role_def less_device_role_def dest: role_rank_inj)

end

instantiation actuator_action :: linorder
begin

definition less_eq_actuator_action :: "actuator_action \<Rightarrow> actuator_action \<Rightarrow> bool" where
  "less_eq_actuator_action a b = (action_rank a \<le> action_rank b)"

definition less_actuator_action :: "actuator_action \<Rightarrow> actuator_action \<Rightarrow> bool" where
  "less_actuator_action a b = (action_rank a < action_rank b)"

instance
  by standard
    (auto simp: less_eq_actuator_action_def less_actuator_action_def dest: action_rank_inj)

end

instantiation view_kind :: linorder
begin

definition less_eq_view_kind :: "view_kind \<Rightarrow> view_kind \<Rightarrow> bool" where
  "less_eq_view_kind a b = (view_rank a \<le> view_rank b)"

definition less_view_kind :: "view_kind \<Rightarrow> view_kind \<Rightarrow> bool" where
  "less_view_kind a b = (view_rank a < view_rank b)"

instance
  by standard (auto simp: less_eq_view_kind_def less_view_kind_def dest: view_rank_inj)

end

section \<open>Entities and surfaces\<close>

record entity =
  ent_id :: string
  ent_domain :: entity_domain
  ent_device_class :: string
  ent_label :: string
  ent_readable :: bool
  ent_controllable :: bool
  ent_unit :: "string option"
  ent_stale_after_seconds :: u32
  ent_allowed_commands :: "actuator_action list"
  ent_minimum :: "f64 option"
  ent_maximum :: "f64 option"
  ent_step :: "f64 option"

definition entity_validate :: "entity \<Rightarrow> validation_error + unit" where
  "entity_validate e =
     and_then (valid_entity_id (ent_id e)) (\<lambda>_.
     and_then (bounded (ent_label e) 1 128 ''display_name'') (\<lambda>_.
     if ent_stale_after_seconds e = 0 \<or> 86400 < ent_stale_after_seconds e
     then Err (InvalidPayload ''stale_after_seconds'')
     else
       and_then (unique (ent_allowed_commands e) ''allowed_commands'') (\<lambda>_.
       and_then (numbers (ent_minimum e) (ent_maximum e) (ent_step e)) (\<lambda>_.
       if ent_controllable e = (ent_allowed_commands e = [])
       then Err (InvalidPayload ''controllable'') else Ok ()))))"

record surface =
  sur_id :: string
  sur_kind :: surface_kind
  sur_label :: string
  sur_views :: "view_kind list"

definition surface_validate :: "surface \<Rightarrow> validation_error + unit" where
  "surface_validate s =
     and_then (valid_entity_id (sur_id s)) (\<lambda>_.
     and_then (bounded (sur_label s) 1 128 ''display_name'') (\<lambda>_.
     if 3 < length (sur_views s) then Err (InvalidPayload ''views'')
     else unique (sur_views s) ''views''))"

section \<open>Capabilities\<close>

datatype device_capability =
    CapPlayback "string list"
  | CapStation "string list"
  | CapVolume u8 bool
  | CapChromecast "string list" u16
  | CapRelay "string list" "string list"
  | CapDisplay "view_kind list" u8 u16
  | CapSensor "string list"
  | CapActuator "actuator_action list"
  | CapVoiceInput "string list"
  | CapUnknown string u8 jmap

fun capability_name :: "device_capability \<Rightarrow> string" where
  "capability_name (CapPlayback _) = ''media.playback''"
| "capability_name (CapStation _) = ''media.station''"
| "capability_name (CapVolume _ _) = ''media.volume''"
| "capability_name (CapChromecast _ _) = ''media.chromecast''"
| "capability_name (CapRelay _ _) = ''media.relay''"
| "capability_name (CapDisplay _ _ _) = ''display.presentation''"
| "capability_name (CapSensor _) = ''entity.sensor''"
| "capability_name (CapActuator _) = ''entity.actuator''"
| "capability_name (CapVoiceInput _) = ''voice.input''"
| "capability_name (CapUnknown name _ _) = name"

definition extension_name :: string where
  "extension_name = ''names must be lowercase dotted namespaces''"

fun capability_validate :: "device_capability \<Rightarrow> validation_error + unit" where
  "capability_validate (CapPlayback actions) = list_within actions 5 ''actions''"
| "capability_validate (CapStation sources) = list_within sources 2 ''sources''"
| "capability_validate (CapVolume stp _) =
     (if stp = 0 then Err (InvalidPayload ''step'') else Ok ())"
| "capability_validate (CapChromecast actions ttl) =
     (if \<not> (5 \<le> ttl \<and> ttl \<le> 300) then Err (InvalidPayload ''discovery_ttl_seconds'')
      else list_within actions 3 ''actions'')"
| "capability_validate (CapRelay actions modes) =
     and_then (list_within actions 3 ''actions'') (\<lambda>_. list_within modes 8 ''modes'')"
| "capability_validate (CapDisplay views max_items max_text_length) =
     (if 3 < length views \<or> max_items = 0 \<or> 32 < max_items \<or> max_text_length = 0
         \<or> 1024 < max_text_length
      then Err (InvalidPayload ''display capability'') else Ok ())"
| "capability_validate (CapSensor entity_classes) = list_within entity_classes 32 ''entity_classes''"
| "capability_validate (CapActuator commands) = list_within commands 3 ''commands''"
| "capability_validate (CapVoiceInput formats) = list_within formats 4 ''formats''"
| "capability_validate (CapUnknown name version _) =
     (if version = 0 \<or> \<not> namespaced name then Err (InvalidPayload extension_name) else Ok ())"

record device_capabilities =
  caps_revision :: u64
  caps_items :: "device_capability list"

definition capabilities_validate :: "device_capabilities \<Rightarrow> validation_error + unit" where
  "capabilities_validate c =
     (if caps_revision c = 0 \<or> 32 < length (caps_items c)
      then Err (InvalidPayload ''capabilities'')
      else and_then (unique (map capability_name (caps_items c)) ''capability names'')
             (\<lambda>_. try_for_each capability_validate (caps_items c)))"

section \<open>The manifest\<close>

record device_manifest =
  man_revision :: u64
  man_roles :: "device_role list"
  man_capabilities :: device_capabilities
  man_entities :: "entity list"
  man_surfaces :: "surface list"

definition manifest_validate :: "device_manifest \<Rightarrow> validation_error + unit" where
  "manifest_validate m =
     (if man_revision m = 0 \<or> 8 < length (man_roles m) \<or> 256 < length (man_entities m)
         \<or> 16 < length (man_surfaces m)
      then Err (InvalidPayload ''manifest limits'')
      else
        and_then (unique (man_roles m) ''roles'') (\<lambda>_.
        and_then (capabilities_validate (man_capabilities m)) (\<lambda>_.
        and_then (try_for_each entity_validate (man_entities m)) (\<lambda>_.
        and_then (try_for_each surface_validate (man_surfaces m)) (\<lambda>_.
        and_then (unique (map ent_id (man_entities m)) ''entity ids'') (\<lambda>_.
        and_then (unique (map sur_id (man_surfaces m)) ''surface ids'') (\<lambda>_.
        if list_ex (\<lambda>s. sur_kind s = DisplayKind) (man_surfaces m)
           \<and> DisplaySurface \<notin> set (man_roles m)
        then Err (InvalidPayload ''display role'') else Ok ())))))))"

section \<open>The capability codec\<close>

fun view_json :: "view_kind \<Rightarrow> json" where
  "view_json TextView = JStr ''text''"
| "view_json NowPlayingView = JStr ''now_playing''"
| "view_json SensorGridView = JStr ''sensor_grid''"

definition from_view :: "json \<Rightarrow> de_error + view_kind" where
  "from_view v =
     (if v = JStr ''text'' then Ok TextView
      else if v = JStr ''now_playing'' then Ok NowPlayingView
      else if v = JStr ''sensor_grid'' then Ok SensorGridView else Err Mismatch)"

fun action_json :: "actuator_action \<Rightarrow> json" where
  "action_json TurnOn = JStr ''entity.turn_on''"
| "action_json TurnOff = JStr ''entity.turn_off''"
| "action_json SetValue = JStr ''entity.set_value''"

definition from_action :: "json \<Rightarrow> de_error + actuator_action" where
  "from_action v =
     (if v = JStr ''entity.turn_on'' then Ok TurnOn
      else if v = JStr ''entity.turn_off'' then Ok TurnOff
      else if v = JStr ''entity.set_value'' then Ok SetValue else Err Mismatch)"

definition from_u8 :: "json \<Rightarrow> de_error + u8" where
  "from_u8 v = and_then (from_uint 8 v) (\<lambda>n. Ok (of_nat n))"

definition from_u16 :: "json \<Rightarrow> de_error + u16" where
  "from_u16 v = and_then (from_uint 16 v) (\<lambda>n. Ok (of_nat n))"

abbreviation json_strings :: "string list \<Rightarrow> json" where
  "json_strings xs \<equiv> JArr (map JStr xs)"

fun capability_to_json :: "device_capability \<Rightarrow> json" where
  "capability_to_json (CapPlayback actions) =
     JObj (json_object [(''name'', JStr ''media.playback''), (''version'', JInt 1),
       (''actions'', json_strings actions)])"
| "capability_to_json (CapStation sources) =
     JObj (json_object [(''name'', JStr ''media.station''), (''version'', JInt 1),
       (''sources'', json_strings sources)])"
| "capability_to_json (CapVolume stp mute) =
     JObj (json_object [(''name'', JStr ''media.volume''), (''version'', JInt 1),
       (''minimum'', JInt 0), (''maximum'', JInt 100),
       (''step'', JInt (uint stp)), (''mute'', JBool mute)])"
| "capability_to_json (CapDisplay views max_items max_text_length) =
     JObj (json_object [(''name'', JStr ''display.presentation''), (''version'', JInt 1),
       (''views'', JArr (map view_json views)), (''max_items'', JInt (uint max_items)),
       (''max_text_length'', JInt (uint max_text_length))])"
| "capability_to_json (CapSensor entity_classes) =
     JObj (json_object [(''name'', JStr ''entity.sensor''), (''version'', JInt 1),
       (''entity_classes'', json_strings entity_classes)])"
| "capability_to_json (CapVoiceInput formats) =
     JObj (json_object [(''name'', JStr ''voice.input''), (''version'', JInt 1),
       (''formats'', json_strings formats)])"
| "capability_to_json (CapChromecast actions ttl) =
     JObj (json_object [(''name'', JStr ''media.chromecast''), (''version'', JInt 1),
       (''actions'', json_strings actions), (''discovery_ttl_seconds'', JInt (uint ttl))])"
| "capability_to_json (CapRelay actions modes) =
     JObj (json_object [(''name'', JStr ''media.relay''), (''version'', JInt 1),
       (''actions'', json_strings actions), (''modes'', json_strings modes)])"
| "capability_to_json (CapActuator commands) =
     JObj (json_object [(''name'', JStr ''entity.actuator''), (''version'', JInt 1),
       (''commands'', JArr (map action_json commands))])"
| "capability_to_json (CapUnknown name version extra) =
     JObj (amap_insert ''version'' (JInt (uint version))
            (amap_insert ''name'' (JStr name) extra))"

definition capability_of_fields :: "jmap \<Rightarrow> string \<Rightarrow> nat \<Rightarrow> de_error + device_capability" where
  "capability_of_fields m name version =
     (if name = ''media.playback'' then
        and_then (and_then (get_field m ''actions'') (from_vec from_string)) (\<lambda>actions.
          Ok (CapPlayback actions))
      else if name = ''media.station'' then
        and_then (and_then (get_field m ''sources'') (from_vec from_string)) (\<lambda>sources.
          Ok (CapStation sources))
      else if name = ''media.volume'' then
        and_then (and_then (get_field m ''step'') from_u8) (\<lambda>stp.
        and_then (and_then (get_field m ''mute'') from_bool) (\<lambda>mute. Ok (CapVolume stp mute)))
      else if name = ''display.presentation'' then
        and_then (and_then (get_field m ''views'') (from_vec from_view)) (\<lambda>views.
        and_then (and_then (get_field m ''max_items'') from_u8) (\<lambda>max_items.
        and_then (and_then (get_field m ''max_text_length'') from_u16) (\<lambda>max_text_length.
          Ok (CapDisplay views max_items max_text_length))))
      else if name = ''entity.sensor'' then
        and_then (and_then (get_field m ''entity_classes'') (from_vec from_string)) (\<lambda>classes.
          Ok (CapSensor classes))
      else if name = ''voice.input'' then
        and_then (and_then (get_field m ''formats'') (from_vec from_string)) (\<lambda>formats.
          Ok (CapVoiceInput formats))
      else if name = ''media.chromecast'' then
        and_then (and_then (get_field m ''actions'') (from_vec from_string)) (\<lambda>actions.
        and_then (and_then (get_field m ''discovery_ttl_seconds'') from_u16) (\<lambda>ttl.
          Ok (CapChromecast actions ttl)))
      else if name = ''media.relay'' then
        and_then (and_then (get_field m ''actions'') (from_vec from_string)) (\<lambda>actions.
        and_then (and_then (get_field m ''modes'') (from_vec from_string)) (\<lambda>modes.
          Ok (CapRelay actions modes)))
      else if name = ''entity.actuator'' then
        and_then (and_then (get_field m ''commands'') (from_vec from_action)) (\<lambda>commands.
          Ok (CapActuator commands))
      else Ok (CapUnknown name (of_nat version) m))"

fun capability_of_json :: "json \<Rightarrow> de_error + device_capability" where
  "capability_of_json (JObj m) =
     and_then (ok_or (Custom ''missing capability name'') (Option.bind (map_of m ''name'') as_str)) (\<lambda>name.
     and_then (ok_or (Custom ''missing capability version'') (Option.bind (map_of m ''version'') as_u64)) (\<lambda>version.
     if 255 < version then Err (Custom ''invalid capability version'')
     else and_then (capability_of_fields m name version) (\<lambda>result.
          and_then (map_err (\<lambda>e. Custom (validation_code e)) (capability_validate result)) (\<lambda>_.
          Ok result))))"
| "capability_of_json _ = Err Mismatch"

section \<open>What validation establishes\<close>

text \<open>
  The contract of a declaration, stated without the order of the checks: sizes, uniqueness,
  ordered finite bounds, and the links between fields.
\<close>

definition wf_bounds :: "f64 option \<Rightarrow> f64 option \<Rightarrow> f64 option \<Rightarrow> bool" where
  "wf_bounds lo hi stp \<longleftrightarrow>
     (\<forall>n. lo = Some n \<or> hi = Some n \<or> stp = Some n \<longrightarrow> is_finite n) \<and>
     (\<forall>a b. lo = Some (Fin a) \<and> hi = Some (Fin b) \<longrightarrow> a \<le> b) \<and>
     (\<forall>s. stp = Some (Fin s) \<longrightarrow> 0 < s)"

definition wf_entity :: "entity \<Rightarrow> bool" where
  "wf_entity e \<longleftrightarrow>
     3 \<le> length (ent_id e) \<and> length (ent_id e) \<le> 96 \<and> namespaced (ent_id e) \<and>
     1 \<le> length (ent_label e) \<and> length (ent_label e) \<le> 128 \<and>
     0 < unat (ent_stale_after_seconds e) \<and> unat (ent_stale_after_seconds e) \<le> 86400 \<and>
     distinct (ent_allowed_commands e) \<and>
     (ent_controllable e \<longleftrightarrow> ent_allowed_commands e \<noteq> []) \<and>
     wf_bounds (ent_minimum e) (ent_maximum e) (ent_step e)"

definition wf_surface :: "surface \<Rightarrow> bool" where
  "wf_surface s \<longleftrightarrow>
     3 \<le> length (sur_id s) \<and> length (sur_id s) \<le> 96 \<and> namespaced (sur_id s) \<and>
     1 \<le> length (sur_label s) \<and> length (sur_label s) \<le> 128 \<and> length (sur_views s) \<le> 3 \<and>
     distinct (sur_views s)"

definition wf_capabilities :: "device_capabilities \<Rightarrow> bool" where
  "wf_capabilities c \<longleftrightarrow>
     caps_revision c \<noteq> 0 \<and> length (caps_items c) \<le> 32 \<and>
     distinct (map capability_name (caps_items c)) \<and>
     (\<forall>i \<in> set (caps_items c). capability_validate i = Ok ())"

definition wf_manifest :: "device_manifest \<Rightarrow> bool" where
  "wf_manifest m \<longleftrightarrow>
     man_revision m \<noteq> 0 \<and> length (man_roles m) \<le> 8 \<and> length (man_entities m) \<le> 256 \<and>
     length (man_surfaces m) \<le> 16 \<and> distinct (man_roles m) \<and>
     wf_capabilities (man_capabilities m) \<and>
     (\<forall>e \<in> set (man_entities m). wf_entity e) \<and> (\<forall>s \<in> set (man_surfaces m). wf_surface s) \<and>
     distinct (map ent_id (man_entities m)) \<and> distinct (map sur_id (man_surfaces m)) \<and>
     (\<forall>s \<in> set (man_surfaces m). sur_kind s = DisplayKind \<longrightarrow> DisplaySurface \<in> set (man_roles m))"

lemma is_finite_Fin: "is_finite x \<longleftrightarrow> (\<exists>r. x = Fin r)"
  by (cases x) auto

lemma finite_option: "(\<And>n. x = Some n \<Longrightarrow> is_finite n) \<Longrightarrow> \<exists>y. x = map_option Fin y"
proof (cases x)
  case None
  then show ?thesis by (intro exI [of _ None]) simp
next
  case (Some n)
  moreover assume "\<And>n. x = Some n \<Longrightarrow> is_finite n"
  ultimately obtain r where "x = map_option Fin (Some r)" by (auto simp: is_finite_Fin)
  then show ?thesis by blast
qed

lemma numbers_Ok: "numbers lo hi stp = Ok () \<longleftrightarrow> wf_bounds lo hi stp"
proof (cases "\<forall>n. lo = Some n \<or> hi = Some n \<or> stp = Some n \<longrightarrow> is_finite n")
  case True
  then obtain a b c where "lo = map_option Fin a" "hi = map_option Fin b" "stp = map_option Fin c"
    using finite_option [of lo] finite_option [of hi] finite_option [of stp] by blast
  then show ?thesis
    by (cases a; cases b; cases c)
      (auto simp: numbers_def wf_bounds_def List.map_filter_def f64_le_zero_def)
next
  case False
  then have "\<not> wf_bounds lo hi stp" unfolding wf_bounds_def by blast
  moreover from False have "numbers lo hi stp \<noteq> Ok ()"
    by (cases lo; cases hi; cases stp) (auto simp: numbers_def List.map_filter_def)
  ultimately show ?thesis by blast
qed

lemma entity_validate_Ok: "entity_validate e = Ok () \<longleftrightarrow> wf_entity e"
proof -
  have "(ent_stale_after_seconds e = 0 \<or> 86400 < ent_stale_after_seconds e) =
      (\<not> (0 < unat (ent_stale_after_seconds e) \<and> unat (ent_stale_after_seconds e) \<le> 86400))"
    by (auto simp: word_less_nat_alt unat_eq_zero)
  then show ?thesis
    by (auto simp: entity_validate_def wf_entity_def and_then_Ok valid_entity_id_Ok numbers_Ok)
qed

lemma surface_validate_Ok: "surface_validate s = Ok () \<longleftrightarrow> wf_surface s"
  by (auto simp: surface_validate_def wf_surface_def and_then_Ok valid_entity_id_Ok)

lemma capabilities_validate_Ok: "capabilities_validate c = Ok () \<longleftrightarrow> wf_capabilities c"
  by (auto simp: capabilities_validate_def wf_capabilities_def and_then_Ok try_for_each_Ok)

lemma manifest_validate_wf: "manifest_validate m = Ok () \<longleftrightarrow> wf_manifest m"
  by (auto simp: manifest_validate_def wf_manifest_def and_then_Ok try_for_each_Ok
      entity_validate_Ok surface_validate_Ok capabilities_validate_Ok list_ex_iff)

section \<open>The capability codec round trip\<close>

lemma from_u8_uint [simp]: "from_u8 (JInt (uint w)) = Ok w"
  using unsigned_less [of w] by (simp add: from_u8_def and_then_def)

lemma from_u16_uint [simp]: "from_u16 (JInt (uint w)) = Ok w"
  using unsigned_less [of w] by (simp add: from_u16_def and_then_def)

lemma from_view_json [simp]: "from_view (view_json v) = Ok v"
  by (cases v) (simp_all add: from_view_def)

lemma from_action_json [simp]: "from_action (action_json a) = Ok a"
  by (cases a) (simp_all add: from_action_def)

lemmas codec_simps = get_field_def map_of_json_object

definition known_capability_name :: "string \<Rightarrow> bool" where
  "known_capability_name n \<longleftrightarrow>
     n \<in> {''media.playback'', ''media.station'', ''media.volume'', ''display.presentation'',
       ''entity.sensor'', ''voice.input'', ''media.chromecast'', ''media.relay'',
       ''entity.actuator''}"

text \<open>
  What decoding guarantees beyond \<open>capability_validate\<close>: an extension keeps its whole object,
  including its own name and version, and does not carry a known name.
\<close>

fun wf_extension :: "device_capability \<Rightarrow> bool" where
  "wf_extension (CapUnknown name version extra) =
     (wf_jmap extra \<and> map_of extra ''name'' = Some (JStr name) \<and>
      map_of extra ''version'' = Some (JInt (uint version)) \<and> \<not> known_capability_name name)"
| "wf_extension _ = True"

lemma known_roundtrip:
  assumes "capability_validate c = Ok ()" "\<And>n v e. c \<noteq> CapUnknown n v e"
  shows "capability_of_json (capability_to_json c) = Ok c"
proof (cases c)
  case (CapUnknown n v e)
  with assms(2) show ?thesis by blast
qed (use assms(1) in \<open>simp_all add: codec_simps capability_of_fields_def
    del: capability_validate.simps\<close>)

lemma extension_roundtrip:
  assumes "capability_validate (CapUnknown n v e) = Ok ()" "wf_extension (CapUnknown n v e)"
  shows "capability_of_json (capability_to_json (CapUnknown n v e)) = Ok (CapUnknown n v e)"
proof -
  from assms(2) have e: "wf_jmap e" "map_of e ''name'' = Some (JStr n)"
    "map_of e ''version'' = Some (JInt (uint v))" "\<not> known_capability_name n" by simp_all
  have keep: "amap_insert ''version'' (JInt (uint v)) (amap_insert ''name'' (JStr n) e) = e"
    by (simp add: amap_insert_same [OF e(1) e(2)] amap_insert_same [OF e(1) e(3)])
  have fields: "capability_of_fields e n k = Ok (CapUnknown n (of_nat k) e)" for k
    using e(4) by (simp add: capability_of_fields_def known_capability_name_def)
  have "unat v < 256" using unsigned_less [of v] by simp
  then show ?thesis
    using assms(1) by (simp add: keep e fields del: capability_validate.simps)
qed

lemma decoded_extension_wf:
  assumes "wf_jmap m" "capability_of_json (JObj m) = Ok c"
  shows "capability_validate c = Ok () \<and> wf_extension c"
proof -
  from assms(2) obtain n k where
    name: "map_of m ''name'' = Some (JStr n)" and
    version: "Option.bind (map_of m ''version'') as_u64 = Some k" and
    small: "k \<le> 255" and
    result: "capability_of_fields m n k = Ok c" and
    valid: "capability_validate c = Ok ()"
    by (auto simp: and_then_Ok ok_or_Ok bind_eq_Some_conv elim!: as_str.elims split: if_splits)
  from version have "map_of m ''version'' = Some (JInt (int k))"
    by (auto simp: bind_eq_Some_conv elim!: as_u64.elims split: if_splits)
  moreover from small have "int k = uint (of_nat k :: u8)"
    by (simp add: unsigned_of_nat take_bit_eq_mod)
  ultimately have "wf_extension c"
    using result assms(1) name
    by (auto simp: capability_of_fields_def and_then_Ok known_capability_name_def split: if_splits)
  with valid show ?thesis by simp
qed

lemma capability_roundtrip_wf:
  assumes "capability_validate c = Ok ()" "wf_extension c"
  shows "capability_of_json (capability_to_json c) = Ok c"
proof (cases "\<exists>n v e. c = CapUnknown n v e")
  case True
  with assms extension_roundtrip show ?thesis by blast
next
  case False
  with assms(1) known_roundtrip show ?thesis by blast
qed

section \<open>Properties\<close>

text \<open>Validation of a manifest succeeds exactly on the declarations that meet the protocol's
  contract: the list limits, unique roles, capability names and ids, well-formed entities with
  ordered finite bounds, and a display role for every display surface.\<close>

theorem manifest_validate_exact: "manifest_validate m = Ok () \<longleftrightarrow> wf_manifest m"
  by (rule manifest_validate_wf)

text \<open>A capability accepted from the wire is valid, and serializing it and decoding it again
  gives the same capability, for the known ones and for extensions with their extra fields.\<close>

theorem capability_codec_lossless:
  assumes "wf_jmap m" "capability_of_json (JObj m) = Ok c"
  shows "capability_validate c = Ok () \<and> capability_of_json (capability_to_json c) = Ok c"
  using decoded_extension_wf [OF assms] capability_roundtrip_wf by blast

theorem capability_codec_lossless_witness:
  "capability_validate (CapVolume 5 True) = Ok () \<and>
   capability_of_json (capability_to_json (CapVolume 5 True)) = Ok (CapVolume 5 True)"
proof (rule capability_codec_lossless)
  show "wf_jmap [(''mute'', JBool True), (''name'', JStr ''media.volume''), (''step'', JInt 5), (''version'', JInt 1)]"
    by (simp add: wf_jmap_def)
  show "capability_of_json (JObj [(''mute'', JBool True), (''name'', JStr ''media.volume''),
      (''step'', JInt 5), (''version'', JInt 1)]) = Ok (CapVolume 5 True)"
    by (simp add: codec_simps capability_of_fields_def from_u8_def and_then_def)
qed

end
