(* ===== verification/Device_State.thy ===== *)
theory Device_State
  imports Manifest
begin

text \<open>
  Runtime state and entity observations (\<open>src/src/device_control/state.rs\<close>).
\<close>

record playback_state =
  pb_status :: string
  pb_station_id :: "string option"
  pb_track_title :: "string option"

record volume_state =
  vol_level :: u8
  vol_muted :: bool

record display_state =
  dis_surface_id :: string
  dis_view :: string

record device_runtime_state =
  rt_playback :: "playback_state option"
  rt_volume :: "volume_state option"
  rt_display :: "display_state option"

record device_state_snapshot =
  snap_revision :: u64
  snap_observed_at :: timestamp
  snap_received_at :: "timestamp option"
  snap_state :: device_runtime_state

record device_state_delta =
  delta_base_revision :: u64
  delta_revision :: u64
  delta_observed_at :: timestamp
  delta_received_at :: "timestamp option"
  delta_changes :: device_runtime_state

datatype quality = QualityOk | Degraded | Unavailable | QualityUnknown

datatype freshness = Fresh | StaleValue | FreshnessUnknown

record entity_state =
  es_entity_id :: string
  es_revision :: u64
  es_value :: json
  es_unit :: "string option"
  es_quality :: quality
  es_freshness :: "freshness option"
  es_observed_at :: timestamp
  es_received_at :: "timestamp option"
  es_stale_after :: timestamp

definition freshness_at :: "entity_state \<Rightarrow> timestamp \<Rightarrow> freshness" where
  "freshness_at s now =
     (if es_received_at s = None then FreshnessUnknown
      else if ts_instant (es_stale_after s) < ts_instant now then StaleValue
      else Fresh)"

definition degree_celsius :: string where
  "degree_celsius = [char_of (194::nat), char_of (176::nat), CHR ''C'']"

definition expected_unit :: "string \<Rightarrow> string option" where
  "expected_unit device_class =
     (if device_class = ''temperature'' then Some degree_celsius
      else if device_class = ''humidity'' then Some ''%''
      else if device_class = ''co2'' then Some ''ppm''
      else None)"

definition entity_state_validate_for :: "entity_state \<Rightarrow> entity \<Rightarrow> validation_error + unit" where
  "entity_state_validate_for s e =
     and_then (valid_entity_id (es_entity_id s)) (\<lambda>_.
     if es_revision s = 0 then Err (InvalidPayload ''entity_revision'')
     else if is_some_and (as_f64 (es_value s)) (\<lambda>n. \<not> is_finite n)
     then Err (InvalidPayload ''value'')
     else
       and_then (case as_str (es_value s) of
           None \<Rightarrow> Ok ()
         | Some str \<Rightarrow> bounded str 0 256 ''value'') (\<lambda>_.
       let numeric = is_number (es_value s); expected = expected_unit (ent_device_class e)
       in if is_some expected \<and> (\<not> numeric \<or> es_unit s \<noteq> expected)
          then Err (InvalidPayload ''unit/value'')
          else case as_f64 (es_value s) of
              None \<Rightarrow> Ok ()
            | Some n \<Rightarrow>
                if is_some_and (ent_minimum e) (\<lambda>lo. f64_less n lo)
                then Err (InvalidPayload ''minimum'')
                else if is_some_and (ent_maximum e) (\<lambda>hi. f64_less hi n)
                then Err (InvalidPayload ''maximum'')
                else Ok ()))"

section \<open>Lemmas\<close>

text \<open>A reading that validates against a declared numeric range lies in that range.\<close>

lemma validate_for_range:
  assumes "entity_state_validate_for s e = Ok ()" "as_f64 (es_value s) = Some n"
    and "ent_minimum e = Some (Fin lo)" "ent_maximum e = Some (Fin hi)"
  shows "\<exists>x. n = Fin x \<and> lo \<le> x \<and> x \<le> hi"
  using assms by (cases n) (auto simp: entity_state_validate_for_def and_then_Ok Let_def split: if_splits)

lemma validate_for_unit:
  assumes "entity_state_validate_for s e = Ok ()" "expected_unit (ent_device_class e) = Some u"
  shows "es_unit s = Some u \<and> is_number (es_value s)"
  using assms by (auto simp: entity_state_validate_for_def and_then_Ok Let_def split: if_splits)

end
