(* ===== verification/Stream_Uri.thy ===== *)
theory Stream_Uri
  imports Foundation
begin

text \<open>
  The literal admission check of a station stream URI (\<open>validate_stream_uri\<close> and its helpers in
  \<open>src/src/device_control/command.rs\<close>), with the address parsers of the Rust standard library
  that it calls. The forbidden IPv4 octet patterns are proved to be exactly a list of CIDR
  blocks, and an admitted URI is shown to name no such literal destination.
\<close>

unbundle bit_operations_syntax

section \<open>Address literals of the standard library\<close>

type_synonym ipv4 = "nat \<times> nat \<times> nat \<times> nat"

definition is_hex_digit :: "char \<Rightarrow> bool" where
  "is_hex_digit c =
     (is_ascii_digit c \<or> (97 \<le> byte c \<and> byte c \<le> 102) \<or> (65 \<le> byte c \<and> byte c \<le> 70))"

definition hex_digit :: "char \<Rightarrow> nat" where
  "hex_digit c = (if is_ascii_digit c then byte c - 48 else if 97 \<le> byte c then byte c - 87 else byte c - 55)"

text \<open>\<open>read_number(10, Some(3), false)\<close> into a \<open>u8\<close>.\<close>

definition read_octet :: "string \<Rightarrow> (nat \<times> string) option" where
  "read_octet s =
     (let ds = takeWhile is_ascii_digit s
      in if ds = [] \<or> 3 < length ds \<or> (1 < length ds \<and> hd ds = CHR ''0'') \<or> 255 < digits_value 0 ds
         then None else Some (digits_value 0 ds, drop (length ds) s))"

definition read_char :: "char \<Rightarrow> string \<Rightarrow> string option" where
  "read_char c s = (case s of x # r \<Rightarrow> if x = c then Some r else None | [] \<Rightarrow> None)"

definition read_ipv4 :: "string \<Rightarrow> (ipv4 \<times> string) option" where
  "read_ipv4 s =
     Option.bind (read_octet s) (\<lambda>(a, s).
     Option.bind (read_char CHR ''.'' s) (\<lambda>s. Option.bind (read_octet s) (\<lambda>(b, s).
     Option.bind (read_char CHR ''.'' s) (\<lambda>s. Option.bind (read_octet s) (\<lambda>(c, s).
     Option.bind (read_char CHR ''.'' s) (\<lambda>s. Option.bind (read_octet s) (\<lambda>(d, s).
       Some ((a, b, c, d), s))))))))"

definition parse_ipv4 :: "string \<Rightarrow> ipv4 option" where
  "parse_ipv4 s =
     (if 15 < length s then None
      else case read_ipv4 s of Some (a, []) \<Rightarrow> Some a | _ \<Rightarrow> None)"

text \<open>\<open>read_number(16, Some(4), true)\<close> into a \<open>u16\<close>.\<close>

definition read_hex_group :: "string \<Rightarrow> (nat \<times> string) option" where
  "read_hex_group s =
     (let ds = takeWhile is_hex_digit s
      in if ds = [] \<or> 4 < length ds then None
         else Some (fold (\<lambda>c n. n * 16 + hex_digit c) ds 0, drop (length ds) s))"

definition read_separator :: "bool \<Rightarrow> (string \<Rightarrow> ('a \<times> string) option) \<Rightarrow> string \<Rightarrow> ('a \<times> string) option" where
  "read_separator first inner s =
     (if first then inner s else Option.bind (read_char CHR '':'' s) inner)"

text \<open>
  \<open>read_groups\<close>: the first argument counts the slots left; an embedded IPv4 literal needs two.
\<close>

fun read_groups :: "nat \<Rightarrow> bool \<Rightarrow> string \<Rightarrow> nat list \<times> bool \<times> string" where
  "read_groups 0 first s = ([], False, s)"
| "read_groups (Suc n) first s =
     (case (if 1 \<le> n then read_separator first read_ipv4 s else None) of
        Some ((a, b, c, d), r) \<Rightarrow> ([a * 256 + b, c * 256 + d], True, r)
      | None \<Rightarrow>
          (case read_separator first read_hex_group s of
             None \<Rightarrow> ([], False, s)
           | Some (g, r) \<Rightarrow>
               (case read_groups n False r of (gs, v4, r') \<Rightarrow> (g # gs, v4, r'))))"

definition parse_ipv6 :: "string \<Rightarrow> nat list option" where
  "parse_ipv6 s =
     (case read_groups 8 True s of (head, head_v4, r) \<Rightarrow>
        if length head = 8 then (if r = [] then Some head else None)
        else if head_v4 then None
        else Option.bind (read_char CHR '':'' r) (\<lambda>r. Option.bind (read_char CHR '':'' r) (\<lambda>r.
          case read_groups (7 - length head) True r of (tail, _, r') \<Rightarrow>
            if r' = [] then Some (head @ replicate (8 - length head - length tail) 0 @ tail)
            else None)))"

section \<open>The admission check\<close>

datatype stream_uri_rejection =
    NotAbsoluteHttp | TooLong | MissingHost | Userinfo | Fragment | InvalidPort
  | ForbiddenDestination

definition MAX_STREAM_URI_LENGTH :: nat where
  "MAX_STREAM_URI_LENGTH = 2048"

definition split_stream_authority ::
  "string \<Rightarrow> stream_uri_rejection + (string \<times> string option \<times> bool)" where
  "split_stream_authority authority =
     (case strip_prefix ''['' authority of
        Some bracketed \<Rightarrow>
          and_then (ok_or MissingHost (split_once CHR '']'' bracketed)) (\<lambda>(host, tail).
            let port = strip_prefix '':'' tail
            in if tail \<noteq> [] \<and> port = None then Err InvalidPort else Ok (host, port, True))
      | None \<Rightarrow>
          (case split_once CHR '':'' authority of
             Some (host, port) \<Rightarrow> Ok (host, Some port, False)
           | None \<Rightarrow> Ok (authority, None, False)))"

definition validate_stream_ipv4 :: "ipv4 \<Rightarrow> stream_uri_rejection + unit" where
  "validate_stream_ipv4 address =
     (case address of (a, b, c, _) \<Rightarrow>
        let forbidden =
          a \<in> {0, 10, 127}
          \<or> (a = 100 \<and> 64 \<le> b \<and> b \<le> 127)
          \<or> (a = 169 \<and> b = 254)
          \<or> (a = 172 \<and> 16 \<le> b \<and> b \<le> 31)
          \<or> (a = 192 \<and> b = 168)
          \<or> (a = 198 \<and> b \<in> {18, 19})
          \<or> (a, b, c) \<in> {(192, 0, 0), (192, 0, 2), (192, 88, 99), (198, 51, 100), (203, 0, 113)}
          \<or> (224 \<le> a \<and> a \<le> 255)
        in if forbidden then Err ForbiddenDestination else Ok ())"

definition ipv4_of_u32 :: "nat \<Rightarrow> ipv4" where
  "ipv4_of_u32 n = (n div 2 ^ 24 mod 256, n div 2 ^ 16 mod 256, n div 2 ^ 8 mod 256, n mod 256)"

definition validate_stream_ipv6 :: "nat list \<Rightarrow> stream_uri_rejection + unit" where
  "validate_stream_ipv6 segments =
     (if list_all (\<lambda>s. s = 0) (take 5 segments) \<and> segments ! 5 \<in> {0, 65535}
      then validate_stream_ipv4 (ipv4_of_u32 (push_bit 16 (segments ! 6) OR segments ! 7))
      else if segments ! 0 div 256 = 255
              \<or> segments ! 0 AND 65472 = 65152
              \<or> segments ! 0 AND 65024 = 64512
      then Err ForbiddenDestination else Ok ())"

definition validate_stream_host :: "string \<Rightarrow> bool \<Rightarrow> stream_uri_rejection + unit" where
  "validate_stream_host host literal_v6 =
     (if literal_v6 then
        and_then (ok_or ForbiddenDestination (parse_ipv6 host)) validate_stream_ipv6
      else case parse_ipv4 host of
        Some address \<Rightarrow> validate_stream_ipv4 address
      | None \<Rightarrow>
          if list_ex (\<lambda>c. is_ascii_whitespace c \<or> is_ascii_control c \<or> c = CHR ''%'') host
             \<or> eq_ignore_ascii_case host ''localhost'' \<or> list_all is_ascii_digit host
          then Err ForbiddenDestination else Ok ())"

definition validate_stream_uri :: "string \<Rightarrow> stream_uri_rejection + unit" where
  "validate_stream_uri uri =
     (if MAX_STREAM_URI_LENGTH < length (chars uri) then Err TooLong
      else
        and_then (ok_or NotAbsoluteHttp
          (opt_or (strip_prefix ''https://'' uri) (strip_prefix ''http://'' uri))) (\<lambda>rest.
        if CHR ''#'' \<in> set rest then Err Fragment
        else let authority = takeWhile (\<lambda>c. c \<noteq> CHR ''/'' \<and> c \<noteq> CHR ''?'') rest in
        if CHR ''@'' \<in> set authority then Err Userinfo
        else
          and_then (split_stream_authority authority) (\<lambda>(host, port, literal_v6).
          if host = [] then Err MissingHost
          else
            and_then (case port of
                None \<Rightarrow> Ok ()
              | Some p \<Rightarrow>
                  (case parse_u32 p of
                     Some value \<Rightarrow> if 1 \<le> value \<and> value \<le> 65535 then Ok () else Err InvalidPort
                   | None \<Rightarrow> Err InvalidPort)) (\<lambda>_.
            validate_stream_host host literal_v6))))"

section \<open>The forbidden IPv4 ranges as CIDR blocks\<close>

definition ipv4_value :: "ipv4 \<Rightarrow> nat" where
  "ipv4_value address = (case address of (a, b, c, d) \<Rightarrow> ((a * 256 + b) * 256 + c) * 256 + d)"

definition in_cidr :: "nat \<Rightarrow> ipv4 \<times> nat \<Rightarrow> bool" where
  "in_cidr n block =
     (case block of (base, len) \<Rightarrow> n div 2 ^ (32 - len) = ipv4_value base div 2 ^ (32 - len))"

definition non_public_blocks :: "(ipv4 \<times> nat) list" where
  "non_public_blocks =
     [((0, 0, 0, 0), 8), ((10, 0, 0, 0), 8), ((127, 0, 0, 0), 8), ((100, 64, 0, 0), 10),
      ((169, 254, 0, 0), 16), ((172, 16, 0, 0), 12), ((192, 168, 0, 0), 16),
      ((198, 18, 0, 0), 15), ((192, 0, 0, 0), 24), ((192, 0, 2, 0), 24), ((192, 88, 99, 0), 24),
      ((198, 51, 100, 0), 24), ((203, 0, 113, 0), 24), ((224, 0, 0, 0), 3)]"

fun wf_ipv4 :: "ipv4 \<Rightarrow> bool" where
  "wf_ipv4 (a, b, c, d) = (a < 256 \<and> b < 256 \<and> c < 256 \<and> d < 256)"

definition public_ipv4 :: "ipv4 \<Rightarrow> bool" where
  "public_ipv4 address = list_all (\<lambda>block. \<not> in_cidr (ipv4_value address) block) non_public_blocks"

lemma ipv4_value_tuple: "ipv4_value (a, b, c, d) = ((a * 256 + b) * 256 + c) * 256 + d"
  by (simp add: ipv4_value_def)

lemma div_prefix: "(r :: nat) < k \<Longrightarrow> (q * k + r) div k = q"
  by simp

lemma ipv4_value_prefixes:
  assumes "wf_ipv4 (a, b, c, d)" "n = ipv4_value (a, b, c, d)"
  shows "n div 16777216 = a" "n div 4194304 = a * 4 + b div 64" "n div 1048576 = a * 16 + b div 16"
    "n div 131072 = a * 128 + b div 2" "n div 65536 = a * 256 + b"
    "n div 256 = (a * 256 + b) * 256 + c" "n div 536870912 = a div 32"
proof -
  have r: "b < 256" "c < 256" "d < 256" using assms(1) by auto
  show c256: "n div 256 = (a * 256 + b) * 256 + c"
    unfolding assms(2) ipv4_value_tuple using r(3) by (rule div_prefix)
  have "n div 65536 = n div 256 div 256" by (simp add: div_mult2_eq [symmetric])
  also have "\<dots> = a * 256 + b" unfolding c256 using r(2) by (rule div_prefix)
  finally show ab: "n div 65536 = a * 256 + b" .
  have q: "n div (65536 * k) = (a * 256 + b) div k" for k
    by (simp add: div_mult2_eq ab)
  show "n div 16777216 = a" using q [of 256] r(1) by simp
  show "n div 4194304 = a * 4 + b div 64" using q [of 64] by simp
  show "n div 1048576 = a * 16 + b div 16" using q [of 16] by simp
  show "n div 131072 = a * 128 + b div 2" using q [of 2] by simp
  show "n div 536870912 = a div 32" using q [of 8192] r(1) div_mult2_eq [of "a * 256 + b" 256 32] by simp
qed

lemma base_split: "(r :: nat) < k \<Longrightarrow> q * k + r = m \<longleftrightarrow> q = m div k \<and> r = m mod k"
  by auto

lemma div_eq_range: "0 < k \<Longrightarrow> (n :: nat) div k = q \<longleftrightarrow> q * k \<le> n \<and> n < Suc q * k"
proof -
  assume "0 < k"
  have "n div k = q \<longleftrightarrow> q \<le> n div k \<and> n div k < Suc q" by auto
  then show ?thesis
    using \<open>0 < k\<close> by (simp only: less_eq_div_iff_mult_less_eq div_less_iff_less_mult)
qed

lemma validate_stream_ipv4_public:
  assumes "wf_ipv4 address"
  shows "validate_stream_ipv4 address = Ok () \<longleftrightarrow> public_ipv4 address"
proof -
  obtain a b c d where addr: "address = (a, b, c, d)" by (cases address)
  with assms have r: "a < 256" "b < 256" "c < 256" "d < 256" by auto
  define n where "n = ipv4_value address"
  note p = ipv4_value_prefixes [OF assms [unfolded addr] n_def [unfolded addr]]
  have blocks: "public_ipv4 address \<longleftrightarrow>
      a \<noteq> 0 \<and> a \<noteq> 10 \<and> a \<noteq> 127 \<and> a * 4 + b div 64 \<noteq> 401 \<and> a * 256 + b \<noteq> 43518 \<and>
      a * 16 + b div 16 \<noteq> 2753 \<and> a * 256 + b \<noteq> 49320 \<and> a * 128 + b div 2 \<noteq> 25353 \<and>
      (a * 256 + b) * 256 + c \<noteq> 12582912 \<and> (a * 256 + b) * 256 + c \<noteq> 12582914 \<and>
      (a * 256 + b) * 256 + c \<noteq> 12605539 \<and> (a * 256 + b) * 256 + c \<noteq> 12989284 \<and>
      (a * 256 + b) * 256 + c \<noteq> 13303921 \<and> a div 32 \<noteq> 7"
    unfolding public_ipv4_def n_def [symmetric]
    by (simp add: non_public_blocks_def in_cidr_def ipv4_value_tuple p)
  have "a * 4 + b div 64 = 401 \<longleftrightarrow> a = 100 \<and> b div 64 = 1" using r by (subst base_split) auto
  moreover have "a * 16 + b div 16 = 2753 \<longleftrightarrow> a = 172 \<and> b div 16 = 1" using r by (subst base_split) auto
  moreover have "a * 128 + b div 2 = 25353 \<longleftrightarrow> a = 198 \<and> b div 2 = 9" using r by (subst base_split) auto
  moreover have "a * 256 + b = m \<longleftrightarrow> a = m div 256 \<and> b = m mod 256" for m
    using r by (subst base_split) auto
  moreover have "(a * 256 + b) * 256 + c = m \<longleftrightarrow> a * 256 + b = m div 256 \<and> c = m mod 256" for m
    using r by (subst base_split) auto
  moreover have "b div 64 = 1 \<longleftrightarrow> 64 \<le> b \<and> b \<le> 127" by (subst div_eq_range) auto
  moreover have "b div 16 = 1 \<longleftrightarrow> 16 \<le> b \<and> b \<le> 31" by (subst div_eq_range) auto
  moreover have "b div 2 = 9 \<longleftrightarrow> b = 18 \<or> b = 19" by (subst div_eq_range) auto
  moreover have "a div 32 = 7 \<longleftrightarrow> 224 \<le> a \<and> a \<le> 255" by (subst div_eq_range) auto
  ultimately have "public_ipv4 address \<longleftrightarrow> \<not>
      (a \<in> {0, 10, 127} \<or> (a = 100 \<and> 64 \<le> b \<and> b \<le> 127) \<or> (a = 169 \<and> b = 254)
       \<or> (a = 172 \<and> 16 \<le> b \<and> b \<le> 31) \<or> (a = 192 \<and> b = 168) \<or> (a = 198 \<and> b \<in> {18, 19})
       \<or> (a, b, c) \<in> {(192, 0, 0), (192, 0, 2), (192, 88, 99), (198, 51, 100), (203, 0, 113)}
       \<or> (224 \<le> a \<and> a \<le> 255))"
    unfolding blocks by simp
  then show ?thesis by (simp only: validate_stream_ipv4_def addr Let_def prod.case) simp
qed

section \<open>Facts about admitted URIs\<close>

lemma read_octet_range: "read_octet s = Some (n, r) \<Longrightarrow> n < 256"
  by (auto simp: read_octet_def Let_def split: if_splits)

lemma read_ipv4_wf: "read_ipv4 s = Some (a, r) \<Longrightarrow> wf_ipv4 a"
  by (auto simp: read_ipv4_def bind_eq_Some_conv intro: read_octet_range)

lemma parse_ipv4_wf: "parse_ipv4 s = Some a \<Longrightarrow> wf_ipv4 a"
  by (auto simp: parse_ipv4_def split: if_splits option.splits list.splits dest: read_ipv4_wf)

lemma ipv4_of_u32_wf: "wf_ipv4 (ipv4_of_u32 n)"
  by (simp add: ipv4_of_u32_def)

text \<open>The destination a URI names literally, and when it is acceptable.\<close>

fun port_in_range :: "string option \<Rightarrow> bool" where
  "port_in_range None = True"
| "port_in_range (Some p) = (\<exists>n. parse_u32 p = Some n \<and> 1 \<le> n \<and> n \<le> 65535)"

definition public_host :: "string \<Rightarrow> bool \<Rightarrow> bool" where
  "public_host host v6 \<longleftrightarrow>
     (if v6 then \<exists>segments. parse_ipv6 host = Some segments \<and> validate_stream_ipv6 segments = Ok ()
      else (\<forall>address. parse_ipv4 host = Some address \<longrightarrow> public_ipv4 address) \<and>
           (parse_ipv4 host = None \<longrightarrow> \<not> eq_ignore_ascii_case host ''localhost''
              \<and> (\<exists>c \<in> set host. \<not> is_ascii_digit c)))"

lemma validate_stream_host_Ok: "validate_stream_host host v6 = Ok () \<Longrightarrow> public_host host v6"
  by (auto simp: validate_stream_host_def public_host_def and_then_Ok ok_or_Ok list_all_iff
      validate_stream_ipv4_public [OF parse_ipv4_wf] split: if_splits option.splits)

lemma validate_stream_uri_parts:
  assumes "validate_stream_uri uri = Ok ()"
  obtains scheme rest host port v6 where
    "scheme = ''https://'' \<or> scheme = ''http://''" "uri = scheme @ rest"
    "length (chars uri) \<le> 2048" "CHR ''#'' \<notin> set rest"
    "CHR ''@'' \<notin> set (takeWhile (\<lambda>c. c \<noteq> CHR ''/'' \<and> c \<noteq> CHR ''?'') rest)"
    "split_stream_authority (takeWhile (\<lambda>c. c \<noteq> CHR ''/'' \<and> c \<noteq> CHR ''?'') rest) = Ok (host, port, v6)"
    "host \<noteq> []" "port_in_range port" "public_host host v6"
proof -
  from assms obtain rest where
    len: "length (chars uri) \<le> 2048" and
    strip: "opt_or (strip_prefix ''https://'' uri) (strip_prefix ''http://'' uri) = Some rest" and
    body: "CHR ''#'' \<notin> set rest"
      "CHR ''@'' \<notin> set (takeWhile (\<lambda>c. c \<noteq> CHR ''/'' \<and> c \<noteq> CHR ''?'') rest)" and
    auth: "and_then (split_stream_authority (takeWhile (\<lambda>c. c \<noteq> CHR ''/'' \<and> c \<noteq> CHR ''?'') rest))
        (\<lambda>(host, port, literal_v6). if host = [] then Err MissingHost else
          and_then (case port of None \<Rightarrow> Ok () | Some p \<Rightarrow>
            (case parse_u32 p of Some value \<Rightarrow> if 1 \<le> value \<and> value \<le> 65535 then Ok () else Err InvalidPort
             | None \<Rightarrow> Err InvalidPort)) (\<lambda>_. validate_stream_host host literal_v6)) = Ok ()"
    unfolding validate_stream_uri_def MAX_STREAM_URI_LENGTH_def Let_def
    by (auto simp: and_then_Ok ok_or_Ok split: if_splits)
  from strip obtain scheme where scheme: "scheme = ''https://'' \<or> scheme = ''http://''" "uri = scheme @ rest"
    by (cases "strip_prefix ''https://'' uri") (auto simp: strip_prefix_Some)
  from auth obtain host port v6 where
    "split_stream_authority (takeWhile (\<lambda>c. c \<noteq> CHR ''/'' \<and> c \<noteq> CHR ''?'') rest) = Ok (host, port, v6)"
    "host \<noteq> []" "port_in_range port" "validate_stream_host host v6 = Ok ()"
    by (cases "split_stream_authority (takeWhile (\<lambda>c. c \<noteq> CHR ''/'' \<and> c \<noteq> CHR ''?'') rest)")
      (auto simp: and_then_Ok split: if_splits option.splits)
  with scheme len body that validate_stream_host_Ok show ?thesis by blast
qed

section \<open>Properties\<close>

text \<open>The octet tests on a literal IPv4 destination reject exactly the addresses of the
  non-public blocks (this network, private, shared, loopback, link-local, documentation,
  benchmarking, relay, multicast and reserved), given as CIDR prefixes.\<close>

theorem stream_ipv4_exact:
  assumes "wf_ipv4 address"
  shows "validate_stream_ipv4 address = Ok () \<longleftrightarrow> public_ipv4 address"
  by (rule validate_stream_ipv4_public [OF assms])

theorem stream_ipv4_exact_witness:
  "validate_stream_ipv4 (93, 184, 216, 34) = Ok () \<longleftrightarrow> public_ipv4 (93, 184, 216, 34)"
  by (rule stream_ipv4_exact) simp



text \<open>The check reads only dotted-quad literals: other spellings of the loopback address pass.\<close>

lemma short_loopback_admitted: "validate_stream_uri ''http://127.1/'' = Ok ()"
  by code_simp

lemma hex_loopback_admitted: "validate_stream_uri ''http://0x7f000001/'' = Ok ()"
  by code_simp

lemma signed_port_accepted: "port_in_range (Some ''+80'')"
  by (simp add: parse_u32_def is_ascii_digit_def byte_def Let_def)

end
