(* ===== verification/Command.thy ===== *)
theory Command
  imports Device_State Stream_Uri
begin

text \<open>
  Typed commands and their JSON codec (\<open>src/src/device_control/command.rs\<close>): the bodies, the
  checks of \<open>DeviceCommand::validate_at\<close>, and the hand-written \<open>Serialize\<close> and \<open>Deserialize\<close> of
  \<open>CommandBody\<close>. The codec of the derived structs inside a body (\<open>SensorCard\<close>,
  \<open>StationPresentation\<close>) is written out field by field.
\<close>

section \<open>Data\<close>

definition CATALOG_STATION_SOURCE :: string where
  "CATALOG_STATION_SOURCE = ''rockserver_catalog''"

definition DIRECT_STATION_SOURCE :: string where
  "DIRECT_STATION_SOURCE = ''direct_stream''"

record station_presentation =
  sp_name :: string
  sp_icon_url :: "string option"

definition station_presentation_validate :: "station_presentation \<Rightarrow> validation_error + unit" where
  "station_presentation_validate p =
     and_then (bounded (sp_name p) 1 128 ''station.name'') (\<lambda>_.
     case sp_icon_url p of
       None \<Rightarrow> Ok ()
     | Some icon_url \<Rightarrow>
         map_err (\<lambda>_. InvalidPayload ''station.icon_url'') (validate_stream_uri icon_url))"

record command_target =
  tgt_device_id :: device_id
  tgt_entity_id :: "string option"
  tgt_surface_id :: "string option"

definition command_target_validate :: "command_target \<Rightarrow> validation_error + unit" where
  "command_target_validate t =
     (if is_some (tgt_entity_id t) \<and> is_some (tgt_surface_id t)
      then Err (InvalidPayload ''target'') else Ok ())"

record sensor_card =
  sc_entity_id :: string
  sc_label :: string
  sc_value :: json
  sc_unit :: "string option"
  sc_quality :: quality
  sc_freshness :: freshness

datatype presentation =
    PText string
  | PNowPlaying string string "string option"
  | PSensorGrid string "sensor_card list"

fun presentation_validate :: "presentation \<Rightarrow> validation_error + unit" where
  "presentation_validate (PText text) = bounded text 1 1024 ''text''"
| "presentation_validate (PNowPlaying station_id title subtitle) =
     and_then (bounded station_id 1 128 ''station_id'') (\<lambda>_.
     and_then (bounded title 1 128 ''title'') (\<lambda>_.
     case subtitle of None \<Rightarrow> Ok () | Some s \<Rightarrow> bounded s 0 256 ''subtitle''))"
| "presentation_validate (PSensorGrid title items) =
     and_then (bounded title 1 128 ''title'') (\<lambda>_.
     if 32 < length items then Err (InvalidPayload ''items'')
     else try_for_each (\<lambda>item.
       and_then (bounded (sc_label item) 1 64 ''label'') (\<lambda>_.
       if sc_quality item = Unavailable \<and> sc_freshness item = Fresh
       then Err (InvalidPayload ''quality/freshness'') else Ok ())) items)"

datatype stream_source = RockserverCatalog | DirectStream

fun stream_source_str :: "stream_source \<Rightarrow> string" where
  "stream_source_str RockserverCatalog = CATALOG_STATION_SOURCE"
| "stream_source_str DirectStream = DIRECT_STATION_SOURCE"

datatype volume_command = SetLevel u8 | Change i8 | SetMute bool

datatype command_body =
    PlayStation string
  | PlayStream stream_source "string option" "station_presentation option" string
  | Display presentation
  | Playback string
  | Volume volume_command
  | Actuator actuator_action "f64 option"
  | Unknown string jmap

record device_command =
  cmd_id :: command_id
  cmd_target :: command_target
  cmd_deadline_at :: "timestamp option"
  cmd_body :: command_body

section \<open>Validation\<close>

fun volume_validate :: "volume_command \<Rightarrow> validation_error + unit" where
  "volume_validate (SetLevel _) = Ok ()"
| "volume_validate (SetMute _) = Ok ()"
| "volume_validate (Change delta) =
     (if delta \<noteq> 0 then Ok () else Err (InvalidPayload ''command''))"

fun actuator_validate :: "actuator_action \<Rightarrow> f64 option \<Rightarrow> validation_error + unit" where
  "actuator_validate SetValue (Some v) =
     (if is_finite v then Ok () else Err (InvalidPayload ''command''))"
| "actuator_validate SetValue None = Err (InvalidPayload ''command'')"
| "actuator_validate _ (Some _) = Err (InvalidPayload ''command'')"
| "actuator_validate _ None = Ok ()"

definition play_stream_validate ::
  "stream_source \<Rightarrow> string option \<Rightarrow> station_presentation option \<Rightarrow> string \<Rightarrow> validation_error + unit" where
  "play_stream_validate source station_id station stream_uri =
     and_then (case (source, station_id, station) of
         (RockserverCatalog, Some sid, st) \<Rightarrow>
           and_then (bounded sid 1 128 ''station_id'') (\<lambda>_.
           case st of None \<Rightarrow> Ok () | Some p \<Rightarrow> station_presentation_validate p)
       | (RockserverCatalog, None, _) \<Rightarrow> Err (InvalidPayload ''station_id'')
       | (DirectStream, Some _, _) \<Rightarrow> Err (InvalidPayload ''station_id'')
       | (DirectStream, None, Some _) \<Rightarrow> Err (InvalidPayload ''station'')
       | (DirectStream, None, None) \<Rightarrow> Ok ()) (\<lambda>_.
     map_err (\<lambda>_. InvalidPayload ''stream_uri'') (validate_stream_uri stream_uri))"

fun body_validate :: "command_body \<Rightarrow> validation_error + unit" where
  "body_validate (Unknown _ _) = Ok ()"
| "body_validate (PlayStation station_id) = bounded station_id 1 128 ''station_id''"
| "body_validate (PlayStream source station_id station stream_uri) =
     play_stream_validate source station_id station stream_uri"
| "body_validate (Display presentation) = presentation_validate presentation"
| "body_validate (Playback action) =
     (if action \<in> {''play'', ''pause'', ''stop'', ''next'', ''previous''} then Ok ()
      else Err (InvalidPayload ''command''))"
| "body_validate (Volume command) = volume_validate command"
| "body_validate (Actuator action v) = actuator_validate action v"

definition deadline_validate :: "device_command \<Rightarrow> timestamp \<Rightarrow> validation_error + unit" where
  "deadline_validate c received_at =
     (case cmd_deadline_at c of
        None \<Rightarrow> Ok ()
      | Some deadline \<Rightarrow>
          let secs = whole_seconds (ts_instant deadline - ts_instant received_at)
          in if \<not> (0 \<le> secs \<and> secs \<le> 30) then Err (InvalidPayload ''deadline_at'') else Ok ())"

definition validate_at :: "device_command \<Rightarrow> timestamp \<Rightarrow> validation_error + unit" where
  "validate_at c received_at =
     and_then (command_target_validate (cmd_target c)) (\<lambda>_.
     and_then (deadline_validate c received_at) (\<lambda>_.
     body_validate (cmd_body c)))"

definition executable :: "device_command \<Rightarrow> validation_error + unit" where
  "executable c =
     (case cmd_body c of Unknown _ _ \<Rightarrow> Err UnsupportedCommand | _ \<Rightarrow> Ok ())"

section \<open>The body codec\<close>

fun quality_json :: "quality \<Rightarrow> json" where
  "quality_json QualityOk = JStr ''ok''"
| "quality_json Degraded = JStr ''degraded''"
| "quality_json Unavailable = JStr ''unavailable''"
| "quality_json QualityUnknown = JStr ''unknown''"

definition from_quality :: "json \<Rightarrow> de_error + quality" where
  "from_quality v =
     (if v = JStr ''ok'' then Ok QualityOk
      else if v = JStr ''degraded'' then Ok Degraded
      else if v = JStr ''unavailable'' then Ok Unavailable
      else if v = JStr ''unknown'' then Ok QualityUnknown else Err Mismatch)"

fun freshness_json :: "freshness \<Rightarrow> json" where
  "freshness_json Fresh = JStr ''fresh''"
| "freshness_json StaleValue = JStr ''stale''"
| "freshness_json FreshnessUnknown = JStr ''unknown''"

definition from_freshness :: "json \<Rightarrow> de_error + freshness" where
  "from_freshness v =
     (if v = JStr ''fresh'' then Ok Fresh
      else if v = JStr ''stale'' then Ok StaleValue
      else if v = JStr ''unknown'' then Ok FreshnessUnknown else Err Mismatch)"

definition sensor_card_json :: "sensor_card \<Rightarrow> json" where
  "sensor_card_json c =
     JObj (json_object
       [(''entity_id'', JStr (sc_entity_id c)), (''label'', JStr (sc_label c)),
        (''value'', sc_value c), (''unit'', json_opt JStr (sc_unit c)),
        (''quality'', quality_json (sc_quality c)),
        (''freshness'', freshness_json (sc_freshness c))])"

fun from_sensor_card :: "json \<Rightarrow> de_error + sensor_card" where
  "from_sensor_card (JObj m) =
     and_then (and_then (get_field m ''entity_id'') from_string) (\<lambda>i.
     and_then (and_then (get_field m ''label'') from_string) (\<lambda>l.
     and_then (get_field m ''value'') (\<lambda>v.
     and_then (case map_of m ''unit'' of None \<Rightarrow> Ok None | Some u \<Rightarrow> from_option from_string u) (\<lambda>u.
     and_then (and_then (get_field m ''quality'') from_quality) (\<lambda>q.
     and_then (and_then (get_field m ''freshness'') from_freshness) (\<lambda>f.
       Ok \<lparr>sc_entity_id = i, sc_label = l, sc_value = v, sc_unit = u, sc_quality = q,
           sc_freshness = f\<rparr>))))))"
| "from_sensor_card _ = Err Mismatch"

text \<open>\<open>StationPresentation\<close> denies unknown fields.\<close>

fun from_station :: "json \<Rightarrow> de_error + station_presentation" where
  "from_station (JObj m) =
     (if \<not> fst ` set m \<subseteq> {''name'', ''icon_url''} then Err Mismatch
      else
        and_then (and_then (get_field m ''name'') from_string) (\<lambda>n.
        and_then (case map_of m ''icon_url'' of None \<Rightarrow> Ok None | Some u \<Rightarrow> from_option from_string u) (\<lambda>u.
          Ok \<lparr>sp_name = n, sp_icon_url = u\<rparr>)))"
| "from_station _ = Err Mismatch"

definition station_json :: "station_presentation \<Rightarrow> json" where
  "station_json p =
     JObj (json_object [(''name'', JStr (sp_name p)), (''icon_url'', json_opt JStr (sp_icon_url p))])"

fun body_to_json :: "command_body \<Rightarrow> json" where
  "body_to_json (PlayStation station_id) =
     JObj (json_object [(''name'', JStr ''station.play_station''), (''station_id'', JStr station_id)])"
| "body_to_json (PlayStream source station_id station stream_uri) =
     JObj (let v = (case station_id of
              Some sid \<Rightarrow> json_object
                [(''name'', JStr ''station.play_stream''), (''source'', JStr (stream_source_str source)),
                 (''station_id'', JStr sid), (''stream_uri'', JStr stream_uri)]
            | None \<Rightarrow> json_object
                [(''name'', JStr ''station.play_stream''), (''source'', JStr (stream_source_str source)),
                 (''stream_uri'', JStr stream_uri)])
           in case station of
                Some p \<Rightarrow> amap_insert ''station'' (station_json p) v
              | None \<Rightarrow> v)"
| "body_to_json (Playback action) =
     JObj (json_object [(''name'', JStr (''playback.'' @ action))])"
| "body_to_json (Volume (SetLevel level)) =
     JObj (json_object [(''name'', JStr ''volume.set_volume''), (''level'', JInt (uint level))])"
| "body_to_json (Volume (Change delta)) =
     JObj (json_object [(''name'', JStr ''volume.change_volume''), (''delta'', JInt (sint delta))])"
| "body_to_json (Volume (SetMute muted)) =
     JObj (json_object [(''name'', JStr ''volume.set_mute''), (''muted'', JBool muted)])"
| "body_to_json (Actuator SetValue v) =
     JObj (json_object [(''name'', action_json SetValue), (''value'', json_opt json_f64 v)])"
| "body_to_json (Actuator action v) = JObj (json_object [(''name'', action_json action)])"
| "body_to_json (Display (PText text)) =
     JObj (json_object [(''name'', JStr ''display.show_text''), (''text'', JStr text)])"
| "body_to_json (Display (PNowPlaying station_id title subtitle)) =
     JObj (json_object
       [(''name'', JStr ''display.show_view''), (''view'', JStr ''now_playing''),
        (''station_id'', JStr station_id), (''title'', JStr title),
        (''subtitle'', json_opt JStr subtitle)])"
| "body_to_json (Display (PSensorGrid title items)) =
     JObj (json_object
       [(''name'', JStr ''display.show_view''), (''view'', JStr ''sensor_grid''),
        (''title'', JStr title), (''items'', JArr (map sensor_card_json items))])"
| "body_to_json (Unknown _ payload) = JObj payload"

definition play_stream_of_fields :: "jmap \<Rightarrow> de_error + command_body" where
  "play_stream_of_fields m =
     and_then (case Option.bind (map_of m ''source'') as_str of
         None \<Rightarrow> Err (Custom ''invalid stream source'')
       | Some s \<Rightarrow>
           if s = CATALOG_STATION_SOURCE then Ok RockserverCatalog
           else if s = DIRECT_STATION_SOURCE then Ok DirectStream
           else Err (Custom ''invalid stream source'')) (\<lambda>source.
     and_then (case source of
         RockserverCatalog \<Rightarrow>
           and_then (and_then (get_field m ''station_id'') from_string) (\<lambda>s. Ok (Some s))
       | DirectStream \<Rightarrow>
           if map_of m ''station_id'' \<noteq> None then Err (Custom ''invalid station echo'')
           else Ok None) (\<lambda>station_id.
     and_then (case source of
         RockserverCatalog \<Rightarrow>
           (case map_of m ''station'' of
              None \<Rightarrow> Ok None
            | Some v \<Rightarrow> and_then (from_station v) (\<lambda>p. Ok (Some p)))
       | DirectStream \<Rightarrow>
           if map_of m ''station'' \<noteq> None then Err (Custom ''invalid station presentation'')
           else Ok None) (\<lambda>station.
     and_then (and_then (get_field m ''stream_uri'') from_string) (\<lambda>stream_uri.
       Ok (PlayStream source station_id station stream_uri)))))"

definition show_view_of_fields :: "jmap \<Rightarrow> de_error + command_body" where
  "show_view_of_fields m =
     (case Option.bind (map_of m ''view'') as_str of
        None \<Rightarrow> Err (Custom ''invalid display view'')
      | Some view \<Rightarrow>
          if view = ''sensor_grid'' then
            and_then (and_then (get_field m ''title'') from_string) (\<lambda>title.
            and_then (and_then (get_field m ''items'') (from_vec from_sensor_card)) (\<lambda>items.
              Ok (Display (PSensorGrid title items))))
          else if view = ''now_playing'' then
            and_then (and_then (get_field m ''station_id'') from_string) (\<lambda>station_id.
            and_then (and_then (get_field m ''title'') from_string) (\<lambda>title.
            and_then (case map_of m ''subtitle'' of
                None \<Rightarrow> Ok None
              | Some v \<Rightarrow> and_then (from_string v) (\<lambda>s. Ok (Some s))) (\<lambda>subtitle.
              Ok (Display (PNowPlaying station_id title subtitle)))))
          else Err (Custom ''invalid display view''))"

text \<open>\<open>trim_start_matches\<close> removes the prefix as often as it occurs.\<close>

fun trim_start_matches :: "nat \<Rightarrow> string \<Rightarrow> string \<Rightarrow> string" where
  "trim_start_matches 0 p s = s"
| "trim_start_matches (Suc n) p s =
     (case strip_prefix p s of None \<Rightarrow> s | Some r \<Rightarrow> trim_start_matches n p r)"

definition body_of_fields :: "jmap \<Rightarrow> string \<Rightarrow> de_error + command_body" where
  "body_of_fields m name =
     (if name = ''station.play_station'' then
        and_then (and_then (get_field m ''station_id'') from_string) (\<lambda>s. Ok (PlayStation s))
      else if name = ''station.play_stream'' then play_stream_of_fields m
      else if name = ''display.show_text'' then
        and_then (and_then (get_field m ''text'') from_string) (\<lambda>t. Ok (Display (PText t)))
      else if name = ''display.show_view'' then show_view_of_fields m
      else if is_some (strip_prefix ''playback.'' name) then
        Ok (Playback (trim_start_matches (length name) ''playback.'' name))
      else if name = ''volume.set_volume'' then
        and_then (and_then (get_field m ''level'') from_u8) (\<lambda>l. Ok (Volume (SetLevel l)))
      else if name = ''volume.change_volume'' then
        and_then (and_then (get_field m ''delta'') from_i8) (\<lambda>d. Ok (Volume (Change d)))
      else if name = ''volume.set_mute'' then
        and_then (and_then (get_field m ''muted'') from_bool) (\<lambda>b. Ok (Volume (SetMute b)))
      else if name = ''entity.turn_on'' then Ok (Actuator TurnOn None)
      else if name = ''entity.turn_off'' then Ok (Actuator TurnOff None)
      else if name = ''entity.set_value'' then
        and_then (and_then (get_field m ''value'') from_f64) (\<lambda>v. Ok (Actuator SetValue (Some v)))
      else if namespaced name then Ok (Unknown name m)
      else Err (Custom extension_name))"

fun body_of_json :: "json \<Rightarrow> de_error + command_body" where
  "body_of_json (JObj m) =
     and_then (ok_or (Custom ''missing command name'') (Option.bind (map_of m ''name'') as_str))
       (body_of_fields m)"
| "body_of_json _ = Err Mismatch"

section \<open>Lemmas\<close>

lemma whole_seconds_window:
  "0 \<le> whole_seconds d \<and> whole_seconds d \<le> 30 \<longleftrightarrow> - 1000000000 < d \<and> d < 31000000000"
proof (cases "0 \<le> d")
  case True
  then show ?thesis
    by (cases "d = 0") (auto simp: whole_seconds_def nanos_per_second_def sgn_if)
next
  case False
  then have "whole_seconds d = - (- d div 1000000000)"
    by (simp add: whole_seconds_def nanos_per_second_def)
  moreover have "- d div 1000000000 \<ge> 0" using False by simp
  moreover have "- d div 1000000000 = 0 \<longleftrightarrow> - d < 1000000000" using False by (simp add: zdiv_eq_0_iff)
  ultimately show ?thesis using False by linarith
qed

text \<open>
  The deadline window of \<open>validate_at\<close>: because whole seconds are truncated towards zero, a
  deadline up to one second in the past and up to 31 seconds ahead passes.
\<close>

lemma deadline_validate_Ok:
  "deadline_validate c received_at = Ok () \<longleftrightarrow>
     (\<forall>d. cmd_deadline_at c = Some d \<longrightarrow>
        - 1000000000 < ts_instant d - ts_instant received_at \<and>
        ts_instant d - ts_instant received_at < 31000000000)"
  unfolding deadline_validate_def Let_def
  using whole_seconds_window by (auto split: option.splits if_splits)

lemma validate_at_Ok:
  "validate_at c received_at = Ok () \<longleftrightarrow>
     command_target_validate (cmd_target c) = Ok () \<and> deadline_validate c received_at = Ok () \<and>
     body_validate (cmd_body c) = Ok ()"
  by (auto simp: validate_at_def and_then_Ok)

lemma executable_Ok: "executable c = Ok () \<longleftrightarrow> (\<forall>n p. cmd_body c \<noteq> Unknown n p)"
  by (auto simp: executable_def split: command_body.splits)

subsection \<open>The codec\<close>

lemma from_quality_json [simp]: "from_quality (quality_json q) = Ok q"
  by (cases q) (simp_all add: from_quality_def)

lemma from_freshness_json [simp]: "from_freshness (freshness_json f) = Ok f"
  by (cases f) (simp_all add: from_freshness_def)

lemma from_option_str [simp]: "from_option from_string (json_opt JStr u) = Ok u"
  by (cases u) simp_all

lemma sensor_card_roundtrip [simp]: "from_sensor_card (sensor_card_json c) = Ok c"
  by (simp add: sensor_card_json_def codec_simps)

lemma station_roundtrip [simp]: "from_station (station_json p) = Ok p"
proof -
  have "fst ` set (json_object [(''name'', a), (''icon_url'', b)]) = {''name'', ''icon_url''}" for a b
    by (simp add: json_object_def insert_commute)
  then show ?thesis by (simp add: station_json_def codec_simps)
qed

lemma from_i8_sint [simp]: "from_i8 (JInt (sint d)) = Ok d"
  using sint_greater_eq [of d] sint_less [of d] by simp

lemma trim_start_once:
  assumes "strip_prefix p s = None"
  shows "trim_start_matches (Suc (Suc n)) p (p @ s) = s"
proof -
  have "strip_prefix p (p @ s) = Some s" by (simp add: strip_prefix_Some)
  with assms show ?thesis by simp
qed

lemma playback_roundtrip:
  assumes "body_validate (Playback action) = Ok ()"
  shows "body_of_json (body_to_json (Playback action)) = Ok (Playback action)"
proof -
  have "strip_prefix ''playback.'' action = None"
    using assms by (auto simp: strip_prefix_def split: if_splits)
  moreover have "length (''playback.'' @ action) = Suc (Suc (7 + length action))" by simp
  ultimately have trim: "trim_start_matches (length (''playback.'' @ action)) ''playback.'' (''playback.'' @ action) = action"
    by (simp only: trim_start_once)
  have prefix: "is_some (strip_prefix ''playback.'' (''playback.'' @ action))"
    using strip_prefix_Some [of "''playback.''" "''playback.'' @ action" action] by simp
  have "body_of_fields m (''playback.'' @ action) = Ok (Playback action)" for m
    unfolding body_of_fields_def trim using prefix by simp
  then show ?thesis by (simp add: codec_simps del: append.simps)
qed

lemma play_stream_roundtrip:
  "body_validate (PlayStream source station_id station stream_uri) = Ok () \<Longrightarrow>
     body_of_json (body_to_json (PlayStream source station_id station stream_uri)) =
       Ok (PlayStream source station_id station stream_uri)"
  by (cases source; cases station_id; cases station)
    (simp_all add: codec_simps body_of_fields_def play_stream_of_fields_def play_stream_validate_def
      CATALOG_STATION_SOURCE_def DIRECT_STATION_SOURCE_def)

lemma display_roundtrip:
  "body_of_json (body_to_json (Display p)) =
     (case p of PNowPlaying s t None \<Rightarrow> Err Mismatch | _ \<Rightarrow> Ok (Display p))"
  by (cases p) (auto simp: codec_simps body_of_fields_def show_view_of_fields_def split: option.splits)

lemma volume_roundtrip: "body_of_json (body_to_json (Volume v)) = Ok (Volume v)"
  by (cases v) (simp_all add: codec_simps body_of_fields_def strip_prefix_def del: from_i8.simps)

lemma actuator_roundtrip:
  "actuator_validate a v = Ok () \<Longrightarrow> body_of_json (body_to_json (Actuator a v)) = Ok (Actuator a v)"
  by (cases a; cases v)
    (auto simp: codec_simps body_of_fields_def strip_prefix_def json_f64_def split: if_splits)

lemma body_roundtrip_iff:
  assumes "body_validate b = Ok ()" "\<And>n p. b \<noteq> Unknown n p"
  shows "body_of_json (body_to_json b) = Ok b \<longleftrightarrow> \<not> (\<exists>s t. b = Display (PNowPlaying s t None))"
proof (cases b)
  case (PlayStation s)
  then show ?thesis by (simp add: codec_simps body_of_fields_def)
next
  case (PlayStream source station_id station uri)
  then show ?thesis using assms(1) play_stream_roundtrip by simp
next
  case (Display p)
  then show ?thesis by (auto simp: display_roundtrip split: presentation.splits option.splits)
next
  case (Playback a)
  then show ?thesis using assms(1) playback_roundtrip by simp
next
  case (Volume v)
  then show ?thesis using volume_roundtrip by simp
next
  case (Actuator a v)
  then show ?thesis using assms(1) actuator_roundtrip by simp
next
  case (Unknown n p)
  then show ?thesis using assms(2) by blast
qed

section \<open>Properties\<close>

text \<open>C39: a valid executable command body survives serialization and decoding unchanged, except a
  now-playing view without a subtitle, which is written with a null that the decoder refuses.\<close>

theorem command_body_codec:
  assumes "body_validate b = Ok ()" "\<And>n p. b \<noteq> Unknown n p"
  shows "body_of_json (body_to_json b) = Ok b \<longleftrightarrow> \<not> (\<exists>s t. b = Display (PNowPlaying s t None))"
  using assms by (rule body_roundtrip_iff)

theorem command_body_codec_witness:
  "body_of_json (body_to_json (PlayStation ''rock'')) = Ok (PlayStation ''rock'') \<longleftrightarrow>
     \<not> (\<exists>s t. PlayStation ''rock'' = Display (PNowPlaying s t None))"
  by (rule command_body_codec) simp_all

text \<open>A command that validates at its reception has its deadline, if it names one, less than a
  second in the past and less than 31 seconds ahead.\<close>

theorem command_deadline_window:
  assumes "validate_at c received_at = Ok ()" "cmd_deadline_at c = Some d"
  shows "- 1000000000 < ts_instant d - ts_instant received_at \<and>
         ts_instant d - ts_instant received_at < 31000000000"
  using assms by (simp add: validate_at_Ok deadline_validate_Ok)

definition example_timestamp :: "instant \<Rightarrow> timestamp" where
  "example_timestamp t = \<lparr>ts_text = ''2026-09-03T00:00:00Z'', ts_instant = t\<rparr>"

definition example_play :: "device_id \<Rightarrow> command_id \<Rightarrow> device_command" where
  "example_play d cid =
     \<lparr>cmd_id = cid, cmd_target = \<lparr>tgt_device_id = d, tgt_entity_id = None, tgt_surface_id = None\<rparr>,
      cmd_deadline_at = Some (example_timestamp (seconds 10)), cmd_body = Playback ''play''\<rparr>"

theorem command_deadline_window_witness:
  "- 1000000000 < ts_instant (example_timestamp (seconds 10)) - ts_instant (example_timestamp 0) \<and>
   ts_instant (example_timestamp (seconds 10)) - ts_instant (example_timestamp 0) < 31000000000"
  by (rule command_deadline_window [of "example_play 1 2"])
    (simp_all add: example_play_def example_timestamp_def validate_at_Ok deadline_validate_Ok seconds_def
      nanos_per_second_def command_target_validate_def)

end
