(* ===== verification/Presence.thy ===== *)
theory Presence
  imports Command
begin

text \<open>
  The process-local connection and presence registry
  (\<open>src/src/device_control_presence.rs\<close>). The state behind the mutex is a record; every
  public method takes the lock once, so each is one atomic function of that state. A hash map
  is an association list with distinct keys.

  The bounded channels of the \<open>tokio\<close> runtime are the argument \<open>accepts\<close>: whether the
  \<open>n\<close>-th \<open>try_send\<close> on a channel is taken (a full or closed channel refuses). The registry
  state records what each channel took, in order.
\<close>

section \<open>Data\<close>

type_synonym chan = nat
type_synonym channel_env = "chan \<Rightarrow> nat \<Rightarrow> bool"

datatype disconnect_reason =
  GracefulDisconnect | HeartbeatExpired | Replaced | Revoked | TransportLost

record presence_event =
  pe_user_id :: user_id
  pe_device_id :: device_id
  pe_connection_id :: connection_id
  pe_online :: bool
  pe_last_seen :: instant
  pe_reason :: "disconnect_reason option"

text \<open>The typed payloads that are encoded at the transport edge.\<close>

datatype frame_payload =
    FReceived command_received
  | FAccepted command_accepted
  | FResult command_result
  | FCommand device_command

record outbound_frame =
  of_kind :: string
  of_payload :: frame_payload

record active_connection =
  ac_user_id :: user_id
  ac_connection_id :: connection_id
  ac_last_seen :: instant
  ac_replacement :: chan
  ac_outbound :: chan
  ac_manifest :: device_manifest
  ac_scopes :: "device_control_scope list"

record active_device =
  ad_connection_id :: connection_id
  ad_manifest :: device_manifest
  ad_scopes :: "device_control_scope list"

record connection_registration =
  reg_user_id :: user_id
  reg_device_id :: device_id
  reg_connection_id :: connection_id
  reg_replacement :: chan
  reg_outbound :: chan
  reg_manifest :: device_manifest
  reg_scopes :: "device_control_scope list"

record registry_state =
  active :: "(device_id \<times> active_connection) list"
  events :: "(user_id \<times> presence_event list) list"
  outbox :: "chan \<Rightarrow> outbound_frame list"
  notices :: "chan \<Rightarrow> disconnect_reason list"
  tries :: "chan \<Rightarrow> nat"

definition empty_registry :: registry_state where
  "empty_registry =
     \<lparr>active = [], events = [], outbox = (\<lambda>_. []), notices = (\<lambda>_. []), tries = (\<lambda>_. 0)\<rparr>"

definition USER_EVENT_CAPACITY :: nat where
  "USER_EVENT_CAPACITY = 128"

section \<open>Channel attempts\<close>

definition try_send_frame ::
  "channel_env \<Rightarrow> chan \<Rightarrow> outbound_frame \<Rightarrow> registry_state \<Rightarrow> registry_state \<times> bool" where
  "try_send_frame accepts ch f r =
     (let taken = accepts ch (tries r ch);
          r' = r\<lparr>tries := (tries r)(ch := Suc (tries r ch))\<rparr>
      in (if taken then r'\<lparr>outbox := (outbox r)(ch := outbox r ch @ [f])\<rparr> else r', taken))"

definition try_send_notice ::
  "channel_env \<Rightarrow> chan \<Rightarrow> disconnect_reason \<Rightarrow> registry_state \<Rightarrow> registry_state" where
  "try_send_notice accepts ch why r =
     (let r' = r\<lparr>tries := (tries r)(ch := Suc (tries r ch))\<rparr>
      in if accepts ch (tries r ch)
         then r'\<lparr>notices := (notices r)(ch := notices r ch @ [why])\<rparr> else r')"

section \<open>Operations\<close>

definition user_events :: "registry_state \<Rightarrow> user_id \<Rightarrow> presence_event list" where
  "user_events r u = (case map_of (events r) u of None \<Rightarrow> [] | Some es \<Rightarrow> es)"

definition push_event :: "presence_event \<Rightarrow> registry_state \<Rightarrow> registry_state" where
  "push_event e r =
     (let es = user_events r (pe_user_id e);
          kept = (if length es = USER_EVENT_CAPACITY then tl es else es)
      in r\<lparr>events := AList.update (pe_user_id e) (kept @ [e]) (events r)\<rparr>)"

definition register ::
  "channel_env \<Rightarrow> connection_registration \<Rightarrow> instant \<Rightarrow> registry_state \<Rightarrow>
     registry_state \<times> (user_id \<times> connection_id) option" where
  "register accepts reg now r =
     (let previous = map_of (active r) (reg_device_id reg);
          r1 = r\<lparr>active := AList.update (reg_device_id reg)
                 \<lparr>ac_user_id = reg_user_id reg, ac_connection_id = reg_connection_id reg,
                  ac_last_seen = now, ac_replacement = reg_replacement reg,
                  ac_outbound = reg_outbound reg, ac_manifest = reg_manifest reg,
                  ac_scopes = reg_scopes reg\<rparr> (active r)\<rparr>;
          r2 = (case previous of
                  None \<Rightarrow> r1
                | Some p \<Rightarrow> try_send_notice accepts (ac_replacement p) Replaced r1);
          r3 = push_event
                 \<lparr>pe_user_id = reg_user_id reg, pe_device_id = reg_device_id reg,
                  pe_connection_id = reg_connection_id reg, pe_online = True,
                  pe_last_seen = now, pe_reason = None\<rparr> r2
      in (r3, map_option (\<lambda>p. (ac_user_id p, ac_connection_id p)) previous))"

definition active_for :: "registry_state \<Rightarrow> user_id \<Rightarrow> device_id \<Rightarrow> active_device option" where
  "active_for r u d =
     map_option (\<lambda>a. \<lparr>ad_connection_id = ac_connection_id a, ad_manifest = ac_manifest a,
                       ad_scopes = ac_scopes a\<rparr>)
       (opt_filter (\<lambda>a. ac_user_id a = u) (map_of (active r) d))"

definition update_manifest ::
  "device_id \<Rightarrow> connection_id \<Rightarrow> device_manifest \<Rightarrow> registry_state \<Rightarrow> registry_state \<times> bool" where
  "update_manifest d c m r =
     (case opt_filter (\<lambda>a. ac_connection_id a = c) (map_of (active r) d) of
        None \<Rightarrow> (r, False)
      | Some a \<Rightarrow> (r\<lparr>active := AList.update d (a\<lparr>ac_manifest := m\<rparr>) (active r)\<rparr>, True))"

definition send_to ::
  "channel_env \<Rightarrow> user_id \<Rightarrow> device_id \<Rightarrow> connection_id \<Rightarrow> outbound_frame \<Rightarrow> registry_state \<Rightarrow>
     registry_state \<times> bool" where
  "send_to accepts u d c f r =
     (case opt_filter (\<lambda>a. ac_user_id a = u \<and> ac_connection_id a = c) (map_of (active r) d) of
        None \<Rightarrow> (r, False)
      | Some a \<Rightarrow> try_send_frame accepts (ac_outbound a) f r)"

definition heartbeat ::
  "device_id \<Rightarrow> connection_id \<Rightarrow> instant \<Rightarrow> registry_state \<Rightarrow> registry_state \<times> bool" where
  "heartbeat d c now r =
     (case opt_filter (\<lambda>a. ac_connection_id a = c) (map_of (active r) d) of
        None \<Rightarrow> (r, False)
      | Some a \<Rightarrow> (r\<lparr>active := AList.update d (a\<lparr>ac_last_seen := now\<rparr>) (active r)\<rparr>, True))"

definition disconnect ::
  "device_id \<Rightarrow> connection_id \<Rightarrow> disconnect_reason \<Rightarrow> registry_state \<Rightarrow> registry_state \<times> bool" where
  "disconnect d c why r =
     (case map_of (active r) d of
        None \<Rightarrow> (r, False)
      | Some a \<Rightarrow>
          if ac_connection_id a \<noteq> c then (r, False)
          else (push_event
                  \<lparr>pe_user_id = ac_user_id a, pe_device_id = d, pe_connection_id = c,
                   pe_online = False, pe_last_seen = ac_last_seen a, pe_reason = Some why\<rparr>
                  (r\<lparr>active := AList.delete d (active r)\<rparr>), True))"

definition revoke ::
  "channel_env \<Rightarrow> user_id \<Rightarrow> device_id \<Rightarrow> registry_state \<Rightarrow> registry_state \<times> bool" where
  "revoke accepts u d r =
     (case map_of (active r) d of
        None \<Rightarrow> (r, False)
      | Some a \<Rightarrow>
          if ac_user_id a \<noteq> u then (r, False)
          else (push_event
                  \<lparr>pe_user_id = u, pe_device_id = d, pe_connection_id = ac_connection_id a,
                   pe_online = False, pe_last_seen = ac_last_seen a, pe_reason = Some Revoked\<rparr>
                  (try_send_notice accepts (ac_replacement a) Revoked
                    (r\<lparr>active := AList.delete d (active r)\<rparr>)), True))"

definition events_for :: "registry_state \<Rightarrow> user_id \<Rightarrow> presence_event list" where
  "events_for r u = user_events r u"

definition snapshot_for ::
  "registry_state \<Rightarrow> user_id \<Rightarrow> (device_id \<times> connection_id \<times> instant) list" where
  "snapshot_for r u =
     map (\<lambda>(d, a). (d, ac_connection_id a, ac_last_seen a))
       (filter (\<lambda>(d, a). ac_user_id a = u) (active r))"

section \<open>Runs of the registry\<close>

datatype reg_op =
    OpRegister connection_registration instant
  | OpUpdateManifest device_id connection_id device_manifest
  | OpSendTo user_id device_id connection_id outbound_frame
  | OpHeartbeat device_id connection_id instant
  | OpDisconnect device_id connection_id disconnect_reason
  | OpRevoke user_id device_id

fun reg_exec :: "channel_env \<Rightarrow> reg_op \<Rightarrow> registry_state \<Rightarrow> registry_state" where
  "reg_exec accepts (OpRegister reg now) r = fst (register accepts reg now r)"
| "reg_exec accepts (OpUpdateManifest d c m) r = fst (update_manifest d c m r)"
| "reg_exec accepts (OpSendTo u d c f) r = fst (send_to accepts u d c f r)"
| "reg_exec accepts (OpHeartbeat d c now) r = fst (heartbeat d c now r)"
| "reg_exec accepts (OpDisconnect d c why) r = fst (disconnect d c why r)"
| "reg_exec accepts (OpRevoke u d) r = fst (revoke accepts u d r)"

definition reg_run :: "channel_env \<Rightarrow> reg_op list \<Rightarrow> registry_state \<Rightarrow> registry_state" where
  "reg_run accepts ops r = fold (reg_exec accepts) ops r"

section \<open>Frame facts\<close>

lemma try_send_frame_keeps [simp]:
  "active (fst (try_send_frame acc ch f r)) = active r"
  "events (fst (try_send_frame acc ch f r)) = events r"
  "notices (fst (try_send_frame acc ch f r)) = notices r"
  by (simp_all add: try_send_frame_def Let_def)

lemma try_send_notice_keeps [simp]:
  "active (try_send_notice acc ch why r) = active r"
  "events (try_send_notice acc ch why r) = events r"
  "outbox (try_send_notice acc ch why r) = outbox r"
  by (simp_all add: try_send_notice_def Let_def)

lemma push_event_keeps [simp]:
  "active (push_event e r) = active r"
  "outbox (push_event e r) = outbox r"
  "notices (push_event e r) = notices r"
  "tries (push_event e r) = tries r"
  by (simp_all add: push_event_def Let_def)

lemma user_events_keeps [simp]:
  "user_events (r\<lparr>active := x\<rparr>) u = user_events r u"
  "user_events (try_send_notice acc ch why r) u = user_events r u"
  "user_events (fst (try_send_frame acc ch f r)) u = user_events r u"
  by (simp_all add: user_events_def)

lemma user_events_push:
  "user_events (push_event e r) u =
     (if u = pe_user_id e
      then (if length (user_events r u) = USER_EVENT_CAPACITY
            then tl (user_events r u) else user_events r u) @ [e]
      else user_events r u)"
  by (simp add: push_event_def Let_def user_events_def)

lemma send_to_keeps [simp]:
  "active (fst (send_to acc u d c f r)) = active r"
  "events (fst (send_to acc u d c f r)) = events r"
  by (simp_all add: send_to_def split: option.splits)

lemma active_for_keeps [simp]:
  "active_for (fst (send_to acc u' d' c f r)) u d = active_for r u d"
  by (simp add: active_for_def)

lemma active_for_Some:
  "active_for r u d = Some t \<longleftrightarrow>
     (\<exists>a. map_of (active r) d = Some a \<and> ac_user_id a = u \<and>
          t = \<lparr>ad_connection_id = ac_connection_id a, ad_manifest = ac_manifest a,
               ad_scopes = ac_scopes a\<rparr>)"
  by (auto simp: active_for_def opt_filter_Some)

lemma send_to_result:
  "snd (send_to acc u d c f r) \<longleftrightarrow>
     (\<exists>a. map_of (active r) d = Some a \<and> ac_user_id a = u \<and> ac_connection_id a = c \<and>
          acc (ac_outbound a) (tries r (ac_outbound a)))"
  by (auto simp: send_to_def try_send_frame_def Let_def opt_filter_Some opt_filter_None split: option.splits)

section \<open>The registry invariant\<close>

text \<open>
  One active connection per device, and a history per user that never exceeds its capacity
  and only holds that user's events.
\<close>

definition wf_registry :: "registry_state \<Rightarrow> bool" where
  "wf_registry r \<longleftrightarrow>
     distinct (map fst (active r)) \<and>
     (\<forall>u. length (user_events r u) \<le> USER_EVENT_CAPACITY \<and>
          (\<forall>e \<in> set (user_events r u). pe_user_id e = u))"

lemma wf_push_event:
  assumes "wf_registry r"
  shows "wf_registry (push_event e r)"
proof -
  have len: "length (user_events (push_event e r) u) \<le> USER_EVENT_CAPACITY" for u
  proof -
    have "length (user_events r u) \<le> USER_EVENT_CAPACITY" using assms by (simp add: wf_registry_def)
    then show ?thesis by (auto simp: user_events_push USER_EVENT_CAPACITY_def)
  qed
  have "\<forall>x \<in> set (user_events (push_event e r) u). pe_user_id x = u" for u
    using assms by (auto simp: user_events_push wf_registry_def dest: in_set_tl)
  with len assms show ?thesis by (simp add: wf_registry_def)
qed

lemma wf_update_active:
  "wf_registry r \<Longrightarrow> wf_registry (r\<lparr>active := AList.update d a (active r)\<rparr>)"
  by (simp add: wf_registry_def distinct_update)

lemma wf_delete_active: "wf_registry r \<Longrightarrow> wf_registry (r\<lparr>active := AList.delete d (active r)\<rparr>)"
  by (simp add: wf_registry_def distinct_delete)

lemma wf_try_send_notice: "wf_registry r \<Longrightarrow> wf_registry (try_send_notice acc ch why r)"
  by (simp add: wf_registry_def)

lemma wf_try_send_frame: "wf_registry r \<Longrightarrow> wf_registry (fst (try_send_frame acc ch f r))"
  by (simp add: wf_registry_def)

lemmas wf_registry_intros =
  wf_push_event wf_update_active wf_delete_active wf_try_send_notice wf_try_send_frame

lemma wf_empty_registry: "wf_registry empty_registry"
  by (simp add: wf_registry_def empty_registry_def user_events_def)

lemma reg_exec_wf: "wf_registry r \<Longrightarrow> wf_registry (reg_exec acc op r)"
  by (cases op)
    (auto simp: register_def update_manifest_def send_to_def heartbeat_def disconnect_def revoke_def
      Let_def split: option.splits intro: wf_registry_intros)

lemma reg_run_wf: "wf_registry r \<Longrightarrow> wf_registry (reg_run acc ops r)"
  unfolding reg_run_def by (induction ops arbitrary: r) (simp_all add: reg_exec_wf)

section \<open>Generations\<close>

text \<open>
  A connection that is not the active generation of its device cannot change anything.
\<close>

definition generation :: "registry_state \<Rightarrow> device_id \<Rightarrow> connection_id option" where
  "generation r d = map_option ac_connection_id (map_of (active r) d)"

lemma not_generation:
  "generation r d \<noteq> Some c \<Longrightarrow> map_of (active r) d = Some a \<Longrightarrow> ac_connection_id a \<noteq> c"
  by (auto simp: generation_def)

lemma stale_generation_is_inert:
  assumes "generation r d \<noteq> Some c"
  shows "update_manifest d c m r = (r, False)" "heartbeat d c now r = (r, False)"
    "disconnect d c why r = (r, False)" "send_to acc u d c f r = (r, False)"
  using not_generation [OF assms]
  by (auto simp: update_manifest_def heartbeat_def disconnect_def send_to_def opt_filter_def
      split: option.splits)

section \<open>Owner isolation\<close>

fun op_device :: "reg_op \<Rightarrow> device_id" where
  "op_device (OpRegister reg _) = reg_device_id reg"
| "op_device (OpUpdateManifest d _ _) = d"
| "op_device (OpSendTo _ d _ _) = d"
| "op_device (OpHeartbeat d _ _) = d"
| "op_device (OpDisconnect d _ _) = d"
| "op_device (OpRevoke _ d) = d"

fun op_registers :: "reg_op \<Rightarrow> user_id option" where
  "op_registers (OpRegister reg _) = Some (reg_user_id reg)"
| "op_registers _ = None"

definition concerns :: "registry_state \<Rightarrow> user_id \<Rightarrow> reg_op \<Rightarrow> bool" where
  "concerns r v op \<longleftrightarrow>
     op_registers op = Some v \<or> is_some_and (map_of (active r) (op_device op)) (\<lambda>a. ac_user_id a = v)"

lemma snapshot_for_members:
  "distinct (map fst (active r)) \<Longrightarrow>
     (d, c, t) \<in> set (snapshot_for r v) \<longleftrightarrow>
     (\<exists>a. map_of (active r) d = Some a \<and> ac_user_id a = v \<and> c = ac_connection_id a \<and> t = ac_last_seen a)"
  by (force simp: snapshot_for_def)

text \<open>What each operation does to the entry of one device and to one history.\<close>

lemma register_active:
  "map_of (active (fst (register acc reg now r))) =
     (map_of (active r))(reg_device_id reg \<mapsto>
        \<lparr>ac_user_id = reg_user_id reg, ac_connection_id = reg_connection_id reg,
         ac_last_seen = now, ac_replacement = reg_replacement reg,
         ac_outbound = reg_outbound reg, ac_manifest = reg_manifest reg,
         ac_scopes = reg_scopes reg\<rparr>)"
  by (simp add: register_def Let_def split: option.split)

lemma register_events:
  "u \<noteq> reg_user_id reg \<Longrightarrow> user_events (fst (register acc reg now r)) u = user_events r u"
  by (simp add: register_def Let_def user_events_push split: option.split)

lemma entry_update_unconcerned:
  assumes "\<And>a. map_of m d = Some a \<Longrightarrow> ac_user_id a \<noteq> v" "\<And>a. b = Some a \<Longrightarrow> ac_user_id a \<noteq> v"
  shows "opt_filter (\<lambda>a. ac_user_id a = v) (((map_of m)(d := b)) x) =
         opt_filter (\<lambda>a. ac_user_id a = v) (map_of m x)"
  using assms by (cases "map_of m d"; cases b) (auto simp: opt_filter_def)

lemma unconcerned_entry:
  "\<not> concerns r v op \<Longrightarrow> map_of (active r) (op_device op) = Some a \<Longrightarrow> ac_user_id a \<noteq> v"
  by (simp add: concerns_def is_some_and_def)

lemma unconcerned_active:
  assumes "\<not> concerns r v op"
  shows "opt_filter (\<lambda>a. ac_user_id a = v) (map_of (active (reg_exec acc op r)) d) =
         opt_filter (\<lambda>a. ac_user_id a = v) (map_of (active r) d)"
proof (cases op)
  case (OpRegister reg now)
  with assms unconcerned_entry [OF assms] show ?thesis
    unfolding OpRegister reg_exec.simps register_active
    by (intro entry_update_unconcerned) (auto simp: concerns_def)
next
  case (OpUpdateManifest d' c m)
  with unconcerned_entry [OF assms] show ?thesis
    by (auto simp: update_manifest_def opt_filter_Some intro!: entry_update_unconcerned
        simp del: fun_upd_apply split: option.split)
next
  case (OpHeartbeat d' c now)
  with unconcerned_entry [OF assms] show ?thesis
    by (auto simp: heartbeat_def opt_filter_Some intro!: entry_update_unconcerned
        simp del: fun_upd_apply split: option.split)
next
  case (OpDisconnect d' c why)
  with unconcerned_entry [OF assms] show ?thesis
    by (auto simp: disconnect_def intro!: entry_update_unconcerned
        simp del: fun_upd_apply split: option.split)
next
  case (OpRevoke u d')
  with unconcerned_entry [OF assms] show ?thesis
    by (auto simp: revoke_def intro!: entry_update_unconcerned
        simp del: fun_upd_apply split: option.split)
qed simp

lemma unconcerned_events:
  assumes "\<not> concerns r v op"
  shows "events_for (reg_exec acc op r) v = events_for r v"
proof (cases op)
  case (OpRegister reg now)
  with assms show ?thesis by (auto simp: concerns_def events_for_def register_events)
next
  case (OpSendTo u d c f)
  then show ?thesis by (simp add: events_for_def user_events_def)
next
  case (OpDisconnect d' c why)
  with unconcerned_entry [OF assms] show ?thesis
    by (auto simp: events_for_def disconnect_def user_events_push split: option.split)
next
  case (OpRevoke u d')
  with unconcerned_entry [OF assms] show ?thesis
    by (auto simp: events_for_def revoke_def user_events_push split: option.split)
qed (simp_all add: events_for_def update_manifest_def heartbeat_def split: option.split)

lemma unconcerned_active_for:
  "\<not> concerns r v op \<Longrightarrow> active_for (reg_exec acc op r) v d = active_for r v d"
  by (simp add: active_for_def unconcerned_active)

lemma unconcerned_snapshot:
  assumes "wf_registry r" "\<not> concerns r v op"
  shows "set (snapshot_for (reg_exec acc op r) v) = set (snapshot_for r v)"
proof -
  have d: "distinct (map fst (active r))" "distinct (map fst (active (reg_exec acc op r)))"
    using assms(1) reg_exec_wf [OF assms(1)] by (simp_all add: wf_registry_def)
  have same: "(map_of (active (reg_exec acc op r)) d = Some a \<and> ac_user_id a = v) \<longleftrightarrow>
      (map_of (active r) d = Some a \<and> ac_user_id a = v)" for d a
    using arg_cong [OF unconcerned_active [OF assms(2), of acc d], of "\<lambda>x. x = Some a"]
    by (simp only: opt_filter_Some)
  show ?thesis
    by (rule set_eqI) (use same in \<open>simp only: split_paired_all snapshot_for_members [OF d(1)]
        snapshot_for_members [OF d(2)], blast\<close>)
qed

section \<open>The history agrees with the registry\<close>

definition device_events :: "registry_state \<Rightarrow> user_id \<Rightarrow> device_id \<Rightarrow> presence_event list" where
  "device_events r u d = filter (\<lambda>e. pe_device_id e = d) (user_events r u)"

text \<open>
  For an assignment \<open>owner\<close> of devices to accounts: active devices belong to their owner, and
  the last retained event of a device in its owner's history says whether it is online, and
  under which connection.
\<close>

definition presence_consistent :: "(device_id \<Rightarrow> user_id) \<Rightarrow> registry_state \<Rightarrow> bool" where
  "presence_consistent owner r \<longleftrightarrow>
     (\<forall>d a. map_of (active r) d = Some a \<longrightarrow> ac_user_id a = owner d) \<and>
     (\<forall>d. device_events r (owner d) d \<noteq> [] \<longrightarrow>
        (let e = last (device_events r (owner d) d)
         in if pe_online e then generation r d = Some (pe_connection_id e) else generation r d = None))"

fun respects_owner :: "(device_id \<Rightarrow> user_id) \<Rightarrow> reg_op \<Rightarrow> bool" where
  "respects_owner owner (OpRegister reg _) = (reg_user_id reg = owner (reg_device_id reg))"
| "respects_owner owner _ = True"

lemma last_filter_tl:
  "filter P (tl xs) \<noteq> [] \<Longrightarrow> last (filter P (tl xs)) = last (filter P xs)"
  by (cases xs) auto

lemma device_events_push:
  "device_events (push_event e r) u d =
     (if u = pe_user_id e \<and> d = pe_device_id e
      then filter (\<lambda>e. pe_device_id e = d)
             (if length (user_events r u) = USER_EVENT_CAPACITY then tl (user_events r u)
              else user_events r u) @ [e]
      else if u = pe_user_id e \<and> length (user_events r u) = USER_EVENT_CAPACITY
      then filter (\<lambda>e. pe_device_id e = d) (tl (user_events r u))
      else device_events r u d)"
  by (auto simp: device_events_def user_events_push)

text \<open>Pushing an event that describes the new state of its own device keeps the agreement.\<close>

lemma presence_consistent_push:
  assumes old: "\<And>d'. d' \<noteq> d \<Longrightarrow> device_events r (owner d') d' \<noteq> [] \<Longrightarrow>
      (if pe_online (last (device_events r (owner d') d'))
       then generation r d' = Some (pe_connection_id (last (device_events r (owner d') d')))
       else generation r d' = None)"
    and owners: "\<And>d a. map_of (active r) d = Some a \<Longrightarrow> ac_user_id a = owner d"
    and e: "pe_user_id e = owner d" "pe_device_id e = d"
      "if pe_online e then generation r d = Some (pe_connection_id e) else generation r d = None"
  shows "presence_consistent owner (push_event e r)"
proof -
  have gen: "generation (push_event e r) x = generation r x" for x
    by (simp add: generation_def)
  have "if pe_online (last (device_events (push_event e r) (owner x) x))
        then generation r x = Some (pe_connection_id (last (device_events (push_event e r) (owner x) x)))
        else generation r x = None"
    if ne: "device_events (push_event e r) (owner x) x \<noteq> []" for x
  proof (cases "x = d")
    case True
    then have "last (device_events (push_event e r) (owner x) x) = e"
      using e by (simp add: device_events_push)
    with True e(3) show ?thesis by simp
  next
    case False
    have last: "last (device_events (push_event e r) (owner x) x) = last (device_events r (owner x) x)
        \<and> device_events r (owner x) x \<noteq> []"
    proof (cases "owner x = pe_user_id e \<and> length (user_events r (owner x)) = USER_EVENT_CAPACITY")
      case True
      with False e have tl: "device_events (push_event e r) (owner x) x =
          filter (\<lambda>e. pe_device_id e = x) (tl (user_events r (owner x)))"
        unfolding device_events_push by auto
      have "device_events r (owner x) x \<noteq> []"
        using ne unfolding tl by (auto simp: device_events_def filter_empty_conv dest: in_set_tl)
      then show ?thesis
        using ne unfolding tl by (simp add: last_filter_tl device_events_def)
    next
      case other: False
      with False e have "device_events (push_event e r) (owner x) x = device_events r (owner x) x"
        unfolding device_events_push by auto
      with ne show ?thesis by simp
    qed
    with old [OF False] show ?thesis by simp
  qed
  with owners show ?thesis by (simp add: presence_consistent_def Let_def gen)
qed

text \<open>An operation that leaves the history alone and every generation in place.\<close>

lemma presence_consistent_frame:
  assumes "presence_consistent owner r"
    and "\<And>u. user_events r' u = user_events r u"
    and "\<And>d. map_option (\<lambda>a. (ac_user_id a, ac_connection_id a)) (map_of (active r') d) =
              map_option (\<lambda>a. (ac_user_id a, ac_connection_id a)) (map_of (active r) d)"
  shows "presence_consistent owner r'"
proof -
  have gen: "generation r' d = generation r d" for d
    using arg_cong [OF assms(3) [of d], of "map_option snd"] by (simp add: generation_def option.map_comp comp_def)
  have "ac_user_id a = owner d" if "map_of (active r') d = Some a" for d a
    using assms(1) assms(3) [of d] that by (cases "map_of (active r) d") (auto simp: presence_consistent_def)
  then show ?thesis
    using assms(1) by (simp add: presence_consistent_def Let_def device_events_def assms(2) gen)
qed

lemma presence_consistent_rest:
  "presence_consistent owner r \<Longrightarrow> device_events r (owner d') d' \<noteq> [] \<Longrightarrow>
     (if pe_online (last (device_events r (owner d') d'))
      then generation r d' = Some (pe_connection_id (last (device_events r (owner d') d')))
      else generation r d' = None)"
  by (simp add: presence_consistent_def Let_def)

lemma presence_consistent_owner:
  "presence_consistent owner r \<Longrightarrow> map_of (active r) d = Some a \<Longrightarrow> ac_user_id a = owner d"
  by (simp add: presence_consistent_def)

text \<open>An operation that rewrites one entry and then reports it.\<close>

lemma presence_consistent_report:
  assumes c: "presence_consistent owner r"
    and same: "\<And>u. user_events r1 u = user_events r u"
    and upd: "map_of (active r1) = (map_of (active r))(d := b)"
    and own: "\<And>a. b = Some a \<Longrightarrow> ac_user_id a = owner d"
    and e: "pe_user_id e = owner d" "pe_device_id e = d"
      "if pe_online e then map_option ac_connection_id b = Some (pe_connection_id e) else b = None"
  shows "presence_consistent owner (push_event e r1)"
proof (rule presence_consistent_push [where d = d])
  show "if pe_online e then generation r1 d = Some (pe_connection_id e) else generation r1 d = None"
    using e(3) by (simp add: generation_def upd)
  show "ac_user_id a = owner x" if "map_of (active r1) x = Some a" for x a
    using that own presence_consistent_owner [OF c] by (auto simp: upd split: if_splits)
  show "if pe_online (last (device_events r1 (owner d') d'))
       then generation r1 d' = Some (pe_connection_id (last (device_events r1 (owner d') d')))
       else generation r1 d' = None"
    if "d' \<noteq> d" "device_events r1 (owner d') d' \<noteq> []" for d'
  proof -
    have ev: "device_events r1 (owner d') d' = device_events r (owner d') d'"
      by (simp add: device_events_def same)
    have gen: "generation r1 d' = generation r d'"
      using that(1) by (simp add: generation_def upd)
    show ?thesis
      unfolding gen ev using presence_consistent_rest [OF c] that(2) unfolding ev by blast
  qed
qed (use e in auto)

lemma reg_exec_consistent:
  assumes c: "presence_consistent owner r" and o: "respects_owner owner op"
  shows "presence_consistent owner (reg_exec acc op r)"
proof (cases op)
  case (OpRegister reg now)
  then show ?thesis using o
    by (cases "map_of (active r) (reg_device_id reg)")
      (auto simp: register_def Let_def
        intro!: presence_consistent_report [OF c, where d = "reg_device_id reg"])
next
  case (OpUpdateManifest d cn m)
  then show ?thesis
    by (auto simp: update_manifest_def opt_filter_Some c split: option.split
        intro!: presence_consistent_frame [OF c])
next
  case (OpSendTo u d cn f)
  then show ?thesis
    by (auto simp: user_events_def intro!: presence_consistent_frame [OF c])
next
  case (OpHeartbeat d cn now)
  then show ?thesis
    by (auto simp: heartbeat_def opt_filter_Some c split: option.split
        intro!: presence_consistent_frame [OF c])
next
  case (OpDisconnect d cn why)
  then show ?thesis
    by (auto simp: disconnect_def c presence_consistent_owner [OF c] split: option.split
        intro!: presence_consistent_report [OF c, where d = d])
next
  case (OpRevoke u d)
  then show ?thesis
    by (auto simp: revoke_def c presence_consistent_owner [OF c] split: option.split
        intro!: presence_consistent_report [OF c, where d = d])
qed

lemma reg_run_consistent:
  "presence_consistent owner r \<Longrightarrow> \<forall>op \<in> set ops. respects_owner owner op \<Longrightarrow>
     presence_consistent owner (reg_run acc ops r)"
  unfolding reg_run_def by (induction ops arbitrary: r) (simp_all add: reg_exec_consistent)

lemma presence_consistent_empty: "presence_consistent owner empty_registry"
  by (simp add: presence_consistent_def empty_registry_def device_events_def user_events_def)

section \<open>Properties\<close>

definition example_manifest :: "device_role list \<Rightarrow> device_capability list \<Rightarrow> device_manifest" where
  "example_manifest roles caps =
     \<lparr>man_revision = 1, man_roles = roles, man_capabilities = \<lparr>caps_revision = 1, caps_items = caps\<rparr>,
      man_entities = [], man_surfaces = []\<rparr>"

text \<open>A connection \<open>c\<close> of device \<open>d\<close>, with channels \<open>2 * c\<close> and \<open>2 * c + 1\<close>.\<close>

definition example_registration ::
  "user_id \<Rightarrow> device_id \<Rightarrow> connection_id \<Rightarrow> device_manifest \<Rightarrow> device_control_scope list \<Rightarrow>
     connection_registration" where
  "example_registration u d c m scopes =
     \<lparr>reg_user_id = u, reg_device_id = d, reg_connection_id = c, reg_replacement = 2 * c,
      reg_outbound = 2 * c + 1, reg_manifest = m, reg_scopes = scopes\<rparr>"

text \<open>Whatever sequence of operations the registry serves, it keeps one active connection per
  device and a history per account of at most 128 events, all of that account.\<close>

theorem registry_invariant: "wf_registry (reg_run accepts ops empty_registry)"
  by (rule reg_run_wf [OF wf_empty_registry])

text \<open>A connection that is no longer the active generation of its device changes nothing: its
  manifest updates, heartbeats, disconnects and frames are refused.\<close>

theorem replaced_connection_is_inert:
  assumes "generation r d \<noteq> Some c"
  shows "update_manifest d c m r = (r, False) \<and> heartbeat d c now r = (r, False) \<and>
    disconnect d c why r = (r, False) \<and> send_to accepts u d c f r = (r, False)"
  using stale_generation_is_inert [OF assms] by blast

theorem replaced_connection_is_inert_witness:
  "let r = reg_run (\<lambda>_ _. True)
        [OpRegister (example_registration 1 2 10 (example_manifest [Player] []) []) 0,
         OpRegister (example_registration 1 2 11 (example_manifest [Player] []) []) 5] empty_registry
   in update_manifest 2 10 (example_manifest [] []) r = (r, False) \<and> heartbeat 2 10 7 r = (r, False) \<and>
      disconnect 2 10 TransportLost r = (r, False) \<and>
      send_to (\<lambda>_ _. True) 1 2 10 \<lparr>of_kind = ''x'', of_payload = FResult
        \<lparr>res_command_id = 1, res_status = Succeeded, res_completed_at = example_timestamp 0, res_error = None\<rparr>\<rparr> r
        = (r, False)"
  unfolding Let_def
  by (rule replaced_connection_is_inert)
    (simp add: reg_run_def register_def Let_def empty_registry_def generation_def example_registration_def
      push_event_def user_events_def try_send_notice_def USER_EVENT_CAPACITY_def)

text \<open>An operation that neither registers a connection for an account nor concerns a device of
  that account leaves everything the account can read unchanged: its presence snapshot, its
  history and its active devices.\<close>

theorem presence_owner_isolation:
  assumes "wf_registry r" "\<not> concerns r v op"
  shows "set (snapshot_for (reg_exec accepts op r) v) = set (snapshot_for r v) \<and>
    events_for (reg_exec accepts op r) v = events_for r v \<and>
    active_for (reg_exec accepts op r) v d = active_for r v d"
  using unconcerned_snapshot [OF assms] unconcerned_events [OF assms(2)] unconcerned_active_for [OF assms(2)]
  by blast

theorem presence_owner_isolation_witness:
  "let r = empty_registry; op = OpRegister (example_registration 1 2 10 (example_manifest [Player] []) []) 0
   in set (snapshot_for (reg_exec (\<lambda>_ _. True) op r) 9) = set (snapshot_for r 9) \<and>
      events_for (reg_exec (\<lambda>_ _. True) op r) 9 = events_for r 9 \<and>
      active_for (reg_exec (\<lambda>_ _. True) op r) 9 2 = active_for r 9 2"
  unfolding Let_def
  by (rule presence_owner_isolation [OF wf_empty_registry])
    (simp add: concerns_def example_registration_def empty_registry_def)

text \<open>C6: when every device registers under one account, the history always agrees with the registry:
  the last event kept for a device says whether it is online, and under which connection.\<close>

theorem presence_history_agrees:
  assumes "\<forall>op \<in> set ops. respects_owner owner op"
  shows "presence_consistent owner (reg_run accepts ops empty_registry)"
  by (rule reg_run_consistent [OF presence_consistent_empty assms])

theorem presence_history_agrees_witness:
  "presence_consistent (\<lambda>_. 1) (reg_run (\<lambda>_ _. True)
     [OpRegister (example_registration 1 2 10 (example_manifest [Player] []) []) 0,
      OpDisconnect 2 10 TransportLost] empty_registry)"
  by (rule presence_history_agrees) (simp add: example_registration_def)

end
