(* ===== verification/Control_Store.thy ===== *)
theory Control_Store
  imports Command Device_State
begin

text \<open>
  The durable device-control store: its boundary (\<open>src/src/device_control/store.rs\<close>) and the
  PostgreSQL implementation (\<open>src/src/persistence/device_control_postgres.rs\<close>).

  The tables of migration 0021 are the fields of \<open>control_db\<close>; a transaction is one function of
  the tables that returns them unchanged unless it commits. \<open>db_available\<close> says whether the
  backend answers, and a statement that breaks a table constraint is a database error. Projections
  are stored as the values their derived serializers write; capabilities and command bodies, whose
  serializers are hand-written, are stored as the JSON those write.
\<close>

section \<open>The store boundary\<close>

datatype store_error = Validation validation_error | Database

fun store_error_text :: "store_error \<Rightarrow> string" where
  "store_error_text (Validation e) = validation_code e"
| "store_error_text Database = ''persistence_unavailable''"

datatype store_outcome =
    OutAccepted | OutReplay | OutStale | OutConflict | OutResync | OutNotOwned

type_synonym fingerprint = "u8 list"

record command_reservation =
  rv_command :: device_command
  rv_fingerprint :: fingerprint
  rv_deadline_at :: timestamp

record command_lifecycle =
  lc_command :: device_command
  lc_result :: "command_result option"

text \<open>
  The operations of the store trait, as a dictionary over a state \<open>'s\<close> of the backend; a client
  of the trait takes one as an argument.
\<close>

type_synonym 's store_write = "'s \<Rightarrow> 's \<times> (store_error + store_outcome)"

record 's store_ops =
  so_apply_manifest :: "user_id \<Rightarrow> device_id \<Rightarrow> device_manifest \<Rightarrow> 's store_write"
  so_load_manifest :: "'s \<Rightarrow> user_id \<Rightarrow> device_id \<Rightarrow> store_error + device_manifest option"
  so_store_device_state :: "user_id \<Rightarrow> device_id \<Rightarrow> device_state_snapshot \<Rightarrow> 's store_write"
  so_load_device_state :: "'s \<Rightarrow> user_id \<Rightarrow> device_id \<Rightarrow> store_error + device_state_snapshot option"
  so_store_entity_state :: "user_id \<Rightarrow> device_id \<Rightarrow> entity_state \<Rightarrow> 's store_write"
  so_load_entity_state :: "'s \<Rightarrow> user_id \<Rightarrow> device_id \<Rightarrow> string \<Rightarrow> store_error + entity_state option"
  so_reserve_command :: "user_id \<Rightarrow> device_id \<Rightarrow> command_reservation \<Rightarrow> 's store_write"
  so_load_command :: "'s \<Rightarrow> user_id \<Rightarrow> device_id \<Rightarrow> command_id \<Rightarrow> store_error + command_lifecycle option"
  so_complete_command :: "user_id \<Rightarrow> device_id \<Rightarrow> command_result \<Rightarrow> 's store_write"

section \<open>The tables\<close>

record device_row =
  dev_user_id :: user_id
  dev_revoked_at :: "instant option"

record 'p projection_row =
  pr_payload :: 'p
  pr_manifest_revision :: u64
  pr_removed_at :: "instant option"

type_synonym 'p projection_table = "(string \<times> 'p projection_row) list"

datatype row_status = StReserved | StSucceeded | StFailed

text \<open>A stored command: the derived part of the payload as it is, the body as its JSON.\<close>

record stored_command =
  stc_id :: command_id
  stc_target :: command_target
  stc_deadline_at :: "timestamp option"
  stc_body :: json

record command_row =
  row_user_id :: user_id
  row_target :: device_id
  row_fingerprint :: fingerprint
  row_command :: stored_command
  row_status :: row_status
  row_result :: "command_result option"
  row_created_at :: instant
  row_deadline_at :: instant
  row_completed_at :: "instant option"

record control_db =
  db_available :: bool
  db_now :: instant
  db_active_users :: "user_id \<Rightarrow> bool"
  db_devices :: "device_id \<Rightarrow> device_row option"
  db_manifests :: "device_id \<Rightarrow> device_manifest option"
  db_capabilities :: "device_id \<Rightarrow> json projection_table"
  db_entities :: "device_id \<Rightarrow> entity projection_table"
  db_surfaces :: "device_id \<Rightarrow> surface projection_table"
  db_states :: "device_id \<Rightarrow> device_state_snapshot option"
  db_entity_states :: "device_id \<times> string \<Rightarrow> entity_state option"
  db_commands :: "(command_id \<times> command_row) list"

definition empty_control_db :: control_db where
  "empty_control_db =
     \<lparr>db_available = True, db_now = 0, db_active_users = (\<lambda>_. False), db_devices = (\<lambda>_. None),
      db_manifests = (\<lambda>_. None), db_capabilities = (\<lambda>_. []), db_entities = (\<lambda>_. []),
      db_surfaces = (\<lambda>_. []), db_states = (\<lambda>_. None), db_entity_states = (\<lambda>_. None),
      db_commands = []\<rparr>"

text \<open>A 64-bit revision is bound as a signed \<open>bigint\<close>, which the tables require to be positive.\<close>

definition revision_column_ok :: "u64 \<Rightarrow> bool" where
  "revision_column_ok r \<longleftrightarrow> 0 < sint r"

section \<open>Shared queries\<close>

definition db_owned :: "control_db \<Rightarrow> user_id \<Rightarrow> device_id \<Rightarrow> bool" where
  "db_owned db u d =
     is_some_and (db_devices db d) (\<lambda>row.
       dev_user_id row = u \<and> dev_revoked_at row = None \<and> db_active_users db u)"

definition revision_outcome :: "u64 \<Rightarrow> 'a \<Rightarrow> u64 \<Rightarrow> 'a \<Rightarrow> store_outcome option" where
  "revision_outcome accepted_revision accepted incoming_revision incoming =
     (case revision_order accepted_revision accepted incoming_revision incoming None of
        Next \<Rightarrow> None
      | Stale \<Rightarrow> Some OutStale
      | Replay \<Rightarrow> Some OutReplay
      | Conflict \<Rightarrow> Some OutConflict
      | Gap \<Rightarrow> Some OutResync)"

text \<open>Both payloads are compared without their server-owned \<open>received_at\<close>.\<close>

definition device_state_outcome ::
  "device_state_snapshot \<Rightarrow> device_state_snapshot \<Rightarrow> store_outcome option" where
  "device_state_outcome accepted incoming =
     revision_outcome (snap_revision accepted) (accepted\<lparr>snap_received_at := None\<rparr>)
       (snap_revision incoming) (incoming\<lparr>snap_received_at := None\<rparr>)"

definition entity_state_outcome :: "entity_state \<Rightarrow> entity_state \<Rightarrow> store_outcome option" where
  "entity_state_outcome accepted incoming =
     revision_outcome (es_revision accepted) (accepted\<lparr>es_received_at := None\<rparr>)
       (es_revision incoming) (incoming\<lparr>es_received_at := None\<rparr>)"

definition full_state_outcome ::
  "device_state_snapshot \<Rightarrow> device_state_snapshot \<Rightarrow> store_outcome option" where
  "full_state_outcome accepted incoming =
     (case device_state_outcome accepted incoming of Some OutResync \<Rightarrow> None | other \<Rightarrow> other)"

text \<open>
  A transaction is run on an available backend, and its tables are kept only when it commits:
  \<open>transact\<close> takes the body's early answer (\<open>Inl\<close>) or the committed tables (\<open>Inr\<close>).
\<close>

definition transact ::
  "(control_db \<Rightarrow> (store_error + store_outcome) + control_db) \<Rightarrow> control_db store_write" where
  "transact tx db =
     (if \<not> db_available db then (db, Err Database)
      else case tx db of Inl early \<Rightarrow> (db, early) | Inr db' \<Rightarrow> (db', Ok OutAccepted))"

section \<open>Manifests\<close>

definition tombstone_all :: "instant \<Rightarrow> 'p projection_table \<Rightarrow> 'p projection_table" where
  "tombstone_all now t =
     map (\<lambda>(k, row). (k, if pr_removed_at row = None then row\<lparr>pr_removed_at := Some now\<rparr> else row)) t"

text \<open>One upsert of a projection: a tombstoned id with another payload is refused.\<close>

definition projection ::
  "string \<Rightarrow> 'p \<Rightarrow> u64 \<Rightarrow> 'p projection_table \<Rightarrow> (store_error + store_outcome) + 'p projection_table" where
  "projection k payload revision t =
     (if is_some_and (map_of t k) (\<lambda>old. pr_removed_at old \<noteq> None \<and> pr_payload old \<noteq> payload)
      then Inl (Ok OutConflict)
      else if \<not> revision_column_ok revision then Inl (Err Database)
      else Inr (AList.update k
             \<lparr>pr_payload = payload, pr_manifest_revision = revision, pr_removed_at = None\<rparr> t))"

fun project_all ::
  "u64 \<Rightarrow> (string \<times> 'p) list \<Rightarrow> 'p projection_table \<Rightarrow>
     (store_error + store_outcome) + 'p projection_table" where
  "project_all revision [] t = Inr t"
| "project_all revision ((k, payload) # rest) t =
     and_then (projection k payload revision t) (project_all revision rest)"

definition capability_rows :: "device_manifest \<Rightarrow> (string \<times> json) list" where
  "capability_rows m =
     map (\<lambda>c. (capability_name c, capability_to_json c)) (caps_items (man_capabilities m))"

definition entity_rows :: "device_manifest \<Rightarrow> (string \<times> entity) list" where
  "entity_rows m = map (\<lambda>e. (ent_id e, e)) (man_entities m)"

definition surface_rows :: "device_manifest \<Rightarrow> (string \<times> surface) list" where
  "surface_rows m = map (\<lambda>s. (sur_id s, s)) (man_surfaces m)"

definition replace_projections ::
  "device_id \<Rightarrow> device_manifest \<Rightarrow> control_db \<Rightarrow> (store_error + store_outcome) + control_db" where
  "replace_projections d m db =
     (let r = man_revision m; now = db_now db in
      and_then (project_all r (capability_rows m) (tombstone_all now (db_capabilities db d))) (\<lambda>cs.
      and_then (project_all r (entity_rows m) (tombstone_all now (db_entities db d))) (\<lambda>es.
      and_then (project_all r (surface_rows m) (tombstone_all now (db_surfaces db d))) (\<lambda>ss.
      if \<not> revision_column_ok r then Inl (Err Database)
      else Inr (db\<lparr>db_capabilities := (db_capabilities db)(d := cs),
                   db_entities := (db_entities db)(d := es),
                   db_surfaces := (db_surfaces db)(d := ss),
                   db_manifests := (db_manifests db)(d \<mapsto> m)\<rparr>)))))"

definition apply_manifest :: "user_id \<Rightarrow> device_id \<Rightarrow> device_manifest \<Rightarrow> control_db store_write" where
  "apply_manifest u d m db =
     (case manifest_validate m of
        Inl e \<Rightarrow> (db, Err (Validation e))
      | Inr _ \<Rightarrow>
          transact (\<lambda>db.
            if \<not> db_owned db u d then Inl (Ok OutNotOwned)
            else case Option.bind (db_manifests db d)
                        (\<lambda>current. revision_outcome (man_revision current) current (man_revision m) m) of
                Some x \<Rightarrow> Inl (Ok x)
              | None \<Rightarrow> replace_projections d m db) db)"

definition load_manifest ::
  "control_db \<Rightarrow> user_id \<Rightarrow> device_id \<Rightarrow> store_error + device_manifest option" where
  "load_manifest db u d =
     (if \<not> db_available db then Err Database
      else Ok (if db_owned db u d then db_manifests db d else None))"

text \<open>
  The current rows of a projection, in the order of the id column under the database's collation.
\<close>

definition current_rows :: "(string \<Rightarrow> nat) \<Rightarrow> 'p projection_table \<Rightarrow> 'p list" where
  "current_rows collation t =
     map (pr_payload \<circ> snd)
       (sort_key (collation \<circ> fst) (filter (\<lambda>(_, row). pr_removed_at row = None) t))"

definition list_owned ::
  "(string \<Rightarrow> nat) \<Rightarrow> (device_id \<Rightarrow> 'p projection_table) \<Rightarrow> control_db \<Rightarrow> user_id \<Rightarrow> device_id \<Rightarrow>
     store_error + 'p list" where
  "list_owned collation table db u d =
     (if \<not> db_available db then Err Database
      else Ok (if db_owned db u d then current_rows collation (table d) else []))"

definition list_entities where
  "list_entities collation db = list_owned collation (db_entities db) db"

definition list_surfaces where
  "list_surfaces collation db = list_owned collation (db_surfaces db) db"

definition list_capabilities ::
  "(string \<Rightarrow> nat) \<Rightarrow> control_db \<Rightarrow> user_id \<Rightarrow> device_id \<Rightarrow> store_error + device_capability list" where
  "list_capabilities collation db u d =
     and_then (list_owned collation (db_capabilities db) db u d)
       (\<lambda>js. map_err (\<lambda>_. Database) (from_vec_with capability_of_json js))"

section \<open>Latest states\<close>

definition store_device_state ::
  "(instant \<Rightarrow> string) \<Rightarrow> user_id \<Rightarrow> device_id \<Rightarrow> device_state_snapshot \<Rightarrow> control_db store_write" where
  "store_device_state to_char u d s = transact (\<lambda>db.
     if \<not> db_owned db u d then Inl (Ok OutNotOwned)
     else
       let s' = s\<lparr>snap_received_at := Some \<lparr>ts_text = to_char (db_now db), ts_instant = db_now db\<rparr>\<rparr>
       in case Option.bind (db_states db d) (\<lambda>current. full_state_outcome current s') of
            Some x \<Rightarrow> Inl (Ok x)
          | None \<Rightarrow>
              if \<not> revision_column_ok (snap_revision s') then Inl (Err Database)
              else Inr (db\<lparr>db_states := (db_states db)(d \<mapsto> s')\<rparr>))"

definition load_device_state ::
  "control_db \<Rightarrow> user_id \<Rightarrow> device_id \<Rightarrow> store_error + device_state_snapshot option" where
  "load_device_state db u d =
     (if \<not> db_available db then Err Database
      else Ok (if db_owned db u d then db_states db d else None))"

definition current_entity :: "control_db \<Rightarrow> device_id \<Rightarrow> string \<Rightarrow> entity option" where
  "current_entity db d x =
     map_option pr_payload (opt_filter (\<lambda>row. pr_removed_at row = None) (map_of (db_entities db d) x))"

definition store_entity_state ::
  "(instant \<Rightarrow> string) \<Rightarrow> user_id \<Rightarrow> device_id \<Rightarrow> entity_state \<Rightarrow> control_db store_write" where
  "store_entity_state to_char u d s = transact (\<lambda>db.
     if \<not> db_owned db u d then Inl (Ok OutNotOwned)
     else case current_entity db d (es_entity_id s) of
         None \<Rightarrow> Inl (Ok OutNotOwned)
       | Some e \<Rightarrow>
           (case entity_state_validate_for s e of
              Inl err \<Rightarrow> Inl (Err (Validation err))
            | Inr _ \<Rightarrow>
                let s' = s\<lparr>es_received_at := Some \<lparr>ts_text = to_char (db_now db), ts_instant = db_now db\<rparr>\<rparr>
                in case Option.bind (db_entity_states db (d, es_entity_id s))
                          (\<lambda>current. entity_state_outcome current s') of
                     Some x \<Rightarrow> Inl (Ok x)
                   | None \<Rightarrow>
                       if \<not> revision_column_ok (es_revision s') then Inl (Err Database)
                       else Inr (db\<lparr>db_entity_states :=
                              (db_entity_states db)((d, es_entity_id s) \<mapsto> s')\<rparr>)))"

definition load_entity_state ::
  "control_db \<Rightarrow> user_id \<Rightarrow> device_id \<Rightarrow> string \<Rightarrow> store_error + entity_state option" where
  "load_entity_state db u d x =
     (if \<not> db_available db then Err Database
      else Ok (if db_owned db u d \<and> is_some (current_entity db d x)
               then db_entity_states db (d, x) else None))"

section \<open>Commands\<close>

definition idempotency_window :: instant where
  "idempotency_window = seconds 86400"

definition encode_command :: "device_command \<Rightarrow> stored_command" where
  "encode_command c =
     \<lparr>stc_id = cmd_id c, stc_target = cmd_target c, stc_deadline_at = cmd_deadline_at c,
      stc_body = body_to_json (cmd_body c)\<rparr>"

definition decode_command :: "stored_command \<Rightarrow> store_error + device_command" where
  "decode_command s =
     and_then (map_err (\<lambda>_. Database) (body_of_json (stc_body s))) (\<lambda>body.
     Ok \<lparr>cmd_id = stc_id s, cmd_target = stc_target s, cmd_deadline_at = stc_deadline_at s,
         cmd_body = body\<rparr>)"

definition reserved_row :: "user_id \<Rightarrow> device_id \<Rightarrow> command_reservation \<Rightarrow> instant \<Rightarrow> command_row" where
  "reserved_row u d rq now =
     \<lparr>row_user_id = u, row_target = d, row_fingerprint = rv_fingerprint rq,
      row_command = encode_command (rv_command rq), row_status = StReserved, row_result = None,
      row_created_at = now, row_deadline_at = ts_instant (rv_deadline_at rq), row_completed_at = None\<rparr>"

text \<open>The answer for a command id that already has a row, if there is one.\<close>

definition existing_answer ::
  "user_id \<Rightarrow> device_id \<Rightarrow> fingerprint \<Rightarrow> instant \<Rightarrow> command_row \<Rightarrow> store_outcome option" where
  "existing_answer u d fp now row =
     (let fresh = now - idempotency_window \<le> row_created_at row
      in if fresh \<and> row_user_id row = u \<and> row_target row = d \<and> row_fingerprint row = fp
         then Some OutReplay
         else if \<not> fresh \<and> row_status row \<in> {StSucceeded, StFailed} then None
         else Some OutConflict)"

definition reserve_command ::
  "user_id \<Rightarrow> device_id \<Rightarrow> command_reservation \<Rightarrow> control_db store_write" where
  "reserve_command u d rq db =
     (case validate_at (rv_command rq) (rv_deadline_at rq) of
        Inl e \<Rightarrow> (db, Err (Validation e))
      | Inr _ \<Rightarrow>
          if tgt_device_id (cmd_target (rv_command rq)) \<noteq> d then (db, Ok OutNotOwned)
          else transact (\<lambda>db.
            if \<not> db_owned db u d then Inl (Ok OutNotOwned)
            else
              let cid = cmd_id (rv_command rq); now = db_now db in
              case Option.bind (map_of (db_commands db) cid)
                     (existing_answer u d (rv_fingerprint rq) now) of
                Some x \<Rightarrow> Inl (Ok x)
              | None \<Rightarrow>
                  if ts_instant (rv_deadline_at rq) < now then Inl (Err Database)
                  else Inr (db\<lparr>db_commands :=
                         AList.update cid (reserved_row u d rq now) (db_commands db)\<rparr>)) db)"

definition load_command ::
  "control_db \<Rightarrow> user_id \<Rightarrow> device_id \<Rightarrow> command_id \<Rightarrow> store_error + command_lifecycle option" where
  "load_command db u d cid =
     (if \<not> db_available db then Err Database
      else case opt_filter (\<lambda>row. row_user_id row = u \<and> row_target row = d \<and>
                  is_some_and (db_devices db d) (\<lambda>dev. dev_revoked_at dev = None \<and>
                    db_active_users db (dev_user_id dev)))
                (map_of (db_commands db) cid) of
          None \<Rightarrow> Ok None
        | Some row \<Rightarrow>
            and_then (decode_command (row_command row)) (\<lambda>c.
            Ok (Some \<lparr>lc_command = c, lc_result = row_result row\<rparr>)))"

definition complete_command ::
  "user_id \<Rightarrow> device_id \<Rightarrow> command_result \<Rightarrow> control_db store_write" where
  "complete_command u d res db =
     (case command_result_validate res of
        Inl e \<Rightarrow> (db, Err (Validation e))
      | Inr _ \<Rightarrow>
          transact (\<lambda>db.
            if \<not> db_owned db u d then Inl (Ok OutNotOwned)
            else case opt_filter (\<lambda>row. row_user_id row = u \<and> row_target row = d)
                        (map_of (db_commands db) (res_command_id res)) of
                None \<Rightarrow> Inl (Ok OutNotOwned)
              | Some row \<Rightarrow>
                  if row_status row \<noteq> StReserved
                  then Inl (Ok (if row_result row = Some res then OutReplay else OutConflict))
                  else Inr (db\<lparr>db_commands := AList.update (res_command_id res)
                         (row\<lparr>row_status := (case res_status res of
                                Succeeded \<Rightarrow> StSucceeded | Failed \<Rightarrow> StFailed),
                              row_result := Some res,
                              row_completed_at := Some (ts_instant (res_completed_at res))\<rparr>)
                         (db_commands db)\<rparr>)) db)"

text \<open>The terminal rows a prune may delete, oldest completion first.\<close>

definition prunable :: "instant \<Rightarrow> command_row \<Rightarrow> bool" where
  "prunable now row \<longleftrightarrow>
     row_status row \<in> {StSucceeded, StFailed} \<and>
     is_some_and (row_completed_at row) (\<lambda>t. t < now - idempotency_window)"

definition prune_order :: "command_id \<times> command_row \<Rightarrow> instant \<times> command_id" where
  "prune_order = (\<lambda>(cid, row). (case row_completed_at row of None \<Rightarrow> 0 | Some t \<Rightarrow> t, cid))"

definition expired_commands :: "u32 \<Rightarrow> control_db \<Rightarrow> command_id list" where
  "expired_commands limit db =
     map fst (take (unat limit)
       (sort_key (fst \<circ> prune_order) (sort_key (snd \<circ> prune_order)
         (filter (\<lambda>(_, row). prunable (db_now db) row) (db_commands db)))))"

definition prune_commands :: "u32 \<Rightarrow> control_db \<Rightarrow> control_db \<times> (store_error + u64)" where
  "prune_commands limit db =
     (if \<not> db_available db then (db, Err Database)
      else let expired = expired_commands limit db
           in (db\<lparr>db_commands := filter (\<lambda>(cid, _). cid \<notin> set expired) (db_commands db)\<rparr>,
               Ok (of_nat (length expired))))"

definition postgres_ops :: "(instant \<Rightarrow> string) \<Rightarrow> control_db store_ops" where
  "postgres_ops to_char =
     \<lparr>so_apply_manifest = apply_manifest,
      so_load_manifest = load_manifest,
      so_store_device_state = store_device_state to_char,
      so_load_device_state = load_device_state,
      so_store_entity_state = store_entity_state to_char,
      so_load_entity_state = load_entity_state,
      so_reserve_command = reserve_command,
      so_load_command = load_command,
      so_complete_command = complete_command\<rparr>"

lemma postgres_ops_simps [simp]:
  "so_apply_manifest (postgres_ops tc) = apply_manifest"
  "so_load_manifest (postgres_ops tc) = load_manifest"
  "so_store_device_state (postgres_ops tc) = store_device_state tc"
  "so_load_device_state (postgres_ops tc) = load_device_state"
  "so_store_entity_state (postgres_ops tc) = store_entity_state tc"
  "so_load_entity_state (postgres_ops tc) = load_entity_state"
  "so_reserve_command (postgres_ops tc) = reserve_command"
  "so_load_command (postgres_ops tc) = load_command"
  "so_complete_command (postgres_ops tc) = complete_command"
  by (simp_all add: postgres_ops_def)

section \<open>Transactions\<close>

lemma transact_cases:
  "transact tx db = (db', r) \<Longrightarrow>
     (db' = db \<and> \<not> db_available db \<and> r = Err Database) \<or>
     (db' = db \<and> db_available db \<and> tx db = Inl r) \<or>
     (db_available db \<and> tx db = Inr db' \<and> r = Ok OutAccepted)"
  by (auto simp: transact_def split: if_splits sum.splits)

lemma transact_accepted:
  assumes "transact tx db = (db', Ok OutAccepted)" "tx db \<noteq> Inl (Ok OutAccepted)"
  shows "db_available db \<and> tx db = Inr db'"
  using transact_cases [OF assms(1)] assms(2) by auto

lemma transact_refused:
  assumes "transact tx db = (db', r)" "r \<noteq> Ok OutAccepted"
  shows "db' = db"
  using transact_cases [OF assms(1)] assms(2) by auto

lemma revision_outcome_not_accepted [simp]: "revision_outcome a x i y \<noteq> Some OutAccepted"
  by (simp add: revision_outcome_def split: revision_order.split)

lemma revision_outcome_None:
  "revision_outcome a x i y = None \<longleftrightarrow> unat i = unat a + 1"
  by (simp add: revision_outcome_def revision_order_cases)

lemma full_state_outcome_None:
  "full_state_outcome c s = None \<longleftrightarrow> unat (snap_revision c) < unat (snap_revision s)"
  by (auto simp: full_state_outcome_def device_state_outcome_def revision_outcome_def revision_order_cases)

lemma full_state_outcome_not_accepted [simp]: "full_state_outcome c s \<noteq> Some OutAccepted"
  by (auto simp: full_state_outcome_def device_state_outcome_def revision_outcome_def
      split: revision_order.splits store_outcome.splits option.splits)

lemma existing_answer_not_accepted [simp]: "existing_answer u d fp now row \<noteq> Some OutAccepted"
  by (simp add: existing_answer_def Let_def)

text \<open>Only an accepted write changes the tables.\<close>

lemma apply_manifest_refused:
  "apply_manifest u d m db = (db', r) \<Longrightarrow> r \<noteq> Ok OutAccepted \<Longrightarrow> db' = db"
  by (auto simp: apply_manifest_def split: sum.splits dest: transact_refused)

lemma store_device_state_refused:
  "store_device_state tc u d s db = (db', r) \<Longrightarrow> r \<noteq> Ok OutAccepted \<Longrightarrow> db' = db"
  unfolding store_device_state_def by (rule transact_refused)

lemma store_entity_state_refused:
  "store_entity_state tc u d s db = (db', r) \<Longrightarrow> r \<noteq> Ok OutAccepted \<Longrightarrow> db' = db"
  unfolding store_entity_state_def by (rule transact_refused)

lemma reserve_command_refused:
  "reserve_command u d rq db = (db', r) \<Longrightarrow> r \<noteq> Ok OutAccepted \<Longrightarrow> db' = db"
  by (auto simp: reserve_command_def split: sum.splits if_splits dest: transact_refused)

lemma complete_command_refused:
  "complete_command u d res db = (db', r) \<Longrightarrow> r \<noteq> Ok OutAccepted \<Longrightarrow> db' = db"
  by (auto simp: complete_command_def split: sum.splits dest: transact_refused)

section \<open>The command lifecycle\<close>

lemma reserve_command_accepted:
  assumes "reserve_command u d rq db = (db', Ok OutAccepted)"
  shows "db_owned db u d" "tgt_device_id (cmd_target (rv_command rq)) = d"
    "validate_at (rv_command rq) (rv_deadline_at rq) = Ok ()"
    "Option.bind (map_of (db_commands db) (cmd_id (rv_command rq)))
       (existing_answer u d (rv_fingerprint rq) (db_now db)) = None"
    "db_now db \<le> ts_instant (rv_deadline_at rq)"
    "db' = db\<lparr>db_commands :=
       AList.update (cmd_id (rv_command rq)) (reserved_row u d rq (db_now db)) (db_commands db)\<rparr>"
  using assms
  by (auto simp: reserve_command_def transact_def Let_def bind_eq_Some_conv
      split: sum.splits if_splits option.splits)

lemma complete_command_accepted:
  assumes "complete_command u d res db = (db', Ok OutAccepted)"
  obtains row where "command_result_validate res = Ok ()" "db_owned db u d"
    "map_of (db_commands db) (res_command_id res) = Some row"
    "row_user_id row = u" "row_target row = d" "row_status row = StReserved"
    "db' = db\<lparr>db_commands := AList.update (res_command_id res)
       (row\<lparr>row_status := (case res_status res of Succeeded \<Rightarrow> StSucceeded | Failed \<Rightarrow> StFailed),
            row_result := Some res,
            row_completed_at := Some (ts_instant (res_completed_at res))\<rparr>) (db_commands db)\<rparr>"
proof -
  let ?row = "opt_filter (\<lambda>row. row_user_id row = u \<and> row_target row = d)
    (map_of (db_commands db) (res_command_id res))"
  have v: "command_result_validate res = Ok ()"
    using assms by (cases "command_result_validate res") (simp_all add: complete_command_def)
  have o: "db_available db" "db_owned db u d"
    using assms v by (simp_all add: complete_command_def transact_def split: if_splits)
  obtain row where row: "?row = Some row"
    using assms v o by (cases ?row) (simp_all add: complete_command_def transact_def)
  have st: "row_status row = StReserved"
    using assms v o row by (simp add: complete_command_def transact_def split: if_splits)
  have "db' = db\<lparr>db_commands := AList.update (res_command_id res)
       (row\<lparr>row_status := (case res_status res of Succeeded \<Rightarrow> StSucceeded | Failed \<Rightarrow> StFailed),
            row_result := Some res,
            row_completed_at := Some (ts_instant (res_completed_at res))\<rparr>) (db_commands db)\<rparr>"
    using assms v o row st by (simp add: complete_command_def transact_def)
  with v o row st show thesis by (intro that) (simp_all add: opt_filter_Some)
qed

text \<open>
  A locale for what a client of the store relies on: a command id is absent, open or done; an
  accepted reservation opens an id that was not open, an accepted completion closes one that was,
  and nothing else opens one.
\<close>

datatype lifecycle_phase = Absent | Opened | Done command_result

locale command_lifecycle_store =
  fixes inv :: "'s \<Rightarrow> bool"
    and phase :: "'s \<Rightarrow> command_id \<Rightarrow> lifecycle_phase"
    and reserve :: "user_id \<Rightarrow> device_id \<Rightarrow> command_reservation \<Rightarrow> 's store_write"
    and complete :: "user_id \<Rightarrow> device_id \<Rightarrow> command_result \<Rightarrow> 's store_write"
    and prune :: "u32 \<Rightarrow> 's \<Rightarrow> 's"
  assumes reserve_opens:
      "reserve u d rq s = (s', Ok OutAccepted) \<Longrightarrow>
         phase s (cmd_id (rv_command rq)) \<noteq> Opened \<and>
         phase s' = (phase s)(cmd_id (rv_command rq) := Opened)"
    and reserve_keeps: "reserve u d rq s = (s', r) \<Longrightarrow> r \<noteq> Ok OutAccepted \<Longrightarrow> s' = s"
    and complete_closes:
      "complete u d res s = (s', Ok OutAccepted) \<Longrightarrow>
         phase s (res_command_id res) = Opened \<and>
         phase s' = (phase s)(res_command_id res := Done res)"
    and complete_keeps: "complete u d res s = (s', r) \<Longrightarrow> r \<noteq> Ok OutAccepted \<Longrightarrow> s' = s"
    and prune_opens_none: "inv s \<Longrightarrow> phase (prune n s) c = Opened \<longleftrightarrow> phase s c = Opened"
    and reserve_inv: "inv s \<Longrightarrow> inv (fst (reserve u d rq s))"
    and complete_inv: "inv s \<Longrightarrow> inv (fst (complete u d res s))"
    and prune_inv: "inv s \<Longrightarrow> inv (prune n s)"
begin

text \<open>The accepted reservations and completions of a sequence of calls, per command id.\<close>

definition balance where
  "balance s c = (if phase s c = Opened then 1 else 0 :: nat)"

lemma balance_reserve:
  "reserve u d rq s = (s', r) \<Longrightarrow>
     balance s' c = balance s c + (if r = Ok OutAccepted \<and> cmd_id (rv_command rq) = c then 1 else 0)"
  by (cases "r = Ok OutAccepted")
    (auto simp: balance_def dest: reserve_opens reserve_keeps)

lemma balance_complete:
  "complete u d res s = (s', r) \<Longrightarrow>
     balance s c = balance s' c + (if r = Ok OutAccepted \<and> res_command_id res = c then 1 else 0)"
  by (cases "r = Ok OutAccepted")
    (auto simp: balance_def dest: complete_closes complete_keeps)

lemma balance_prune: "inv s \<Longrightarrow> balance (prune n s) c = balance s c"
  by (simp add: balance_def prune_opens_none)

end

text \<open>The calls a client makes, and how many of them were accepted for one id.\<close>

datatype store_call =
    CallReserve user_id device_id command_reservation
  | CallComplete user_id device_id command_result
  | CallPrune u32

fun accepted_calls ::
  "(user_id \<Rightarrow> device_id \<Rightarrow> command_reservation \<Rightarrow> 's store_write) \<Rightarrow>
   (user_id \<Rightarrow> device_id \<Rightarrow> command_result \<Rightarrow> 's store_write) \<Rightarrow> (u32 \<Rightarrow> 's \<Rightarrow> 's) \<Rightarrow>
   command_id \<Rightarrow> store_call list \<Rightarrow> 's \<Rightarrow> 's \<times> nat \<times> nat" where
  "accepted_calls rsv cpl prn c [] s = (s, 0, 0)"
| "accepted_calls rsv cpl prn c (CallReserve u d rq # calls) s =
     (let (s1, r) = rsv u d rq s; (s2, opened, ended) = accepted_calls rsv cpl prn c calls s1
      in (s2, opened + (if r = Ok OutAccepted \<and> cmd_id (rv_command rq) = c then 1 else 0), ended))"
| "accepted_calls rsv cpl prn c (CallComplete u d res # calls) s =
     (let (s1, r) = cpl u d res s; (s2, opened, ended) = accepted_calls rsv cpl prn c calls s1
      in (s2, opened, ended + (if r = Ok OutAccepted \<and> res_command_id res = c then 1 else 0)))"
| "accepted_calls rsv cpl prn c (CallPrune n # calls) s = accepted_calls rsv cpl prn c calls (prn n s)"

context command_lifecycle_store
begin

lemma calls_balance:
  "inv s \<Longrightarrow> accepted_calls reserve complete prune c calls s = (s', opened, ended) \<Longrightarrow>
     balance s c + opened = balance s' c + ended"
proof (induction calls arbitrary: s opened ended)
  case (Cons call calls)
  show ?case
  proof (cases call)
    case (CallReserve u d rq)
    then show ?thesis
      using Cons.prems Cons.IH balance_reserve [of u d rq s _ _ c] reserve_inv [of s u d rq]
      by (fastforce simp: Let_def split: prod.splits)
  next
    case (CallComplete u d res)
    then show ?thesis
      using Cons.prems Cons.IH balance_complete [of u d res s _ _ c] complete_inv [of s u d res]
      by (fastforce simp: Let_def split: prod.splits)
  next
    case (CallPrune n)
    then show ?thesis
      using Cons.prems Cons.IH [of "prune n s"] balance_prune prune_inv by simp
  qed
qed simp

lemma completions_bounded:
  assumes "accepted_calls reserve complete prune c calls s = (s', opened, ended)"
    and "inv s" "phase s c \<noteq> Opened"
  shows "ended \<le> opened \<and> opened \<le> ended + 1"
  using calls_balance [OF assms(2,1)] assms(3) by (simp add: balance_def split: if_splits)

end

definition db_phase :: "control_db \<Rightarrow> command_id \<Rightarrow> lifecycle_phase" where
  "db_phase db c =
     (case map_of (db_commands db) c of
        None \<Rightarrow> Absent
      | Some row \<Rightarrow>
          if row_status row = StReserved then Opened
          else case row_result row of None \<Rightarrow> Absent | Some res \<Rightarrow> Done res)"

definition prune_db :: "u32 \<Rightarrow> control_db \<Rightarrow> control_db" where
  "prune_db n db = fst (prune_commands n db)"

lemma map_of_filter_keys:
  "map_of (filter (\<lambda>(k, _). k \<notin> X) m) k = (if k \<in> X then None else map_of m k)"
  by (induction m) auto

lemma expired_prunable:
  "c \<in> set (expired_commands n db) \<Longrightarrow>
     \<exists>row. (c, row) \<in> set (db_commands db) \<and> prunable (db_now db) row"
  by (auto simp: expired_commands_def dest!: in_set_takeD)

text \<open>The constraints the command table keeps.\<close>

definition command_row_ok :: "command_id \<Rightarrow> command_row \<Rightarrow> bool" where
  "command_row_ok c row \<longleftrightarrow>
     (row_status row = StReserved \<longleftrightarrow> row_result row = None) \<and>
     (row_result row = None \<longleftrightarrow> row_completed_at row = None) \<and>
     stc_id (row_command row) = c \<and>
     tgt_device_id (stc_target (row_command row)) = row_target row \<and>
     row_created_at row \<le> row_deadline_at row \<and>
     is_none_or (row_result row) (\<lambda>res. res_command_id res = c \<and> command_result_validate res = Ok () \<and>
       (row_status row = StSucceeded \<longleftrightarrow> res_status res = Succeeded))"

definition wf_commands :: "control_db \<Rightarrow> bool" where
  "wf_commands db \<longleftrightarrow>
     distinct (map fst (db_commands db)) \<and>
     (\<forall>c row. map_of (db_commands db) c = Some row \<longrightarrow> command_row_ok c row)"

lemma wf_commands_update:
  "wf_commands db \<Longrightarrow> command_row_ok c row \<Longrightarrow>
     wf_commands (db\<lparr>db_commands := AList.update c row (db_commands db)\<rparr>)"
  by (auto simp: wf_commands_def distinct_update split: if_splits)

lemma reserved_row_ok:
  "tgt_device_id (cmd_target (rv_command rq)) = d \<Longrightarrow> now \<le> ts_instant (rv_deadline_at rq) \<Longrightarrow>
     command_row_ok (cmd_id (rv_command rq)) (reserved_row u d rq now)"
  by (simp add: command_row_ok_def reserved_row_def encode_command_def)

lemma reserve_command_wf:
  assumes "wf_commands db"
  shows "wf_commands (fst (reserve_command u d rq db))"
proof (cases "reserve_command u d rq db")
  case (Pair db' r)
  show ?thesis
  proof (cases "r = Ok OutAccepted")
    case True
    with Pair have acc: "reserve_command u d rq db = (db', Ok OutAccepted)" by simp
    show ?thesis
      unfolding Pair fst_conv reserve_command_accepted(6) [OF acc]
      using assms reserve_command_accepted(2,5) [OF acc]
      by (intro wf_commands_update reserved_row_ok)
  next
    case False
    with Pair assms show ?thesis using reserve_command_refused [OF Pair False] by simp
  qed
qed

lemma complete_command_wf:
  assumes "wf_commands db"
  shows "wf_commands (fst (complete_command u d res db))"
proof (cases "complete_command u d res db")
  case (Pair db' r)
  show ?thesis
  proof (cases "r = Ok OutAccepted")
    case True
    with Pair have acc: "complete_command u d res db = (db', Ok OutAccepted)" by simp
    obtain row where row: "command_result_validate res = Ok ()"
      "map_of (db_commands db) (res_command_id res) = Some row"
      "db' = db\<lparr>db_commands := AList.update (res_command_id res)
       (row\<lparr>row_status := (case res_status res of Succeeded \<Rightarrow> StSucceeded | Failed \<Rightarrow> StFailed),
            row_result := Some res,
            row_completed_at := Some (ts_instant (res_completed_at res))\<rparr>) (db_commands db)\<rparr>"
      using complete_command_accepted [OF acc] by metis
    have "command_row_ok (res_command_id res) row"
      using assms row(2) by (simp add: wf_commands_def)
    with assms row show ?thesis
      unfolding Pair fst_conv row(3)
      by (intro wf_commands_update) (auto simp: command_row_ok_def split: command_status.split)
  next
    case False
    with Pair assms show ?thesis using complete_command_refused [OF Pair False] by simp
  qed
qed

lemma prune_db_commands:
  "db_commands (prune_db n db) =
     (if db_available db
      then filter (\<lambda>(cid, _). cid \<notin> set (expired_commands n db)) (db_commands db) else db_commands db)"
  by (simp add: prune_db_def prune_commands_def Let_def)

lemma prune_db_wf: "wf_commands db \<Longrightarrow> wf_commands (prune_db n db)"
  by (auto simp: wf_commands_def prune_db_commands map_of_filter_keys distinct_map_filter split: if_splits)

lemma expired_not_open:
  assumes "wf_commands db" "c \<in> set (expired_commands n db)"
  shows "\<exists>row. map_of (db_commands db) c = Some row \<and> prunable (db_now db) row"
  using assms expired_prunable [OF assms(2)] by (auto simp: wf_commands_def)

lemma reserve_command_phase:
  assumes "reserve_command u d rq db = (db', Ok OutAccepted)"
  shows "db_phase db (cmd_id (rv_command rq)) \<noteq> Opened"
    "db_phase db' = (db_phase db)(cmd_id (rv_command rq) := Opened)"
proof -
  show "db_phase db (cmd_id (rv_command rq)) \<noteq> Opened"
    using reserve_command_accepted(4) [OF assms]
    by (auto simp: db_phase_def existing_answer_def Let_def bind_eq_None_conv
        split: option.splits if_splits)
  show "db_phase db' = (db_phase db)(cmd_id (rv_command rq) := Opened)"
    unfolding reserve_command_accepted(6) [OF assms]
    by (auto simp: db_phase_def reserved_row_def fun_eq_iff)
qed

lemma complete_command_phase:
  assumes "complete_command u d res db = (db', Ok OutAccepted)"
  shows "db_phase db (res_command_id res) = Opened"
    "db_phase db' = (db_phase db)(res_command_id res := Done res)"
proof -
  obtain row where row: "map_of (db_commands db) (res_command_id res) = Some row"
    "row_status row = StReserved"
    "db' = db\<lparr>db_commands := AList.update (res_command_id res)
       (row\<lparr>row_status := (case res_status res of Succeeded \<Rightarrow> StSucceeded | Failed \<Rightarrow> StFailed),
            row_result := Some res,
            row_completed_at := Some (ts_instant (res_completed_at res))\<rparr>) (db_commands db)\<rparr>"
    using complete_command_accepted [OF assms] by metis
  show "db_phase db (res_command_id res) = Opened" by (simp add: db_phase_def row)
  show "db_phase db' = (db_phase db)(res_command_id res := Done res)"
    unfolding row(3) by (auto simp: db_phase_def fun_eq_iff split: command_status.split)
qed

lemma prune_db_phase:
  assumes "wf_commands db"
  shows "db_phase (prune_db n db) c = (if db_available db \<and> c \<in> set (expired_commands n db)
     then Absent else db_phase db c)"
  by (simp add: db_phase_def prune_db_commands map_of_filter_keys)

lemma prunable_phase: "map_of (db_commands db) c = Some row \<Longrightarrow> prunable now row \<Longrightarrow> db_phase db c \<noteq> Opened"
  by (auto simp: db_phase_def prunable_def split: option.splits)

interpretation pg: command_lifecycle_store wf_commands db_phase reserve_command complete_command prune_db
proof (unfold_locales, goal_cases)
  case (5 s n c)
  then show ?case
    using expired_not_open [OF 5, of c n] prunable_phase [of s c]
    by (auto simp: prune_db_phase)
qed (auto simp: reserve_command_phase complete_command_phase reserve_command_wf complete_command_wf prune_db_wf
    dest: reserve_command_refused complete_command_refused)

section \<open>Manifest projections\<close>

lemma map_of_tombstone_all:
  "map_of (tombstone_all now t) k =
     map_option (\<lambda>row. if pr_removed_at row = None then row\<lparr>pr_removed_at := Some now\<rparr> else row) (map_of t k)"
  by (induction t) (auto simp: tombstone_all_def)

lemma tombstone_all_removed:
  "map_of (tombstone_all now t) k = Some row \<Longrightarrow> pr_removed_at row \<noteq> None"
  by (cases "map_of t k") (auto simp: map_of_tombstone_all)

lemma tombstone_all_payload:
  "map_option pr_payload (map_of (tombstone_all now t) k) = map_option pr_payload (map_of t k)"
  by (cases "map_of t k") (simp_all add: map_of_tombstone_all)

lemma tombstone_all_keys [simp]: "map fst (tombstone_all now t) = map fst t"
  by (induction t) (auto simp: tombstone_all_def)

lemma projection_Inr:
  "projection k payload r t = Inr t' \<longleftrightarrow>
     (\<forall>old. map_of t k = Some old \<longrightarrow> pr_removed_at old = None \<or> pr_payload old = payload) \<and>
     revision_column_ok r \<and>
     t' = AList.update k \<lparr>pr_payload = payload, pr_manifest_revision = r, pr_removed_at = None\<rparr> t"
  by (cases "map_of t k") (auto simp: projection_def)

lemma project_all_distinct: "project_all r rows t = Inr t' \<Longrightarrow> distinct (map fst t) \<Longrightarrow> distinct (map fst t')"
  by (induction rows arbitrary: t) (auto simp: and_then_Ok projection_Inr distinct_update)

lemma project_all_table:
  "project_all r rows t = Inr t' \<Longrightarrow> distinct (map fst rows) \<Longrightarrow>
     map_of t' k = (case map_of rows k of
         Some payload \<Rightarrow> Some \<lparr>pr_payload = payload, pr_manifest_revision = r, pr_removed_at = None\<rparr>
       | None \<Rightarrow> map_of t k)"
proof (induction rows arbitrary: t)
  case (Cons row rows)
  obtain k0 p0 where row: "row = (k0, p0)" by (cases row)
  from Cons.prems obtain t1 where
    t1: "projection k0 p0 r t = Inr t1" "project_all r rows t1 = Inr t'" by (auto simp: row and_then_Ok)
  have "k0 \<notin> dom (map_of rows)" using Cons.prems(2) by (simp add: row dom_map_of_conv_image_fst)
  then have no: "map_of rows k0 = None" by (simp add: domIff)
  show ?case
    using Cons.IH [OF t1(2)] Cons.prems(2) t1(1) no by (auto simp: row projection_Inr split: option.split)
qed simp

text \<open>An id that already has a tombstone is only revived with the same payload.\<close>

lemma project_all_same_payload:
  assumes "project_all r rows t = Inr t'" "distinct (map fst rows)"
    and "map_of rows k = Some payload" "map_of t k = Some old" "pr_removed_at old \<noteq> None"
  shows "pr_payload old = payload"
  using assms
proof (induction rows arbitrary: t)
  case (Cons row rows)
  obtain k0 p0 where row: "row = (k0, p0)" by (cases row)
  from Cons.prems(1) obtain t1 where
    t1: "projection k0 p0 r t = Inr t1" "project_all r rows t1 = Inr t'" by (auto simp: row and_then_Ok)
  show ?case
  proof (cases "k = k0")
    case True
    with Cons.prems t1(1) show ?thesis by (auto simp: row projection_Inr)
  next
    case False
    have "map_of t1 k = Some old"
      using False t1(1) Cons.prems(4) by (auto simp: projection_Inr)
    with Cons False row t1(2) show ?thesis by simp
  qed
qed simp

text \<open>So a payload, once stored for an id, is the payload of that id for good.\<close>

lemma project_all_frozen:
  assumes "project_all r rows (tombstone_all now t) = Inr t'" "distinct (map fst rows)"
    and "map_of t k = Some old"
  shows "map_option pr_payload (map_of t' k) = Some (pr_payload old)"
proof -
  obtain old' where old': "map_of (tombstone_all now t) k = Some old'" "pr_payload old' = pr_payload old"
    using tombstone_all_payload [of now t k] assms(3) by auto
  show ?thesis
    using project_all_table [OF assms(1,2), of k] old'
      project_all_same_payload [OF assms(1,2) _ old'(1) tombstone_all_removed [OF old'(1)]]
    by (cases "map_of rows k") auto
qed

lemma in_current_rows:
  "x \<in> set (current_rows collation t) \<longleftrightarrow>
     (\<exists>k row. (k, row) \<in> set t \<and> pr_removed_at row = None \<and> x = pr_payload row)"
  by (auto simp: current_rows_def image_iff)

lemma project_all_current:
  assumes "project_all r rows (tombstone_all now t) = Inr t'" "distinct (map fst rows)"
    and "distinct (map fst t)"
  shows "set (current_rows collation t') = snd ` set rows"
proof -
  have d: "distinct (map fst t')" using project_all_distinct [OF assms(1)] assms(3) by simp
  have "(\<exists>k row. (k, row) \<in> set t' \<and> pr_removed_at row = None \<and> x = pr_payload row) \<longleftrightarrow>
        (\<exists>k. (k, x) \<in> set rows)" for x
  proof
    assume "\<exists>k row. (k, row) \<in> set t' \<and> pr_removed_at row = None \<and> x = pr_payload row"
    then obtain k row where k: "map_of t' k = Some row" "pr_removed_at row = None" "x = pr_payload row"
      using d by auto
    then show "\<exists>k. (k, x) \<in> set rows"
      using project_all_table [OF assms(1,2), of k] tombstone_all_removed [of now t k row]
      by (cases "map_of rows k") (auto dest!: map_of_SomeD [of rows])
  next
    assume "\<exists>k. (k, x) \<in> set rows"
    then obtain k where "map_of rows k = Some x" using assms(2) by auto
    then have "map_of t' k = Some \<lparr>pr_payload = x, pr_manifest_revision = r, pr_removed_at = None\<rparr>"
      using project_all_table [OF assms(1,2), of k] by simp
    from map_of_SomeD [OF this]
    show "\<exists>k row. (k, row) \<in> set t' \<and> pr_removed_at row = None \<and> x = pr_payload row"
      by (intro exI [of _ k] exI [of _ "\<lparr>pr_payload = x, pr_manifest_revision = r, pr_removed_at = None\<rparr>"])
        simp
  qed
  then show ?thesis by (intro set_eqI) (simp add: in_current_rows image_iff Bex_def)
qed

lemma wf_manifest_rows:
  assumes "manifest_validate m = Ok ()"
  shows "distinct (map fst (capability_rows m))" "distinct (map fst (entity_rows m))"
    "distinct (map fst (surface_rows m))"
proof -
  have "distinct (map capability_name (caps_items (man_capabilities m)))"
    "distinct (map ent_id (man_entities m))" "distinct (map sur_id (man_surfaces m))"
    using assms by (auto simp: manifest_validate_def capabilities_validate_def and_then_Ok split: if_splits)
  then show "distinct (map fst (capability_rows m))" "distinct (map fst (entity_rows m))"
    "distinct (map fst (surface_rows m))"
    by (simp_all add: capability_rows_def entity_rows_def surface_rows_def comp_def)
qed

lemma replace_projections_Inr:
  assumes "replace_projections d m db = Inr db'"
  obtains cs es ss where
    "project_all (man_revision m) (capability_rows m) (tombstone_all (db_now db) (db_capabilities db d)) = Inr cs"
    "project_all (man_revision m) (entity_rows m) (tombstone_all (db_now db) (db_entities db d)) = Inr es"
    "project_all (man_revision m) (surface_rows m) (tombstone_all (db_now db) (db_surfaces db d)) = Inr ss"
    "revision_column_ok (man_revision m)"
    "db' = db\<lparr>db_capabilities := (db_capabilities db)(d := cs), db_entities := (db_entities db)(d := es),
       db_surfaces := (db_surfaces db)(d := ss), db_manifests := (db_manifests db)(d \<mapsto> m)\<rparr>"
  using assms that by (auto simp: replace_projections_def Let_def and_then_Ok split: if_splits)

lemma project_all_not_accepted [simp]: "project_all r rows t \<noteq> Inl (Ok OutAccepted)"
proof (induction rows arbitrary: t)
  case (Cons row rows)
  then show ?case
    by (cases row) (auto simp: and_then_def projection_def split: sum.splits if_splits)
qed simp

lemma replace_projections_not_accepted [simp]: "replace_projections d m db \<noteq> Inl (Ok OutAccepted)"
  by (auto simp: replace_projections_def Let_def and_then_def split: sum.splits if_splits)

lemma apply_manifest_accepted:
  assumes "apply_manifest u d m db = (db', Ok OutAccepted)"
  shows "manifest_validate m = Ok ()" "db_available db" "db_owned db u d"
    "\<And>c. db_manifests db d = Some c \<Longrightarrow> unat (man_revision m) = unat (man_revision c) + 1"
    "replace_projections d m db = Inr db'"
proof -
  let ?tx = "\<lambda>db. if \<not> db_owned db u d then Inl (Ok OutNotOwned)
            else case Option.bind (db_manifests db d)
                        (\<lambda>current. revision_outcome (man_revision current) current (man_revision m) m) of
                Some x \<Rightarrow> Inl (Ok x)
              | None \<Rightarrow> replace_projections d m db"
  show v: "manifest_validate m = Ok ()"
    using assms by (cases "manifest_validate m") (simp_all add: apply_manifest_def)
  then have t: "transact ?tx db = (db', Ok OutAccepted)"
    using assms by (simp add: apply_manifest_def)
  have "?tx db \<noteq> Inl (Ok OutAccepted)"
    by (auto simp: bind_eq_Some_conv split: option.split)
  with t have tx: "db_available db" "?tx db = Inr db'" using transact_accepted by blast+
  then show "db_available db" "db_owned db u d" by (simp_all split: if_splits)
  show "replace_projections d m db = Inr db'" using tx(2) by (simp split: if_splits option.splits)
  show "unat (man_revision m) = unat (man_revision c) + 1" if "db_manifests db d = Some c" for c
    using tx(2) that by (simp add: revision_outcome_None split: if_splits option.splits)
qed

lemma distinct_projections_kept:
  assumes "apply_manifest u d m db = (db', Ok OutAccepted)"
    and "distinct (map fst (db_entities db d'))"
  shows "distinct (map fst (db_entities db' d'))"
proof -
  from apply_manifest_accepted(5) [OF assms(1)] show ?thesis
    by (rule replace_projections_Inr) (use assms(2) in \<open>auto dest: project_all_distinct\<close>)
qed

section \<open>Retention and idempotency\<close>

lemma length_expired: "length (expired_commands n db) \<le> unat n"
  by (simp add: expired_commands_def)

lemma prune_keeps:
  assumes "wf_commands db" "map_of (db_commands db) c = Some row"
    and "map_of (db_commands (fst (prune_commands n db))) c = None"
  shows "prunable (db_now db) row"
proof -
  have "c \<in> set (expired_commands n db)"
    using assms(2,3) by (auto simp: prune_commands_def Let_def map_of_filter_keys split: if_splits)
  with expired_not_open [OF assms(1)] assms(2) show ?thesis by fastforce
qed

lemma reserve_command_existing:
  assumes "validate_at (rv_command rq) (rv_deadline_at rq) = Ok ()"
    and "tgt_device_id (cmd_target (rv_command rq)) = d" "db_available db" "db_owned db u d"
    and "map_of (db_commands db) (cmd_id (rv_command rq)) = Some row"
    and "existing_answer u d (rv_fingerprint rq) (db_now db) row = Some x"
  shows "reserve_command u d rq db = (db, Ok x)"
  using assms by (simp add: reserve_command_def transact_def Let_def)

section \<open>Owner scoping\<close>

lemma not_owned_writes:
  assumes "\<not> db_owned db u d"
  shows "fst (apply_manifest u d m db) = db" "fst (store_device_state tc u d s db) = db"
    "fst (store_entity_state tc u d e db) = db" "fst (reserve_command u d rq db) = db"
    "fst (complete_command u d res db) = db"
  using assms
  by (simp_all add: apply_manifest_def store_device_state_def store_entity_state_def reserve_command_def
      complete_command_def transact_def split: sum.split)

lemma not_owned_reads:
  assumes "\<not> db_owned db u d"
  shows "load_manifest db u d \<in> {Ok None, Err Database}" "load_device_state db u d \<in> {Ok None, Err Database}"
    "load_entity_state db u d x \<in> {Ok None, Err Database}"
    "list_entities collation db u d \<in> {Ok [], Err Database}"
    "list_surfaces collation db u d \<in> {Ok [], Err Database}"
    "list_capabilities collation db u d \<in> {Ok [], Err Database}"
  using assms
  by (simp_all add: load_manifest_def load_device_state_def load_entity_state_def list_entities_def
      list_surfaces_def list_capabilities_def list_owned_def and_then_def)

text \<open>Writes to one device leave the projections and states of every other device alone.\<close>

definition device_view where
  "device_view db d = (db_manifests db d, db_capabilities db d, db_entities db d, db_surfaces db d,
     db_states db d, (\<lambda>x. db_entity_states db (d, x)))"

lemma apply_manifest_other:
  assumes "d' \<noteq> d"
  shows "device_view (fst (apply_manifest u d m db)) d' = device_view db d'"
proof (cases "apply_manifest u d m db")
  case (Pair db' r)
  show ?thesis
  proof (cases "r = Ok OutAccepted")
    case True
    from apply_manifest_accepted(5) [OF Pair [unfolded True]] show ?thesis
      by (rule replace_projections_Inr) (use assms Pair in \<open>simp add: device_view_def\<close>)
  next
    case False
    then show ?thesis using apply_manifest_refused [OF Pair] Pair by simp
  qed
qed

section \<open>Accepted writes\<close>

lemma store_device_state_accepted:
  assumes "store_device_state tc u d s db = (db', Ok OutAccepted)"
  shows "db_available db" "db_owned db u d"
    "\<And>c. db_states db d = Some c \<Longrightarrow> unat (snap_revision c) < unat (snap_revision s)"
    "db' = db\<lparr>db_states := (db_states db)(d \<mapsto>
       s\<lparr>snap_received_at := Some \<lparr>ts_text = tc (db_now db), ts_instant = db_now db\<rparr>\<rparr>)\<rparr>"
proof -
  have av: "db_available db" "db_owned db u d"
    using assms by (auto simp: store_device_state_def transact_def split: if_splits)
  then show "db_available db" "db_owned db u d" by blast+
  let ?s = "s\<lparr>snap_received_at := Some \<lparr>ts_text = tc (db_now db), ts_instant = db_now db\<rparr>\<rparr>"
  have n: "Option.bind (db_states db d) (\<lambda>current. full_state_outcome current ?s) = None"
    using assms av
    by (cases "Option.bind (db_states db d) (\<lambda>current. full_state_outcome current ?s)")
      (auto simp: store_device_state_def transact_def bind_eq_Some_conv)
  show "db' = db\<lparr>db_states := (db_states db)(d \<mapsto> ?s)\<rparr>"
    using assms av n by (simp add: store_device_state_def transact_def split: if_splits)
  show "unat (snap_revision c) < unat (snap_revision s)" if "db_states db d = Some c" for c
    using n that by (simp add: full_state_outcome_None)
qed

lemma apply_manifest_lists:
  assumes acc: "apply_manifest u d m db = (db', Ok OutAccepted)"
    and dist: "distinct (map fst (db_entities db d))" "distinct (map fst (db_surfaces db d))"
  shows "load_manifest db' u d = Ok (Some m)"
    "\<exists>es. list_entities collation db' u d = Ok es \<and> set es = set (man_entities m)"
    "\<exists>ss. list_surfaces collation db' u d = Ok ss \<and> set ss = set (man_surfaces m)"
proof -
  note a = apply_manifest_accepted [OF acc]
  obtain cs es ss where
    es: "project_all (man_revision m) (entity_rows m) (tombstone_all (db_now db) (db_entities db d)) = Inr es" and
    ss: "project_all (man_revision m) (surface_rows m) (tombstone_all (db_now db) (db_surfaces db d)) = Inr ss" and
    db': "db' = db\<lparr>db_capabilities := (db_capabilities db)(d := cs), db_entities := (db_entities db)(d := es),
       db_surfaces := (db_surfaces db)(d := ss), db_manifests := (db_manifests db)(d \<mapsto> m)\<rparr>"
    using a(5) by (rule replace_projections_Inr) blast
  have own: "db_available db'" "db_owned db' u d" using a(2,3) by (simp_all add: db' db_owned_def)
  show "load_manifest db' u d = Ok (Some m)" using own by (simp add: load_manifest_def db')
  have "snd ` set (entity_rows m) = set (man_entities m)" "snd ` set (surface_rows m) = set (man_surfaces m)"
    by (auto simp: entity_rows_def surface_rows_def image_image)
  then show "\<exists>es. list_entities collation db' u d = Ok es \<and> set es = set (man_entities m)"
    "\<exists>ss. list_surfaces collation db' u d = Ok ss \<and> set ss = set (man_surfaces m)"
    using own project_all_current [OF es wf_manifest_rows(2) [OF a(1)] dist(1)]
      project_all_current [OF ss wf_manifest_rows(3) [OF a(1)] dist(2)]
    by (simp_all add: list_entities_def list_surfaces_def list_owned_def db')
qed

text \<open>A stored payload of a capability, entity or surface id is never replaced by another.\<close>

definition payload_of :: "'p projection_table \<Rightarrow> string \<Rightarrow> 'p option" where
  "payload_of t k = map_option pr_payload (map_of t k)"

lemma apply_manifest_payloads:
  assumes acc: "apply_manifest u d m db = (db', Ok OutAccepted)"
  shows "payload_of (db_capabilities db d) k = Some c \<Longrightarrow> payload_of (db_capabilities db' d) k = Some c"
    "payload_of (db_entities db d) k = Some e \<Longrightarrow> payload_of (db_entities db' d) k = Some e"
    "payload_of (db_surfaces db d) k = Some s \<Longrightarrow> payload_of (db_surfaces db' d) k = Some s"
proof -
  note a = apply_manifest_accepted [OF acc]
  note rows = wf_manifest_rows [OF a(1)]
  obtain cs es ss where p:
    "project_all (man_revision m) (capability_rows m) (tombstone_all (db_now db) (db_capabilities db d)) = Inr cs"
    "project_all (man_revision m) (entity_rows m) (tombstone_all (db_now db) (db_entities db d)) = Inr es"
    "project_all (man_revision m) (surface_rows m) (tombstone_all (db_now db) (db_surfaces db d)) = Inr ss" and
    db': "db' = db\<lparr>db_capabilities := (db_capabilities db)(d := cs), db_entities := (db_entities db)(d := es),
       db_surfaces := (db_surfaces db)(d := ss), db_manifests := (db_manifests db)(d \<mapsto> m)\<rparr>"
    using a(5) by (rule replace_projections_Inr) blast
  show "payload_of (db_capabilities db d) k = Some c \<Longrightarrow> payload_of (db_capabilities db' d) k = Some c"
    using project_all_frozen [OF p(1) rows(1), of k] by (auto simp: payload_of_def db')
  show "payload_of (db_entities db d) k = Some e \<Longrightarrow> payload_of (db_entities db' d) k = Some e"
    using project_all_frozen [OF p(2) rows(2), of k] by (auto simp: payload_of_def db')
  show "payload_of (db_surfaces db d) k = Some s \<Longrightarrow> payload_of (db_surfaces db' d) k = Some s"
    using project_all_frozen [OF p(3) rows(3), of k] by (auto simp: payload_of_def db')
qed

section \<open>Properties\<close>

text \<open>A database in which account 5 owns the devices 2 (a controller) and 3 (a player).\<close>

definition example_db :: control_db where
  "example_db = empty_control_db\<lparr>db_active_users := (\<lambda>u. u = 5),
     db_devices := (\<lambda>d. if d = 2 \<or> d = 3 then Some \<lparr>dev_user_id = 5, dev_revoked_at = None\<rparr> else None)\<rparr>"

definition example_reservation :: "command_id \<Rightarrow> fingerprint \<Rightarrow> command_reservation" where
  "example_reservation cid fp =
     \<lparr>rv_command = example_play 3 cid, rv_fingerprint = fp, rv_deadline_at = example_timestamp (seconds 10)\<rparr>"

definition example_result :: "command_id \<Rightarrow> command_result" where
  "example_result cid =
     \<lparr>res_command_id = cid, res_status = Succeeded, res_completed_at = example_timestamp (seconds 1),
      res_error = None\<rparr>"

definition example_entity :: "string \<Rightarrow> entity" where
  "example_entity label =
     \<lparr>ent_id = ''room.lamp'', ent_domain = Sensor, ent_device_class = ''lamp'', ent_label = label,
      ent_readable = True, ent_controllable = False, ent_unit = None, ent_stale_after_seconds = 60,
      ent_allowed_commands = [], ent_minimum = None, ent_maximum = None, ent_step = None\<rparr>"

definition example_declaration :: "u64 \<Rightarrow> string \<Rightarrow> device_manifest" where
  "example_declaration r label =
     \<lparr>man_revision = r, man_roles = [SensorSource],
      man_capabilities = \<lparr>caps_revision = 1, caps_items = []\<rparr>,
      man_entities = [example_entity label], man_surfaces = []\<rparr>"

lemma example_play_valid: "validate_at (example_play 3 cid) (example_timestamp (seconds 10)) = Ok ()"
  by (simp add: example_play_def example_timestamp_def validate_at_Ok deadline_validate_Ok
      command_target_validate_def)

lemma example_owned: "db_owned example_db 5 2" "db_owned example_db 5 3" "db_available example_db"
  "\<not> db_owned example_db 9 3"
  by (simp_all add: example_db_def db_owned_def empty_control_db_def)

lemma example_reserve:
  "reserve_command 5 3 (example_reservation cid fp) example_db =
     (example_db\<lparr>db_commands := [(cid, reserved_row 5 3 (example_reservation cid fp) 0)]\<rparr>, Ok OutAccepted)"
proof -
  have "0 \<le> ts_instant (example_timestamp (seconds 10))"
    by (simp add: example_timestamp_def seconds_def nanos_per_second_def)
  then show ?thesis
    using example_play_valid [of cid]
    by (simp add: reserve_command_def example_reservation_def transact_def example_owned Let_def)
      (simp add: example_play_def example_db_def empty_control_db_def)
qed

lemma example_db_wf: "wf_commands example_db"
  by (simp add: wf_commands_def example_db_def empty_control_db_def)

text \<open>C5: over any sequence of reservations, completions and prunings the store accepts at most one
  terminal result per accepted reservation of a command id, and at most one reservation of an id is
  open at a time.\<close>

theorem store_completes_once:
  assumes "accepted_calls reserve_command complete_command prune_db c calls db = (db', opened, ended)"
    and "wf_commands db" "db_phase db c \<noteq> Opened"
  shows "ended \<le> opened \<and> opened \<le> ended + 1"
  by (rule pg.completions_bounded [OF assms])

theorem store_completes_once_witness:
  "let out = accepted_calls reserve_command complete_command prune_db 7
        [CallReserve 5 3 (example_reservation 7 []), CallComplete 5 3 (example_result 7),
         CallComplete 5 3 (example_result 7)] example_db
   in snd (snd out) \<le> fst (snd out) \<and> fst (snd out) \<le> snd (snd out) + 1"
proof -
  define out where "out = accepted_calls reserve_command complete_command prune_db 7
        [CallReserve 5 3 (example_reservation 7 []), CallComplete 5 3 (example_result 7),
         CallComplete 5 3 (example_result 7)] example_db"
  have "db_phase example_db 7 \<noteq> Opened" by (simp add: db_phase_def example_db_def empty_control_db_def)
  from store_completes_once [OF _ example_db_wf this, of
      "[CallReserve 5 3 (example_reservation 7 []), CallComplete 5 3 (example_result 7),
        CallComplete 5 3 (example_result 7)]" "fst out" "fst (snd out)" "snd (snd out)"]
  show ?thesis by (simp only: out_def [symmetric] prod.collapse Let_def simp_thms)
qed

text \<open>The constraints of the command table hold after every reservation, completion and pruning: a
  row is reserved exactly while it has no result, its result is valid and carries its id, and its
  deadline is not before its creation.\<close>

theorem command_table_invariant:
  assumes "wf_commands db"
  shows "wf_commands (fst (reserve_command u d rq db)) \<and> wf_commands (fst (complete_command u d res db)) \<and>
    wf_commands (fst (prune_commands n db))"
  using reserve_command_wf [OF assms] complete_command_wf [OF assms] prune_db_wf [OF assms]
  by (simp add: prune_db_def)

theorem command_table_invariant_witness:
  "wf_commands (fst (reserve_command 5 3 (example_reservation 7 []) example_db)) \<and>
   wf_commands (fst (complete_command 5 3 (example_result 7) example_db)) \<and>
   wf_commands (fst (prune_commands 5 example_db))"
  by (rule command_table_invariant [OF example_db_wf])

text \<open>Resubmitting a reserved or completed command within 24 hours is a replay when the account,
  the target and the fingerprint agree and a conflict otherwise, and changes nothing.\<close>

theorem reservation_idempotent:
  assumes "validate_at (rv_command rq) (rv_deadline_at rq) = Ok ()"
    and "tgt_device_id (cmd_target (rv_command rq)) = d" "db_available db" "db_owned db u d"
    and "map_of (db_commands db) (cmd_id (rv_command rq)) = Some row"
    and "db_now db - idempotency_window \<le> row_created_at row"
  shows "reserve_command u d rq db =
    (db, Ok (if row_user_id row = u \<and> row_target row = d \<and> row_fingerprint row = rv_fingerprint rq
             then OutReplay else OutConflict))"
  by (rule reserve_command_existing [OF assms(1-5)]) (use assms(6) in \<open>simp add: existing_answer_def Let_def\<close>)

theorem reservation_idempotent_witness:
  "let db = fst (reserve_command 5 3 (example_reservation 7 [1]) example_db)
   in reserve_command 5 3 (example_reservation 7 [2]) db = (db, Ok OutConflict)"
proof -
  let ?row = "reserved_row 5 3 (example_reservation 7 [1]) 0"
  let ?db = "example_db\<lparr>db_commands := [(7, ?row)]\<rparr>"
  have "reserve_command 5 3 (example_reservation 7 [2]) ?db =
    (?db, Ok (if row_user_id ?row = 5 \<and> row_target ?row = 3 \<and>
       row_fingerprint ?row = rv_fingerprint (example_reservation 7 [2]) then OutReplay else OutConflict))"
  proof (rule reservation_idempotent)
    show "validate_at (rv_command (example_reservation 7 [2])) (rv_deadline_at (example_reservation 7 [2])) = Ok ()"
      by (simp add: example_reservation_def example_play_valid)
    show "map_of (db_commands ?db) (cmd_id (rv_command (example_reservation 7 [2]))) = Some ?row"
      by (simp add: example_reservation_def example_play_def)
    show "db_now ?db - idempotency_window \<le> row_created_at ?row"
      by (simp add: example_db_def empty_control_db_def reserved_row_def idempotency_window_def seconds_def
          nanos_per_second_def)
  qed (simp_all add: example_reservation_def example_play_def example_db_def empty_control_db_def db_owned_def)
  moreover have "\<not> (row_user_id ?row = 5 \<and> row_target ?row = 3 \<and>
      row_fingerprint ?row = rv_fingerprint (example_reservation 7 [2]))"
    by (simp add: reserved_row_def example_reservation_def)
  ultimately show ?thesis
    by (simp only: Let_def example_reserve fst_conv if_False)
qed

text \<open>Pruning deletes at most the requested number of rows, and only terminal rows that were
  completed more than 24 hours ago; the number it reports is at most the limit.\<close>

theorem prune_retention:
  assumes "wf_commands db" "map_of (db_commands db) c = Some row"
    and "map_of (db_commands (fst (prune_commands n db))) c = None"
  shows "row_status row \<noteq> StReserved \<and>
    (\<exists>t. row_completed_at row = Some t \<and> t < db_now db - idempotency_window) \<and>
    length (expired_commands n db) \<le> unat n"
  using prune_keeps [OF assms] length_expired [of n db]
  by (auto simp: prunable_def is_some_and_def split: option.splits)

definition example_old_db :: control_db where
  "example_old_db = example_db\<lparr>db_now := seconds 100000,
     db_commands := [(7, (reserved_row 5 3 (example_reservation 7 []) 0)\<lparr>row_status := StSucceeded,
       row_result := Some (example_result 7), row_completed_at := Some (seconds 1)\<rparr>)]\<rparr>"

theorem prune_retention_witness:
  "\<exists>row. map_of (db_commands example_old_db) 7 = Some row \<and>
     row_status row \<noteq> StReserved \<and>
     (\<exists>t. row_completed_at row = Some t \<and> t < db_now example_old_db - idempotency_window) \<and>
     length (expired_commands 5 example_old_db) \<le> unat (5 :: u32)"
proof -
  let ?row = "(reserved_row 5 3 (example_reservation 7 []) 0)\<lparr>row_status := StSucceeded,
       row_result := Some (example_result 7), row_completed_at := Some (seconds 1)\<rparr>"
  have row: "map_of (db_commands example_old_db) 7 = Some ?row" by (simp add: example_old_db_def)
  have "wf_commands example_old_db"
    by (simp add: wf_commands_def example_old_db_def command_row_ok_def reserved_row_def encode_command_def
        example_reservation_def example_play_def example_result_def command_result_validate_def
        example_timestamp_def seconds_def nanos_per_second_def)
  moreover have "map_of (db_commands (fst (prune_commands 5 example_old_db))) 7 = None"
    by (simp add: prune_commands_def example_old_db_def example_db_def empty_control_db_def
        expired_commands_def prunable_def seconds_def nanos_per_second_def idempotency_window_def reserved_row_def)
  ultimately show ?thesis using prune_retention [OF _ row] row by blast
qed

text \<open>C28: an accepted manifest can be read back: loading returns it, and the current entities and
  surfaces are exactly the declared ones. Its revision is the successor of the one it replaces.\<close>

theorem manifest_applied:
  assumes "apply_manifest u d m db = (db', Ok OutAccepted)"
    and "distinct (map fst (db_entities db d))" "distinct (map fst (db_surfaces db d))"
  shows "load_manifest db' u d = Ok (Some m) \<and>
    (\<exists>es. list_entities collation db' u d = Ok es \<and> set es = set (man_entities m)) \<and>
    (\<exists>ss. list_surfaces collation db' u d = Ok ss \<and> set ss = set (man_surfaces m)) \<and>
    is_none_or (db_manifests db d) (\<lambda>c. unat (man_revision m) = unat (man_revision c) + 1)"
  using apply_manifest_lists [OF assms] apply_manifest_accepted(4) [OF assms(1)]
  by (cases "db_manifests db d") simp_all

lemma example_declaration_valid:
  "manifest_validate (example_declaration 1 ''Lamp'') = Ok ()"
  "manifest_validate (example_declaration 2 ''Lamp'') = Ok ()"
  "manifest_validate (example_declaration 2 ''Desk'') = Ok ()"
  by code_simp+

definition example_declared_db :: control_db where
  "example_declared_db = example_db\<lparr>
     db_entities := (\<lambda>d. if d = 3 then [(''room.lamp'',
       \<lparr>pr_payload = example_entity ''Lamp'', pr_manifest_revision = 1, pr_removed_at = None\<rparr>)] else []),
     db_manifests := (\<lambda>d. if d = 3 then Some (example_declaration 1 ''Lamp'') else None)\<rparr>"

lemmas example_apply_simps =
  replace_projections_def example_declaration_def Let_def capability_rows_def entity_rows_def
  surface_rows_def tombstone_all_def projection_def revision_column_ok_def example_db_def
  empty_control_db_def example_declared_db_def revision_outcome_def revision_order_cases fun_eq_iff

lemma example_declaration_applied:
  "\<exists>db'. apply_manifest 5 3 (example_declaration 1 ''Lamp'') example_db = (db', Ok OutAccepted)"
  using example_declaration_valid(1)
  by (simp add: apply_manifest_def transact_def example_owned) (simp add: example_apply_simps)

lemma example_declared_owned: "db_owned example_declared_db 5 3" "db_available example_declared_db"
  by (simp_all add: example_declared_db_def example_db_def db_owned_def empty_control_db_def)

lemma example_redeclaration_applied:
  "\<exists>db'. apply_manifest 5 3 (example_declaration 2 ''Lamp'') example_declared_db = (db', Ok OutAccepted)"
  using example_declaration_valid(2)
  by (simp add: apply_manifest_def transact_def example_declared_owned)
    (simp add: example_apply_simps example_entity_def)

text \<open>Renaming a declared entity in the next manifest revision is a conflict.\<close>

lemma renamed_entity_conflicts:
  "apply_manifest 5 3 (example_declaration 2 ''Desk'') example_declared_db = (example_declared_db, Ok OutConflict)"
  using example_declaration_valid(3)
  by (simp add: apply_manifest_def transact_def example_declared_owned)
    (simp add: example_apply_simps example_entity_def)

theorem manifest_applied_witness:
  "\<exists>db'. load_manifest db' 5 3 = Ok (Some (example_declaration 1 ''Lamp'')) \<and>
    (\<exists>es. list_entities (\<lambda>_. 0) db' 5 3 = Ok es \<and> set es = {example_entity ''Lamp''})"
proof -
  obtain db' where a: "apply_manifest 5 3 (example_declaration 1 ''Lamp'') example_db = (db', Ok OutAccepted)"
    using example_declaration_applied by blast
  have "distinct (map fst (db_entities example_db 3))" "distinct (map fst (db_surfaces example_db 3))"
    by (simp_all add: example_db_def empty_control_db_def)
  from manifest_applied [OF a this, of "\<lambda>_. 0"] show ?thesis
    by (auto simp: example_declaration_def)
qed

text \<open>Once a payload is stored for a capability, entity or surface id of a device, no accepted
  manifest ever changes it, whether or not the id is still declared.\<close>

theorem declared_payloads_frozen:
  assumes "apply_manifest u d m db = (db', Ok OutAccepted)"
  shows "(payload_of (db_capabilities db d) k = Some c \<longrightarrow> payload_of (db_capabilities db' d) k = Some c) \<and>
    (payload_of (db_entities db d) k = Some e \<longrightarrow> payload_of (db_entities db' d) k = Some e) \<and>
    (payload_of (db_surfaces db d) k = Some s \<longrightarrow> payload_of (db_surfaces db' d) k = Some s)"
  using apply_manifest_payloads [OF assms] by blast

theorem declared_payloads_frozen_witness:
  "\<exists>db'. apply_manifest 5 3 (example_declaration 2 ''Lamp'') example_declared_db = (db', Ok OutAccepted) \<and>
    payload_of (db_entities db' 3) ''room.lamp'' = Some (example_entity ''Lamp'')"
proof -
  obtain db' where a: "apply_manifest 5 3 (example_declaration 2 ''Lamp'') example_declared_db = (db', Ok OutAccepted)"
    using example_redeclaration_applied by blast
  have "payload_of (db_entities example_declared_db 3) ''room.lamp'' = Some (example_entity ''Lamp'')"
    by (simp add: payload_of_def example_declared_db_def)
  with declared_payloads_frozen [OF a] a show ?thesis by blast
qed

text \<open>A device that does not belong to an active account (unknown, foreign or revoked) cannot be
  written or read through it: every write leaves the tables as they are and every read is empty.\<close>

theorem store_owner_scoped:
  assumes "\<not> db_owned db u d"
  shows "fst (apply_manifest u d m db) = db \<and> fst (store_device_state tc u d s db) = db \<and>
    fst (store_entity_state tc u d e db) = db \<and> fst (reserve_command u d rq db) = db \<and>
    fst (complete_command u d res db) = db \<and>
    load_manifest db u d \<in> {Ok None, Err Database} \<and> load_device_state db u d \<in> {Ok None, Err Database} \<and>
    load_entity_state db u d x \<in> {Ok None, Err Database} \<and>
    list_entities collation db u d \<in> {Ok [], Err Database}"
  using not_owned_writes [OF assms] not_owned_reads [OF assms] by blast

theorem store_owner_scoped_witness:
  "fst (apply_manifest 9 3 (example_declaration 1 ''Lamp'') example_db) = example_db \<and>
   load_manifest example_db 9 3 \<in> {Ok None, Err Database}"
  using store_owner_scoped [OF example_owned(4)] by blast

text \<open>An accepted device state is what is loaded next, stamped with the database's time, and its
  revision is larger than the one it replaces.\<close>

theorem device_state_stored:
  assumes "store_device_state tc u d s db = (db', Ok OutAccepted)"
  shows "load_device_state db' u d =
      Ok (Some (s\<lparr>snap_received_at := Some \<lparr>ts_text = tc (db_now db), ts_instant = db_now db\<rparr>\<rparr>)) \<and>
    is_none_or (db_states db d) (\<lambda>c. unat (snap_revision c) < unat (snap_revision s))"
proof -
  note a = store_device_state_accepted [OF assms]
  have "db_available db'" "db_owned db' u d" using a(1,2) by (simp_all add: a(4) db_owned_def)
  then show ?thesis
    using a(3) by (cases "db_states db d") (simp_all add: load_device_state_def a(4))
qed

definition example_level :: "u64 \<Rightarrow> u8 \<Rightarrow> device_state_snapshot" where
  "example_level r level =
     \<lparr>snap_revision = r, snap_observed_at = example_timestamp 0, snap_received_at = None,
      snap_state = \<lparr>rt_playback = None, rt_volume = Some \<lparr>vol_level = level, vol_muted = False\<rparr>,
        rt_display = None\<rparr>\<rparr>"

theorem device_state_stored_witness:
  "\<exists>db'. store_device_state (\<lambda>_. ''now'') 5 3 (example_level 4 30) example_db = (db', Ok OutAccepted) \<and>
     load_device_state db' 5 3 =
       Ok (Some ((example_level 4 30)\<lparr>snap_received_at := Some \<lparr>ts_text = ''now'', ts_instant = 0\<rparr>\<rparr>))"
proof -
  have "\<exists>db'. store_device_state (\<lambda>_. ''now'') 5 3 (example_level 4 30) example_db = (db', Ok OutAccepted)"
    by (simp add: store_device_state_def transact_def example_owned)
      (simp add: example_db_def empty_control_db_def example_level_def revision_column_ok_def)
  then obtain db' where a: "store_device_state (\<lambda>_. ''now'') 5 3 (example_level 4 30) example_db = (db', Ok OutAccepted)"
    by blast
  have "db_now example_db = 0" by (simp add: example_db_def empty_control_db_def)
  with device_state_stored [OF a] a show ?thesis by simp
qed

text \<open>
  A stored command whose now-playing view has no subtitle cannot be loaded again: every replay of
  it is a database error.
\<close>

lemma null_subtitle_not_loadable:
  "decode_command (encode_command (c\<lparr>cmd_body := Display (PNowPlaying s t None)\<rparr>)) = Err Database"
  using display_roundtrip [of "PNowPlaying s t None"]
  by (simp add: decode_command_def encode_command_def and_then_def map_err_def
      del: body_of_json.simps body_to_json.simps)

end
