(* ===== verification/Router.thy ===== *)
theory Router
  imports Presence Control_Store
begin

text \<open>
  The command router (\<open>src/src/device_control_command/\<close>): station resolution (\<open>catalog.rs\<close>),
  target validation (\<open>target_validation.rs\<close>) and the command lifecycle (\<open>router.rs\<close>).

  The router's own state is the map of commands in flight. A handler also changes the connection
  registry, the store and the set of spawned timeout tasks, so it is a function of a
  \<open>router_world\<close> that holds all four. The arguments are what the source takes from outside: the
  store's operations (a dictionary of the trait), the catalog's answers, the request
  fingerprint (SHA-256 of the serialized command), the RFC 3339 formatter, the outcome of
  channel attempts and the clock readings.
\<close>

section \<open>Station resolution\<close>

record resolved_station =
  rs_stream_uri :: string
  rs_presentation :: station_presentation

text \<open>What awaiting the catalog within the resolution timeout yields.\<close>

datatype catalog_answer =
  CatFound resolved_station | CatUnknown | CatRepositoryError | CatTimedOut

type_synonym station_catalog = "string \<Rightarrow> catalog_answer"

datatype resolution_failure = ResInvalid string | ResUnavailable

definition resolve_station ::
  "station_catalog \<Rightarrow> string \<Rightarrow> resolution_failure + resolved_station" where
  "resolve_station catalog station_id =
     (case catalog station_id of
        CatUnknown \<Rightarrow> Err (ResInvalid ''Unknown station identifier.'')
      | CatRepositoryError \<Rightarrow> Err ResUnavailable
      | CatTimedOut \<Rightarrow> Err ResUnavailable
      | CatFound station \<Rightarrow>
          if trimmed_is_empty (rs_stream_uri station)
          then Err (ResInvalid ''Station has no playable stream.'')
          else if \<not> is_ok (station_presentation_validate (rs_presentation station))
          then Err (ResInvalid ''Station presentation is not allowed.'')
          else case validate_stream_uri (rs_stream_uri station) of
              Inr _ \<Rightarrow> Ok station
            | Inl _ \<Rightarrow> Err (ResInvalid ''Stream address is not allowed.''))"

section \<open>Target validation\<close>

type_synonym command_error = string

definition require_role_capability ::
  "device_manifest \<Rightarrow> device_role \<Rightarrow> (device_capability \<Rightarrow> bool) \<Rightarrow> command_error + unit" where
  "require_role_capability m role capability =
     (if role \<in> set (man_roles m) \<and> list_ex capability (caps_items (man_capabilities m))
      then Ok () else Err ''capability_not_supported'')"

fun display_supported :: "presentation \<Rightarrow> view_kind list \<Rightarrow> u8 \<Rightarrow> u16 \<Rightarrow> bool" where
  "display_supported (PText text) views max_items max_text_length =
     (length text \<le> unat max_text_length)"
| "display_supported (PNowPlaying _ _ _) views max_items max_text_length =
     (NowPlayingView \<in> set views)"
| "display_supported (PSensorGrid _ items) views max_items max_text_length =
     (SensorGridView \<in> set views \<and> length items \<le> unat max_items)"

fun offers_station :: "string \<Rightarrow> device_capability \<Rightarrow> bool" where
  "offers_station source (CapStation sources) = list_ex (\<lambda>s. s = source) sources"
| "offers_station source _ = False"

fun offers_playback :: "string \<Rightarrow> device_capability \<Rightarrow> bool" where
  "offers_playback action (CapPlayback actions) = (action \<in> set actions)"
| "offers_playback action _ = False"

fun offers_volume :: "volume_command \<Rightarrow> device_capability \<Rightarrow> bool" where
  "offers_volume command (CapVolume _ mute) = (case command of SetMute _ \<Rightarrow> mute | _ \<Rightarrow> True)"
| "offers_volume command _ = False"

fun offers_display :: "presentation \<Rightarrow> device_capability \<Rightarrow> bool" where
  "offers_display p (CapDisplay views max_items max_text_length) =
     display_supported p views max_items max_text_length"
| "offers_display p _ = False"

fun offers_actuator :: "actuator_action \<Rightarrow> device_capability \<Rightarrow> bool" where
  "offers_actuator action (CapActuator commands) = (action \<in> set commands)"
| "offers_actuator action _ = False"

definition validate_display_target ::
  "command_target \<Rightarrow> presentation \<Rightarrow> device_manifest \<Rightarrow> command_error + unit" where
  "validate_display_target t p m =
     (case tgt_surface_id t of
        None \<Rightarrow> Err ''invalid_payload''
      | Some surface_id \<Rightarrow>
          and_then (ok_or ''capability_not_supported'' (find (\<lambda>s. sur_id s = surface_id) (man_surfaces m)))
            (\<lambda>surface.
             if sur_kind surface \<noteq> DisplayKind then Err ''capability_not_supported''
             else if DisplaySurface \<in> set (man_roles m) \<and>
                     list_ex (offers_display p) (caps_items (man_capabilities m))
             then Ok () else Err ''capability_not_supported''))"

definition validate_actuator_target ::
  "command_target \<Rightarrow> actuator_action \<Rightarrow> f64 option \<Rightarrow> device_manifest \<Rightarrow> command_error + unit" where
  "validate_actuator_target t action v m =
     (case tgt_entity_id t of
        None \<Rightarrow> Err ''invalid_payload''
      | Some entity_id \<Rightarrow>
          and_then (ok_or ''capability_not_supported'' (find (\<lambda>e. ent_id e = entity_id) (man_entities m)))
            (\<lambda>entity.
             if ActuatorRole \<notin> set (man_roles m) \<or> \<not> ent_controllable entity \<or>
                \<not> list_ex (offers_actuator action) (caps_items (man_capabilities m))
             then Err ''capability_not_supported''
             else if action = SetValue \<and> is_some_and v (\<lambda>x.
                       is_some_and (ent_minimum entity) (\<lambda>lo. f64_less x lo) \<or>
                       is_some_and (ent_maximum entity) (\<lambda>hi. f64_less hi x))
             then Err ''invalid_payload'' else Ok ()))"

definition validate_target :: "device_command \<Rightarrow> device_manifest \<Rightarrow> command_error + unit" where
  "validate_target c m =
     (case cmd_body c of
        PlayStation _ \<Rightarrow> require_role_capability m Player (offers_station CATALOG_STATION_SOURCE)
      | PlayStream RockserverCatalog _ _ _ \<Rightarrow>
          require_role_capability m Player (offers_station CATALOG_STATION_SOURCE)
      | PlayStream DirectStream _ _ _ \<Rightarrow>
          require_role_capability m Player (offers_station DIRECT_STATION_SOURCE)
      | Playback action \<Rightarrow> require_role_capability m Player (offers_playback action)
      | Volume command \<Rightarrow> require_role_capability m Player (offers_volume command)
      | Display p \<Rightarrow> validate_display_target (cmd_target c) p m
      | Actuator action v \<Rightarrow> validate_actuator_target (cmd_target c) action v m
      | Unknown _ _ \<Rightarrow> Err ''unsupported_command'')"

section \<open>The router's world\<close>

record in_flight =
  if_owner :: user_id
  if_controller_device :: device_id
  if_controller_connection :: connection_id
  if_target_device :: device_id
  if_target_connection :: connection_id
  if_request_id :: string

text \<open>A spawned timeout task: when it fires and what it then finishes.\<close>

record command_timer =
  tm_deadline :: instant
  tm_command :: command_id
  tm_request_id :: string

record 's router_world =
  rw_flights :: "(command_id \<times> in_flight) list"
  rw_registry :: registry_state
  rw_store :: 's
  rw_timers :: "command_timer list"

record 's router_env =
  env_ops :: "'s store_ops option"
  env_accepts :: channel_env
  env_format :: "instant \<Rightarrow> string"
  env_fingerprint :: "device_command \<Rightarrow> fingerprint option"
  env_catalog :: "station_catalog option"

definition MAX_CONNECTION_IN_FLIGHT :: nat where
  "MAX_CONNECTION_IN_FLIGHT = 16"

definition MAX_TARGET_IN_FLIGHT :: nat where
  "MAX_TARGET_IN_FLIGHT = 8"

definition DEFAULT_TIMEOUT :: instant where
  "DEFAULT_TIMEOUT = seconds 10"

definition MAX_TIMEOUT :: instant where
  "MAX_TIMEOUT = seconds 30"

section \<open>Helpers\<close>

text \<open>A server instant as an RFC 3339 timestamp: formatted, then parsed back to the same instant.\<close>

definition server_timestamp :: "'s router_env \<Rightarrow> instant \<Rightarrow> timestamp" where
  "server_timestamp env t = \<lparr>ts_text = env_format env t, ts_instant = t\<rparr>"

definition terminal_message ::
  "'s router_env \<Rightarrow> instant \<Rightarrow> command_id \<Rightarrow> string \<Rightarrow> string \<Rightarrow> string \<Rightarrow> command_result" where
  "terminal_message env now cid request_id code message =
     \<lparr>res_command_id = cid, res_status = Failed, res_completed_at = server_timestamp env now,
      res_error = Some \<lparr>de_code = code, de_message = message, de_request_id = request_id, de_details = []\<rparr>\<rparr>"

definition terminal ::
  "'s router_env \<Rightarrow> instant \<Rightarrow> command_id \<Rightarrow> string \<Rightarrow> string \<Rightarrow> command_result" where
  "terminal env now cid request_id code =
     terminal_message env now cid request_id code ''Device command did not complete.''"

definition send ::
  "'s router_env \<Rightarrow> user_id \<Rightarrow> device_id \<Rightarrow> connection_id \<Rightarrow> string \<Rightarrow> frame_payload \<Rightarrow>
     's router_world \<Rightarrow> 's router_world \<times> (command_error + unit)" where
  "send env u d c kind payload w =
     (let (r, taken) = send_to (env_accepts env) u d c \<lparr>of_kind = kind, of_payload = payload\<rparr> (rw_registry w)
      in (w\<lparr>rw_registry := r\<rparr>, if taken then Ok () else Err ''target_offline''))"

definition complete ::
  "'s store_ops \<Rightarrow> user_id \<Rightarrow> device_id \<Rightarrow> command_result \<Rightarrow> 's \<Rightarrow> 's \<times> store_outcome" where
  "complete ops u d res s =
     (let (s', r) = so_complete_command ops u d res s
      in (s', case r of Inl _ \<Rightarrow> OutConflict | Inr out \<Rightarrow> out))"

fun required_scope :: "command_body \<Rightarrow> device_control_scope" where
  "required_scope (Display _) = DisplayControl"
| "required_scope (Actuator _ _) = ActuatorControl"
| "required_scope _ = MediaControl"

definition finish ::
  "'s router_env \<Rightarrow> 's store_ops \<Rightarrow> command_id \<Rightarrow> command_result \<Rightarrow> 's router_world \<Rightarrow> 's router_world" where
  "finish env ops cid res w =
     (case map_of (rw_flights w) cid of
        None \<Rightarrow> w
      | Some item \<Rightarrow>
          let w1 = w\<lparr>rw_flights := AList.delete cid (rw_flights w)\<rparr>;
              (s, out) = complete ops (if_owner item) (if_target_device item) res (rw_store w1);
              w2 = w1\<lparr>rw_store := s\<rparr>
          in if out = OutAccepted
             then fst (send env (if_owner item) (if_controller_device item) (if_controller_connection item)
                        ''command.result'' (FResult res) w2)
             else w2)"

definition replay ::
  "'s router_env \<Rightarrow> 's store_ops \<Rightarrow> instant \<Rightarrow> user_id \<Rightarrow> device_id \<Rightarrow> connection_id \<Rightarrow> device_id \<Rightarrow>
     command_id \<Rightarrow> 's router_world \<Rightarrow> 's router_world \<times> (command_error + unit)" where
  "replay env ops now u cd cc target cid w =
     (case so_load_command ops (rw_store w) u target cid of
        Inl _ \<Rightarrow> (w, Err ''persistence_unavailable'')
      | Inr lifecycle \<Rightarrow>
          case send env u cd cc ''command.received''
                 (FReceived \<lparr>cr_command_id = cid, cr_received_at = server_timestamp env now,
                             cr_duplicate = True\<rparr>) w of
            (w1, Inl e) \<Rightarrow> (w1, Err e)
          | (w1, Inr _) \<Rightarrow>
              (case Option.bind lifecycle lc_result of
                 None \<Rightarrow> (w1, Ok ())
               | Some result \<Rightarrow> send env u cd cc ''command.result'' (FResult result) w1))"

section \<open>Submission\<close>

text \<open>Who submits: the authenticated account, device and connection, and the envelope's id.\<close>

record submitter =
  sub_owner :: user_id
  sub_device :: device_id
  sub_connection :: connection_id
  sub_request_id :: string

fun is_catalog_stream :: "command_body \<Rightarrow> bool" where
  "is_catalog_stream (PlayStream RockserverCatalog _ _ _) = True"
| "is_catalog_stream _ = False"

fun is_play_station :: "command_body \<Rightarrow> bool" where
  "is_play_station (PlayStation _) = True"
| "is_play_station _ = False"

definition authorize_controller ::
  "'s router_env \<Rightarrow> instant \<Rightarrow> submitter \<Rightarrow> device_command \<Rightarrow> 's router_world \<Rightarrow> command_error + unit" where
  "authorize_controller env now sub c w =
     and_then (ok_or ''forbidden'' (opt_filter (\<lambda>a. ad_connection_id a = sub_connection sub)
                        (active_for (rw_registry w) (sub_owner sub) (sub_device sub))))
       (\<lambda>controller.
        if Controller \<notin> set (man_roles (ad_manifest controller)) then Err ''forbidden''
        else
          and_then (map_err validation_code (validate_at c (server_timestamp env now))) (\<lambda>_.
          and_then (map_err validation_code (executable c)) (\<lambda>_.
          if is_catalog_stream (cmd_body c) then Err ''invalid_payload''
          else if required_scope (cmd_body c) \<notin> set (ad_scopes controller) then Err ''forbidden''
          else Ok ())))"

definition locate_target ::
  "'s store_ops \<Rightarrow> submitter \<Rightarrow> device_command \<Rightarrow> 's router_world \<Rightarrow> command_error + active_device" where
  "locate_target ops sub c w =
     (case active_for (rw_registry w) (sub_owner sub) (tgt_device_id (cmd_target c)) of
        Some target \<Rightarrow> Ok target
      | None \<Rightarrow>
          (case so_load_manifest ops (rw_store w) (sub_owner sub) (tgt_device_id (cmd_target c)) of
             Inr (Some _) \<Rightarrow> Err ''target_offline''
           | Inr None \<Rightarrow> Err ''forbidden''
           | Inl _ \<Rightarrow> Err ''persistence_unavailable''))"

definition admit ::
  "'s router_env \<Rightarrow> 's store_ops \<Rightarrow> submitter \<Rightarrow> device_command \<Rightarrow> 's router_world \<Rightarrow>
     command_error + active_device" where
  "admit env ops sub c w =
     and_then (locate_target ops sub c w) (\<lambda>target.
     and_then (validate_target c (ad_manifest target)) (\<lambda>_.
     if is_play_station (cmd_body c) \<and> env_catalog env = None then Err ''persistence_unavailable''
     else Ok target))"

text \<open>The fingerprint, and the deadline the server puts into the command.\<close>

definition choose_deadline ::
  "'s router_env \<Rightarrow> instant \<Rightarrow> device_command \<Rightarrow> command_error + (fingerprint \<times> instant)" where
  "choose_deadline env now c =
     and_then (ok_or ''invalid_payload'' (env_fingerprint env c)) (\<lambda>fp.
     let deadline = (case cmd_deadline_at c of None \<Rightarrow> now + DEFAULT_TIMEOUT | Some t \<Rightarrow> ts_instant t)
     in if deadline \<le> now \<or> now + MAX_TIMEOUT < deadline then Err ''command_timeout''
        else Ok (fp, deadline))"

definition over_capacity :: "submitter \<Rightarrow> device_command \<Rightarrow> (command_id \<times> in_flight) list \<Rightarrow> bool" where
  "over_capacity sub c flights \<longleftrightarrow>
     MAX_CONNECTION_IN_FLIGHT \<le>
       length (filter (\<lambda>(_, item). if_controller_connection item = sub_connection sub) flights) \<or>
     MAX_TARGET_IN_FLIGHT \<le>
       length (filter (\<lambda>(_, item). if_target_device item = tgt_device_id (cmd_target c)) flights)"

definition new_flight :: "submitter \<Rightarrow> device_command \<Rightarrow> active_device \<Rightarrow> in_flight" where
  "new_flight sub c target =
     \<lparr>if_owner = sub_owner sub, if_controller_device = sub_device sub,
      if_controller_connection = sub_connection sub,
      if_target_device = tgt_device_id (cmd_target c),
      if_target_connection = ad_connection_id target, if_request_id = sub_request_id sub\<rparr>"

text \<open>The station of a \<open>play_station\<close> command becomes the stream the target receives.\<close>

definition resolve_command ::
  "'s router_env \<Rightarrow> device_command \<Rightarrow> (string \<times> string) + device_command" where
  "resolve_command env c =
     (case cmd_body c of
        PlayStation station_id \<Rightarrow>
          (case env_catalog env of
             None \<Rightarrow> Err (''persistence_unavailable'', ''Device command did not complete.'')
           | Some catalog \<Rightarrow>
               (case resolve_station catalog station_id of
                  Inr station \<Rightarrow> Ok (c\<lparr>cmd_body := PlayStream RockserverCatalog (Some station_id)
                     (Some (rs_presentation station)) (rs_stream_uri station)\<rparr>)
                | Inl (ResInvalid message) \<Rightarrow> Err (''invalid_payload'', message)
                | Inl ResUnavailable \<Rightarrow>
                    Err (''persistence_unavailable'', ''Station catalog is unavailable.'')))
      | _ \<Rightarrow> Ok c)"

definition dispatch ::
  "'s router_env \<Rightarrow> 's store_ops \<Rightarrow> instant \<Rightarrow> submitter \<Rightarrow> device_command \<Rightarrow> active_device \<Rightarrow> instant \<Rightarrow>
     's router_world \<Rightarrow> 's router_world" where
  "dispatch env ops later sub c target deadline w =
     (case resolve_command env c of
        Inl (code, message) \<Rightarrow>
          finish env ops (cmd_id c)
            (terminal_message env later (cmd_id c) (sub_request_id sub) code message) w
      | Inr c' \<Rightarrow>
          case send env (sub_owner sub) (tgt_device_id (cmd_target c')) (ad_connection_id target)
                 ''device.command'' (FCommand c') w of
            (w1, Inl _) \<Rightarrow>
              finish env ops (cmd_id c')
                (terminal env later (cmd_id c') (sub_request_id sub) ''target_offline'') w1
          | (w1, Inr _) \<Rightarrow>
              w1\<lparr>rw_timers := rw_timers w1 @
                [\<lparr>tm_deadline = deadline, tm_command = cmd_id c', tm_request_id = sub_request_id sub\<rparr>]\<rparr>)"

text \<open>After an accepted reservation: capacity, the in-flight entry, the acknowledgement, dispatch.\<close>

definition launch ::
  "'s router_env \<Rightarrow> 's store_ops \<Rightarrow> instant \<Rightarrow> instant \<Rightarrow> submitter \<Rightarrow> device_command \<Rightarrow> active_device \<Rightarrow>
     instant \<Rightarrow> 's router_world \<Rightarrow> 's router_world \<times> (command_error + unit)" where
  "launch env ops now later sub c target deadline w =
     (if over_capacity sub c (rw_flights w)
      then (w\<lparr>rw_store := fst (complete ops (sub_owner sub) (tgt_device_id (cmd_target c))
               (terminal env later (cmd_id c) (sub_request_id sub) ''too_many_in_flight'') (rw_store w))\<rparr>,
            Err ''too_many_in_flight'')
      else
        let w1 = w\<lparr>rw_flights := AList.update (cmd_id c) (new_flight sub c target) (rw_flights w)\<rparr>
        in case send env (sub_owner sub) (sub_device sub) (sub_connection sub) ''command.received''
                  (FReceived \<lparr>cr_command_id = cmd_id c, cr_received_at = server_timestamp env now,
                              cr_duplicate = False\<rparr>) w1 of
             (w2, Inl e) \<Rightarrow> (w2, Err e)
           | (w2, Inr _) \<Rightarrow> (dispatch env ops later sub c target deadline w2, Ok ()))"

definition submit ::
  "'s router_env \<Rightarrow> instant \<Rightarrow> instant \<Rightarrow> submitter \<Rightarrow> device_command \<Rightarrow>
     's router_world \<Rightarrow> 's router_world \<times> (command_error + unit)" where
  "submit env now later sub c w =
     (case authorize_controller env now sub c w of
        Inl e \<Rightarrow> (w, Err e)
      | Inr _ \<Rightarrow>
     (case env_ops env of
        None \<Rightarrow> (w, Err ''persistence_unavailable'')
      | Some ops \<Rightarrow>
     (case admit env ops sub c w of
        Inl e \<Rightarrow> (w, Err e)
      | Inr target \<Rightarrow>
     (case choose_deadline env now c of
        Inl e \<Rightarrow> (w, Err e)
      | Inr (fp, deadline) \<Rightarrow>
          let c' = c\<lparr>cmd_deadline_at := Some (server_timestamp env deadline)\<rparr>;
              rq = \<lparr>rv_command = c', rv_fingerprint = fp, rv_deadline_at = server_timestamp env deadline\<rparr>;
              (s, r) = so_reserve_command ops (sub_owner sub) (tgt_device_id (cmd_target c)) rq (rw_store w);
              w1 = w\<lparr>rw_store := s\<rparr>
          in case r of
               Inl _ \<Rightarrow> (w1, Err ''persistence_unavailable'')
             | Inr OutConflict \<Rightarrow> (w1, Err ''duplicate_command'')
             | Inr OutReplay \<Rightarrow>
                 replay env ops later (sub_owner sub) (sub_device sub) (sub_connection sub)
                   (tgt_device_id (cmd_target c)) (cmd_id c) w1
             | Inr OutAccepted \<Rightarrow> launch env ops now later sub c' target deadline w1
             | Inr _ \<Rightarrow> (w1, Err ''forbidden'')))))"

section \<open>Acknowledgements, results, loss and timeouts\<close>

definition delivered_to :: "in_flight \<Rightarrow> user_id \<Rightarrow> device_id \<Rightarrow> connection_id \<Rightarrow> bool" where
  "delivered_to item u d c \<longleftrightarrow>
     if_owner item = u \<and> if_target_device item = d \<and> if_target_connection item = c"

definition accepted ::
  "'s router_env \<Rightarrow> instant \<Rightarrow> user_id \<Rightarrow> device_id \<Rightarrow> connection_id \<Rightarrow> command_accepted \<Rightarrow>
     's router_world \<Rightarrow> 's router_world \<times> (command_error + unit)" where
  "accepted env now u d c acc w =
     (case map_of (rw_flights w) (ca_command_id acc) of
        None \<Rightarrow> (w, Err ''duplicate_command'')
      | Some item \<Rightarrow>
          if \<not> delivered_to item u d c then (w, Err ''forbidden'')
          else send env u (if_controller_device item) (if_controller_connection item) ''command.accepted''
                 (FAccepted (acc\<lparr>ca_accepted_at := server_timestamp env now\<rparr>)) w)"

definition result ::
  "'s router_env \<Rightarrow> instant \<Rightarrow> user_id \<Rightarrow> device_id \<Rightarrow> connection_id \<Rightarrow> command_result \<Rightarrow>
     's router_world \<Rightarrow> 's router_world \<times> (command_error + unit)" where
  "result env now u d c res w =
     (case map_err validation_code (command_result_validate res) of
        Inl e \<Rightarrow> (w, Err e)
      | Inr _ \<Rightarrow>
     (case map_of (rw_flights w) (res_command_id res) of
        None \<Rightarrow> (w, Err ''duplicate_command'')
      | Some item \<Rightarrow>
          if \<not> delivered_to item u d c then (w, Err ''forbidden'')
          else case env_ops env of
              None \<Rightarrow> (w, Err ''persistence_unavailable'')
            | Some ops \<Rightarrow>
                (finish env ops (res_command_id res) (res\<lparr>res_completed_at := server_timestamp env now\<rparr>) w,
                 Ok ())))"

definition lost_commands ::
  "user_id \<Rightarrow> device_id \<Rightarrow> connection_id \<Rightarrow> (command_id \<times> in_flight) list \<Rightarrow> (command_id \<times> string) list" where
  "lost_commands u d c flights =
     map (\<lambda>(cid, item). (cid, if_request_id item)) (filter (\<lambda>(_, item). delivered_to item u d c) flights)"

definition disconnected ::
  "'s router_env \<Rightarrow> instant \<Rightarrow> user_id \<Rightarrow> device_id \<Rightarrow> connection_id \<Rightarrow> 's router_world \<Rightarrow> 's router_world" where
  "disconnected env now u d c w =
     (case env_ops env of
        None \<Rightarrow> w
      | Some ops \<Rightarrow>
          fold (\<lambda>(cid, request_id). finish env ops cid (terminal env now cid request_id ''target_offline''))
            (lost_commands u d c (rw_flights w)) w)"

text \<open>One spawned timeout task wakes up at its deadline.\<close>

definition timer_fires ::
  "'s router_env \<Rightarrow> 's store_ops \<Rightarrow> instant \<Rightarrow> nat \<Rightarrow> 's router_world \<Rightarrow> 's router_world" where
  "timer_fires env ops now i w =
     (if i < length (rw_timers w) \<and> tm_deadline (rw_timers w ! i) \<le> now
      then let tm = rw_timers w ! i;
               w1 = w\<lparr>rw_timers := take i (rw_timers w) @ drop (Suc i) (rw_timers w)\<rparr>
           in finish env ops (tm_command tm)
                (terminal env now (tm_command tm) (tm_request_id tm) ''command_timeout'') w1
      else w)"

section \<open>An example world\<close>

text \<open>
  Account 5 with a controller (device 2, connection 10) and a player (device 3, connection 11),
  both active, an empty router and the example database.
\<close>

definition example_controller :: active_connection where
  "example_controller =
     \<lparr>ac_user_id = 5, ac_connection_id = 10, ac_last_seen = 0, ac_replacement = 20, ac_outbound = 21,
      ac_manifest = example_manifest [Controller] [], ac_scopes = [MediaControl]\<rparr>"

definition example_player :: active_connection where
  "example_player =
     \<lparr>ac_user_id = 5, ac_connection_id = 11, ac_last_seen = 0, ac_replacement = 22, ac_outbound = 23,
      ac_manifest = example_manifest [Player]
        [CapPlayback [''play'', ''pause''], CapStation [''rockserver_catalog'']], ac_scopes = []\<rparr>"

definition example_world :: "control_db router_world" where
  "example_world =
     \<lparr>rw_flights = [],
      rw_registry = empty_registry\<lparr>active := [(2, example_controller), (3, example_player)]\<rparr>,
      rw_store = example_db, rw_timers = []\<rparr>"

definition example_env :: "station_catalog option \<Rightarrow> control_db router_env" where
  "example_env catalog =
     \<lparr>env_ops = Some (postgres_ops (\<lambda>_. ''2026-09-03T00:00:00Z'')), env_accepts = (\<lambda>_ _. True),
      env_format = (\<lambda>_. ''2026-09-03T00:00:00Z''), env_fingerprint = (\<lambda>c. Some [of_nat (cmd_id c)]),
      env_catalog = catalog\<rparr>"

definition example_submitter :: submitter where
  "example_submitter = \<lparr>sub_owner = 5, sub_device = 2, sub_connection = 10, sub_request_id = ''m1''\<rparr>"

lemma example_play_received: "validate_at (example_play 3 7) (server_timestamp (example_env catalog) 0) = Ok ()"
  by (simp add: example_play_def validate_at_Ok deadline_validate_Ok command_target_validate_def
      server_timestamp_def example_timestamp_def seconds_def nanos_per_second_def)

lemma example_active_for:
  "active_for (rw_registry example_world) 5 2 = Some \<lparr>ad_connection_id = 10,
     ad_manifest = example_manifest [Controller] [], ad_scopes = [MediaControl]\<rparr>"
  "active_for (rw_registry example_world) 5 3 = Some \<lparr>ad_connection_id = 11,
     ad_manifest = ac_manifest example_player, ad_scopes = []\<rparr>"
  by (simp_all add: example_world_def example_controller_def example_player_def active_for_def opt_filter_def
      empty_registry_def)

lemma example_authorized:
  "authorize_controller (example_env catalog) 0 example_submitter (example_play 3 7) example_world = Ok ()"
  using example_play_received [of catalog]
  by (simp add: authorize_controller_def example_submitter_def example_active_for)
    (simp add: example_play_def example_manifest_def and_then_def executable_def map_err_def)

lemma example_admitted:
  "admit (example_env catalog) ops example_submitter (example_play 3 7) example_world =
     Ok \<lparr>ad_connection_id = 11, ad_manifest = ac_manifest example_player, ad_scopes = []\<rparr>"
  by (simp add: admit_def locate_target_def example_submitter_def example_play_def example_active_for)
    (simp add: example_player_def validate_target_def require_role_capability_def example_manifest_def)

lemma example_deadline:
  "choose_deadline (example_env catalog) 0 (example_play 3 7) = Ok ([7], seconds 10)"
  by (simp add: choose_deadline_def example_env_def example_play_def example_timestamp_def Let_def
      MAX_TIMEOUT_def seconds_def nanos_per_second_def and_then_def ok_or_def)

end
