(* ===== verification/State_Hub.thy ===== *)
theory State_Hub
  imports Device_State
begin

text \<open>
  The live-state hub (\<open>src/src/device_control_state.rs\<close>) and the state-admission helpers of the
  control socket (\<open>src/src/http/control/state.rs\<close>).

  The four maps behind the hub's mutexes are the fields of \<open>state_hub\<close>. The broadcast channel of
  an account is the list of the events the hub handed to it, in order; what a subscriber reads
  from it is the channel library's business. The event counter is a 64-bit word.
\<close>

section \<open>Data\<close>

datatype state_event =
    ManifestEvent device_id
  | PresenceEvent device_id bool
  | DeviceStateEvent device_id device_state_snapshot
  | EntityStateEvent device_id entity_state

record state_hub =
  hub_state :: "user_id \<times> device_id \<Rightarrow> device_state_snapshot option"
  hub_entities :: "user_id \<times> device_id \<times> string \<Rightarrow> entity_state option"
  hub_subscribers :: "user_id \<Rightarrow> state_event list option"
  hub_cursors :: "user_id \<Rightarrow> u64 option"

definition empty_hub :: state_hub where
  "empty_hub = \<lparr>hub_state = (\<lambda>_. None), hub_entities = (\<lambda>_. None),
     hub_subscribers = (\<lambda>_. None), hub_cursors = (\<lambda>_. None)\<rparr>"

section \<open>Operations of the hub\<close>

definition hub_cursor :: "state_hub \<Rightarrow> user_id \<Rightarrow> u64" where
  "hub_cursor h u = (case hub_cursors h u of None \<Rightarrow> 0 | Some n \<Rightarrow> n)"

definition hub_sender :: "user_id \<Rightarrow> state_hub \<Rightarrow> state_hub \<times> state_event list" where
  "hub_sender u h =
     (case hub_subscribers h u of
        Some evs \<Rightarrow> (h, evs)
      | None \<Rightarrow> (h\<lparr>hub_subscribers := (hub_subscribers h)(u \<mapsto> [])\<rparr>, []))"

definition hub_send :: "user_id \<Rightarrow> state_event \<Rightarrow> state_hub \<Rightarrow> state_hub" where
  "hub_send u e h =
     (case hub_sender u h of
        (h', evs) \<Rightarrow> h'\<lparr>hub_subscribers := (hub_subscribers h')(u \<mapsto> evs @ [e])\<rparr>)"

definition hub_subscribe :: "user_id \<Rightarrow> state_hub \<Rightarrow> state_hub" where
  "hub_subscribe u h = fst (hub_sender u h)"

definition hub_device_state :: "state_hub \<Rightarrow> user_id \<Rightarrow> device_id \<Rightarrow> device_state_snapshot option" where
  "hub_device_state h u d = hub_state h (u, d)"

definition hub_entity_state :: "state_hub \<Rightarrow> user_id \<Rightarrow> device_id \<Rightarrow> string \<Rightarrow> entity_state option" where
  "hub_entity_state h u d e = hub_entities h (u, d, e)"

definition advance_cursor :: "user_id \<Rightarrow> state_hub \<Rightarrow> state_hub" where
  "advance_cursor u h = h\<lparr>hub_cursors := (hub_cursors h)(u \<mapsto> hub_cursor h u + 1)\<rparr>"

definition publish_presence :: "user_id \<Rightarrow> device_id \<Rightarrow> bool \<Rightarrow> state_hub \<Rightarrow> state_hub" where
  "publish_presence u d online h = hub_send u (PresenceEvent d online) (advance_cursor u h)"

definition publish_manifest :: "user_id \<Rightarrow> device_id \<Rightarrow> state_hub \<Rightarrow> state_hub" where
  "publish_manifest u d h = hub_send u (ManifestEvent d) (advance_cursor u h)"

definition publish_device_state ::
  "user_id \<Rightarrow> device_id \<Rightarrow> device_state_snapshot \<Rightarrow> state_hub \<Rightarrow> state_hub" where
  "publish_device_state u d s h =
     (let h1 = advance_cursor u h;
          h2 = h1\<lparr>hub_state := (hub_state h1)((u, d) \<mapsto> s)\<rparr>
      in hub_send u (DeviceStateEvent d s) h2)"

definition publish_entity_state ::
  "user_id \<Rightarrow> device_id \<Rightarrow> entity_state \<Rightarrow> state_hub \<Rightarrow> state_hub" where
  "publish_entity_state u d s h =
     (let h1 = advance_cursor u h;
          h2 = h1\<lparr>hub_entities := (hub_entities h1)((u, d, es_entity_id s) \<mapsto> s)\<rparr>
      in hub_send u (EntityStateEvent d s) h2)"

section \<open>State admission\<close>

definition valid_track_title :: "device_runtime_state \<Rightarrow> bool" where
  "valid_track_title s =
     is_none_or (Option.bind (rt_playback s) pb_track_title)
       (\<lambda>title. 1 \<le> length (chars title) \<and> length (chars title) \<le> 256 \<and>
                \<not> list_ex is_control (chars title))"

definition some_runtime_fact :: "device_runtime_state \<Rightarrow> bool" where
  "some_runtime_fact s \<longleftrightarrow> is_some (rt_playback s) \<or> is_some (rt_volume s) \<or> is_some (rt_display s)"

definition valid_snapshot :: "device_state_snapshot \<Rightarrow> bool" where
  "valid_snapshot s \<longleftrightarrow>
     0 < snap_revision s \<and> some_runtime_fact (snap_state s) \<and> valid_track_title (snap_state s)"

definition valid_delta :: "device_state_delta \<Rightarrow> bool" where
  "valid_delta dl \<longleftrightarrow>
     0 < delta_base_revision dl \<and> delta_base_revision dl < delta_revision dl \<and>
     some_runtime_fact (delta_changes dl) \<and> valid_track_title (delta_changes dl)"

definition merge_state :: "device_runtime_state \<Rightarrow> device_runtime_state \<Rightarrow> device_runtime_state" where
  "merge_state current changes =
     \<lparr>rt_playback = opt_or (rt_playback changes) (rt_playback current),
      rt_volume = opt_or (rt_volume changes) (rt_volume current),
      rt_display = opt_or (rt_display changes) (rt_display current)\<rparr>"

definition accept_snapshot ::
  "user_id \<Rightarrow> device_id \<Rightarrow> device_state_snapshot \<Rightarrow> state_hub \<Rightarrow> state_hub \<times> revision_order" where
  "accept_snapshot u d s h =
     (let result = (case hub_device_state h u d of
           Some current \<Rightarrow> revision_order (snap_revision current) (snap_state current)
                             (snap_revision s) (snap_state s) None
         | None \<Rightarrow> Next)
      in if result = Next \<or> result = Gap then (publish_device_state u d s h, Next) else (h, result))"

definition entity_revision ::
  "state_hub \<Rightarrow> user_id \<Rightarrow> device_id \<Rightarrow> entity_state \<Rightarrow> revision_order" where
  "entity_revision h u d incoming =
     (case hub_entity_state h u d (es_entity_id incoming) of
        Some accepted \<Rightarrow> revision_order (es_revision accepted) accepted (es_revision incoming) incoming None
      | None \<Rightarrow> Next)"

definition requires_full_state :: "device_role list \<Rightarrow> bool" where
  "requires_full_state roles = list_ex (\<lambda>role. role \<noteq> Controller) roles"

section \<open>Effects of the operations\<close>

lemma hub_send_simps [simp]:
  "hub_state (hub_send u e h) = hub_state h"
  "hub_entities (hub_send u e h) = hub_entities h"
  "hub_cursors (hub_send u e h) = hub_cursors h"
  by (simp_all add: hub_send_def hub_sender_def split: option.split)

lemma hub_subscribe_simps [simp]:
  "hub_state (hub_subscribe u h) = hub_state h"
  "hub_entities (hub_subscribe u h) = hub_entities h"
  "hub_cursors (hub_subscribe u h) = hub_cursors h"
  by (simp_all add: hub_subscribe_def hub_sender_def split: option.split)

lemma advance_cursor_simps [simp]:
  "hub_state (advance_cursor u h) = hub_state h"
  "hub_entities (advance_cursor u h) = hub_entities h"
  "hub_subscribers (advance_cursor u h) = hub_subscribers h"
  "hub_cursor (advance_cursor u h) v = (if v = u then hub_cursor h u + 1 else hub_cursor h v)"
  by (simp_all add: advance_cursor_def hub_cursor_def)

text \<open>The events of an account, whether or not its channel exists yet.\<close>

definition hub_log :: "state_hub \<Rightarrow> user_id \<Rightarrow> state_event list" where
  "hub_log h u = (case hub_subscribers h u of None \<Rightarrow> [] | Some evs \<Rightarrow> evs)"

lemma hub_log_simps [simp]:
  "hub_log (hub_send u e h) v = (if v = u then hub_log h u @ [e] else hub_log h v)"
  "hub_log (hub_subscribe u h) v = hub_log h v"
  "hub_log (advance_cursor u h) v = hub_log h v"
  "hub_log (h\<lparr>hub_state := st\<rparr>) v = hub_log h v"
  "hub_log (h\<lparr>hub_entities := es\<rparr>) v = hub_log h v"
  by (auto simp: hub_log_def hub_send_def hub_subscribe_def hub_sender_def split: option.split)

lemma hub_cursor_simps [simp]:
  "hub_cursor (hub_send u e h) v = hub_cursor h v"
  "hub_cursor (hub_subscribe u h) v = hub_cursor h v"
  "hub_cursor (h\<lparr>hub_state := st\<rparr>) v = hub_cursor h v"
  "hub_cursor (h\<lparr>hub_entities := es\<rparr>) v = hub_cursor h v"
  by (simp_all add: hub_cursor_def)

lemmas publish_defs [rs_defs] =
  publish_presence_def publish_manifest_def publish_device_state_def publish_entity_state_def Let_def

lemma accept_snapshot_state:
  "hub_device_state (fst (accept_snapshot u d s h)) v d' =
     (if v = u \<and> d' = d \<and> snd (accept_snapshot u d s h) = Next then Some s else hub_device_state h v d')"
  by (auto simp: accept_snapshot_def hub_device_state_def publish_defs)

text \<open>A full snapshot is taken when there is none yet or when its revision is larger.\<close>

lemma accept_snapshot_result:
  "snd (accept_snapshot u d s h) =
     (case hub_device_state h u d of
        None \<Rightarrow> Next
      | Some c \<Rightarrow>
          if unat (snap_revision s) < unat (snap_revision c) then Stale
          else if unat (snap_revision c) < unat (snap_revision s) then Next
          else if snap_state c = snap_state s then Replay else Conflict)"
  by (cases "hub_device_state h u d")
    (auto simp: accept_snapshot_def Let_def revision_order_cases)

section \<open>Runs of the hub\<close>

datatype hub_op =
    HubSubscribe user_id
  | HubPresence user_id device_id bool
  | HubManifest user_id device_id
  | HubSnapshot user_id device_id device_state_snapshot
  | HubDeviceState user_id device_id device_state_snapshot
  | HubEntityState user_id device_id entity_state

fun hub_exec :: "hub_op \<Rightarrow> state_hub \<Rightarrow> state_hub" where
  "hub_exec (HubSubscribe u) h = hub_subscribe u h"
| "hub_exec (HubPresence u d b) h = publish_presence u d b h"
| "hub_exec (HubManifest u d) h = publish_manifest u d h"
| "hub_exec (HubSnapshot u d s) h = fst (accept_snapshot u d s h)"
| "hub_exec (HubDeviceState u d s) h = publish_device_state u d s h"
| "hub_exec (HubEntityState u d s) h = publish_entity_state u d s h"

definition hub_run :: "hub_op list \<Rightarrow> state_hub \<Rightarrow> state_hub" where
  "hub_run ops h = fold hub_exec ops h"

fun hub_op_user :: "hub_op \<Rightarrow> user_id" where
  "hub_op_user (HubSubscribe u) = u"
| "hub_op_user (HubPresence u _ _) = u"
| "hub_op_user (HubManifest u _) = u"
| "hub_op_user (HubSnapshot u _ _) = u"
| "hub_op_user (HubDeviceState u _ _) = u"
| "hub_op_user (HubEntityState u _ _) = u"

text \<open>Everything an account can observe of the hub.\<close>

definition hub_view where
  "hub_view h u = (hub_cursor h u, hub_log h u, hub_device_state h u, hub_entity_state h u)"

lemma hub_exec_other:
  "hub_op_user op \<noteq> v \<Longrightarrow> hub_view (hub_exec op h) v = hub_view h v"
  by (cases op)
    (auto simp: hub_view_def publish_defs hub_device_state_def hub_entity_state_def accept_snapshot_def fun_eq_iff)

lemma hub_run_other:
  "\<forall>op \<in> set ops. hub_op_user op \<noteq> v \<Longrightarrow> hub_view (hub_run ops h) v = hub_view h v"
  unfolding hub_run_def by (induction ops arbitrary: h) (simp_all add: hub_exec_other)

text \<open>The watermark counts the events handed to the account's channel.\<close>

definition hub_counted :: "state_hub \<Rightarrow> bool" where
  "hub_counted h \<longleftrightarrow> (\<forall>u. hub_cursor h u = of_nat (length (hub_log h u)))"

lemma hub_exec_counted: "hub_counted h \<Longrightarrow> hub_counted (hub_exec op h)"
  by (cases op) (auto simp: hub_counted_def publish_defs accept_snapshot_def add.commute)

lemma hub_run_counted: "hub_counted h \<Longrightarrow> hub_counted (hub_run ops h)"
  unfolding hub_run_def by (induction ops arbitrary: h) (simp_all add: hub_exec_counted)

lemma hub_counted_empty: "hub_counted empty_hub"
  by (simp add: hub_counted_def empty_hub_def hub_cursor_def hub_log_def)

text \<open>The cached device state is the one most recently published.\<close>

definition last_device_state :: "device_id \<Rightarrow> state_event list \<Rightarrow> device_state_snapshot option" where
  "last_device_state d evs =
     fold (\<lambda>e acc. case e of DeviceStateEvent d' s \<Rightarrow> if d' = d then Some s else acc | _ \<Rightarrow> acc) evs None"

definition last_entity_state :: "device_id \<Rightarrow> string \<Rightarrow> state_event list \<Rightarrow> entity_state option" where
  "last_entity_state d x evs =
     fold (\<lambda>e acc. case e of
         EntityStateEvent d' s \<Rightarrow> if d' = d \<and> es_entity_id s = x then Some s else acc | _ \<Rightarrow> acc) evs None"

definition hub_coherent :: "state_hub \<Rightarrow> bool" where
  "hub_coherent h \<longleftrightarrow>
     (\<forall>u d. hub_device_state h u d = last_device_state d (hub_log h u)) \<and>
     (\<forall>u d x. hub_entity_state h u d x = last_entity_state d x (hub_log h u))"

lemma hub_exec_coherent: "hub_coherent h \<Longrightarrow> hub_coherent (hub_exec op h)"
  by (cases op)
    (auto simp: hub_coherent_def publish_defs accept_snapshot_def hub_device_state_def
      hub_entity_state_def last_device_state_def last_entity_state_def)

lemma hub_run_coherent: "hub_coherent h \<Longrightarrow> hub_coherent (hub_run ops h)"
  unfolding hub_run_def by (induction ops arbitrary: h) (simp_all add: hub_exec_coherent)

lemma hub_coherent_empty: "hub_coherent empty_hub"
  by (simp add: hub_coherent_def empty_hub_def hub_device_state_def hub_entity_state_def hub_log_def
      last_device_state_def last_entity_state_def)

section \<open>Resynchronisation\<close>

text \<open>
  What a device's full snapshots settle to: the first of those with the largest revision.
\<close>

definition first_of_largest :: "device_state_snapshot list \<Rightarrow> device_state_snapshot option" where
  "first_of_largest ss =
     (if ss = [] then None
      else find (\<lambda>s. \<forall>t \<in> set ss. unat (snap_revision t) \<le> unat (snap_revision s)) ss)"

definition accept_all ::
  "user_id \<Rightarrow> device_id \<Rightarrow> device_state_snapshot list \<Rightarrow> state_hub \<Rightarrow> state_hub" where
  "accept_all u d ss h = fold (\<lambda>s h. fst (accept_snapshot u d s h)) ss h"

definition newer_of ::
  "device_state_snapshot option \<Rightarrow> device_state_snapshot \<Rightarrow> device_state_snapshot option" where
  "newer_of c s =
     (case c of
        None \<Rightarrow> Some s
      | Some x \<Rightarrow> Some (if unat (snap_revision x) < unat (snap_revision s) then s else x))"

lemma accept_snapshot_newer:
  "hub_device_state (fst (accept_snapshot u d s h)) u d = newer_of (hub_device_state h u d) s"
  by (auto simp: accept_snapshot_state accept_snapshot_result newer_of_def split: option.split)

lemma first_of_largest_Some:
  "first_of_largest ss = Some x \<longleftrightarrow>
     (\<exists>pre post. ss = pre @ x # post \<and>
        (\<forall>t \<in> set pre. unat (snap_revision t) < unat (snap_revision x)) \<and>
        (\<forall>t \<in> set post. unat (snap_revision t) \<le> unat (snap_revision x)))" (is "_ \<longleftrightarrow> ?R")
proof
  assume "first_of_largest ss = Some x"
  then obtain i where i: "i < length ss" "ss ! i = x"
    "\<forall>t \<in> set ss. unat (snap_revision t) \<le> unat (snap_revision x)"
    "\<forall>j < i. \<not> (\<forall>t \<in> set ss. unat (snap_revision t) \<le> unat (snap_revision (ss ! j)))"
    by (auto simp: first_of_largest_def find_Some_iff split: if_splits)
  have "unat (snap_revision t) < unat (snap_revision x)" if "t \<in> set (take i ss)" for t
  proof -
    from that obtain j where "j < i" "t = ss ! j" by (auto simp: in_set_conv_nth)
    with i(3,4) show ?thesis by (meson le_trans not_le)
  qed
  then show ?R
    using i id_take_nth_drop [OF i(1)] by (metis in_set_dropD)
next
  assume ?R
  then obtain pre post where ss: "ss = pre @ x # post"
    and pre: "\<forall>t \<in> set pre. unat (snap_revision t) < unat (snap_revision x)"
    and post: "\<forall>t \<in> set post. unat (snap_revision t) \<le> unat (snap_revision x)" by blast
  have "find (\<lambda>s. \<forall>t \<in> set ss. unat (snap_revision t) \<le> unat (snap_revision s)) ss = Some x"
    unfolding find_Some_iff
  proof (intro exI [of _ "length pre"] conjI allI impI)
    fix j assume j: "j < length pre"
    then have "ss ! j \<in> set pre" by (simp add: ss nth_append)
    with pre have "unat (snap_revision (ss ! j)) < unat (snap_revision x)" by blast
    then show "\<not> (\<forall>t \<in> set ss. unat (snap_revision t) \<le> unat (snap_revision (ss ! j)))"
      by (auto simp: ss)
  qed (use pre post ss in \<open>auto simp: less_imp_le\<close>)
  then show "first_of_largest ss = Some x"
    by (simp add: first_of_largest_def ss)
qed

lemma first_of_largest_snoc: "first_of_largest (ss @ [s]) = newer_of (first_of_largest ss) s"
proof (induction ss arbitrary: s rule: rev_induct)
  case Nil
  show ?case by (simp add: first_of_largest_def newer_of_def)
next
  case (snoc y ys)
  obtain x where x: "first_of_largest (ys @ [y]) = Some x"
    using snoc.IH [of y] by (auto simp: newer_of_def split: option.splits)
  then obtain pre post where d: "ys @ [y] = pre @ x # post"
    "\<forall>t \<in> set pre. unat (snap_revision t) < unat (snap_revision x)"
    "\<forall>t \<in> set post. unat (snap_revision t) \<le> unat (snap_revision x)"
    unfolding first_of_largest_Some by blast
  have all: "\<forall>t \<in> set (ys @ [y]). unat (snap_revision t) \<le> unat (snap_revision x)"
    unfolding d(1) using d(2,3) by auto
  show ?case
  proof (cases "unat (snap_revision x) < unat (snap_revision s)")
    case True
    have "\<forall>t \<in> set (ys @ [y]). unat (snap_revision t) < unat (snap_revision s)"
      using all True by (meson le_less_trans)
    then have "first_of_largest ((ys @ [y]) @ [s]) = Some s"
      unfolding first_of_largest_Some by (intro exI [of _ "ys @ [y]"] exI [of _ "[]"]) simp
    with True x show ?thesis by (simp add: newer_of_def)
  next
    case False
    have "first_of_largest ((ys @ [y]) @ [s]) = Some x"
      unfolding first_of_largest_Some d(1) using d(2,3) False
      by (intro exI [of _ pre] exI [of _ "post @ [s]"]) auto
    with False x show ?thesis by (simp add: newer_of_def)
  qed
qed

lemma accept_all_latest:
  "hub_device_state h u d = None \<Longrightarrow> hub_device_state (accept_all u d ss h) u d = first_of_largest ss"
proof (induction ss rule: rev_induct)
  case Nil
  then show ?case by (simp add: accept_all_def first_of_largest_def)
next
  case (snoc s ss)
  then show ?case
    by (simp add: first_of_largest_snoc accept_all_def accept_snapshot_newer)
qed

text \<open>Once the latest snapshot is held, sending it again is a replay and changes nothing.\<close>

lemma accept_snapshot_replay:
  "hub_device_state h u d = Some s \<Longrightarrow> accept_snapshot u d s h = (h, Replay)"
  by (simp add: accept_snapshot_def)

text \<open>Deltas applied one after another, and merging as a whole.\<close>

lemma merge_state_assoc: "merge_state (merge_state a b) c = merge_state a (merge_state b c)"
  by (cases "rt_playback c"; cases "rt_volume c"; cases "rt_display c") (simp_all add: merge_state_def)

lemma merge_state_idem: "merge_state a a = a"
  by (cases "rt_playback a"; cases "rt_volume a"; cases "rt_display a") (simp_all add: merge_state_def)

lemma merge_state_facts:
  "some_runtime_fact (merge_state a b) \<longleftrightarrow> some_runtime_fact a \<or> some_runtime_fact b"
  by (cases "rt_playback b"; cases "rt_volume b"; cases "rt_display b")
    (auto simp: merge_state_def some_runtime_fact_def)

lemma merge_state_title: "valid_track_title a \<Longrightarrow> valid_track_title b \<Longrightarrow> valid_track_title (merge_state a b)"
  by (cases "rt_playback b") (simp_all add: valid_track_title_def merge_state_def)

section \<open>Properties\<close>

text \<open>C27: full snapshots of a device, in whatever order they arrive, leave the hub with the first of
  those that carry the largest revision: a forward gap resynchronises, an older snapshot never
  replaces a newer one and a conflicting one never replaces the accepted one.\<close>

theorem full_snapshots_converge:
  assumes "hub_device_state h u d = None"
  shows "hub_device_state (accept_all u d ss h) u d = first_of_largest ss"
  by (rule accept_all_latest [OF assms])

definition example_snapshot :: "u64 \<Rightarrow> u8 \<Rightarrow> device_state_snapshot" where
  "example_snapshot r level =
     \<lparr>snap_revision = r, snap_observed_at = \<lparr>ts_text = ''2026-09-03T00:00:00Z'', ts_instant = 0\<rparr>,
      snap_received_at = None,
      snap_state = \<lparr>rt_playback = None, rt_volume = Some \<lparr>vol_level = level, vol_muted = False\<rparr>,
        rt_display = None\<rparr>\<rparr>"

theorem full_snapshots_converge_witness:
  "hub_device_state (accept_all 1 2 [example_snapshot 7 62, example_snapshot 19 30, example_snapshot 8 5]
     empty_hub) 1 2 = first_of_largest [example_snapshot 7 62, example_snapshot 19 30, example_snapshot 8 5] \<and>
   first_of_largest [example_snapshot 7 62, example_snapshot 19 30, example_snapshot 8 5] =
     Some (example_snapshot 19 30)"
  using full_snapshots_converge [of empty_hub 1 2
      "[example_snapshot 7 62, example_snapshot 19 30, example_snapshot 8 5]"]
  by (simp add: empty_hub_def hub_device_state_def first_of_largest_def example_snapshot_def)

text \<open>Events of one account are invisible to every other: its watermark, its event stream and its
  cached states do not depend on what is published for other accounts.\<close>

theorem hub_owner_isolation:
  assumes "\<forall>op \<in> set ops. hub_op_user op \<noteq> v"
  shows "hub_view (hub_run ops h) v = hub_view h v"
  by (rule hub_run_other [OF assms])

theorem hub_owner_isolation_witness:
  "hub_view (hub_run [HubPresence 1 2 True, HubSnapshot 1 2 (example_snapshot 7 62)] empty_hub) 9 =
   hub_view empty_hub 9"
  by (rule hub_owner_isolation) simp

text \<open>The hub's caches are exactly the last published device and entity states of the event
  stream, and the watermark counts the stream (modulo the width of the counter).\<close>

theorem hub_matches_event_stream:
  "hub_coherent (hub_run ops empty_hub) \<and> hub_counted (hub_run ops empty_hub)"
  using hub_run_coherent [OF hub_coherent_empty] hub_run_counted [OF hub_counted_empty] by blast

end
