(* ===== verification/Directory.thy ===== *)
theory Directory
  imports Router State_Hub
begin

text \<open>
  Control-ingress authentication (\<open>src/src/device_control_auth.rs\<close>,
  \<open>src/src/http/control_auth.rs\<close>) and the account-owned device directory
  (\<open>src/src/http/directory.rs\<close>), which the HTTP endpoint and the control socket both serve.

  The session resolver, the account store's device list, the token digest and the clock text are
  arguments; the control store is the dictionary of \<open>Control_Store\<close>. An HTTP answer is the
  body of a success or an error with its status, code and retry delay.
\<close>

section \<open>Authentication\<close>

record active_session =
  as_session_id :: uuid
  as_user_id :: user_id
  as_device_id :: device_id

record control_principal =
  cp_user_id :: user_id
  cp_device_id :: device_id

datatype control_auth_error = InvalidCredential | AuthUnavailable

text \<open>A lookup failure of the resolver is \<open>Inl ()\<close>.\<close>

type_synonym session_resolver = "string \<Rightarrow> unit + active_session option"

definition authenticate_device_control ::
  "(string \<Rightarrow> string) \<Rightarrow> string option \<Rightarrow> session_resolver \<Rightarrow> control_auth_error + control_principal" where
  "authenticate_device_control token_hash authorization resolver =
     (case opt_filter (\<lambda>t. t \<noteq> [] \<and> length t \<le> 512)
             (Option.bind authorization (strip_prefix ''Bearer '')) of
        None \<Rightarrow> Err InvalidCredential
      | Some token \<Rightarrow>
          and_then (map_err (\<lambda>_. AuthUnavailable) (resolver (token_hash token))) (\<lambda>found.
          and_then (ok_or InvalidCredential found) (\<lambda>session.
          Ok \<lparr>cp_user_id = as_user_id session, cp_device_id = as_device_id session\<rparr>)))"

section \<open>Directory values\<close>

record owned_device =
  od_id :: device_id
  od_user_id :: user_id
  od_display_name :: string
  od_type :: string
  od_created_at :: string
  od_last_seen_at :: "string option"

record directory_filters =
  df_domain :: "entity_domain option"
  df_device_class :: "string option"

record presence_dto =
  pd_online :: bool
  pd_last_seen_at :: "string option"

record freshness_dto =
  fd_status :: freshness
  fd_observed_at :: "string option"
  fd_received_at :: "string option"
  fd_stale_after :: "string option"

record directory_entity =
  de_entity :: entity
  de_state :: "entity_state option"

record directory_device =
  dd_device_id :: device_id
  dd_display_name :: string
  dd_type :: string
  dd_roles :: "device_role list"
  dd_capabilities :: device_capabilities
  dd_presence :: presence_dto
  dd_freshness :: freshness_dto
  dd_runtime_state :: "device_state_snapshot option"
  dd_entities :: "directory_entity list"
  dd_surfaces :: "surface list"

record directory_dto =
  dir_protocol_version :: nat
  dir_generated_at :: string
  dir_revision :: u64
  dir_granted_scopes :: "device_control_scope list"
  dir_devices :: "directory_device list"

definition MAX_DIRECTORY_DEVICES :: nat where
  "MAX_DIRECTORY_DEVICES = 50"

definition granted_scopes :: "device_manifest \<Rightarrow> device_control_scope list" where
  "granted_scopes m =
     (if Controller \<in> set (man_roles m)
      then [DirectoryRead, EntityStateRead, MediaControl, DisplayControl, ActuatorControl] else [])"

definition matches_filters :: "device_manifest \<Rightarrow> directory_filters \<Rightarrow> bool" where
  "matches_filters m f \<longleftrightarrow>
     list_ex (\<lambda>e. is_none_or (df_domain f) (\<lambda>x. x = ent_domain e) \<and>
                  is_none_or (df_device_class f) (\<lambda>x. x = ent_device_class e)) (man_entities m) \<or>
     (df_domain f = None \<and> df_device_class f = None)"

definition device_freshness :: "device_state_snapshot option \<Rightarrow> freshness_dto" where
  "device_freshness st =
     (case st of
        None \<Rightarrow> \<lparr>fd_status = FreshnessUnknown, fd_observed_at = None, fd_received_at = None, fd_stale_after = None\<rparr>
      | Some s \<Rightarrow>
          \<lparr>fd_status = (if is_some (snap_received_at s) then Fresh else FreshnessUnknown),
           fd_observed_at = Some (ts_text (snap_observed_at s)),
           fd_received_at = map_option ts_text (snap_received_at s), fd_stale_after = None\<rparr>)"

definition runtime_state_projection ::
  "device_state_snapshot option \<Rightarrow> bool \<Rightarrow> device_state_snapshot option" where
  "runtime_state_projection st include_states = opt_filter (\<lambda>_. include_states) st"

section \<open>The snapshot\<close>

text \<open>What the directory reads: the account store (if configured), the control store, registry, clock.\<close>

record 's directory_env =
  dx_accounts :: "(user_id \<Rightarrow> unit + owned_device list) option"
  dx_ops :: "'s store_ops option"
  dx_now :: string

fun directory_entities ::
  "'s store_ops \<Rightarrow> 's \<Rightarrow> user_id \<Rightarrow> device_id \<Rightarrow> bool \<Rightarrow> entity list \<Rightarrow> unit + directory_entity list" where
  "directory_entities ops s u d include_states [] = Ok []"
| "directory_entities ops s u d include_states (e # es) =
     and_then (if include_states then map_err (\<lambda>_. ()) (so_load_entity_state ops s u d (ent_id e)) else Ok None)
       (\<lambda>st. and_then (directory_entities ops s u d include_states es)
       (\<lambda>rest. Ok (\<lparr>de_entity = e, de_state = st\<rparr> # rest)))"

definition directory_entry ::
  "'s directory_env \<Rightarrow> registry_state \<Rightarrow> user_id \<Rightarrow> owned_device \<Rightarrow> device_manifest \<Rightarrow>
     device_state_snapshot option \<Rightarrow> bool \<Rightarrow> directory_entity list \<Rightarrow> directory_device" where
  "directory_entry env r u device m st include_states entities =
     (let online = is_some (active_for r u (od_id device)) in
      \<lparr>dd_device_id = od_id device, dd_display_name = od_display_name device, dd_type = od_type device,
       dd_roles = man_roles m, dd_capabilities = man_capabilities m,
       dd_presence = \<lparr>pd_online = online,
         pd_last_seen_at = (if online then Some (dx_now env) else od_last_seen_at device)\<rparr>,
       dd_freshness = device_freshness st,
       dd_runtime_state = runtime_state_projection st include_states,
       dd_entities = entities, dd_surfaces = man_surfaces m\<rparr>)"

text \<open>One device of the loop: skipped, or its entry.\<close>

definition directory_device_of ::
  "'s directory_env \<Rightarrow> 's store_ops \<Rightarrow> 's \<Rightarrow> registry_state \<Rightarrow> user_id \<Rightarrow> device_control_scope list \<Rightarrow>
     directory_filters \<Rightarrow> owned_device \<Rightarrow> unit + directory_device option" where
  "directory_device_of env ops s r u scopes filters device =
     and_then (map_err (\<lambda>_. ()) (so_load_manifest ops s u (od_id device))) (\<lambda>found.
     case found of
       None \<Rightarrow> Ok None
     | Some m \<Rightarrow>
         if \<not> matches_filters m filters then Ok None
         else
           and_then (map_err (\<lambda>_. ()) (so_load_device_state ops s u (od_id device))) (\<lambda>st.
           let include_states = EntityStateRead \<in> set scopes in
           and_then (directory_entities ops s u (od_id device) include_states (man_entities m)) (\<lambda>entities.
           Ok (Some (directory_entry env r u device m st include_states entities)))))"

fun directory_devices ::
  "'s directory_env \<Rightarrow> 's store_ops \<Rightarrow> 's \<Rightarrow> registry_state \<Rightarrow> user_id \<Rightarrow> device_control_scope list \<Rightarrow>
     directory_filters \<Rightarrow> owned_device list \<Rightarrow> unit + directory_device list" where
  "directory_devices env ops s r u scopes filters [] = Ok []"
| "directory_devices env ops s r u scopes filters (device # devices) =
     and_then (directory_device_of env ops s r u scopes filters device) (\<lambda>entry.
     and_then (directory_devices env ops s r u scopes filters devices) (\<lambda>entries.
     Ok (case entry of None \<Rightarrow> entries | Some e \<Rightarrow> e # entries)))"

definition directory_snapshot ::
  "'s directory_env \<Rightarrow> 's \<Rightarrow> registry_state \<Rightarrow> user_id \<Rightarrow> device_control_scope list \<Rightarrow>
     directory_filters \<Rightarrow> u64 \<Rightarrow> unit + directory_dto" where
  "directory_snapshot env s r u scopes filters cursor =
     (case (dx_accounts env, dx_ops env) of
        (Some list_devices, Some ops) \<Rightarrow>
          and_then (list_devices u) (\<lambda>devices.
          if MAX_DIRECTORY_DEVICES < length devices then Err ()
          else and_then (directory_devices env ops s r u scopes filters devices) (\<lambda>entries.
            Ok \<lparr>dir_protocol_version = 1, dir_generated_at = dx_now env, dir_revision = max cursor 1,
                dir_granted_scopes = scopes, dir_devices = entries\<rparr>))
      | _ \<Rightarrow> Err ())"

section \<open>The HTTP endpoint\<close>

record http_error =
  he_status :: nat
  he_code :: string
  he_retry_after :: "nat option"

definition unauthorized_response :: http_error where
  "unauthorized_response = \<lparr>he_status = 401, he_code = ''authentication_required'', he_retry_after = None\<rparr>"

definition retryable :: "string \<Rightarrow> http_error" where
  "retryable code = \<lparr>he_status = 503, he_code = code, he_retry_after = Some 1\<rparr>"

definition valid_device_class :: "string \<Rightarrow> bool" where
  "valid_device_class v \<longleftrightarrow>
     v \<noteq> [] \<and> length v \<le> 64 \<and>
     list_all (\<lambda>c. is_ascii_lowercase c \<or> is_ascii_digit c \<or> c = CHR ''_'') v"

text \<open>The endpoint's own loop over the devices, with its retryable answers.\<close>

fun get_entities ::
  "'s store_ops \<Rightarrow> 's \<Rightarrow> user_id \<Rightarrow> device_id \<Rightarrow> bool \<Rightarrow> entity list \<Rightarrow> http_error + directory_entity list" where
  "get_entities ops s u d include_states [] = Ok []"
| "get_entities ops s u d include_states (e # es) =
     (case (if include_states then so_load_entity_state ops s u d (ent_id e) else Ok None) of
        Inl _ \<Rightarrow> Err (retryable ''control_projection_unavailable'')
      | Inr st \<Rightarrow>
          and_then (get_entities ops s u d include_states es)
            (\<lambda>rest. Ok (\<lparr>de_entity = e, de_state = st\<rparr> # rest)))"

fun get_devices ::
  "'s directory_env \<Rightarrow> 's store_ops \<Rightarrow> 's \<Rightarrow> registry_state \<Rightarrow> user_id \<Rightarrow> device_control_scope list \<Rightarrow>
     directory_filters \<Rightarrow> owned_device list \<Rightarrow> http_error + directory_device list" where
  "get_devices env ops s r u scopes filters [] = Ok []"
| "get_devices env ops s r u scopes filters (device # devices) =
     (case so_load_manifest ops s u (od_id device) of
        Inl _ \<Rightarrow> Err (retryable ''control_projection_unavailable'')
      | Inr None \<Rightarrow> get_devices env ops s r u scopes filters devices
      | Inr (Some m) \<Rightarrow>
          if \<not> matches_filters m filters then get_devices env ops s r u scopes filters devices
          else case so_load_device_state ops s u (od_id device) of
              Inl _ \<Rightarrow> Err (retryable ''control_projection_unavailable'')
            | Inr st \<Rightarrow>
                let include_states = EntityStateRead \<in> set scopes in
                and_then (get_entities ops s u (od_id device) include_states (man_entities m)) (\<lambda>entities.
                and_then (get_devices env ops s r u scopes filters devices) (\<lambda>entries.
                Ok (directory_entry env r u device m st include_states entities # entries))))"

text \<open>\<open>filters\<close> is \<open>None\<close> when the query string is rejected by the typed extractor.\<close>

definition directory_get ::
  "(string \<Rightarrow> string) \<Rightarrow> session_resolver option \<Rightarrow> 's directory_env \<Rightarrow> 's \<Rightarrow> registry_state \<Rightarrow> state_hub \<Rightarrow>
     string option \<Rightarrow> directory_filters option \<Rightarrow> http_error + directory_dto" where
  "directory_get token_hash resolver env s r hub authorization filters =
     (case filters of
        None \<Rightarrow> Err \<lparr>he_status = 400, he_code = ''invalid_directory_filter'', he_retry_after = None\<rparr>
      | Some f \<Rightarrow>
     if is_some_and (df_device_class f) (\<lambda>v. \<not> valid_device_class v)
     then Err \<lparr>he_status = 400, he_code = ''invalid_directory_filter'', he_retry_after = None\<rparr>
     else case resolver of
        None \<Rightarrow> Err (retryable ''control_unavailable'')
      | Some lookup \<Rightarrow>
     (case authenticate_device_control token_hash authorization lookup of
        Inl InvalidCredential \<Rightarrow> Err unauthorized_response
      | Inl AuthUnavailable \<Rightarrow> Err (retryable ''control_auth_unavailable'')
      | Inr caller \<Rightarrow>
     (case (dx_accounts env, dx_ops env) of
        (Some list_devices, Some ops) \<Rightarrow>
          (case so_load_manifest ops s (cp_user_id caller) (cp_device_id caller) of
             Inl _ \<Rightarrow> Err (retryable ''control_projection_unavailable'')
           | Inr None \<Rightarrow> Err \<lparr>he_status = 403, he_code = ''directory_forbidden'', he_retry_after = None\<rparr>
           | Inr (Some m) \<Rightarrow>
               let scopes = granted_scopes m in
               if DirectoryRead \<notin> set scopes
               then Err \<lparr>he_status = 403, he_code = ''directory_forbidden'', he_retry_after = None\<rparr>
               else case list_devices (cp_user_id caller) of
                   Inl _ \<Rightarrow> Err (retryable ''control_projection_unavailable'')
                 | Inr devices \<Rightarrow>
                     if MAX_DIRECTORY_DEVICES < length devices
                     then Err (retryable ''control_projection_unavailable'')
                     else and_then (get_devices env ops s r (cp_user_id caller) scopes f devices) (\<lambda>entries.
                       Ok \<lparr>dir_protocol_version = 1, dir_generated_at = dx_now env,
                           dir_revision = max (hub_cursor hub (cp_user_id caller)) 1,
                           dir_granted_scopes = scopes, dir_devices = entries\<rparr>))
      | _ \<Rightarrow> Err (retryable ''control_unavailable''))))"

section \<open>Lemmas\<close>

lemma get_entities_agree:
  "get_entities ops s u d inc es =
     map_err (\<lambda>_. retryable ''control_projection_unavailable'') (directory_entities ops s u d inc es)"
proof (induction es)
  case (Cons e es)
  then show ?case
    by (cases inc; cases "so_load_entity_state ops s u d (ent_id e)"; cases "directory_entities ops s u d inc es")
      (simp_all add: map_err_def and_then_def)
qed (simp add: map_err_def)

lemma get_devices_agree:
  "get_devices env ops s r u scopes f ds =
     map_err (\<lambda>_. retryable ''control_projection_unavailable'') (directory_devices env ops s r u scopes f ds)"
proof (induction ds)
  case (Cons device devices)
  then show ?case
    by (auto simp: directory_device_of_def get_entities_agree map_err_def and_then_def Let_def
        split: sum.split option.split)
qed (simp add: map_err_def)

lemma directory_devices_Ok:
  "directory_devices env ops s r u scopes f ds = Ok es \<Longrightarrow>
     es = List.map_filter (\<lambda>d. case directory_device_of env ops s r u scopes f d of Inr e \<Rightarrow> e | Inl _ \<Rightarrow> None) ds \<and>
     (\<forall>d \<in> set ds. \<exists>e. directory_device_of env ops s r u scopes f d = Inr e)"
proof (induction ds arbitrary: es)
  case (Cons d ds)
  then show ?case by (auto simp: and_then_Ok map_filter_simps split: option.splits)
qed (simp add: map_filter_simps)

lemma directory_entities_Ok:
  "directory_entities ops s u d inc es = Ok xs \<Longrightarrow>
     map de_entity xs = es \<and> (\<not> inc \<longrightarrow> (\<forall>x \<in> set xs. de_state x = None))"
  by (induction es arbitrary: xs) (auto simp: and_then_Ok)

lemma directory_device_of_Some:
  assumes "directory_device_of env ops s r u scopes f d = Ok (Some e)"
  obtains m st xs where "so_load_manifest ops s u (od_id d) = Ok (Some m)" "matches_filters m f"
    "so_load_device_state ops s u (od_id d) = Ok st"
    "directory_entities ops s u (od_id d) (EntityStateRead \<in> set scopes) (man_entities m) = Ok xs"
    "e = directory_entry env r u d m st (EntityStateRead \<in> set scopes) xs"
  using assms
  by (auto simp: directory_device_of_def and_then_Ok Let_def split: option.splits if_splits)

text \<open>Which devices a directory lists.\<close>

definition listed :: "'s store_ops \<Rightarrow> 's \<Rightarrow> user_id \<Rightarrow> directory_filters \<Rightarrow> owned_device \<Rightarrow> bool" where
  "listed ops s u f d \<longleftrightarrow>
     (case so_load_manifest ops s u (od_id d) of Inr (Some m) \<Rightarrow> matches_filters m f | _ \<Rightarrow> False)"

lemma directory_device_of_listed:
  assumes "directory_device_of env ops s r u scopes f d = Ok e"
  shows "case e of None \<Rightarrow> \<not> listed ops s u f d | Some x \<Rightarrow> listed ops s u f d \<and> dd_device_id x = od_id d"
proof (cases "so_load_manifest ops s u (od_id d)")
  case (Inl err)
  with assms show ?thesis by (simp add: directory_device_of_def and_then_def map_err_def)
next
  case (Inr found)
  show ?thesis
  proof (cases found)
    case None
    with assms Inr show ?thesis by (auto simp: directory_device_of_def listed_def and_then_def map_err_def)
  next
    case (Some m)
    show ?thesis
    proof (cases "matches_filters m f")
      case True
      with assms Inr Some obtain st xs where
        "e = Some (directory_entry env r u d m st (EntityStateRead \<in> set scopes) xs)"
        by (auto simp: directory_device_of_def and_then_Ok Let_def)
      with True Inr Some show ?thesis by (simp add: listed_def directory_entry_def Let_def)
    next
      case False
      with assms Inr Some show ?thesis by (auto simp: directory_device_of_def listed_def and_then_def map_err_def)
    qed
  qed
qed

lemma directory_devices_ids:
  "directory_devices env ops s r u scopes f ds = Ok es \<Longrightarrow>
     map dd_device_id es = map od_id (filter (listed ops s u f) ds)"
proof (induction ds arbitrary: es)
  case (Cons d ds)
  then obtain e rest where e: "directory_device_of env ops s r u scopes f d = Ok e"
    "directory_devices env ops s r u scopes f ds = Ok rest"
    "es = (case e of None \<Rightarrow> rest | Some x \<Rightarrow> x # rest)" by (auto simp: and_then_Ok)
  with Cons.IH [OF e(2)] directory_device_of_listed [OF e(1)] show ?case
    by (cases e) simp_all
qed simp

lemma directory_devices_member:
  "directory_devices env ops s r u scopes f ds = Ok es \<Longrightarrow> x \<in> set es \<Longrightarrow>
     \<exists>d \<in> set ds. directory_device_of env ops s r u scopes f d = Ok (Some x)"
proof (induction ds arbitrary: es)
  case (Cons d ds)
  then show ?case by (auto simp: and_then_Ok split: option.splits)
qed simp

lemma directory_snapshot_Ok:
  assumes "directory_snapshot env s r u scopes f cursor = Ok dto"
  obtains list_devices ops devices where "dx_accounts env = Some list_devices" "dx_ops env = Some ops"
    "list_devices u = Ok devices" "length devices \<le> MAX_DIRECTORY_DEVICES"
    "directory_devices env ops s r u scopes f devices = Ok (dir_devices dto)"
    "dir_revision dto = max cursor 1" "dir_granted_scopes dto = scopes"
  using assms by (auto simp: directory_snapshot_def and_then_Ok split: option.splits if_splits)

section \<open>Properties\<close>

text \<open>The HTTP endpoint and the control socket serve the same directory: for an authenticated
  controller the endpoint answers exactly what the socket's snapshot is, and a retryable error
  where the snapshot fails.\<close>

theorem directory_paths_agree:
  assumes "is_none_or (df_device_class f) valid_device_class"
    and "authenticate_device_control token_hash authorization lookup = Ok caller"
    and "dx_accounts env = Some list_devices" "dx_ops env = Some ops"
    and "so_load_manifest ops s (cp_user_id caller) (cp_device_id caller) = Ok (Some m)"
    and "Controller \<in> set (man_roles m)"
  shows "directory_get token_hash (Some lookup) env s r hub authorization (Some f) =
    map_err (\<lambda>_. retryable ''control_projection_unavailable'')
      (directory_snapshot env s r (cp_user_id caller) (granted_scopes m) f (hub_cursor hub (cp_user_id caller)))"
proof -
  have scopes: "DirectoryRead \<in> set (granted_scopes m)" using assms(6) by (simp add: granted_scopes_def)
  have cls: "\<not> is_some_and (df_device_class f) (\<lambda>v. \<not> valid_device_class v)"
    using assms(1) by (cases "df_device_class f") simp_all
  show ?thesis
    using assms(2-5) scopes cls
    by (auto simp: directory_get_def directory_snapshot_def get_devices_agree map_err_def and_then_def Let_def
        split: sum.split)
qed

definition example_directory_env :: "control_db directory_env" where
  "example_directory_env =
     \<lparr>dx_accounts = Some (\<lambda>u. Ok [\<lparr>od_id = 3, od_user_id = 5, od_display_name = ''Lamp'', od_type = ''esp32'',
        od_created_at = ''2026-09-01T00:00:00Z'', od_last_seen_at = None\<rparr>]),
      dx_ops = Some (postgres_ops (\<lambda>_. ''now'')), dx_now = ''2026-09-03T00:00:00Z''\<rparr>"

definition example_directory_db :: control_db where
  "example_directory_db = example_declared_db\<lparr>
     db_manifests := (\<lambda>d. if d = 2 then Some (example_manifest [Controller] [])
                          else if d = 3 then Some (example_declaration 1 ''Lamp'') else None)\<rparr>"

lemma example_directory_manifest:
  "load_manifest example_directory_db 5 2 = Ok (Some (example_manifest [Controller] []))"
  "load_manifest example_directory_db 5 3 = Ok (Some (example_declaration 1 ''Lamp''))"
  "load_device_state example_directory_db 5 3 = Ok None"
  by (simp_all add: load_manifest_def load_device_state_def example_directory_db_def example_declared_db_def
      example_db_def empty_control_db_def db_owned_def)

lemma example_roles: "man_roles (example_manifest roles caps) = roles"
  by (simp add: example_manifest_def)

theorem directory_paths_agree_witness:
  "\<exists>lookup caller. authenticate_device_control (\<lambda>t. t) (Some ''Bearer t'') lookup = Ok caller \<and>
     directory_get (\<lambda>t. t) (Some lookup) example_directory_env example_directory_db empty_registry empty_hub
       (Some ''Bearer t'') (Some \<lparr>df_domain = None, df_device_class = None\<rparr>) =
     map_err (\<lambda>_. retryable ''control_projection_unavailable'')
       (directory_snapshot example_directory_env example_directory_db empty_registry (cp_user_id caller)
         (granted_scopes (example_manifest [Controller] [])) \<lparr>df_domain = None, df_device_class = None\<rparr>
         (hub_cursor empty_hub (cp_user_id caller)))"
proof -
  let ?lookup = "\<lambda>_. Ok (Some \<lparr>as_session_id = 1, as_user_id = 5, as_device_id = 2\<rparr>)"
  let ?caller = "\<lparr>cp_user_id = 5, cp_device_id = 2\<rparr>"
  have auth: "authenticate_device_control (\<lambda>t. t) (Some ''Bearer t'') ?lookup = Ok ?caller"
    by (simp add: authenticate_device_control_def strip_prefix_def opt_filter_def and_then_def map_err_def ok_or_def)
  have "directory_get (\<lambda>t. t) (Some ?lookup) example_directory_env example_directory_db empty_registry empty_hub
       (Some ''Bearer t'') (Some \<lparr>df_domain = None, df_device_class = None\<rparr>) =
     map_err (\<lambda>_. retryable ''control_projection_unavailable'')
       (directory_snapshot example_directory_env example_directory_db empty_registry (cp_user_id ?caller)
         (granted_scopes (example_manifest [Controller] [])) \<lparr>df_domain = None, df_device_class = None\<rparr>
         (hub_cursor empty_hub (cp_user_id ?caller)))"
    by (rule directory_paths_agree [OF _ auth, where ops = "postgres_ops (\<lambda>_. ''now'')"])
      (simp_all add: example_directory_env_def example_directory_manifest example_roles)
  with auth show ?thesis by blast
qed

text \<open>C38: a directory lists exactly the account's devices that have a manifest matching the filters,
  in order, and for each of them: the device is owned by the account in the store, it is shown
  online exactly when it has an active connection of that account, and without the state-read scope
  neither its runtime state nor any entity state is included.\<close>

theorem directory_contents:
  assumes "directory_snapshot env db r u scopes f cursor = Ok dto" "dx_ops env = Some (postgres_ops tc)"
  shows "(\<exists>list_devices devices. dx_accounts env = Some list_devices \<and> list_devices u = Ok devices \<and>
      map dd_device_id (dir_devices dto) = map od_id (filter (listed (postgres_ops tc) db u f) devices)) \<and>
    list_all (\<lambda>x. db_owned db u (dd_device_id x) \<and>
      (pd_online (dd_presence x) \<longleftrightarrow> is_some (active_for r u (dd_device_id x))) \<and>
      (EntityStateRead \<in> set scopes \<or>
         (dd_runtime_state x = None \<and> list_all (\<lambda>y. de_state y = None) (dd_entities x)))) (dir_devices dto)"
proof -
  obtain ld devices where ld: "dx_accounts env = Some ld" "ld u = Ok devices"
    "directory_devices env (postgres_ops tc) db r u scopes f devices = Ok (dir_devices dto)"
    using assms(1) by (rule directory_snapshot_Ok) (use assms(2) in auto)
  have "db_owned db u (dd_device_id x) \<and>
      (pd_online (dd_presence x) \<longleftrightarrow> is_some (active_for r u (dd_device_id x))) \<and>
      (EntityStateRead \<in> set scopes \<or>
         (dd_runtime_state x = None \<and> list_all (\<lambda>y. de_state y = None) (dd_entities x)))"
    if x: "x \<in> set (dir_devices dto)" for x
  proof -
    obtain d where d: "directory_device_of env (postgres_ops tc) db r u scopes f d = Ok (Some x)"
      using directory_devices_member [OF ld(3) x] by blast
    obtain m st xs where m: "load_manifest db u (od_id d) = Ok (Some m)"
      "directory_entities (postgres_ops tc) db u (od_id d) (EntityStateRead \<in> set scopes) (man_entities m) = Ok xs"
      "x = directory_entry env r u d m st (EntityStateRead \<in> set scopes) xs"
      using d by (rule directory_device_of_Some) simp
    have "db_owned db u (od_id d)"
      using m(1) by (auto simp: load_manifest_def split: if_splits)
    then show ?thesis
      using directory_entities_Ok [OF m(2)]
      by (auto simp: m(3) directory_entry_def Let_def runtime_state_projection_def opt_filter_def list_all_iff
          split: option.split)
  qed
  with ld directory_devices_ids [OF ld(3)] show ?thesis by (auto simp: list_all_iff)
qed

theorem directory_contents_witness:
  "\<exists>dto. directory_snapshot example_directory_env example_directory_db empty_registry 5 []
      \<lparr>df_domain = None, df_device_class = None\<rparr> 0 = Ok dto \<and>
    list_all (\<lambda>x. db_owned example_directory_db 5 (dd_device_id x)) (dir_devices dto) \<and> dir_devices dto \<noteq> []"
proof -
  have "\<exists>dto. directory_snapshot example_directory_env example_directory_db empty_registry 5 []
      \<lparr>df_domain = None, df_device_class = None\<rparr> 0 = Ok dto \<and> dir_devices dto \<noteq> []"
    by (simp add: directory_snapshot_def example_directory_env_def directory_device_of_def
        example_directory_manifest MAX_DIRECTORY_DEVICES_def and_then_def map_err_def matches_filters_def Let_def)
      (simp add: example_declaration_def and_then_def)
  then obtain dto where d: "directory_snapshot example_directory_env example_directory_db empty_registry 5 []
      \<lparr>df_domain = None, df_device_class = None\<rparr> 0 = Ok dto" "dir_devices dto \<noteq> []" by blast
  have "dx_ops example_directory_env = Some (postgres_ops (\<lambda>_. ''now''))" by (simp add: example_directory_env_def)
  from directory_contents [OF d(1) this] d show ?thesis by (auto simp: list_all_iff)
qed

end
