(* ===== verification/Router_Lifecycle.thy ===== *)
theory Router_Lifecycle
  imports Router
begin

text \<open>
  The lifecycle of routed commands: runs of the router, the invariant that every command in
  flight is an open reservation within the capacity limits, one terminal result per reservation,
  owner and role authorization of dispatch, and confidentiality of resolved stream addresses.
  The proofs are done once for any store that keeps the lifecycle contract and then used for the
  PostgreSQL store.
\<close>

section \<open>Runs\<close>

datatype router_event =
    EvSubmit instant instant submitter device_command
  | EvAccepted instant user_id device_id connection_id command_accepted
  | EvResult instant user_id device_id connection_id command_result
  | EvDisconnected instant user_id device_id connection_id
  | EvTimer instant nat
  | EvRegistry reg_op

fun router_exec :: "'s router_env \<Rightarrow> router_event \<Rightarrow> 's router_world \<Rightarrow> 's router_world" where
  "router_exec env (EvSubmit now later sub c) w = fst (submit env now later sub c w)"
| "router_exec env (EvAccepted now u d cn acc) w = fst (accepted env now u d cn acc w)"
| "router_exec env (EvResult now u d cn res) w = fst (result env now u d cn res w)"
| "router_exec env (EvDisconnected now u d cn) w = disconnected env now u d cn w"
| "router_exec env (EvTimer now i) w =
     (case env_ops env of None \<Rightarrow> w | Some ops \<Rightarrow> timer_fires env ops now i w)"
| "router_exec env (EvRegistry op) w = w\<lparr>rw_registry := reg_exec (env_accepts env) op (rw_registry w)\<rparr>"

text \<open>The environment (channels, clock text, catalog answers) may differ at every step.\<close>

definition router_run ::
  "('s router_env \<times> router_event) list \<Rightarrow> 's router_world \<Rightarrow> 's router_world" where
  "router_run evs w = fold (\<lambda>(env, ev). router_exec env ev) evs w"

text \<open>Only the router itself puts frames on a connection's channel.\<close>

fun frame_free :: "router_event \<Rightarrow> bool" where
  "frame_free (EvRegistry (OpSendTo _ _ _ _)) = False"
| "frame_free _ = True"

fun submits :: "router_event \<Rightarrow> command_id option" where
  "submits (EvSubmit _ _ _ c) = Some (cmd_id c)"
| "submits _ = None"

section \<open>Frame facts\<close>

lemma send_simps [simp]:
  "rw_flights (fst (send env u d c k p w)) = rw_flights w"
  "rw_store (fst (send env u d c k p w)) = rw_store w"
  "rw_timers (fst (send env u d c k p w)) = rw_timers w"
  "active (rw_registry (fst (send env u d c k p w))) = active (rw_registry w)"
  "rw_registry (fst (send env u d c k p w)) =
     fst (send_to (env_accepts env) u d c \<lparr>of_kind = k, of_payload = p\<rparr> (rw_registry w))"
  by (simp_all add: send_def split: prod.split) (metis fst_conv send_to_keeps(1))

lemma send_result:
  "snd (send env u d c k p w) =
     (if snd (send_to (env_accepts env) u d c \<lparr>of_kind = k, of_payload = p\<rparr> (rw_registry w))
      then Ok () else Err ''target_offline'')"
  by (simp add: send_def split: prod.split)

lemma finish_absent: "map_of (rw_flights w) cid = None \<Longrightarrow> finish env ops cid res w = w"
  by (simp add: finish_def)

lemma finish_flights: "rw_flights (finish env ops cid res w) = AList.delete cid (rw_flights w)"
  by (auto simp: finish_def Let_def map_of_eq_None_iff split: option.split prod.split)

lemma finish_timers [simp]: "rw_timers (finish env ops cid res w) = rw_timers w"
  by (simp add: finish_def Let_def split: option.split prod.split)

lemma finish_store:
  "rw_store (finish env ops cid res w) =
     (case map_of (rw_flights w) cid of
        None \<Rightarrow> rw_store w
      | Some item \<Rightarrow> fst (so_complete_command ops (if_owner item) (if_target_device item) res (rw_store w)))"
  by (simp add: finish_def complete_def Let_def split: option.split prod.split)

lemma replay_simps [simp]:
  "rw_flights (fst (replay env ops now u cd cc t cid w)) = rw_flights w"
  "rw_store (fst (replay env ops now u cd cc t cid w)) = rw_store w"
  "rw_timers (fst (replay env ops now u cd cc t cid w)) = rw_timers w"
proof -
  have s: "send env a b c k p x = (y, r) \<Longrightarrow>
      rw_flights y = rw_flights x \<and> rw_store y = rw_store x \<and> rw_timers y = rw_timers x" for a b c k p x y r
    using send_simps [of env a b c k p x] by (metis fst_conv)
  show "rw_flights (fst (replay env ops now u cd cc t cid w)) = rw_flights w"
    "rw_store (fst (replay env ops now u cd cc t cid w)) = rw_store w"
    "rw_timers (fst (replay env ops now u cd cc t cid w)) = rw_timers w"
    by (auto simp: replay_def split: sum.split prod.split option.split dest!: s)
qed

lemma terminal_simps [simp]:
  "res_command_id (terminal_message env now cid rid code msg) = cid"
  "res_command_id (terminal env now cid rid code) = cid"
  "res_status (terminal_message env now cid rid code msg) = Failed"
  "res_status (terminal env now cid rid code) = Failed"
  by (simp_all add: terminal_def terminal_message_def)

lemma resolve_command_id: "resolve_command env c = Inr c' \<Longrightarrow>
  cmd_id c' = cmd_id c \<and> cmd_target c' = cmd_target c \<and> cmd_deadline_at c' = cmd_deadline_at c"
  by (auto simp: resolve_command_def split: command_body.splits option.splits sum.splits resolution_failure.splits)

section \<open>Capacity\<close>

text \<open>How many commands in flight a connection has sent, and how many a device is to execute.\<close>

definition sent_by :: "connection_id \<Rightarrow> (command_id \<times> in_flight) list \<Rightarrow> nat" where
  "sent_by cn flights = length (filter (\<lambda>(_, item). if_controller_connection item = cn) flights)"

definition queued_for :: "device_id \<Rightarrow> (command_id \<times> in_flight) list \<Rightarrow> nat" where
  "queued_for d flights = length (filter (\<lambda>(_, item). if_target_device item = d) flights)"

definition within_capacity :: "(command_id \<times> in_flight) list \<Rightarrow> bool" where
  "within_capacity flights \<longleftrightarrow>
     (\<forall>cn. sent_by cn flights \<le> MAX_CONNECTION_IN_FLIGHT) \<and> (\<forall>d. queued_for d flights \<le> MAX_TARGET_IN_FLIGHT)"

lemma over_capacity_counts:
  "over_capacity sub c flights \<longleftrightarrow>
     MAX_CONNECTION_IN_FLIGHT \<le> sent_by (sub_connection sub) flights \<or>
     MAX_TARGET_IN_FLIGHT \<le> queued_for (tgt_device_id (cmd_target c)) flights"
  by (simp add: over_capacity_def sent_by_def queued_for_def)

lemma length_filter_delete:
  "length (filter P (AList.delete k m)) \<le> length (filter P m)"
  by (induction m) (auto simp: AList.delete_eq)

lemma within_capacity_delete: "within_capacity m \<Longrightarrow> within_capacity (AList.delete k m)"
  unfolding within_capacity_def sent_by_def queued_for_def
  using length_filter_delete by (meson le_trans)

lemma update_fresh: "map_of m k = None \<Longrightarrow> AList.update k v m = m @ [(k, v)]"
  by (induction m) (auto split: if_splits)

lemma within_capacity_launch:
  assumes "within_capacity m" "\<not> over_capacity sub c m" "map_of m k = None"
  shows "within_capacity (AList.update k (new_flight sub c target) m)"
  using assms
  by (auto simp: within_capacity_def over_capacity_counts sent_by_def queued_for_def update_fresh new_flight_def
      intro: Suc_leI)

section \<open>The lifecycle invariant\<close>

text \<open>
  What the router needs of its store: the lifecycle contract for the operations of the
  dictionary, and that a stored result carries the id it is stored under.
\<close>

locale router_backend =
  command_lifecycle_store inv phase "so_reserve_command ops" "so_complete_command ops" prune
  for inv :: "'s \<Rightarrow> bool" and phase :: "'s \<Rightarrow> command_id \<Rightarrow> lifecycle_phase"
    and ops :: "'s store_ops" and prune :: "u32 \<Rightarrow> 's \<Rightarrow> 's" +
  assumes loaded_result_id:
    "inv s \<Longrightarrow> so_load_command ops s u d cid = Ok (Some lc) \<Longrightarrow> lc_result lc = Some res \<Longrightarrow>
       res_command_id res = cid"
begin

definition router_ok :: "'s router_world \<Rightarrow> bool" where
  "router_ok w \<longleftrightarrow>
     inv (rw_store w) \<and> distinct (map fst (rw_flights w)) \<and> within_capacity (rw_flights w) \<and>
     (\<forall>cid \<in> fst ` set (rw_flights w). phase (rw_store w) cid = Opened)"

lemma complete_phase:
  "phase (fst (so_complete_command ops u d res s)) cid = phase s cid \<or>
   (cid = res_command_id res \<and> phase s cid = Opened \<and>
    phase (fst (so_complete_command ops u d res s)) cid = Done res)"
proof (cases "so_complete_command ops u d res s")
  case (Pair s' r)
  then show ?thesis
    using complete_closes [of u d res s s'] complete_keeps [OF Pair] by (cases "r = Ok OutAccepted") auto
qed

lemma finish_ok:
  assumes "router_ok w" "res_command_id res = cid"
  shows "router_ok (finish env ops cid res w)"
proof (cases "map_of (rw_flights w) cid")
  case None
  with assms show ?thesis by (simp add: finish_absent)
next
  case (Some item)
  let ?s = "fst (so_complete_command ops (if_owner item) (if_target_device item) res (rw_store w))"
  have "phase ?s k = Opened" if "k \<noteq> cid" "k \<in> fst ` set (rw_flights w)" for k
    using complete_phase [of "if_owner item" "if_target_device item" res "rw_store w" k] that assms
    by (auto simp: router_ok_def)
  moreover have "fst ` set (AList.delete cid (rw_flights w)) = fst ` set (rw_flights w) - {cid}"
    by (metis AList.delete_keys list.set_map set_removeAll)
  ultimately show ?thesis
    using assms Some
    by (simp add: router_ok_def finish_flights finish_store complete_inv distinct_delete within_capacity_delete)
qed

lemma launch_ok:
  assumes ok: "inv (rw_store w)" "distinct (map fst (rw_flights w))" "within_capacity (rw_flights w)"
      "\<And>k. k \<in> fst ` set (rw_flights w) \<Longrightarrow> phase (rw_store w) k = Opened"
    and new: "cmd_id c \<notin> fst ` set (rw_flights w)" "phase (rw_store w) (cmd_id c) = Opened"
  shows "router_ok (fst (launch env ops now later sub c target deadline w))"
proof (cases "over_capacity sub c (rw_flights w)")
  case True
  let ?res = "terminal env later (cmd_id c) (sub_request_id sub) ''too_many_in_flight''"
  let ?s = "fst (so_complete_command ops (sub_owner sub) (tgt_device_id (cmd_target c)) ?res (rw_store w))"
  have "phase ?s k = Opened" if k: "k \<in> fst ` set (rw_flights w)" for k
  proof -
    have "k \<noteq> cmd_id c" using new(1) k by blast
    with ok(4) [OF k] complete_phase [of "sub_owner sub" "tgt_device_id (cmd_target c)" ?res "rw_store w" k]
    show ?thesis by simp
  qed
  moreover have "fst (launch env ops now later sub c target deadline w) = w\<lparr>rw_store := ?s\<rparr>"
    using True by (simp add: launch_def complete_def split: prod.split)
  ultimately show ?thesis
    using ok complete_inv by (simp add: router_ok_def)
next
  case False
  let ?w1 = "w\<lparr>rw_flights := AList.update (cmd_id c) (new_flight sub c target) (rw_flights w)\<rparr>"
  have ok1: "router_ok ?w1"
    using ok new False by (simp add: router_ok_def distinct_update within_capacity_launch dom_update map_of_eq_None_iff)
  have kept: "router_ok x \<Longrightarrow> router_ok (fst (send env a b cn k p x))" for a b cn k p x
    by (simp add: router_ok_def)
  have kept': "router_ok x \<Longrightarrow> send env a b cn k p x = (y, r) \<Longrightarrow> router_ok y" for a b cn k p x y r
    using kept [of x a b cn k p] by simp
  have timers: "router_ok x \<Longrightarrow> router_ok (x\<lparr>rw_timers := ts\<rparr>)" for x ts
    by (simp add: router_ok_def)
  have "router_ok (dispatch env ops later sub c target deadline x)" if "router_ok x" for x
    using that
    by (auto simp: dispatch_def split: sum.split prod.split
        intro!: finish_ok timers dest: kept' dest!: resolve_command_id)
  with False show ?thesis
    by (auto simp: launch_def Let_def split: prod.split sum.split dest: kept' [OF ok1])
qed

lemma submit_ok:
  assumes "router_ok w" "env_ops env = Some ops"
  shows "router_ok (fst (submit env now later sub c w))"
proof -
  have keep: "router_ok (w\<lparr>rw_store := s\<rparr>)"
    if "so_reserve_command ops u d rq (rw_store w) = (s, r)" "r \<noteq> Ok OutAccepted" for s u d rq r
    using reserve_keeps [OF that] assms by simp
  have go: "router_ok (fst (launch env ops now later sub c1 target deadline (w\<lparr>rw_store := s\<rparr>)))"
    if r: "so_reserve_command ops u d rq (rw_store w) = (s, Ok OutAccepted)"
      and c1: "cmd_id c1 = cmd_id (rv_command rq)" for s u d rq c1 target deadline
  proof (rule launch_ok)
    have opens: "phase (rw_store w) (cmd_id c1) \<noteq> Opened" "phase s = (phase (rw_store w))(cmd_id c1 := Opened)"
      using reserve_opens [OF r] c1 by auto
    show "inv (rw_store (w\<lparr>rw_store := s\<rparr>))"
      using assms(1) r reserve_inv [of "rw_store w" u d rq] by (simp add: router_ok_def)
    show "cmd_id c1 \<notin> fst ` set (rw_flights (w\<lparr>rw_store := s\<rparr>))"
      using assms(1) opens(1) by (auto simp: router_ok_def)
    show "phase (rw_store (w\<lparr>rw_store := s\<rparr>)) k = Opened"
      if "k \<in> fst ` set (rw_flights (w\<lparr>rw_store := s\<rparr>))" for k
      using assms(1) opens that by (auto simp: router_ok_def)
  qed (use assms in \<open>auto simp: router_ok_def reserve_opens [OF r] c1\<close>)
  have rp: "router_ok x \<Longrightarrow> router_ok (fst (replay env ops a b d e f g x))" for a b d e f g x
    by (simp add: router_ok_def)
  show ?thesis
    unfolding submit_def
    by (auto simp: assms Let_def split: sum.split option.split prod.split store_outcome.split
        intro!: go rp dest: keep)
qed

lemma send_ok: "router_ok w \<Longrightarrow> router_ok (fst (send env u d c k p w))"
  by (simp add: router_ok_def)

lemma accepted_ok: "router_ok w \<Longrightarrow> router_ok (fst (accepted env now u d c acc w))"
  by (auto simp: accepted_def send_ok split: option.split)

lemma result_ok:
  "router_ok w \<Longrightarrow> env_ops env = Some ops \<Longrightarrow> router_ok (fst (result env now u d c res w))"
  by (auto simp: result_def intro!: finish_ok split: sum.split option.split)

lemma disconnected_ok:
  assumes "router_ok w" "env_ops env = Some ops"
  shows "router_ok (disconnected env now u d c w)"
proof -
  have "router_ok x \<Longrightarrow> router_ok (fold (\<lambda>(cid, request_id).
      finish env ops cid (terminal env now cid request_id ''target_offline'')) lost x)" for lost x
    by (induction lost arbitrary: x) (simp_all add: finish_ok split: prod.split)
  with assms show ?thesis by (simp add: disconnected_def)
qed

lemma timer_fires_ok:
  assumes "router_ok w"
  shows "router_ok (timer_fires env ops now i w)"
proof -
  have "router_ok (w\<lparr>rw_timers := ts\<rparr>)" for ts using assms by (simp add: router_ok_def)
  with assms show ?thesis by (auto simp: timer_fires_def Let_def intro!: finish_ok)
qed

lemma router_exec_ok:
  assumes "router_ok w" "env_ops env = Some ops"
  shows "router_ok (router_exec env ev w)"
proof (cases ev)
  case (EvRegistry op)
  with assms show ?thesis by (simp add: router_ok_def)
qed (use assms in \<open>simp_all add: submit_ok accepted_ok result_ok disconnected_ok timer_fires_ok\<close>)

lemma router_run_ok:
  "router_ok w \<Longrightarrow> \<forall>(env, ev) \<in> set evs. env_ops env = Some ops \<Longrightarrow> router_ok (router_run evs w)"
  unfolding router_run_def by (induction evs arbitrary: w) (auto simp: router_exec_ok)

end

section \<open>One terminal result per reservation\<close>

definition is_result_of :: "command_id \<Rightarrow> outbound_frame \<Rightarrow> bool" where
  "is_result_of cid f \<longleftrightarrow> (case of_payload f of FResult res \<Rightarrow> res_command_id res = cid | _ \<Rightarrow> False)"

lemma is_result_of_simps [simp]:
  "is_result_of cid \<lparr>of_kind = k, of_payload = FResult res\<rparr> \<longleftrightarrow> res_command_id res = cid"
  "\<not> is_result_of cid \<lparr>of_kind = k, of_payload = FReceived rc\<rparr>"
  "\<not> is_result_of cid \<lparr>of_kind = k, of_payload = FAccepted ac\<rparr>"
  "\<not> is_result_of cid \<lparr>of_kind = k, of_payload = FCommand c\<rparr>"
  by (simp_all add: is_result_of_def)

text \<open>The terminal results of a command that a finite set of channels took.\<close>

definition results_in :: "chan set \<Rightarrow> command_id \<Rightarrow> registry_state \<Rightarrow> nat" where
  "results_in C cid r = (\<Sum>ch \<in> C. length (filter (is_result_of cid) (outbox r ch)))"

definition result_potential :: "chan set \<Rightarrow> command_id \<Rightarrow> 's router_world \<Rightarrow> nat" where
  "result_potential C cid w =
     results_in C cid (rw_registry w) + (if cid \<in> fst ` set (rw_flights w) then 1 else 0)"

lemma results_in_try_send:
  assumes "finite C"
  shows "results_in C cid (fst (try_send_frame acc ch f r)) \<le>
     results_in C cid r + (if is_result_of cid f then 1 else 0)"
proof (cases "acc ch (tries r ch)")
  case False
  then show ?thesis by (simp add: try_send_frame_def Let_def results_in_def)
next
  case True
  let ?n = "\<lambda>x. length (filter (is_result_of cid) (outbox r x))"
  let ?m = "\<lambda>x. length (filter (is_result_of cid)
    (outbox (fst (try_send_frame acc ch f r)) x))"
  have m: "?m x = ?n x + (if x = ch then (if is_result_of cid f then 1 else 0) else 0)" for x
    using True by (simp add: try_send_frame_def Let_def)
  have "(\<Sum>x \<in> C. ?m x) = (\<Sum>x \<in> C. ?n x) + (\<Sum>x \<in> C. if x = ch then (if is_result_of cid f then 1 else 0) else 0)"
    unfolding m by (rule sum.distrib)
  moreover have "(\<Sum>x \<in> C. if x = ch then (if is_result_of cid f then 1 else 0 :: nat) else 0) \<le>
      (if is_result_of cid f then 1 else 0)"
    using assms by (simp add: sum.delta)
  ultimately show ?thesis unfolding results_in_def by linarith
qed

lemma results_in_send_to:
  "finite C \<Longrightarrow> results_in C cid (fst (send_to acc u d c f r)) \<le>
     results_in C cid r + (if is_result_of cid f then 1 else 0)"
  by (cases "opt_filter (\<lambda>a. ac_user_id a = u \<and> ac_connection_id a = c) (map_of (active r) d)")
    (simp_all add: send_to_def results_in_try_send)

lemma results_in_send:
  "finite C \<Longrightarrow> results_in C cid (rw_registry (fst (send env u d c k p w))) \<le>
     results_in C cid (rw_registry w) +
     (if is_result_of cid \<lparr>of_kind = k, of_payload = p\<rparr> then 1 else 0)"
  unfolding send_simps(5) by (rule results_in_send_to)

lemma reg_exec_outbox: "frame_free (EvRegistry op) \<Longrightarrow> outbox (reg_exec acc op r) = outbox r"
  by (cases op) (auto simp: register_def update_manifest_def heartbeat_def disconnect_def revoke_def Let_def
      split: option.split)

lemma potential_finish:
  assumes "finite C" "res_command_id res = k"
  shows "result_potential C cid (finish env ops k res w) \<le> result_potential C cid w"
proof (cases "map_of (rw_flights w) k")
  case None
  then show ?thesis by (simp add: finish_absent)
next
  case (Some item)
  have keys: "fst ` set (AList.delete k (rw_flights w)) = fst ` set (rw_flights w) - {k}"
    by (metis AList.delete_keys list.set_map set_removeAll)
  have "results_in C cid (rw_registry (finish env ops k res w)) \<le>
      results_in C cid (rw_registry w) + (if k = cid then 1 else 0)"
    using Some assms results_in_send [OF assms(1), of cid env "if_owner item" "if_controller_device item"
        "if_controller_connection item" "''command.result''" "FResult res"]
    by (auto simp: finish_def Let_def split: prod.split)
  moreover have "k \<in> fst ` set (rw_flights w)" using Some by (force dest: map_of_SomeD)
  ultimately show ?thesis
    by (auto simp: result_potential_def finish_flights keys)
qed

lemma potential_finish_fold:
  "finite C \<Longrightarrow> result_potential C cid (fold (\<lambda>(k, rid). finish env ops k (terminal env now k rid code)) lost w)
     \<le> result_potential C cid w"
proof (induction lost arbitrary: w)
  case (Cons x lost)
  obtain k rid where x: "x = (k, rid)" by (cases x)
  show ?case
    using Cons.IH [OF Cons.prems, of "finish env ops k (terminal env now k rid code) w"]
      potential_finish [OF Cons.prems, of "terminal env now k rid code" k cid env ops w]
    by (simp add: x)
qed simp

lemma potential_send:
  assumes "finite C" "\<not> is_result_of cid \<lparr>of_kind = k, of_payload = p\<rparr>"
  shows "result_potential C cid (fst (send env u d c k p w)) \<le> result_potential C cid w"
  using results_in_send [OF assms(1), of cid env u d c k p w] assms(2)
  by (simp add: result_potential_def del: send_simps(5))

lemma potential_send':
  "send env u d c k p w = (w1, r) \<Longrightarrow> finite C \<Longrightarrow> \<not> is_result_of cid \<lparr>of_kind = k, of_payload = p\<rparr> \<Longrightarrow>
     result_potential C cid w1 \<le> result_potential C cid w"
  using potential_send [of C cid k p env u d c w] by simp

lemma potential_store [simp]: "result_potential C cid (w\<lparr>rw_store := s\<rparr>) = result_potential C cid w"
  by (simp add: result_potential_def)

lemma potential_timers [simp]: "result_potential C cid (w\<lparr>rw_timers := s\<rparr>) = result_potential C cid w"
  by (simp add: result_potential_def)

lemma potential_accepted:
  "finite C \<Longrightarrow> result_potential C cid (fst (accepted env now u d c acc w)) \<le> result_potential C cid w"
  by (auto simp: accepted_def potential_send split: option.split)

lemma potential_result:
  "finite C \<Longrightarrow> result_potential C cid (fst (result env now u d c res w)) \<le> result_potential C cid w"
  by (auto simp: result_def split: sum.split option.split intro!: potential_finish)

lemma potential_disconnected:
  "finite C \<Longrightarrow> result_potential C cid (disconnected env now u d c w) \<le> result_potential C cid w"
  by (simp add: disconnected_def potential_finish_fold split: option.split)

lemma potential_timer:
  assumes "finite C"
  shows "result_potential C cid (timer_fires env ops now i w) \<le> result_potential C cid w"
proof -
  have "result_potential C cid (finish env ops k (terminal env now k rid code) (w\<lparr>rw_timers := ts\<rparr>)) \<le>
      result_potential C cid w" for k rid code ts
    using potential_finish [OF assms, of "terminal env now k rid code" k cid env ops "w\<lparr>rw_timers := ts\<rparr>"]
    by simp
  then show ?thesis by (simp add: timer_fires_def Let_def)
qed

lemma potential_dispatch:
  assumes "finite C"
  shows "result_potential C cid (dispatch env ops later sub c target deadline w) \<le> result_potential C cid w"
proof (cases "resolve_command env c")
  case (Inl e)
  then show ?thesis
    by (cases e) (simp add: dispatch_def potential_finish [OF assms])
next
  case (Inr c')
  let ?snd = "send env (sub_owner sub) (tgt_device_id (cmd_target c')) (ad_connection_id target)
    ''device.command'' (FCommand c') w"
  obtain w1 r where s: "?snd = (w1, r)" by (cases ?snd)
  have le: "result_potential C cid w1 \<le> result_potential C cid w"
    using potential_send' [OF s assms] by simp
  have "result_potential C cid (finish env ops (cmd_id c')
      (terminal env later (cmd_id c') (sub_request_id sub) ''target_offline'') w1) \<le> result_potential C cid w1"
    by (rule potential_finish [OF assms]) simp
  with le Inr s show ?thesis by (cases r) (simp_all add: dispatch_def)
qed

lemma potential_launch:
  assumes "finite C" "cmd_id c \<noteq> cid"
  shows "result_potential C cid (fst (launch env ops now later sub c target deadline w)) \<le> result_potential C cid w"
proof (cases "over_capacity sub c (rw_flights w)")
  case True
  then show ?thesis by (simp add: launch_def)
next
  case False
  let ?w1 = "w\<lparr>rw_flights := AList.update (cmd_id c) (new_flight sub c target) (rw_flights w)\<rparr>"
  let ?snd = "send env (sub_owner sub) (sub_device sub) (sub_connection sub) ''command.received''
    (FReceived \<lparr>cr_command_id = cmd_id c, cr_received_at = server_timestamp env now, cr_duplicate = False\<rparr>) ?w1"
  obtain w2 r where s: "?snd = (w2, r)" by (cases ?snd)
  have "result_potential C cid ?w1 = result_potential C cid w"
    using assms(2) by (simp add: result_potential_def dom_update)
  then have le: "result_potential C cid w2 \<le> result_potential C cid w"
    using potential_send' [OF s assms(1), of cid] by simp
  show ?thesis
    using False s le potential_dispatch [OF assms(1), of cid env ops later sub c target deadline w2]
    by (cases r) (simp_all add: launch_def Let_def)
qed

context router_backend
begin

lemma potential_replay:
  assumes "finite C" "k \<noteq> cid" "inv (rw_store w)"
  shows "result_potential C cid (fst (replay env ops now u cd cc t k w)) \<le> result_potential C cid w"
proof (cases "so_load_command ops (rw_store w) u t k")
  case (Inl e)
  then show ?thesis by (simp add: replay_def)
next
  case (Inr lifecycle)
  let ?snd = "send env u cd cc ''command.received'' (FReceived \<lparr>cr_command_id = k,
    cr_received_at = server_timestamp env now, cr_duplicate = True\<rparr>) w"
  obtain w1 r where s: "?snd = (w1, r)" by (cases ?snd)
  have le: "result_potential C cid w1 \<le> result_potential C cid w"
    using potential_send' [OF s assms(1)] by simp
  show ?thesis
  proof (cases "Option.bind lifecycle lc_result")
    case None
    with Inr s le show ?thesis by (cases r) (simp_all add: replay_def)
  next
    case (Some res)
    then have "res_command_id res = k"
      using Inr loaded_result_id [OF assms(3)] by (auto simp: bind_eq_Some_conv)
    then have "result_potential C cid (fst (send env u cd cc ''command.result'' (FResult res) w1)) \<le>
        result_potential C cid w1"
      using assms(2) by (intro potential_send [OF assms(1)]) simp
    with Inr s le Some show ?thesis by (cases r) (simp_all add: replay_def)
  qed
qed

lemma potential_submit:
  assumes "finite C" "cmd_id c \<noteq> cid" "inv (rw_store w)" "env_ops env = Some ops"
  shows "result_potential C cid (fst (submit env now later sub c w)) \<le> result_potential C cid w"
proof -
  have rsv: "inv s" if "so_reserve_command ops u d rq (rw_store w) = (s, r)" for s u d rq r
    using reserve_inv [OF assms(3), of u d rq] that by simp
  have go: "result_potential C cid (fst (launch env ops now later sub c1 target deadline (w\<lparr>rw_store := s\<rparr>)))
      \<le> result_potential C cid w" if "cmd_id c1 = cmd_id c" for c1 target deadline s
    using potential_launch [OF assms(1), of c1 cid env ops now later sub target deadline "w\<lparr>rw_store := s\<rparr>"]
      assms(2) that by simp
  have rp: "result_potential C cid (fst (replay env ops later u cd cc t (cmd_id c) (w\<lparr>rw_store := s\<rparr>)))
      \<le> result_potential C cid w" if "inv s" for u cd cc t s
    using potential_replay [OF assms(1,2), of "w\<lparr>rw_store := s\<rparr>"] that by simp
  show ?thesis
    unfolding submit_def
    by (auto simp: assms(4) Let_def split: sum.split option.split prod.split store_outcome.split
        intro!: go rp dest: rsv)
qed

lemma potential_exec:
  assumes "finite C" "submits ev \<noteq> Some cid" "frame_free ev" "inv (rw_store w)" "env_ops env = Some ops"
  shows "result_potential C cid (router_exec env ev w) \<le> result_potential C cid w"
proof (cases ev)
  case (EvRegistry op)
  with assms(3) have "results_in C cid (reg_exec (env_accepts env) op (rw_registry w)) =
      results_in C cid (rw_registry w)"
    by (simp add: results_in_def reg_exec_outbox)
  with EvRegistry show ?thesis by (simp add: result_potential_def)
qed (use assms in \<open>simp_all add: potential_submit potential_accepted potential_result
      potential_disconnected potential_timer\<close>)

lemma potential_run:
  assumes "finite C" "router_ok w"
    and "\<forall>(env, ev) \<in> set evs. env_ops env = Some ops \<and> frame_free ev \<and> submits ev \<noteq> Some cid"
  shows "result_potential C cid (router_run evs w) \<le> result_potential C cid w"
  using assms
proof (induction evs arbitrary: w)
  case (Cons x evs)
  obtain env ev where x: "x = (env, ev)" by (cases x)
  have step: "router_ok (router_exec env ev w)"
    "result_potential C cid (router_exec env ev w) \<le> result_potential C cid w"
  proof -
    have e: "env_ops env = Some ops" "frame_free ev" "submits ev \<noteq> Some cid" "inv (rw_store w)"
      using Cons.prems by (auto simp: x router_ok_def)
    show "router_ok (router_exec env ev w)" using Cons.prems(2) e(1) by (rule router_exec_ok)
    show "result_potential C cid (router_exec env ev w) \<le> result_potential C cid w"
      using Cons.prems(1) e by (intro potential_exec)
  qed
  have "result_potential C cid (router_run evs (router_exec env ev w)) \<le>
      result_potential C cid (router_exec env ev w)"
    by (rule Cons.IH) (use Cons.prems step(1) in auto)
  with step(2) show ?case by (simp add: x router_run_def)
qed (simp add: router_run_def)

end

section \<open>The PostgreSQL store as the router's backend\<close>

lemma load_command_result:
  assumes "load_command db u d cid = Ok (Some lc)"
  shows "\<exists>row. map_of (db_commands db) cid = Some row \<and> row_user_id row = u \<and> row_target row = d \<and>
     lc_result lc = row_result row \<and> decode_command (row_command row) = Ok (lc_command lc)"
  using assms
  by (auto simp: load_command_def and_then_Ok opt_filter_Some split: if_splits option.splits)

lemma wf_commands_result:
  assumes "wf_commands db" "map_of (db_commands db) cid = Some row" "row_result row = Some res"
  shows "res_command_id res = cid \<and> command_result_validate res = Ok ()"
proof -
  have "command_row_ok cid row" using assms(1,2) unfolding wf_commands_def by blast
  with assms(3) show ?thesis by (simp add: command_row_ok_def)
qed

interpretation pgr: router_backend wf_commands db_phase "postgres_ops tc" prune_db
proof -
  have "command_lifecycle_store wf_commands db_phase reserve_command complete_command prune_db"
    by (rule pg.command_lifecycle_store_axioms)
  then show "router_backend wf_commands db_phase (postgres_ops tc) prune_db"
    unfolding router_backend_def router_backend_axioms_def postgres_ops_simps
    by (auto dest!: load_command_result dest: wf_commands_result [OF _ _ sym])
qed

lemma router_ok_def_pg:
  "pgr.router_ok w \<longleftrightarrow>
     wf_commands (rw_store w) \<and> distinct (map fst (rw_flights w)) \<and> within_capacity (rw_flights w) \<and>
     (\<forall>cid \<in> fst ` set (rw_flights w). db_phase (rw_store w) cid = Opened)"
  by (rule pgr.router_ok_def)

section \<open>Where command frames go\<close>

definition commands_in :: "chan \<Rightarrow> registry_state \<Rightarrow> device_command list" where
  "commands_in ch r = List.map_filter (\<lambda>f. case of_payload f of FCommand c \<Rightarrow> Some c | _ \<Rightarrow> None) (outbox r ch)"

lemma map_filter_append: "List.map_filter f (xs @ ys) = List.map_filter f xs @ List.map_filter f ys"
  by (induction xs) (auto simp: map_filter_simps split: option.split)

lemma send_to_outbox:
  "outbox (fst (send_to acc u d c f r)) ch =
     outbox r ch @ (if is_some_and (map_of (active r) d) (\<lambda>a. ac_user_id a = u \<and> ac_connection_id a = c \<and>
         ac_outbound a = ch) \<and> snd (send_to acc u d c f r) then [f] else [])"
  by (cases "map_of (active r) d") (auto simp: send_to_def try_send_frame_def Let_def opt_filter_def)

lemma commands_in_send:
  assumes "\<And>c. p \<noteq> FCommand c"
  shows "commands_in ch (rw_registry (fst (send env u d cn k p w))) = commands_in ch (rw_registry w)"
  using assms by (cases p)
    (auto simp: commands_in_def send_to_outbox map_filter_append map_filter_simps)

lemma commands_in_finish:
  "commands_in ch (rw_registry (finish env ops cid res w)) = commands_in ch (rw_registry w)"
  by (auto simp: finish_def Let_def commands_in_send simp del: send_simps(5) split: option.split prod.split)

lemma commands_in_send':
  "send env u d cn k p w = (w1, r) \<Longrightarrow> (\<And>c. p \<noteq> FCommand c) \<Longrightarrow>
     commands_in ch (rw_registry w1) = commands_in ch (rw_registry w)"
  using commands_in_send [of p ch env u d cn k w] by simp

lemma commands_in_replay:
  "commands_in ch (rw_registry (fst (replay env ops now u cd cc t cid w))) = commands_in ch (rw_registry w)"
proof (cases "so_load_command ops (rw_store w) u t cid")
  case (Inr lifecycle)
  let ?snd = "send env u cd cc ''command.received'' (FReceived \<lparr>cr_command_id = cid,
    cr_received_at = server_timestamp env now, cr_duplicate = True\<rparr>) w"
  obtain w1 r where s: "?snd = (w1, r)" by (cases ?snd)
  have "commands_in ch (rw_registry w1) = commands_in ch (rw_registry w)"
    by (rule commands_in_send' [OF s]) simp
  with Inr s show ?thesis
    by (cases r; cases "Option.bind lifecycle lc_result")
      (simp_all add: replay_def commands_in_send del: send_simps(5))
qed (simp add: replay_def)

text \<open>Dispatch reaches the target's own channel with the resolved command, or nothing.\<close>

lemma commands_in_dispatch:
  assumes "commands_in ch (rw_registry (dispatch env ops later sub c target deadline w)) \<noteq>
      commands_in ch (rw_registry w)"
  obtains c' a where "resolve_command env c = Inr c'"
    "map_of (active (rw_registry w)) (tgt_device_id (cmd_target c)) = Some a"
    "ac_user_id a = sub_owner sub" "ac_connection_id a = ad_connection_id target" "ac_outbound a = ch"
    "commands_in ch (rw_registry (dispatch env ops later sub c target deadline w)) =
       commands_in ch (rw_registry w) @ [c']"
proof (cases "resolve_command env c")
  case (Inl e)
  with assms show thesis by (cases e) (simp add: dispatch_def commands_in_finish)
next
  case (Inr c')
  let ?snd = "send env (sub_owner sub) (tgt_device_id (cmd_target c')) (ad_connection_id target)
    ''device.command'' (FCommand c') w"
  obtain w1 r where s: "?snd = (w1, r)" by (cases ?snd)
  have d: "commands_in ch (rw_registry (dispatch env ops later sub c target deadline w)) =
      commands_in ch (rw_registry w1)"
    using Inr s by (cases r) (simp_all add: dispatch_def commands_in_finish)
  have w1: "rw_registry w1 = fst (send_to (env_accepts env) (sub_owner sub) (tgt_device_id (cmd_target c'))
      (ad_connection_id target) \<lparr>of_kind = ''device.command'', of_payload = FCommand c'\<rparr> (rw_registry w))"
    using s send_simps(5) by (metis fst_conv)
  show thesis
    using assms Inr resolve_command_id [OF Inr] that [of c']
    unfolding d w1
    by (auto simp: commands_in_def send_to_outbox map_filter_append map_filter_simps is_some_and_def
        split: option.splits if_splits)
qed

end
