(* ===== verification/Router_Safety.thy ===== *)
theory Router_Safety
  imports Router_Lifecycle
begin

text \<open>
  Authorization of dispatch, idempotent replay, generation checks on acknowledgements and
  results, and confidentiality of the stream addresses the catalog resolves.
\<close>

section \<open>What a dispatched command went through\<close>

definition with_deadline :: "'s router_env \<Rightarrow> instant \<Rightarrow> device_command \<Rightarrow> device_command" where
  "with_deadline env deadline c = c\<lparr>cmd_deadline_at := Some (server_timestamp env deadline)\<rparr>"

definition reservation_of ::
  "'s router_env \<Rightarrow> fingerprint \<Rightarrow> instant \<Rightarrow> device_command \<Rightarrow> command_reservation" where
  "reservation_of env fp deadline c =
     \<lparr>rv_command = with_deadline env deadline c, rv_fingerprint = fp,
      rv_deadline_at = server_timestamp env deadline\<rparr>"

text \<open>The stages of a submission up to the store's answer.\<close>

definition reaches_store ::
  "'s router_env \<Rightarrow> instant \<Rightarrow> submitter \<Rightarrow> device_command \<Rightarrow> 's router_world \<Rightarrow>
     's store_ops \<Rightarrow> active_device \<Rightarrow> fingerprint \<Rightarrow> instant \<Rightarrow> bool" where
  "reaches_store env now sub c w ops target fp deadline \<longleftrightarrow>
     authorize_controller env now sub c w = Ok () \<and> env_ops env = Some ops \<and>
     admit env ops sub c w = Ok target \<and> choose_deadline env now c = Ok (fp, deadline)"

lemma submit_stopped:
  assumes "\<And>ops target fp deadline. \<not> reaches_store env now sub c w ops target fp deadline"
  shows "fst (submit env now later sub c w) = w" "\<exists>e. snd (submit env now later sub c w) = Err e"
proof -
  have "fst (submit env now later sub c w) = w \<and> (\<exists>e. snd (submit env now later sub c w) = Err e)"
  proof (cases "authorize_controller env now sub c w")
    case auth: (Inr u)
    show ?thesis
    proof (cases "env_ops env")
      case (Some ops)
      show ?thesis
      proof (cases "admit env ops sub c w")
        case (Inr target)
        show ?thesis
        proof (cases "choose_deadline env now c")
          case dl: (Inr p)
          then have False
            using assms [of ops target "fst p" "snd p"] auth Some Inr by (simp add: reaches_store_def)
          then show ?thesis ..
        qed (simp add: submit_def auth Some Inr)
      qed (simp add: submit_def auth Some)
    qed (simp add: submit_def auth)
  qed (simp add: submit_def)
  then show "fst (submit env now later sub c w) = w" "\<exists>e. snd (submit env now later sub c w) = Err e"
    by blast+
qed

lemma submit_reached:
  assumes "reaches_store env now sub c w ops target fp deadline"
    and "so_reserve_command ops (sub_owner sub) (tgt_device_id (cmd_target c))
           (reservation_of env fp deadline c) (rw_store w) = (s, r)"
  shows "submit env now later sub c w =
     (case r of
        Inl _ \<Rightarrow> (w\<lparr>rw_store := s\<rparr>, Err ''persistence_unavailable'')
      | Inr OutConflict \<Rightarrow> (w\<lparr>rw_store := s\<rparr>, Err ''duplicate_command'')
      | Inr OutReplay \<Rightarrow>
          replay env ops later (sub_owner sub) (sub_device sub) (sub_connection sub)
            (tgt_device_id (cmd_target c)) (cmd_id c) (w\<lparr>rw_store := s\<rparr>)
      | Inr OutAccepted \<Rightarrow>
          launch env ops now later sub (with_deadline env deadline c) target deadline (w\<lparr>rw_store := s\<rparr>)
      | Inr _ \<Rightarrow> (w\<lparr>rw_store := s\<rparr>, Err ''forbidden''))"
  using assms
  by (simp add: submit_def reaches_store_def reservation_of_def with_deadline_def Let_def
      split: sum.split store_outcome.split)

lemma commands_in_launch:
  assumes "commands_in ch (rw_registry (fst (launch env ops now later sub c target deadline w))) \<noteq>
      commands_in ch (rw_registry w)"
  obtains c' a where "resolve_command env c = Inr c'"
    "map_of (active (rw_registry w)) (tgt_device_id (cmd_target c)) = Some a"
    "ac_user_id a = sub_owner sub" "ac_connection_id a = ad_connection_id target" "ac_outbound a = ch"
    "commands_in ch (rw_registry (fst (launch env ops now later sub c target deadline w))) =
       commands_in ch (rw_registry w) @ [c']"
proof -
  let ?w1 = "w\<lparr>rw_flights := AList.update (cmd_id c) (new_flight sub c target) (rw_flights w)\<rparr>"
  let ?snd = "send env (sub_owner sub) (sub_device sub) (sub_connection sub) ''command.received''
    (FReceived \<lparr>cr_command_id = cmd_id c, cr_received_at = server_timestamp env now, cr_duplicate = False\<rparr>) ?w1"
  obtain w2 r where s: "?snd = (w2, r)" by (cases ?snd)
  have same: "commands_in ch (rw_registry w2) = commands_in ch (rw_registry w)"
    using commands_in_send' [OF s, of ch] by simp
  have act: "active (rw_registry w2) = active (rw_registry w)"
    using arg_cong [OF s, of "\<lambda>x. active (rw_registry (fst x))"] by simp
  have l: "\<not> over_capacity sub c (rw_flights w)"
    "fst (launch env ops now later sub c target deadline w) = dispatch env ops later sub c target deadline w2"
    using assms s same by (cases r; auto simp: launch_def Let_def split: if_splits)+
  show thesis
    using assms unfolding l(2) same [symmetric]
    by (elim commands_in_dispatch) (use act that l(2) in \<open>auto simp: same\<close>)
qed

lemma submit_commands:
  assumes "commands_in ch (rw_registry (fst (submit env now later sub c w))) \<noteq> commands_in ch (rw_registry w)"
  obtains ops target fp deadline s c' a where
    "reaches_store env now sub c w ops target fp deadline"
    "so_reserve_command ops (sub_owner sub) (tgt_device_id (cmd_target c))
       (reservation_of env fp deadline c) (rw_store w) = (s, Ok OutAccepted)"
    "resolve_command env (with_deadline env deadline c) = Inr c'"
    "map_of (active (rw_registry w)) (tgt_device_id (cmd_target c)) = Some a"
    "ac_user_id a = sub_owner sub" "ac_connection_id a = ad_connection_id target" "ac_outbound a = ch"
    "commands_in ch (rw_registry (fst (submit env now later sub c w))) = commands_in ch (rw_registry w) @ [c']"
proof -
  obtain ops target fp deadline where r: "reaches_store env now sub c w ops target fp deadline"
    using assms submit_stopped(1) by metis
  let ?rsv = "so_reserve_command ops (sub_owner sub) (tgt_device_id (cmd_target c))
       (reservation_of env fp deadline c) (rw_store w)"
  obtain s out where s: "?rsv = (s, out)" by (cases ?rsv)
  have acc: "out = Ok OutAccepted"
    using assms unfolding submit_reached [OF r s]
    by (auto simp: commands_in_replay split: sum.splits store_outcome.splits)
  have eq: "submit env now later sub c w =
      launch env ops now later sub (with_deadline env deadline c) target deadline (w\<lparr>rw_store := s\<rparr>)"
    using submit_reached [OF r s [unfolded acc], of later] by simp
  have "commands_in ch (rw_registry (fst (launch env ops now later sub (with_deadline env deadline c) target
      deadline (w\<lparr>rw_store := s\<rparr>)))) \<noteq> commands_in ch (rw_registry (w\<lparr>rw_store := s\<rparr>))"
    using assms eq by simp
  then show thesis
    by (rule commands_in_launch) (rule that [OF r s [unfolded acc]], auto simp: eq with_deadline_def)
qed

section \<open>Confidentiality of resolved streams\<close>

text \<open>What remains of a world when the addresses of server-resolved streams are blanked.\<close>

fun redact_body :: "command_body \<Rightarrow> command_body" where
  "redact_body (PlayStream RockserverCatalog sid st _) = PlayStream RockserverCatalog sid st []"
| "redact_body body = body"

fun redact_payload :: "frame_payload \<Rightarrow> frame_payload" where
  "redact_payload (FCommand c) = FCommand (c\<lparr>cmd_body := redact_body (cmd_body c)\<rparr>)"
| "redact_payload p = p"

definition redact_frame :: "outbound_frame \<Rightarrow> outbound_frame" where
  "redact_frame f = f\<lparr>of_payload := redact_payload (of_payload f)\<rparr>"

definition redact_registry :: "registry_state \<Rightarrow> registry_state" where
  "redact_registry r = r\<lparr>outbox := (\<lambda>ch. map redact_frame (outbox r ch))\<rparr>"

definition redact_world :: "'s router_world \<Rightarrow> 's router_world" where
  "redact_world w = w\<lparr>rw_registry := redact_registry (rw_registry w)\<rparr>"

definition same_but_address ::
  "resolution_failure + resolved_station \<Rightarrow> resolution_failure + resolved_station \<Rightarrow> bool" where
  "same_but_address a b \<longleftrightarrow>
     (case (a, b) of
        (Inr x, Inr y) \<Rightarrow> rs_presentation x = rs_presentation y
      | (Inl x, Inl y) \<Rightarrow> x = y
      | _ \<Rightarrow> False)"

definition catalogs_differ_in_addresses :: "station_catalog \<Rightarrow> station_catalog \<Rightarrow> bool" where
  "catalogs_differ_in_addresses a b \<longleftrightarrow>
     (\<forall>sid. same_but_address (resolve_station a sid) (resolve_station b sid))"

lemma redact_world_simps [simp]:
  "rw_flights (redact_world w) = rw_flights w"
  "rw_store (redact_world w) = rw_store w"
  "rw_timers (redact_world w) = rw_timers w"
  "redact_world (w\<lparr>rw_flights := m\<rparr>) = (redact_world w)\<lparr>rw_flights := m\<rparr>"
  "redact_world (w\<lparr>rw_store := st\<rparr>) = (redact_world w)\<lparr>rw_store := st\<rparr>"
  "redact_world (w\<lparr>rw_timers := ts\<rparr>) = (redact_world w)\<lparr>rw_timers := ts\<rparr>"
  by (simp_all add: redact_world_def)

lemma redact_try_send:
  "redact_registry (fst (try_send_frame acc ch f r)) = fst (try_send_frame acc ch (redact_frame f) (redact_registry r))"
  "snd (try_send_frame acc ch (redact_frame f) (redact_registry r)) = snd (try_send_frame acc ch f r)"
  by (auto simp: try_send_frame_def Let_def redact_registry_def fun_eq_iff)

lemma redact_send_to:
  "redact_registry (fst (send_to acc u d c f r)) = fst (send_to acc u d c (redact_frame f) (redact_registry r))"
  "snd (send_to acc u d c (redact_frame f) (redact_registry r)) = snd (send_to acc u d c f r)"
proof -
  have a: "active (redact_registry r) = active r" by (simp add: redact_registry_def)
  show "redact_registry (fst (send_to acc u d c f r)) = fst (send_to acc u d c (redact_frame f) (redact_registry r))"
    "snd (send_to acc u d c (redact_frame f) (redact_registry r)) = snd (send_to acc u d c f r)"
    unfolding send_to_def a by (simp_all add: redact_try_send split: option.split)
qed

lemma redact_send:
  assumes "send env u d c k p w = (w1, r)"
  shows "send env u d c k (redact_payload p) (redact_world w) = (redact_world w1, r)"
proof -
  have f: "redact_frame \<lparr>of_kind = k, of_payload = p\<rparr> = \<lparr>of_kind = k, of_payload = redact_payload p\<rparr>"
    by (simp add: redact_frame_def)
  show ?thesis
    using assms redact_send_to [of "env_accepts env" u d c "\<lparr>of_kind = k, of_payload = p\<rparr>" "rw_registry w"]
    unfolding f by (auto simp: send_def Let_def redact_world_def split: prod.splits)
qed

lemma redact_finish: "redact_world (finish env ops cid res w) = finish env ops cid res (redact_world w)"
proof (cases "map_of (rw_flights w) cid")
  case (Some item)
  obtain st out where c: "complete ops (if_owner item) (if_target_device item) res (rw_store w) = (st, out)"
    by (cases "complete ops (if_owner item) (if_target_device item) res (rw_store w)")
  let ?w2 = "w\<lparr>rw_flights := AList.delete cid (rw_flights w), rw_store := st\<rparr>"
  obtain w3 r where s: "send env (if_owner item) (if_controller_device item) (if_controller_connection item)
      ''command.result'' (FResult res) ?w2 = (w3, r)"
    by (cases "send env (if_owner item) (if_controller_device item) (if_controller_connection item)
      ''command.result'' (FResult res) ?w2")
  show ?thesis
    using Some c s redact_send [OF s] by (simp add: finish_def Let_def)
qed (simp add: finish_absent)

text \<open>Replacing the catalog changes nothing but resolution.\<close>

lemma env_catalog_irrelevant [simp]:
  fixes env :: "'s router_env"
  shows "server_timestamp (env\<lparr>env_catalog := x\<rparr>) = server_timestamp env"
    "terminal_message (env\<lparr>env_catalog := x\<rparr>) = terminal_message env"
    "terminal (env\<lparr>env_catalog := x\<rparr>) = terminal env"
    "send (env\<lparr>env_catalog := x\<rparr>) = send env"
    "finish (env\<lparr>env_catalog := x\<rparr>) = finish env"
    "replay (env\<lparr>env_catalog := x\<rparr>) = replay env"
    "authorize_controller (env\<lparr>env_catalog := x\<rparr>) = authorize_controller env"
    "choose_deadline (env\<lparr>env_catalog := x\<rparr>) = choose_deadline env"
    "with_deadline (env\<lparr>env_catalog := x\<rparr>) = with_deadline env"
    "reservation_of (env\<lparr>env_catalog := x\<rparr>) = reservation_of env"
proof -
  show ts: "server_timestamp (env\<lparr>env_catalog := x\<rparr>) = server_timestamp env"
    by (simp add: server_timestamp_def fun_eq_iff)
  show tm: "terminal_message (env\<lparr>env_catalog := x\<rparr>) = terminal_message env"
    by (simp add: terminal_message_def ts fun_eq_iff)
  show "terminal (env\<lparr>env_catalog := x\<rparr>) = terminal env" by (simp add: terminal_def tm fun_eq_iff)
  show sd: "send (env\<lparr>env_catalog := x\<rparr>) = send env" by (simp add: send_def fun_eq_iff)
  show "finish (env\<lparr>env_catalog := x\<rparr>) = finish env" by (intro ext) (unfold finish_def sd, rule refl)
  show "replay (env\<lparr>env_catalog := x\<rparr>) = replay env" by (intro ext) (unfold replay_def sd ts, rule refl)
  show "authorize_controller (env\<lparr>env_catalog := x\<rparr>) = authorize_controller env"
    by (intro ext) (unfold authorize_controller_def ts, rule refl)
  show "choose_deadline (env\<lparr>env_catalog := x\<rparr>) = choose_deadline env"
    by (simp add: choose_deadline_def fun_eq_iff Let_def)
  show wd: "with_deadline (env\<lparr>env_catalog := x\<rparr>) = with_deadline env"
    by (simp add: with_deadline_def ts fun_eq_iff)
  show "reservation_of (env\<lparr>env_catalog := x\<rparr>) = reservation_of env"
    by (simp add: reservation_of_def wd ts fun_eq_iff)
qed

lemma resolve_redacted:
  assumes "env_catalog env = Some a" "catalogs_differ_in_addresses a b"
  shows "(\<exists>e. resolve_command env c = Inl e \<and> resolve_command (env\<lparr>env_catalog := Some b\<rparr>) c = Inl e) \<or>
    (\<exists>x y. resolve_command env c = Inr x \<and> resolve_command (env\<lparr>env_catalog := Some b\<rparr>) c = Inr y \<and>
       redact_payload (FCommand x) = redact_payload (FCommand y) \<and> cmd_target x = cmd_target y \<and>
       cmd_id x = cmd_id y)"
proof (cases "cmd_body c")
  case (PlayStation sid)
  have "same_but_address (resolve_station a sid) (resolve_station b sid)"
    using assms(2) by (simp add: catalogs_differ_in_addresses_def)
  with PlayStation assms(1) show ?thesis
    by (auto simp: resolve_command_def same_but_address_def split: sum.splits resolution_failure.split)
qed (simp_all add: resolve_command_def)

lemma dispatch_redacted:
  assumes "env_catalog env = Some a" "catalogs_differ_in_addresses a b"
  shows "redact_world (dispatch env ops later sub c target deadline w) =
         redact_world (dispatch (env\<lparr>env_catalog := Some b\<rparr>) ops later sub c target deadline w)"
  using resolve_redacted [OF assms, of c]
proof (elim disjE exE conjE)
  fix x y
  assume xy: "resolve_command env c = Inr x" "resolve_command (env\<lparr>env_catalog := Some b\<rparr>) c = Inr y"
    "redact_payload (FCommand x) = redact_payload (FCommand y)" "cmd_target x = cmd_target y" "cmd_id x = cmd_id y"
  let ?snd = "\<lambda>z. send env (sub_owner sub) (tgt_device_id (cmd_target z)) (ad_connection_id target)
    ''device.command'' (FCommand z) w"
  obtain wx rx where sx: "?snd x = (wx, rx)" by (cases "?snd x")
  obtain wy ry where sy: "?snd y = (wy, ry)" by (cases "?snd y")
  have eq: "redact_world wx = redact_world wy" "rx = ry"
    using redact_send [OF sx] redact_send [OF sy] xy(3,4) by simp_all
  have "rw_timers wx = rw_timers wy"
    using arg_cong [OF eq(1), of rw_timers] by simp
  then show ?thesis
    using sx sy eq xy by (cases ry) (simp_all add: dispatch_def redact_finish)
qed (simp add: dispatch_def split: prod.split)

lemma launch_redacted:
  assumes "env_catalog env = Some a" "catalogs_differ_in_addresses a b"
  shows "redact_world (fst (launch env ops now later sub c target deadline w)) =
         redact_world (fst (launch (env\<lparr>env_catalog := Some b\<rparr>) ops now later sub c target deadline w))"
    "snd (launch env ops now later sub c target deadline w) =
         snd (launch (env\<lparr>env_catalog := Some b\<rparr>) ops now later sub c target deadline w)"
  by (auto simp: launch_def Let_def dispatch_redacted [OF assms] split: prod.split sum.split)

lemma submit_redacted:
  assumes "env_catalog env = Some a" "catalogs_differ_in_addresses a b"
  shows "redact_world (fst (submit env now later sub c w)) =
         redact_world (fst (submit (env\<lparr>env_catalog := Some b\<rparr>) now later sub c w)) \<and>
         snd (submit env now later sub c w) = snd (submit (env\<lparr>env_catalog := Some b\<rparr>) now later sub c w)"
proof -
  let ?env = "env\<lparr>env_catalog := Some b\<rparr>"
  have same: "reaches_store ?env now sub c w ops t fp dl = reaches_store env now sub c w ops t fp dl"
    for ops t fp dl using assms(1) by (simp add: reaches_store_def admit_def)
  show ?thesis
  proof (cases "\<exists>ops t fp dl. reaches_store env now sub c w ops t fp dl")
    case True
    then obtain ops t fp dl where r: "reaches_store env now sub c w ops t fp dl" by blast
    obtain s out where s: "so_reserve_command ops (sub_owner sub) (tgt_device_id (cmd_target c))
        (reservation_of env fp dl c) (rw_store w) = (s, out)"
      by (cases "so_reserve_command ops (sub_owner sub) (tgt_device_id (cmd_target c))
        (reservation_of env fp dl c) (rw_store w)")
    from r have r': "reaches_store ?env now sub c w ops t fp dl" by (simp only: same)
    show ?thesis
      unfolding submit_reached [OF r s] submit_reached [OF r', simplified, OF s]
      by (simp add: launch_redacted [OF assms] split: sum.split store_outcome.split)
  next
    case False
    then have "fst (submit env now later sub c w) = w" "fst (submit ?env now later sub c w) = w"
      using submit_stopped(1) same by metis+
    moreover have "snd (submit env now later sub c w) = snd (submit ?env now later sub c w)"
      using False assms(1) unfolding reaches_store_def submit_def admit_def
      by (auto split: sum.split option.split)
    ultimately show ?thesis by simp
  qed
qed

section \<open>The example, submitted\<close>

lemma example_reaches:
  "reaches_store (example_env catalog) 0 example_submitter (example_play 3 7) example_world
     (postgres_ops (\<lambda>_. ''2026-09-03T00:00:00Z''))
     \<lparr>ad_connection_id = 11, ad_manifest = ac_manifest example_player, ad_scopes = []\<rparr> [7] (seconds 10)"
  by (simp add: reaches_store_def example_authorized example_admitted example_deadline)
    (simp add: example_env_def)

lemma example_reservation_of:
  "reservation_of (example_env catalog) [7] (seconds 10) (example_play 3 7) = example_reservation 7 [7]"
  by (simp add: reservation_of_def with_deadline_def example_reservation_def example_play_def
      example_timestamp_def server_timestamp_def example_env_def)

lemma example_with_deadline:
  "with_deadline (example_env catalog) (seconds 10) (example_play 3 7) = example_play 3 7"
  by (simp add: with_deadline_def example_play_def example_timestamp_def server_timestamp_def example_env_def)

definition example_reserved_world :: "control_db router_world" where
  "example_reserved_world = example_world\<lparr>rw_store :=
     example_db\<lparr>db_commands := [(7, reserved_row 5 3 (example_reservation 7 [7]) 0)]\<rparr>\<rparr>"

lemma example_submit_launches:
  "submit (example_env catalog) 0 later example_submitter (example_play 3 7) example_world =
     launch (example_env catalog) (postgres_ops (\<lambda>_. ''2026-09-03T00:00:00Z'')) 0 later example_submitter
       (example_play 3 7) \<lparr>ad_connection_id = 11, ad_manifest = ac_manifest example_player, ad_scopes = []\<rparr>
       (seconds 10) example_reserved_world"
proof -
  have "so_reserve_command (postgres_ops (\<lambda>_. ''2026-09-03T00:00:00Z'')) (sub_owner example_submitter)
      (tgt_device_id (cmd_target (example_play 3 7)))
      (reservation_of (example_env catalog) [7] (seconds 10) (example_play 3 7)) (rw_store example_world) =
      (example_db\<lparr>db_commands := [(7, reserved_row 5 3 (example_reservation 7 [7]) 0)]\<rparr>, Ok OutAccepted)"
    unfolding example_reservation_of using example_reserve [of 7 "[7]"]
    by (simp add: example_submitter_def example_play_def example_world_def)
  from submit_reached [OF example_reaches this] show ?thesis
    by (simp add: example_with_deadline example_reserved_world_def)
qed

lemma example_launch:
  "commands_in 23 (rw_registry (fst (submit (example_env catalog) 0 later example_submitter (example_play 3 7)
     example_world))) = [example_play 3 7]"
  "map fst (rw_flights (fst (submit (example_env catalog) 0 later example_submitter (example_play 3 7)
     example_world))) = [7]"
  "snd (submit (example_env catalog) 0 later example_submitter (example_play 3 7) example_world) = Ok ()"
  unfolding example_submit_launches
  by (simp_all add: launch_def over_capacity_def MAX_CONNECTION_IN_FLIGHT_def
      MAX_TARGET_IN_FLIGHT_def example_reserved_world_def example_world_def send_def send_to_def
      example_submitter_def opt_filter_def example_controller_def example_player_def empty_registry_def
      try_send_frame_def Let_def example_env_def dispatch_def resolve_command_def example_play_def
      commands_in_def map_filter_simps)

lemma example_idle: "commands_in 23 (rw_registry example_world) = []"
  by (simp add: commands_in_def example_world_def empty_registry_def map_filter_simps)

section \<open>Properties\<close>

text \<open>The invariant of a router over the PostgreSQL store.\<close>

definition router_invariant :: "control_db router_world \<Rightarrow> bool" where
  "router_invariant w \<longleftrightarrow>
     wf_commands (rw_store w) \<and> distinct (map fst (rw_flights w)) \<and> within_capacity (rw_flights w) \<and>
     (\<forall>cid \<in> fst ` set (rw_flights w). db_phase (rw_store w) cid = Opened)"

lemma router_invariant_pg: "router_invariant w \<longleftrightarrow> pgr.router_ok w"
  by (simp only: router_invariant_def router_ok_def_pg)

definition over_postgres :: "(control_db router_env \<times> router_event) list \<Rightarrow> bool" where
  "over_postgres evs \<longleftrightarrow> (\<exists>tc. \<forall>(env, ev) \<in> set evs. env_ops env = Some (postgres_ops tc))"

lemma example_world_ok: "router_invariant example_world"
  using example_db_wf
  by (simp add: router_invariant_def example_world_def within_capacity_def sent_by_def queued_for_def)

definition example_run :: "(control_db router_env \<times> router_event) list" where
  "example_run =
     [(example_env None, EvSubmit 0 1 example_submitter (example_play 3 7)),
      (example_env None, EvTimer (seconds 11) 0),
      (example_env None, EvResult (seconds 12) 5 3 11 (example_result 7))]"

lemma example_run_postgres: "over_postgres example_run"
  unfolding over_postgres_def
  by (rule exI [of _ "\<lambda>_. ''2026-09-03T00:00:00Z''"]) (simp add: example_run_def example_env_def)



text \<open>C2: a command delivers at most one terminal result: until its id is submitted again, no run
  adds more than one result frame for it over any finite set of channels, and none if the command is
  not in flight. A timeout or a loss after the result is silent, and so is a result after those.\<close>

theorem one_terminal_result:
  assumes "finite C" "router_invariant w" "over_postgres evs"
    and "\<forall>(env, ev) \<in> set evs. frame_free ev \<and> submits ev \<noteq> Some cid"
  shows "results_in C cid (rw_registry (router_run evs w)) \<le>
    results_in C cid (rw_registry w) + (if cid \<in> fst ` set (rw_flights w) then 1 else 0)"
proof -
  obtain tc where "\<forall>(env, ev) \<in> set evs. env_ops env = Some (postgres_ops tc)"
    using assms(3) unfolding over_postgres_def by blast
  with assms(4) have "\<forall>(env, ev) \<in> set evs. env_ops env = Some (postgres_ops tc) \<and> frame_free ev \<and>
      submits ev \<noteq> Some cid" by auto
  from pgr.potential_run [OF assms(1) assms(2) [unfolded router_invariant_pg] this]
  show ?thesis by (simp add: result_potential_def)
qed

theorem one_terminal_result_witness:
  "results_in {21, 23} 7 (rw_registry (router_run (tl example_run) (router_run [hd example_run] example_world))) \<le>
    results_in {21, 23} 7 (rw_registry (router_run [hd example_run] example_world)) +
    (if 7 \<in> fst ` set (rw_flights (router_run [hd example_run] example_world)) then 1 else 0)"
proof (rule one_terminal_result)
  have pg: "over_postgres [hd example_run]" "over_postgres (tl example_run)"
    using example_run_postgres by (auto simp: over_postgres_def example_run_def)
  show "over_postgres (tl example_run)" by (rule pg)
  obtain tc where "\<forall>(env, ev) \<in> set [hd example_run]. env_ops env = Some (postgres_ops tc)"
    using pg(1) unfolding over_postgres_def by blast
  from pgr.router_run_ok [OF example_world_ok [unfolded router_invariant_pg] this]
  show "router_invariant (router_run [hd example_run] example_world)" unfolding router_invariant_pg .
qed (simp_all add: example_run_def)

text \<open>C1: a command reaches a device only if it was submitted by the active connection of a device
  of the same account that has the controller role and the scope the command needs, if the target
  is active for that account and its manifest supports the command, and if the command validates; it
  is then sent on that target's channel, with a deadline at most 30 seconds ahead.\<close>

theorem dispatch_authorized:
  assumes "commands_in ch (rw_registry (fst (submit env now later sub c w))) \<noteq> commands_in ch (rw_registry w)"
  shows "\<exists>controller target a c'.
    active_for (rw_registry w) (sub_owner sub) (sub_device sub) = Some controller \<and>
    ad_connection_id controller = sub_connection sub \<and>
    Controller \<in> set (man_roles (ad_manifest controller)) \<and>
    required_scope (cmd_body c) \<in> set (ad_scopes controller) \<and>
    validate_at c (server_timestamp env now) = Ok () \<and> \<not> is_catalog_stream (cmd_body c) \<and>
    active_for (rw_registry w) (sub_owner sub) (tgt_device_id (cmd_target c)) = Some target \<and>
    validate_target c (ad_manifest target) = Ok () \<and>
    map_of (active (rw_registry w)) (tgt_device_id (cmd_target c)) = Some a \<and>
    ac_user_id a = sub_owner sub \<and> ac_connection_id a = ad_connection_id target \<and> ac_outbound a = ch \<and>
    commands_in ch (rw_registry (fst (submit env now later sub c w))) = commands_in ch (rw_registry w) @ [c'] \<and>
    cmd_id c' = cmd_id c \<and> cmd_target c' = cmd_target c \<and>
    (\<exists>d. cmd_deadline_at c' = Some d \<and> now < ts_instant d \<and> ts_instant d \<le> now + MAX_TIMEOUT)"
proof -
  from assms obtain ops target fp deadline s c' a where
    r: "reaches_store env now sub c w ops target fp deadline" and
    c': "resolve_command env (with_deadline env deadline c) = Inr c'" and
    a: "map_of (active (rw_registry w)) (tgt_device_id (cmd_target c)) = Some a"
    "ac_user_id a = sub_owner sub" "ac_connection_id a = ad_connection_id target" "ac_outbound a = ch"
    "commands_in ch (rw_registry (fst (submit env now later sub c w))) = commands_in ch (rw_registry w) @ [c']"
    by (rule submit_commands)
  have tgt: "active_for (rw_registry w) (sub_owner sub) (tgt_device_id (cmd_target c)) = Some target"
    "validate_target c (ad_manifest target) = Ok ()"
    using r by (auto simp: reaches_store_def admit_def locate_target_def and_then_Ok
        split: option.splits sum.splits if_splits)
  have dl: "now < deadline" "deadline \<le> now + MAX_TIMEOUT"
    using r by (auto simp: reaches_store_def choose_deadline_def and_then_Ok Let_def split: if_splits)
  have "cmd_id c' = cmd_id c" "cmd_target c' = cmd_target c"
    "cmd_deadline_at c' = Some (server_timestamp env deadline)"
    using resolve_command_id [OF c'] by (simp_all add: with_deadline_def)
  moreover obtain controller where
    "active_for (rw_registry w) (sub_owner sub) (sub_device sub) = Some controller"
    "ad_connection_id controller = sub_connection sub"
    "Controller \<in> set (man_roles (ad_manifest controller))"
    "required_scope (cmd_body c) \<in> set (ad_scopes controller)"
    "validate_at c (server_timestamp env now) = Ok ()" "\<not> is_catalog_stream (cmd_body c)"
    using r by (auto simp: reaches_store_def authorize_controller_def and_then_Ok ok_or_Ok opt_filter_Some
        split: if_splits)
  ultimately show ?thesis
    using tgt a dl by (intro exI conjI) (auto simp: server_timestamp_def)
qed

theorem dispatch_authorized_witness:
  "\<exists>controller target. active_for (rw_registry example_world) 5 2 = Some controller \<and>
     Controller \<in> set (man_roles (ad_manifest controller)) \<and>
     active_for (rw_registry example_world) 5 3 = Some target \<and>
     validate_target (example_play 3 7) (ad_manifest target) = Ok ()"
proof -
  have "commands_in 23 (rw_registry (fst (submit (example_env None) 0 1 example_submitter (example_play 3 7)
      example_world))) \<noteq> commands_in 23 (rw_registry example_world)"
    by (simp add: example_launch example_idle)
  from dispatch_authorized [OF this] show ?thesis
    by (auto simp: example_submitter_def example_play_def)
qed


definition example_catalog :: "string \<Rightarrow> station_catalog" where
  "example_catalog uri sid = CatFound \<lparr>rs_stream_uri = uri, rs_presentation = \<lparr>sp_name = ''Rock'', sp_icon_url = None\<rparr>\<rparr>"

lemma example_resolves:
  "resolve_station (example_catalog ''https://a.example/1'') sid = Ok \<lparr>rs_stream_uri = ''https://a.example/1'',
     rs_presentation = \<lparr>sp_name = ''Rock'', sp_icon_url = None\<rparr>\<rparr>"
  "resolve_station (example_catalog ''https://b.example/2'') sid = Ok \<lparr>rs_stream_uri = ''https://b.example/2'',
     rs_presentation = \<lparr>sp_name = ''Rock'', sp_icon_url = None\<rparr>\<rparr>"
proof -
  have "validate_stream_uri ''https://a.example/1'' = Ok ()" "validate_stream_uri ''https://b.example/2'' = Ok ()"
    "\<not> trimmed_is_empty ''https://a.example/1''" "\<not> trimmed_is_empty ''https://b.example/2''"
    by code_simp+
  then show
    "resolve_station (example_catalog ''https://a.example/1'') sid = Ok \<lparr>rs_stream_uri = ''https://a.example/1'',
       rs_presentation = \<lparr>sp_name = ''Rock'', sp_icon_url = None\<rparr>\<rparr>"
    "resolve_station (example_catalog ''https://b.example/2'') sid = Ok \<lparr>rs_stream_uri = ''https://b.example/2'',
       rs_presentation = \<lparr>sp_name = ''Rock'', sp_icon_url = None\<rparr>\<rparr>"
    by (simp_all add: resolve_station_def example_catalog_def station_presentation_validate_def and_then_def
        bounded_def is_ok_def)
qed


text \<open>An acknowledgement or a result counts only from the exact connection the command was
  delivered to: from any other account, device or connection generation, or for a command that is not
  in flight, it is refused and nothing changes.\<close>

theorem foreign_reports_refused:
  assumes "is_none_or (map_of (rw_flights w) cid) (\<lambda>item. \<not> delivered_to item u d cn)"
    and "ca_command_id acc = cid" "res_command_id res = cid"
  shows "fst (accepted env now u d cn acc w) = w \<and> is_ok (snd (accepted env now u d cn acc w)) = False \<and>
    fst (result env now u d cn res w) = w \<and> is_ok (snd (result env now u d cn res w)) = False"
  using assms
  by (auto simp: accepted_def result_def is_ok_def split: option.split sum.split)

theorem foreign_reports_refused_witness:
  "fst (accepted (example_env None) 0 5 3 11 \<lparr>ca_command_id = 7, ca_accepted_at = example_timestamp 0\<rparr> example_world)
     = example_world \<and>
   fst (result (example_env None) 0 5 3 11 (example_result 7) example_world) = example_world"
proof -
  have "is_none_or (map_of (rw_flights example_world) 7) (\<lambda>item. \<not> delivered_to item 5 3 11)"
    by (simp add: example_world_def)
  from foreign_reports_refused [OF this, of "\<lparr>ca_command_id = 7, ca_accepted_at = example_timestamp 0\<rparr>"
      "example_result 7" "example_env None" 0]
  show ?thesis by (simp add: example_result_def)
qed

lemma fold_finish_flights:
  "rw_flights (fold (\<lambda>(k, rid). finish env ops k (terminal env now k rid code)) lost w) =
     filter (\<lambda>(k, _). k \<notin> fst ` set lost) (rw_flights w)"
proof (induction lost arbitrary: w)
  case (Cons x lost)
  obtain k rid where x: "x = (k, rid)" by (cases x)
  have "AList.delete k (rw_flights w) = filter (\<lambda>(k', _). k' \<noteq> k) (rw_flights w)"
    by (auto simp: AList.delete_eq intro!: filter_cong)
  with Cons show ?case
    by (simp add: x finish_flights) (auto intro!: filter_cong)
qed simp

lemma disconnected_flights:
  assumes "env_ops env = Some ops" "distinct (map fst (rw_flights w))"
  shows "rw_flights (disconnected env now u d cn w) =
    filter (\<lambda>(_, item). \<not> delivered_to item u d cn) (rw_flights w)"
proof -
  have "k \<in> fst ` set (lost_commands u d cn (rw_flights w)) \<longleftrightarrow> delivered_to item u d cn"
    if "(k, item) \<in> set (rw_flights w)" for k item
  proof -
    have "k \<in> fst ` set (lost_commands u d cn (rw_flights w)) \<longleftrightarrow>
        (\<exists>item'. (k, item') \<in> set (rw_flights w) \<and> delivered_to item' u d cn)"
      by (auto simp: lost_commands_def image_iff)
    with that show ?thesis using eq_key_imp_eq_value [OF assms(2) that] by blast
  qed
  then have "filter (\<lambda>(k, _). k \<notin> fst ` set (lost_commands u d cn (rw_flights w))) (rw_flights w) =
      filter (\<lambda>(_, item). \<not> delivered_to item u d cn) (rw_flights w)"
    by (intro filter_cong) auto
  with assms(1) show ?thesis by (simp add: disconnected_def fold_finish_flights)
qed

text \<open>When a connection is lost, exactly the commands delivered to that connection generation
  leave the router; commands of other devices, other connections and those this connection had sent
  as a controller stay in flight.\<close>

theorem loss_fails_exact_generation:
  assumes "env_ops env = Some ops" "distinct (map fst (rw_flights w))"
  shows "rw_flights (disconnected env now u d cn w) =
    filter (\<lambda>(_, item). \<not> delivered_to item u d cn) (rw_flights w)"
  by (rule disconnected_flights [OF assms])

theorem loss_fails_exact_generation_witness:
  "let w = fst (submit (example_env None) 0 1 example_submitter (example_play 3 7) example_world)
   in rw_flights (disconnected (example_env None) 2 5 3 11 w) =
      filter (\<lambda>(_, item). \<not> delivered_to item 5 3 11) (rw_flights w)"
  unfolding Let_def
  by (rule loss_fails_exact_generation)
    (simp add: example_env_def, simp add: example_launch)

text \<open>Resubmitting a command that the store answers as a replay dispatches nothing: no device
  receives a command, nothing new is in flight and no timeout is started.\<close>

theorem replay_dispatches_nothing:
  assumes "reaches_store env now sub c w ops target fp deadline"
    and "so_reserve_command ops (sub_owner sub) (tgt_device_id (cmd_target c))
           (reservation_of env fp deadline c) (rw_store w) = (s, Ok OutReplay)"
  shows "commands_in ch (rw_registry (fst (submit env now later sub c w))) = commands_in ch (rw_registry w) \<and>
    rw_flights (fst (submit env now later sub c w)) = rw_flights w \<and>
    rw_timers (fst (submit env now later sub c w)) = rw_timers w \<and>
    rw_store (fst (submit env now later sub c w)) = s"
  using submit_reached [OF assms] by (simp add: commands_in_replay)

lemma example_replayed:
  "reserve_command 5 3 (example_reservation 7 [7]) (rw_store example_reserved_world) =
     (rw_store example_reserved_world, Ok OutReplay)"
  using example_play_valid [of 7]
  by (simp add: example_reserved_world_def reserve_command_def example_reservation_def transact_def Let_def
      db_owned_def)
    (simp add: example_db_def empty_control_db_def example_play_def existing_answer_def reserved_row_def
      idempotency_window_def seconds_def nanos_per_second_def)

theorem replay_dispatches_nothing_witness:
  "commands_in 23 (rw_registry (fst (submit (example_env None) 0 1 example_submitter (example_play 3 7)
      example_reserved_world))) = []"
proof -
  have r: "reaches_store (example_env None) 0 example_submitter (example_play 3 7) example_reserved_world
     (postgres_ops (\<lambda>_. ''2026-09-03T00:00:00Z''))
     \<lparr>ad_connection_id = 11, ad_manifest = ac_manifest example_player, ad_scopes = []\<rparr> [7] (seconds 10)"
    unfolding reaches_store_def
  proof (intro conjI)
    show "authorize_controller (example_env None) 0 example_submitter (example_play 3 7) example_reserved_world = Ok ()"
      using example_authorized [of None]
      unfolding authorize_controller_def example_reserved_world_def by simp
    show "admit (example_env None) (postgres_ops (\<lambda>_. ''2026-09-03T00:00:00Z'')) example_submitter
        (example_play 3 7) example_reserved_world =
        Ok \<lparr>ad_connection_id = 11, ad_manifest = ac_manifest example_player, ad_scopes = []\<rparr>"
      using example_admitted [of None]
      unfolding admit_def locate_target_def example_reserved_world_def
      by (simp add: example_submitter_def example_play_def example_active_for)
  qed (simp_all add: example_deadline, simp add: example_env_def)
  have "so_reserve_command (postgres_ops (\<lambda>_. ''2026-09-03T00:00:00Z'')) (sub_owner example_submitter)
      (tgt_device_id (cmd_target (example_play 3 7)))
      (reservation_of (example_env None) [7] (seconds 10) (example_play 3 7)) (rw_store example_reserved_world) =
      (rw_store example_reserved_world, Ok OutReplay)"
    unfolding example_reservation_of using example_replayed
    by (simp add: example_submitter_def example_play_def)
  from replay_dispatches_nothing [OF r this, of 23 1] show ?thesis
    using example_idle by (simp add: example_reserved_world_def commands_in_def)
qed

definition example_full_env :: "control_db router_env" where
  "example_full_env = (example_env None)\<lparr>env_accepts := (\<lambda>ch _. ch \<noteq> 21)\<rparr>"

lemma env_accepts_irrelevant:
  fixes env :: "'s router_env"
  shows "server_timestamp (env\<lparr>env_accepts := x\<rparr>) = server_timestamp env"
    "authorize_controller (env\<lparr>env_accepts := x\<rparr>) = authorize_controller env"
    "admit (env\<lparr>env_accepts := x\<rparr>) = admit env"
    "choose_deadline (env\<lparr>env_accepts := x\<rparr>) = choose_deadline env"
    "reservation_of (env\<lparr>env_accepts := x\<rparr>) = reservation_of env"
proof -
  show ts: "server_timestamp (env\<lparr>env_accepts := x\<rparr>) = server_timestamp env"
    by (simp add: server_timestamp_def fun_eq_iff)
  show "authorize_controller (env\<lparr>env_accepts := x\<rparr>) = authorize_controller env"
    by (intro ext) (unfold authorize_controller_def ts, rule refl)
  show "admit (env\<lparr>env_accepts := x\<rparr>) = admit env" by (simp add: admit_def fun_eq_iff)
  show "choose_deadline (env\<lparr>env_accepts := x\<rparr>) = choose_deadline env"
    by (simp add: choose_deadline_def fun_eq_iff Let_def)
  show "reservation_of (env\<lparr>env_accepts := x\<rparr>) = reservation_of env"
    by (simp add: reservation_of_def with_deadline_def ts fun_eq_iff)
qed


end
