(* ===== verification/Control_Session.thy ===== *)
theory Control_Session
  imports Directory Router_Safety
begin

text \<open>
  The device-control WebSocket session (\<open>src/src/http/control.rs\<close>) and its wire protocol
  (\<open>src/src/http/control/protocol.rs\<close>): the bounded handshake, the message loop as one step per
  branch of its \<open>select!\<close>, and the clean-up at the end.

  A session works on the state all sessions share: the router's world (registry, store, commands
  in flight) and the live-state hub. What the source takes from outside are arguments: the
  decoders derived by \<open>serde\<close>, the RFC 3339 parser, the size of a serialized payload, the outcome
  of each socket write, the clock readings, the fresh connection id and channels. A branch of the
  \<open>select!\<close> is one step, its store write and its publication together: sessions interleave between
  branches.
\<close>

section \<open>Wire values\<close>

definition MAX_FRAME_BYTES :: nat where "MAX_FRAME_BYTES = 65536"

definition MAX_PAYLOAD_BYTES :: nat where "MAX_PAYLOAD_BYTES = 61440"

record 'p client_envelope =
  ce_protocol_version :: nat
  ce_message_id :: uuid
  ce_kind :: string
  ce_sent_at :: string
  ce_payload :: 'p

record hello_payload =
  hp_supported_protocol_versions :: "nat list"

record register_payload =
  rp_device_type :: string
  rp_app_version :: string
  rp_manifest :: device_manifest

record device_control_limits =
  lim_max_json_frame_bytes :: nat
  lim_max_payload_bytes :: nat
  lim_max_capabilities :: nat
  lim_max_entities :: nat
  lim_max_surfaces :: nat
  lim_max_directory_devices :: nat
  lim_heartbeat_interval_seconds :: nat
  lim_offline_ttl_seconds :: nat
  lim_max_in_flight_per_connection :: nat
  lim_max_in_flight_per_target_device :: nat
  lim_default_command_timeout_seconds :: nat
  lim_max_command_timeout_seconds :: nat
  lim_command_idempotency_window_seconds :: nat
  lim_max_stream_redirects :: nat

definition limits :: device_control_limits where
  "limits =
     \<lparr>lim_max_json_frame_bytes = 65536, lim_max_payload_bytes = 61440, lim_max_capabilities = 32,
      lim_max_entities = 256, lim_max_surfaces = 16, lim_max_directory_devices = 50,
      lim_heartbeat_interval_seconds = 20, lim_offline_ttl_seconds = 60,
      lim_max_in_flight_per_connection = 16, lim_max_in_flight_per_target_device = 8,
      lim_default_command_timeout_seconds = 10, lim_max_command_timeout_seconds = 30,
      lim_command_idempotency_window_seconds = 86400, lim_max_stream_redirects = 5\<rparr>"

datatype protocol_parse_error = ParseInvalid | ParseTooLarge

fun scope_name :: "device_control_scope \<Rightarrow> string" where
  "scope_name DirectoryRead = ''device.directory.read''"
| "scope_name PresenceRead = ''device.presence.read''"
| "scope_name EntityStateRead = ''entity.state.read''"
| "scope_name MediaControl = ''media.control''"
| "scope_name DisplayControl = ''display.control''"
| "scope_name ActuatorControl = ''actuator.control''"

record registered_payload =
  rg_connection_id :: connection_id
  rg_authenticated_user_id :: user_id
  rg_authenticated_device_id :: device_id
  rg_granted_scopes :: "string list"
  rg_heartbeat_interval_seconds :: nat
  rg_offline_ttl_seconds :: nat
  rg_require_full_state :: bool

datatype server_message =
    MWelcome connection_id device_control_limits
  | MRegistered registered_payload
  | MDirectorySnapshot directory_dto
  | MDirectoryUpsert u64 directory_device
  | MHeartbeatAck u64
  | MResync string string
  | MProtocolError string
  | MCommandError string
  | MOutbound outbound_frame

datatype socket_frame = FrameMessage server_message | FrameClose nat string

text \<open>What a socket read yields; a lost connection and the end of the stream are one case.\<close>

datatype ws_message = WsText string | WsClose | WsBinary | WsOther | WsLost

record decoders =
  dc_hello :: "string \<Rightarrow> hello_payload client_envelope option"
  dc_register :: "string \<Rightarrow> register_payload client_envelope option"
  dc_any :: "string \<Rightarrow> json client_envelope option"
  dc_rfc3339 :: "string \<Rightarrow> instant option"
  dc_hello_size :: "hello_payload \<Rightarrow> nat"
  dc_register_size :: "register_payload \<Rightarrow> nat"
  dc_json_size :: "json \<Rightarrow> nat"
  dc_heartbeat :: "json \<Rightarrow> u64 option"
  dc_manifest :: "json \<Rightarrow> device_manifest option"
  dc_full_state :: "json \<Rightarrow> device_state_snapshot option"
  dc_state_delta :: "json \<Rightarrow> device_state_delta option"
  dc_entity_state :: "json \<Rightarrow> entity_state option"
  dc_command :: "json \<Rightarrow> device_command option"
  dc_accepted :: "json \<Rightarrow> command_accepted option"
  dc_result :: "json \<Rightarrow> command_result option"

definition parse_message ::
  "decoders \<Rightarrow> (string \<Rightarrow> 'p client_envelope option) \<Rightarrow> ('p \<Rightarrow> nat) \<Rightarrow> string \<Rightarrow> string \<Rightarrow>
     protocol_parse_error + 'p client_envelope" where
  "parse_message dc decode psize text expected_kind =
     (if MAX_FRAME_BYTES < length text then Err ParseTooLarge
      else
        and_then (ok_or ParseInvalid (decode text)) (\<lambda>m.
        if ce_protocol_version m \<noteq> 1 \<or> ce_kind m \<noteq> expected_kind \<or> dc_rfc3339 dc (ce_sent_at m) = None \<or>
           MAX_PAYLOAD_BYTES < psize (ce_payload m)
        then Err ParseInvalid else Ok m))"

definition parse_any :: "decoders \<Rightarrow> string \<Rightarrow> protocol_parse_error + json client_envelope" where
  "parse_any dc text =
     (if MAX_FRAME_BYTES < length text then Err ParseTooLarge
      else
        and_then (ok_or ParseInvalid (dc_any dc text)) (\<lambda>m.
        if ce_protocol_version m \<noteq> 1 \<or> 64 < length (ce_kind m) \<or> dc_rfc3339 dc (ce_sent_at m) = None \<or>
           MAX_PAYLOAD_BYTES < dc_json_size dc (ce_payload m)
        then Err ParseInvalid else Ok m))"

text \<open>The read is bounded by the registration deadline: \<open>None\<close> is a timeout.\<close>

definition receive_message ::
  "decoders \<Rightarrow> (string \<Rightarrow> 'p client_envelope option) \<Rightarrow> ('p \<Rightarrow> nat) \<Rightarrow> ws_message option \<Rightarrow> string \<Rightarrow>
     protocol_parse_error + 'p client_envelope" where
  "receive_message dc decode psize received expected_kind =
     (case received of
        Some (WsText text) \<Rightarrow> parse_message dc decode psize text expected_kind
      | _ \<Rightarrow> Err ParseInvalid)"

definition valid_hello :: "hello_payload \<Rightarrow> bool" where
  "valid_hello p \<longleftrightarrow>
     1 \<le> length (hp_supported_protocol_versions p) \<and> length (hp_supported_protocol_versions p) \<le> 4 \<and>
     1 \<in> set (hp_supported_protocol_versions p)"

definition valid_registration :: "register_payload \<Rightarrow> bool" where
  "valid_registration p \<longleftrightarrow>
     rp_device_type p \<noteq> [] \<and> length (rp_device_type p) \<le> 64 \<and>
     rp_app_version p \<noteq> [] \<and> length (rp_app_version p) \<le> 64"

section \<open>Shared state and sockets\<close>

record 's control_system =
  sys_world :: "'s router_world"
  sys_hub :: state_hub

record socket =
  sk_sent :: "socket_frame list"
  sk_attempts :: nat

record 's session_env =
  se_router :: "'s router_env"
  se_directory :: "'s directory_env"
  se_decoders :: decoders
  se_transport :: "nat \<Rightarrow> bool"
  se_offline_ttl :: instant

text \<open>The write fails when the transport does; what was not taken is not sent.\<close>

definition socket_send :: "'s session_env \<Rightarrow> socket_frame \<Rightarrow> socket \<Rightarrow> socket \<times> bool" where
  "socket_send env f sk =
     (let sent = se_transport env (sk_attempts sk)
      in (\<lparr>sk_sent = (if sent then sk_sent sk @ [f] else sk_sent sk), sk_attempts = Suc (sk_attempts sk)\<rparr>, sent))"

definition send_envelope :: "'s session_env \<Rightarrow> server_message \<Rightarrow> socket \<Rightarrow> socket \<times> bool" where
  "send_envelope env m = socket_send env (FrameMessage m)"

definition protocol_close :: "'s session_env \<Rightarrow> string \<Rightarrow> nat \<Rightarrow> socket \<Rightarrow> socket" where
  "protocol_close env code close_code sk =
     fst (socket_send env (FrameClose close_code code) (fst (send_envelope env (MProtocolError code) sk)))"

definition send_command_error :: "'s session_env \<Rightarrow> string \<Rightarrow> socket \<Rightarrow> socket" where
  "send_command_error env code sk = fst (send_envelope env (MCommandError code) sk)"

record session =
  ss_principal :: control_principal
  ss_connection_id :: connection_id
  ss_manifest :: device_manifest
  ss_scopes :: "device_control_scope list"
  ss_needs_full_state :: bool
  ss_last_seen :: instant
  ss_directory_enabled :: bool
  ss_socket :: socket

abbreviation ss_user :: "session \<Rightarrow> user_id" where
  "ss_user ss \<equiv> cp_user_id (ss_principal ss)"

abbreviation ss_device :: "session \<Rightarrow> device_id" where
  "ss_device ss \<equiv> cp_device_id (ss_principal ss)"

abbreviation sys_registry :: "'s control_system \<Rightarrow> registry_state" where
  "sys_registry sys \<equiv> rw_registry (sys_world sys)"

abbreviation sys_store :: "'s control_system \<Rightarrow> 's" where
  "sys_store sys \<equiv> rw_store (sys_world sys)"

definition with_registry :: "registry_state \<Rightarrow> 's control_system \<Rightarrow> 's control_system" where
  "with_registry r sys = sys\<lparr>sys_world := (sys_world sys)\<lparr>rw_registry := r\<rparr>\<rparr>"

definition with_store :: "'s \<Rightarrow> 's control_system \<Rightarrow> 's control_system" where
  "with_store s sys = sys\<lparr>sys_world := (sys_world sys)\<lparr>rw_store := s\<rparr>\<rparr>"

text \<open>A handled branch: the shared state, the session, and the reason when the loop is left.\<close>

type_synonym 's branch_outcome = "'s control_system \<times> session \<times> disconnect_reason option"

definition go_on :: "'s control_system \<Rightarrow> session \<Rightarrow> 's branch_outcome" where
  "go_on sys ss = (sys, ss, None)"

definition leave :: "disconnect_reason \<Rightarrow> 's control_system \<Rightarrow> session \<Rightarrow> 's branch_outcome" where
  "leave why sys ss = (sys, ss, Some why)"

definition close_with ::
  "'s session_env \<Rightarrow> string \<Rightarrow> nat \<Rightarrow> 's control_system \<Rightarrow> session \<Rightarrow> 's branch_outcome" where
  "close_with env code close_code sys ss =
     leave TransportLost sys (ss\<lparr>ss_socket := protocol_close env code close_code (ss_socket ss)\<rparr>)"

definition resync ::
  "'s session_env \<Rightarrow> string \<Rightarrow> string \<Rightarrow> 's control_system \<Rightarrow> session \<Rightarrow> 's branch_outcome" where
  "resync env kind why sys ss =
     go_on sys (ss\<lparr>ss_socket := fst (send_envelope env (MResync kind why) (ss_socket ss))\<rparr>)"

text \<open>A manifest or state write through the optional store, and whether the outcome passes.\<close>

definition persist ::
  "'s session_env \<Rightarrow> ('s store_ops \<Rightarrow> 's store_write) \<Rightarrow> (store_error + store_outcome \<Rightarrow> bool) \<Rightarrow>
     's control_system \<Rightarrow> 's control_system \<times> bool" where
  "persist env write passes sys =
     (case env_ops (se_router env) of
        None \<Rightarrow> (sys, True)
      | Some ops \<Rightarrow>
          let (s, r) = write ops (sys_store sys) in (with_store s sys, passes r))"

definition accepted_or_replay :: "store_error + store_outcome \<Rightarrow> bool" where
  "accepted_or_replay r \<longleftrightarrow> r = Ok OutAccepted \<or> r = Ok OutReplay"

definition accepted_full_snapshot :: "store_error + store_outcome \<Rightarrow> bool" where
  "accepted_full_snapshot r \<longleftrightarrow> r = Ok OutAccepted \<or> r = Ok OutReplay \<or> r = Ok OutStale"

section \<open>Message handlers\<close>

definition on_heartbeat ::
  "'s session_env \<Rightarrow> instant \<Rightarrow> json \<Rightarrow> 's control_system \<Rightarrow> session \<Rightarrow> 's branch_outcome" where
  "on_heartbeat env now payload sys ss =
     (case dc_heartbeat (se_decoders env) payload of
        None \<Rightarrow> close_with env ''invalid_message'' 1007 sys ss
      | Some sequence \<Rightarrow>
          if ss_needs_full_state ss then close_with env ''full_state_required'' 1008 sys ss
          else
            let ss1 = ss\<lparr>ss_last_seen := now\<rparr>;
                (r, alive) = heartbeat (ss_device ss) (ss_connection_id ss) now (sys_registry sys);
                sys1 = with_registry r sys
            in if \<not> alive then leave Replaced sys1 ss1
               else case send_envelope env (MHeartbeatAck sequence) (ss_socket ss1) of
                   (sk, sent) \<Rightarrow> (sys1, ss1\<lparr>ss_socket := sk\<rparr>, if sent then None else Some TransportLost))"

definition on_manifest ::
  "'s session_env \<Rightarrow> json \<Rightarrow> 's control_system \<Rightarrow> session \<Rightarrow> 's branch_outcome" where
  "on_manifest env payload sys ss =
     (case opt_filter (\<lambda>m. is_ok (manifest_validate m)) (dc_manifest (se_decoders env) payload) of
        None \<Rightarrow> close_with env ''invalid_message'' 1007 sys ss
      | Some m \<Rightarrow>
          let (sys1, persisted) = persist env (\<lambda>ops. so_apply_manifest ops (ss_user ss) (ss_device ss) m)
                accepted_or_replay sys
          in if persisted
             then go_on ((with_registry (fst (update_manifest (ss_device ss) (ss_connection_id ss) m (sys_registry sys1))) sys1)
                    \<lparr>sys_hub := publish_manifest (ss_user ss) (ss_device ss) (sys_hub sys1)\<rparr>)
                  (ss\<lparr>ss_manifest := m\<rparr>)
             else close_with env ''manifest_rejected'' 1008 sys1 ss)"

definition on_state_full ::
  "'s session_env \<Rightarrow> json \<Rightarrow> 's control_system \<Rightarrow> session \<Rightarrow> 's branch_outcome" where
  "on_state_full env payload sys ss =
     (case opt_filter valid_snapshot (dc_full_state (se_decoders env) payload) of
        None \<Rightarrow> close_with env ''invalid_message'' 1007 sys ss
      | Some snapshot \<Rightarrow>
          let (sys1, persisted) = persist env (\<lambda>ops. so_store_device_state ops (ss_user ss) (ss_device ss) snapshot)
                accepted_full_snapshot sys
          in if \<not> persisted then resync env ''device_state'' ''revision_gap'' sys1 (ss\<lparr>ss_needs_full_state := True\<rparr>)
             else
               let (hub, order) = accept_snapshot (ss_user ss) (ss_device ss) snapshot (sys_hub sys1);
                   sys2 = sys1\<lparr>sys_hub := hub\<rparr>
               in if order = Next \<or> order = Replay \<or> order = Stale
                  then go_on sys2 (ss\<lparr>ss_needs_full_state := False\<rparr>)
                  else resync env ''device_state'' ''revision_gap'' sys2 (ss\<lparr>ss_needs_full_state := True\<rparr>))"

definition on_state_delta ::
  "'s session_env \<Rightarrow> json \<Rightarrow> 's control_system \<Rightarrow> session \<Rightarrow> 's branch_outcome" where
  "on_state_delta env payload sys ss =
     (case dc_state_delta (se_decoders env) payload of
        None \<Rightarrow> close_with env ''invalid_message'' 1007 sys ss
      | Some dl \<Rightarrow>
          if ss_needs_full_state ss \<or> \<not> valid_delta dl
          then resync env ''device_state'' ''missing_base'' sys (ss\<lparr>ss_needs_full_state := True\<rparr>)
          else case hub_device_state (sys_hub sys) (ss_user ss) (ss_device ss) of
              None \<Rightarrow> resync env ''device_state'' ''missing_base'' sys (ss\<lparr>ss_needs_full_state := True\<rparr>)
            | Some current \<Rightarrow>
                let merged = \<lparr>snap_revision = delta_revision dl, snap_observed_at = delta_observed_at dl,
                              snap_received_at = None, snap_state = merge_state (snap_state current) (delta_changes dl)\<rparr>;
                    order = revision_order (snap_revision current) (snap_state current) (snap_revision merged)
                              (snap_state merged) (Some (delta_base_revision dl))
                in if order = Next then
                     let (sys1, persisted) = persist env
                           (\<lambda>ops. so_store_device_state ops (ss_user ss) (ss_device ss) merged) accepted_or_replay sys
                     in if persisted
                        then go_on (sys1\<lparr>sys_hub := publish_device_state (ss_user ss) (ss_device ss) merged (sys_hub sys1)\<rparr>) ss
                        else resync env ''device_state'' ''revision_gap'' sys1 (ss\<lparr>ss_needs_full_state := True\<rparr>)
                   else if order = Replay \<or> order = Stale then go_on sys ss
                   else resync env ''device_state'' ''revision_gap'' sys (ss\<lparr>ss_needs_full_state := True\<rparr>))"

text \<open>The reading is checked against every declared entity; one that passes is enough.\<close>

definition on_entity_state ::
  "'s session_env \<Rightarrow> instant \<Rightarrow> json \<Rightarrow> 's control_system \<Rightarrow> session \<Rightarrow> 's branch_outcome" where
  "on_entity_state env now payload sys ss =
     (case opt_filter (\<lambda>st. list_ex (\<lambda>e. is_ok (entity_state_validate_for st e)) (man_entities (ss_manifest ss)))
             (dc_entity_state (se_decoders env) payload) of
        None \<Rightarrow> close_with env ''invalid_message'' 1007 sys ss
      | Some st \<Rightarrow>
          let st1 = st\<lparr>es_freshness := Some (freshness_at st (server_timestamp (se_router env) now))\<rparr>;
              order = entity_revision (sys_hub sys) (ss_user ss) (ss_device ss) st1;
              publish = (\<lambda>sys. sys\<lparr>sys_hub := publish_entity_state (ss_user ss) (ss_device ss) st1 (sys_hub sys)\<rparr>)
          in if order = Next then
               (case env_ops (se_router env) of
                  None \<Rightarrow> go_on (publish sys) ss
                | Some ops \<Rightarrow>
                    let (s, r) = so_store_entity_state ops (ss_user ss) (ss_device ss) st1 (sys_store sys);
                        sys1 = with_store s sys
                    in if accepted_or_replay r then go_on (publish sys1) ss
                       else if r = Ok OutStale then go_on sys1 ss
                       else resync env ''entity_state'' ''revision_gap'' sys1 ss)
             else if order = Replay \<or> order = Stale then go_on sys ss
             else resync env ''entity_state'' ''revision_gap'' sys ss)"

text \<open>A command-path error is answered on the socket; the session goes on.\<close>

definition answer_command ::
  "'s session_env \<Rightarrow> session \<Rightarrow> 's control_system \<times> (command_error + unit) \<Rightarrow> 's branch_outcome" where
  "answer_command env ss r =
     (case r of
        (sys, Inr _) \<Rightarrow> go_on sys ss
      | (sys, Inl code) \<Rightarrow> go_on sys (ss\<lparr>ss_socket := send_command_error env code (ss_socket ss)\<rparr>))"

definition in_world ::
  "('s router_world \<Rightarrow> 's router_world \<times> 'r) \<Rightarrow> 's control_system \<Rightarrow> 's control_system \<times> 'r" where
  "in_world f sys = (case f (sys_world sys) of (w, r) \<Rightarrow> (sys\<lparr>sys_world := w\<rparr>, r))"

definition on_command ::
  "'s session_env \<Rightarrow> instant \<Rightarrow> instant \<Rightarrow> string \<Rightarrow> json \<Rightarrow> 's control_system \<Rightarrow> session \<Rightarrow> 's branch_outcome" where
  "on_command env now later message_id payload sys ss =
     answer_command env ss
       (case dc_command (se_decoders env) payload of
          None \<Rightarrow> (sys, Err ''invalid_payload'')
        | Some c \<Rightarrow> in_world (submit (se_router env) now later
            \<lparr>sub_owner = ss_user ss, sub_device = ss_device ss, sub_connection = ss_connection_id ss,
             sub_request_id = message_id\<rparr> c) sys)"

definition on_accepted ::
  "'s session_env \<Rightarrow> instant \<Rightarrow> json \<Rightarrow> 's control_system \<Rightarrow> session \<Rightarrow> 's branch_outcome" where
  "on_accepted env now payload sys ss =
     answer_command env ss
       (case dc_accepted (se_decoders env) payload of
          None \<Rightarrow> (sys, Err ''invalid_payload'')
        | Some acc \<Rightarrow> in_world (accepted (se_router env) now (ss_user ss) (ss_device ss) (ss_connection_id ss) acc) sys)"

definition on_result ::
  "'s session_env \<Rightarrow> instant \<Rightarrow> json \<Rightarrow> 's control_system \<Rightarrow> session \<Rightarrow> 's branch_outcome" where
  "on_result env now payload sys ss =
     answer_command env ss
       (case dc_result (se_decoders env) payload of
          None \<Rightarrow> (sys, Err ''invalid_payload'')
        | Some res \<Rightarrow> in_world (result (se_router env) now (ss_user ss) (ss_device ss) (ss_connection_id ss) res) sys)"

text \<open>Dispatch on the envelope's kind. The message id is printed for the router.\<close>

definition on_text ::
  "'s session_env \<Rightarrow> (uuid \<Rightarrow> string) \<Rightarrow> instant \<Rightarrow> instant \<Rightarrow> string \<Rightarrow> 's control_system \<Rightarrow> session \<Rightarrow>
     's branch_outcome" where
  "on_text env show_uuid now later text sys ss =
     (case parse_any (se_decoders env) text of
        Inl ParseTooLarge \<Rightarrow> close_with env ''frame_too_large'' 1009 sys ss
      | Inl ParseInvalid \<Rightarrow> close_with env ''invalid_message'' 1007 sys ss
      | Inr m \<Rightarrow>
          if ce_kind m = ''device.heartbeat'' then on_heartbeat env now (ce_payload m) sys ss
          else if ce_kind m = ''device.manifest'' then on_manifest env (ce_payload m) sys ss
          else if ce_kind m = ''device.state_full'' then on_state_full env (ce_payload m) sys ss
          else if ce_kind m = ''device.state_delta'' then on_state_delta env (ce_payload m) sys ss
          else if ce_kind m = ''entity.state'' then on_entity_state env now (ce_payload m) sys ss
          else if ce_kind m = ''device.command''
          then on_command env now later (show_uuid (ce_message_id m)) (ce_payload m) sys ss
          else if ce_kind m = ''command.accepted'' then on_accepted env now (ce_payload m) sys ss
          else if ce_kind m = ''command.result'' then on_result env now (ce_payload m) sys ss
          else close_with env ''invalid_message'' 1007 sys ss)"
section \<open>The loop\<close>

datatype directory_notice = DirEvent state_event | DirLagged | DirClosed

datatype session_event =
    SvShutdown
  | SvSilence
  | SvReplaced "disconnect_reason option"
  | SvOutbound "outbound_frame option"
  | SvDirectory directory_notice
  | SvMessage ws_message

fun event_device :: "state_event \<Rightarrow> device_id" where
  "event_device (ManifestEvent d) = d"
| "event_device (PresenceEvent d _) = d"
| "event_device (DeviceStateEvent d _) = d"
| "event_device (EntityStateEvent d _) = d"

definition no_filters :: directory_filters where
  "no_filters = \<lparr>df_domain = None, df_device_class = None\<rparr>"

definition session_directory ::
  "'s session_env \<Rightarrow> session \<Rightarrow> 's control_system \<Rightarrow> unit + directory_dto" where
  "session_directory env ss sys =
     directory_snapshot (se_directory env) (sys_store sys) (sys_registry sys) (ss_user ss) (ss_scopes ss) no_filters
       (hub_cursor (sys_hub sys) (ss_user ss))"

definition on_directory ::
  "'s session_env \<Rightarrow> directory_notice \<Rightarrow> 's control_system \<Rightarrow> session \<Rightarrow> 's branch_outcome" where
  "on_directory env notice sys ss =
     (case notice of
        DirLagged \<Rightarrow> close_with env ''directory_resync_required'' 1008 sys ss
      | DirClosed \<Rightarrow> leave TransportLost sys ss
      | DirEvent e \<Rightarrow>
          (case session_directory env ss sys of
             Inl _ \<Rightarrow> close_with env ''directory_unavailable'' 1011 sys ss
           | Inr dto \<Rightarrow>
               (case find (\<lambda>device. dd_device_id device = event_device e) (dir_devices dto) of
                  None \<Rightarrow> go_on sys ss
                | Some device \<Rightarrow>
                    (case send_envelope env
                            (MDirectoryUpsert (max (hub_cursor (sys_hub sys) (ss_user ss)) 1) device) (ss_socket ss) of
                       (sk, sent) \<Rightarrow> (sys, ss\<lparr>ss_socket := sk\<rparr>, if sent then None else Some TransportLost)))))"

text \<open>
  One branch of the loop. The silence timer and the directory stream are guarded as the source
  guards them: a branch that is not enabled does not run.
\<close>

definition session_step ::
  "'s session_env \<Rightarrow> (uuid \<Rightarrow> string) \<Rightarrow> instant \<Rightarrow> instant \<Rightarrow> session_event \<Rightarrow> 's control_system \<Rightarrow> session \<Rightarrow>
     's branch_outcome" where
  "session_step env show_uuid now later ev sys ss =
     (case ev of
        SvShutdown \<Rightarrow>
          leave TransportLost sys
            (ss\<lparr>ss_socket := fst (socket_send env (FrameClose 1001 ''server_shutdown'') (ss_socket ss))\<rparr>)
      | SvSilence \<Rightarrow>
          if ss_last_seen ss + se_offline_ttl env \<le> now
          then leave HeartbeatExpired sys (ss\<lparr>ss_socket := protocol_close env ''heartbeat_expired'' 1008 (ss_socket ss)\<rparr>)
          else go_on sys ss
      | SvReplaced why \<Rightarrow>
          leave (case why of None \<Rightarrow> TransportLost | Some x \<Rightarrow> x) sys
            (ss\<lparr>ss_socket := fst (socket_send env (FrameClose 4001 ''replaced'') (ss_socket ss))\<rparr>)
      | SvOutbound None \<Rightarrow> leave TransportLost sys ss
      | SvOutbound (Some f) \<Rightarrow>
          (case send_envelope env (MOutbound f) (ss_socket ss) of
             (sk, sent) \<Rightarrow> (sys, ss\<lparr>ss_socket := sk\<rparr>, if sent then None else Some TransportLost))
      | SvDirectory notice \<Rightarrow> if ss_directory_enabled ss then on_directory env notice sys ss else go_on sys ss
      | SvMessage (WsText text) \<Rightarrow> on_text env show_uuid now later text sys ss
      | SvMessage WsClose \<Rightarrow> leave GracefulDisconnect sys ss
      | SvMessage WsBinary \<Rightarrow> close_with env ''invalid_message'' 1003 sys ss
      | SvMessage WsOther \<Rightarrow> go_on sys ss
      | SvMessage WsLost \<Rightarrow> leave TransportLost sys ss)"

definition session_end ::
  "'s session_env \<Rightarrow> instant \<Rightarrow> disconnect_reason \<Rightarrow> session \<Rightarrow> 's control_system \<Rightarrow> 's control_system" where
  "session_end env now why ss sys =
     (case disconnect (ss_device ss) (ss_connection_id ss) why (sys_registry sys) of
        (r, False) \<Rightarrow> with_registry r sys
      | (r, True) \<Rightarrow>
          let sys1 = with_registry r sys;
              w = disconnected (se_router env) now (ss_user ss) (ss_device ss) (ss_connection_id ss) (sys_world sys1)
          in sys1\<lparr>sys_world := w, sys_hub := publish_presence (ss_user ss) (ss_device ss) False (sys_hub sys1)\<rparr>)"

section \<open>The upgrade\<close>

text \<open>The HTTP answer before the upgrade, or the principal the session runs for.\<close>

definition control_connect ::
  "(string \<Rightarrow> string) \<Rightarrow> session_resolver option \<Rightarrow> string option \<Rightarrow> http_error + control_principal" where
  "control_connect token_hash resolver authorization =
     (case resolver of
        None \<Rightarrow> Err (retryable ''control_unavailable'')
      | Some lookup \<Rightarrow>
          (case authenticate_device_control token_hash authorization lookup of
             Inr p \<Rightarrow> Ok p
           | Inl InvalidCredential \<Rightarrow> Err unauthorized_response
           | Inl AuthUnavailable \<Rightarrow> Err (retryable ''control_auth_unavailable'')))"

section \<open>The handshake\<close>

text \<open>What the handshake leaves: a closed socket, or a session that enters the loop.\<close>

datatype handshake_result = HsClosed socket | HsRunning session

definition hello_phase ::
  "'s session_env \<Rightarrow> connection_id \<Rightarrow> ws_message option \<Rightarrow> socket \<Rightarrow> socket \<times> bool" where
  "hello_phase env connection_id received sk =
     (case receive_message (se_decoders env) (dc_hello (se_decoders env)) (dc_hello_size (se_decoders env)) received
             ''protocol.hello'' of
        Inl ParseTooLarge \<Rightarrow> (protocol_close env ''frame_too_large'' 1009 sk, False)
      | Inl ParseInvalid \<Rightarrow> (protocol_close env ''invalid_message'' 1007 sk, False)
      | Inr m \<Rightarrow>
          if \<not> valid_hello (ce_payload m) then (protocol_close env ''unsupported_protocol_version'' 1002 sk, False)
          else send_envelope env (MWelcome connection_id limits) sk)"

definition register_phase ::
  "'s session_env \<Rightarrow> ws_message option \<Rightarrow> socket \<Rightarrow> socket + register_payload" where
  "register_phase env received sk =
     (case receive_message (se_decoders env) (dc_register (se_decoders env)) (dc_register_size (se_decoders env))
             received ''device.register'' of
        Inl ParseTooLarge \<Rightarrow> Inl (protocol_close env ''frame_too_large'' 1009 sk)
      | Inl ParseInvalid \<Rightarrow> Inl (protocol_close env ''registration_required'' 1008 sk)
      | Inr m \<Rightarrow>
          if \<not> valid_registration (ce_payload m) \<or> \<not> is_ok (manifest_validate (rp_manifest (ce_payload m)))
          then Inl (protocol_close env ''invalid_message'' 1007 sk)
          else Inr (ce_payload m))"

text \<open>Registration proper: the registry entry, the loss of the replaced connection, the event.\<close>

definition register_connection ::
  "'s session_env \<Rightarrow> instant \<Rightarrow> control_principal \<Rightarrow> connection_id \<Rightarrow> chan \<Rightarrow> chan \<Rightarrow> device_manifest \<Rightarrow>
     's control_system \<Rightarrow> 's control_system" where
  "register_connection env now p connection_id replacement outbound m sys =
     (let (r, previous) = register (env_accepts (se_router env))
            \<lparr>reg_user_id = cp_user_id p, reg_device_id = cp_device_id p, reg_connection_id = connection_id,
             reg_replacement = replacement, reg_outbound = outbound, reg_manifest = m,
             reg_scopes = granted_scopes m\<rparr> now (sys_registry sys);
          sys1 = with_registry r sys;
          sys2 = (case previous of
                    None \<Rightarrow> sys1
                  | Some (owner, old) \<Rightarrow>
                      sys1\<lparr>sys_world := disconnected (se_router env) now owner (cp_device_id p) old (sys_world sys1)\<rparr>)
      in sys2\<lparr>sys_hub := publish_manifest (cp_user_id p) (cp_device_id p) (sys_hub sys2)\<rparr>)"

definition new_session ::
  "instant \<Rightarrow> control_principal \<Rightarrow> connection_id \<Rightarrow> device_manifest \<Rightarrow> socket \<Rightarrow> session" where
  "new_session now p connection_id m sk =
     \<lparr>ss_principal = p, ss_connection_id = connection_id, ss_manifest = m, ss_scopes = granted_scopes m,
      ss_needs_full_state = requires_full_state (man_roles m), ss_last_seen = now,
      ss_directory_enabled = DirectoryRead \<in> set (granted_scopes m), ss_socket = sk\<rparr>"

definition registered_message :: "control_principal \<Rightarrow> connection_id \<Rightarrow> device_manifest \<Rightarrow> server_message" where
  "registered_message p connection_id m =
     MRegistered \<lparr>rg_connection_id = connection_id, rg_authenticated_user_id = cp_user_id p,
       rg_authenticated_device_id = cp_device_id p, rg_granted_scopes = map scope_name (granted_scopes m),
       rg_heartbeat_interval_seconds = 20, rg_offline_ttl_seconds = 60, rg_require_full_state = True\<rparr>"

text \<open>After registration: the acknowledgement, the subscription and the first directory.\<close>

definition announce ::
  "'s session_env \<Rightarrow> instant \<Rightarrow> session \<Rightarrow> 's control_system \<Rightarrow> 's control_system \<times> handshake_result" where
  "announce env now ss sys =
     (case send_envelope env (registered_message (ss_principal ss) (ss_connection_id ss) (ss_manifest ss)) (ss_socket ss) of
        (sk, False) \<Rightarrow>
          (with_registry (fst (disconnect (ss_device ss) (ss_connection_id ss) TransportLost (sys_registry sys))) sys,
           HsClosed sk)
      | (sk, True) \<Rightarrow>
          let sys1 = sys\<lparr>sys_hub := hub_subscribe (ss_user ss) (sys_hub sys)\<rparr>; ss1 = ss\<lparr>ss_socket := sk\<rparr>
          in if \<not> ss_directory_enabled ss then (sys1, HsRunning ss1)
             else case session_directory env ss1 sys1 of
                 Inl _ \<Rightarrow> (sys1, HsClosed (protocol_close env ''directory_unavailable'' 1011 sk))
               | Inr dto \<Rightarrow>
                   (case send_envelope env (MDirectorySnapshot dto) sk of
                      (sk2, False) \<Rightarrow> (sys1, HsClosed sk2)
                    | (sk2, True) \<Rightarrow> (sys1, HsRunning (ss1\<lparr>ss_socket := sk2\<rparr>))))"

text \<open>Two steps: other sessions run while the registration message is awaited.\<close>

definition greet ::
  "'s session_env \<Rightarrow> control_principal \<Rightarrow> connection_id \<Rightarrow> ws_message option \<Rightarrow> 's control_system \<Rightarrow>
     's control_system \<times> socket \<times> bool" where
  "greet env p connection_id hello sys =
     (case hello_phase env connection_id hello \<lparr>sk_sent = [], sk_attempts = 0\<rparr> of
        (sk, False) \<Rightarrow> (sys, sk, False)
      | (sk, True) \<Rightarrow>
          (sys\<lparr>sys_hub := publish_presence (cp_user_id p) (cp_device_id p) True (sys_hub sys)\<rparr>, sk, True))"

definition enrol ::
  "'s session_env \<Rightarrow> instant \<Rightarrow> control_principal \<Rightarrow> connection_id \<Rightarrow> chan \<Rightarrow> chan \<Rightarrow> ws_message option \<Rightarrow> socket \<Rightarrow>
     's control_system \<Rightarrow> 's control_system \<times> handshake_result" where
  "enrol env now p connection_id replacement outbound registration sk sys =
     (case register_phase env registration sk of
        Inl sk2 \<Rightarrow> (sys, HsClosed sk2)
      | Inr payload \<Rightarrow>
          let (sys1, persisted) = persist env
                (\<lambda>ops. so_apply_manifest ops (cp_user_id p) (cp_device_id p) (rp_manifest payload))
                accepted_or_replay sys
          in if \<not> persisted
             then (sys1, HsClosed (protocol_close env ''registration_rejected'' 1008 sk))
             else announce env now (new_session now p connection_id (rp_manifest payload) sk)
                    (register_connection env now p connection_id replacement outbound (rp_manifest payload) sys1))"

end
