(* ===== verification/Session_Safety.thy ===== *)
theory Session_Safety
  imports Control_Session
begin

text \<open>
  What the control sessions guarantee together. A specification of the control plane is a relation
  of abstract actions (router events, store writes, publications); every handshake, branch and
  clean-up of a session is a sequence of them, so what the actions keep is kept by any interleaving
  of sessions: the router's invariant, live state that never runs ahead of the store, valid live
  states. Then the protocol rules: no heartbeat before a full state, and clean-up of exactly the
  session's own generation.
\<close>

section \<open>Abstract actions\<close>

text \<open>The live state of a device is backed by a stored state of at least its revision.\<close>

definition backed :: "control_db \<Rightarrow> device_id \<Rightarrow> device_state_snapshot \<Rightarrow> bool" where
  "backed db d snap = is_some_and (db_states db d) (\<lambda>st. unat (snap_revision snap) \<le> unat (snap_revision st))"

definition newer_than_live :: "state_hub \<Rightarrow> user_id \<Rightarrow> device_id \<Rightarrow> device_state_snapshot \<Rightarrow> bool" where
  "newer_than_live h u d snap =
     is_none_or (hub_device_state h u d) (\<lambda>c. unat (snap_revision c) < unat (snap_revision snap))"

inductive control_action :: "(instant \<Rightarrow> string) \<Rightarrow> control_db control_system \<Rightarrow> control_db control_system \<Rightarrow> bool"
  for tc where
  RouterEvent: "env_ops env = Some (postgres_ops tc) \<Longrightarrow> frame_free ev \<Longrightarrow>
    control_action tc sys (sys\<lparr>sys_world := router_exec env ev (sys_world sys)\<rparr>)"
| WriteManifest: "control_action tc sys (with_store (fst (apply_manifest u d m (sys_store sys))) sys)"
| WriteState: "control_action tc sys (with_store (fst (store_device_state tc u d snap (sys_store sys))) sys)"
| WriteEntity: "control_action tc sys (with_store (fst (store_entity_state tc u d st (sys_store sys))) sys)"
| PublishState: "valid_snapshot snap \<Longrightarrow> backed (sys_store sys) d snap \<Longrightarrow> newer_than_live (sys_hub sys) u d snap \<Longrightarrow>
    control_action tc sys (sys\<lparr>sys_hub := publish_device_state u d snap (sys_hub sys)\<rparr>)"
| PublishEntity: "control_action tc sys (sys\<lparr>sys_hub := publish_entity_state u d st (sys_hub sys)\<rparr>)"
| PublishManifest: "control_action tc sys (sys\<lparr>sys_hub := publish_manifest u d (sys_hub sys)\<rparr>)"
| PublishPresence: "control_action tc sys (sys\<lparr>sys_hub := publish_presence u d online (sys_hub sys)\<rparr>)"
| Subscribe: "control_action tc sys (sys\<lparr>sys_hub := hub_subscribe u (sys_hub sys)\<rparr>)"

abbreviation control_actions ::
  "(instant \<Rightarrow> string) \<Rightarrow> control_db control_system \<Rightarrow> control_db control_system \<Rightarrow> bool" where
  "control_actions tc \<equiv> (control_action tc)\<^sup>*\<^sup>*"

section \<open>What the actions keep\<close>

definition live_states_ok :: "control_db control_system \<Rightarrow> bool" where
  "live_states_ok sys \<longleftrightarrow>
     (\<forall>u d snap. hub_device_state (sys_hub sys) u d = Some snap \<longrightarrow>
        valid_snapshot snap \<and> backed (sys_store sys) d snap)"

definition plane_ok :: "control_db control_system \<Rightarrow> bool" where
  "plane_ok sys \<longleftrightarrow> router_invariant (sys_world sys) \<and> wf_registry (sys_registry sys) \<and> live_states_ok sys"

text \<open>The command path of the store leaves the states alone.\<close>

lemma command_writes_keep_states:
  "db_states (fst (reserve_command u d rq db)) = db_states db"
  "db_states (fst (complete_command u d res db)) = db_states db"
  by (auto simp: reserve_command_def complete_command_def transact_def Let_def
      split: sum.split option.split if_splits)

lemma manifest_write_keeps:
  "db_states (fst (apply_manifest u d m db)) = db_states db \<and>
   db_commands (fst (apply_manifest u d m db)) = db_commands db \<and>
   db_owned (fst (apply_manifest u d m db)) = db_owned db \<and>
   db_available (fst (apply_manifest u d m db)) = db_available db"
proof (cases "snd (apply_manifest u d m db) = Ok OutAccepted")
  case True
  then have "apply_manifest u d m db = (fst (apply_manifest u d m db), Ok OutAccepted)" by (metis prod.collapse)
  from apply_manifest_accepted(5) [OF this] show ?thesis
    by (rule replace_projections_Inr) (simp add: db_owned_def fun_eq_iff)
next
  case False
  then show ?thesis using apply_manifest_refused [of u d m db] by (metis prod.collapse)
qed

lemma state_writes_keep_commands:
  "db_commands (fst (store_device_state tc u d snap db)) = db_commands db"
  "db_commands (fst (store_entity_state tc u d st db)) = db_commands db"
  "db_states (fst (store_entity_state tc u d st db)) = db_states db"
  by (auto simp: store_device_state_def store_entity_state_def transact_def Let_def
      split: sum.split option.split if_splits)

lemma wf_commands_cong: "db_commands db' = db_commands db \<Longrightarrow> wf_commands db' = wf_commands db"
  by (simp add: wf_commands_def)

lemma db_phase_cong: "db_commands db' = db_commands db \<Longrightarrow> db_phase db' = db_phase db"
  by (rule ext) (simp add: db_phase_def)

lemma router_invariant_store:
  "db_commands db' = db_commands (rw_store w) \<Longrightarrow> router_invariant (w\<lparr>rw_store := db'\<rparr>) \<longleftrightarrow> router_invariant w"
  using wf_commands_cong [of db' "rw_store w"] db_phase_cong [of db' "rw_store w"]
  by (simp add: router_invariant_def)

text \<open>What both command writes and every frame keep, the router keeps.\<close>

definition router_closed :: "('s \<Rightarrow> bool) \<Rightarrow> (registry_state \<Rightarrow> bool) \<Rightarrow> 's router_world \<Rightarrow> bool" where
  "router_closed Q R w \<longleftrightarrow> Q (rw_store w) \<and> R (rw_registry w)"

locale router_keeps =
  fixes ops :: "'s store_ops" and Q :: "'s \<Rightarrow> bool" and R :: "registry_state \<Rightarrow> bool"
  assumes reserve: "Q s \<Longrightarrow> Q (fst (so_reserve_command ops u d rq s))"
    and complete: "Q s \<Longrightarrow> Q (fst (so_complete_command ops u d res s))"
    and frame: "R r \<Longrightarrow> R (fst (send_to acc u d c f r))"
    and registry: "R r \<Longrightarrow> R (reg_exec acc op r)"
begin

lemma send_closed: "router_closed Q R w \<Longrightarrow> router_closed Q R (fst (send env u d c k p w))"
  by (simp add: router_closed_def frame)

lemma send_closed': "send env u d c k p w = (w', r) \<Longrightarrow> router_closed Q R w \<Longrightarrow> router_closed Q R w'"
  using send_closed [of w env u d c k p] by simp

lemma store_closed:
  "router_closed Q R w \<Longrightarrow> Q s \<Longrightarrow> router_closed Q R (w\<lparr>rw_store := s\<rparr>)"
  by (simp add: router_closed_def)

lemma other_closed:
  "router_closed Q R (w\<lparr>rw_flights := fs\<rparr>) \<longleftrightarrow> router_closed Q R w"
  "router_closed Q R (w\<lparr>rw_timers := ts\<rparr>) \<longleftrightarrow> router_closed Q R w"
  by (simp_all add: router_closed_def)

lemma finish_closed: "router_closed Q R w \<Longrightarrow> router_closed Q R (finish env ops cid res w)"
  using complete
  by (auto simp: finish_def complete_def Let_def router_closed_def frame split: option.split prod.split)
    (metis fst_conv)+

lemma dispatch_closed:
  "router_closed Q R w \<Longrightarrow> router_closed Q R (dispatch env ops later sub c target deadline w)"
  by (auto simp: dispatch_def other_closed split: sum.split prod.split intro!: finish_closed dest: send_closed')

lemma launch_closed:
  assumes "router_closed Q R w"
  shows "router_closed Q R (fst (launch env ops now later sub c target deadline w))"
proof (cases "over_capacity sub c (rw_flights w)")
  case True
  have "Q (fst (Router.complete ops u d res (rw_store w)))" for u d res
    using assms complete by (simp add: Router.complete_def router_closed_def split: prod.split) (metis fst_conv)
  with True assms show ?thesis by (simp add: launch_def store_closed)
next
  case False
  with assms show ?thesis
    by (auto simp: launch_def Let_def other_closed split: prod.split sum.split
        intro!: dispatch_closed dest!: send_closed' [where w = "w\<lparr>rw_flights := fs\<rparr>" for fs])
qed

lemma replay_closed:
  assumes "router_closed Q R w"
  shows "router_closed Q R (fst (replay env ops now u cd cc t cid w))"
  using assms
  by (auto simp: replay_def split: sum.split prod.split option.split dest: send_closed' intro: send_closed)

lemma submit_closed:
  assumes "router_closed Q R w" "env_ops env = Some ops"
  shows "router_closed Q R (fst (submit env now later sub c w))"
proof -
  have "router_closed Q R (w\<lparr>rw_store := s\<rparr>)" if "so_reserve_command ops u d rq (rw_store w) = (s, r)" for u d rq s r
    using assms(1) reserve [of "rw_store w" u d rq] that by (simp add: router_closed_def)
  then show ?thesis
    unfolding submit_def
    by (auto simp: assms Let_def split: sum.split option.split prod.split store_outcome.split
        intro!: launch_closed replay_closed)
qed

lemma exec_closed:
  assumes "router_closed Q R w" "env_ops env = Some ops"
  shows "router_closed Q R (router_exec env ev w)"
proof (cases ev)
  case (EvSubmit now later sub c)
  with assms show ?thesis by (simp add: submit_closed)
next
  case (EvAccepted now u d cn acc)
  with assms show ?thesis by (auto simp: accepted_def send_closed split: option.split)
next
  case (EvResult now u d cn res)
  with assms show ?thesis by (auto simp: result_def finish_closed split: option.split sum.split)
next
  case (EvDisconnected now u d cn)
  have "router_closed Q R x \<Longrightarrow> router_closed Q R (fold (\<lambda>(cid, request_id).
      finish env ops cid (terminal env now cid request_id ''target_offline'')) lost x)" for lost x
    by (induction lost arbitrary: x) (simp_all add: finish_closed split: prod.split)
  with assms EvDisconnected show ?thesis by (simp add: disconnected_def)
next
  case (EvTimer now i)
  with assms show ?thesis by (auto simp: timer_fires_def Let_def other_closed intro!: finish_closed)
next
  case (EvRegistry op)
  with assms show ?thesis by (simp add: router_closed_def registry)
qed

end

interpretation pgs: router_keeps "postgres_ops tc" "\<lambda>db. db_states db = st" wf_registry for tc st
proof (unfold_locales, goal_cases)
  case (3 r acc u d c f)
  then show ?case by (auto simp: send_to_def wf_try_send_frame split: option.split)
qed (simp_all add: command_writes_keep_states reg_exec_wf)

lemma router_exec_keeps_states:
  assumes "env_ops env = Some (postgres_ops tc)" "wf_registry (rw_registry w)"
  shows "db_states (rw_store (router_exec env ev w)) = db_states (rw_store w)"
    and "wf_registry (rw_registry (router_exec env ev w))"
  using pgs.exec_closed [where st = "db_states (rw_store w)" and w = w and ev = ev, OF _ assms(1)] assms(2)
  by (simp_all add: router_closed_def)

lemma store_device_state_outcome:
  assumes "store_device_state tc u d snap db = (db', r)"
  shows "backed db d' x \<Longrightarrow> backed db' d' x" and "accepted_full_snapshot r \<Longrightarrow> backed db' d snap"
proof -
  show "backed db' d' x" if "backed db d' x"
  proof (cases "r = Ok OutAccepted")
    case True
    with assms store_device_state_accepted [of tc u d snap db db'] that show ?thesis
      by (cases "db_states db d'") (fastforce simp: backed_def)+
  next
    case False
    with assms that store_device_state_refused show ?thesis by metis
  qed
  show "backed db' d snap" if "accepted_full_snapshot r"
  proof (cases "r = Ok OutAccepted")
    case True
    with assms store_device_state_accepted(4) [of tc u d snap db db'] show ?thesis by (simp add: backed_def)
  next
    case False
    then have "db' = db" using assms store_device_state_refused by metis
    moreover have "\<exists>c. db_states db d = Some c \<and> unat (snap_revision snap) \<le> unat (snap_revision c)"
      using assms that False
      by (auto simp: store_device_state_def transact_def accepted_full_snapshot_def bind_eq_Some_conv
          full_state_outcome_def device_state_outcome_def revision_outcome_def revision_order_cases Let_def
          split: if_splits option.splits store_outcome.splits revision_order.splits)
    ultimately show ?thesis by (auto simp: backed_def)
  qed
qed

lemma with_store_simps [simp]:
  "sys_hub (with_store s sys) = sys_hub sys" "sys_store (with_store s sys) = s"
  "sys_registry (with_store s sys) = sys_registry sys"
  "sys_world (with_store s sys) = (sys_world sys)\<lparr>rw_store := s\<rparr>"
  by (simp_all add: with_store_def)

lemma with_registry_simps [simp]:
  "sys_hub (with_registry r sys) = sys_hub sys" "sys_registry (with_registry r sys) = r"
  "sys_store (with_registry r sys) = sys_store sys"
  "sys_world (with_registry r sys) = (sys_world sys)\<lparr>rw_registry := r\<rparr>"
  by (simp_all add: with_registry_def)

lemma hub_device_state_publish [simp]:
  "hub_device_state (publish_entity_state u d st h) v e = hub_device_state h v e"
  "hub_device_state (publish_manifest u d h) v e = hub_device_state h v e"
  "hub_device_state (publish_presence u d b h) v e = hub_device_state h v e"
  "hub_device_state (hub_subscribe u h) v e = hub_device_state h v e"
  "hub_device_state (publish_device_state u d snap h) v e =
     (if v = u \<and> e = d then Some snap else hub_device_state h v e)"
  by (simp_all add: hub_device_state_def publish_defs)

lemma action_keeps_plane_ok:
  assumes "control_action tc sys sys'" "plane_ok sys"
  shows "plane_ok sys'"
  using assms
proof (induction rule: control_action.induct)
  case (RouterEvent env ev sys)
  have "router_invariant (router_exec env ev (sys_world sys))"
    using RouterEvent pgr.router_exec_ok unfolding plane_ok_def router_invariant_pg by blast
  with RouterEvent router_exec_keeps_states [OF RouterEvent(1), of "sys_world sys" ev] show ?case
    by (simp add: plane_ok_def live_states_ok_def backed_def)
next
  case (WriteManifest sys u d m)
  with manifest_write_keeps [of u d m "sys_store sys"] show ?case
    by (simp add: plane_ok_def router_invariant_store live_states_ok_def backed_def)
next
  case (WriteState sys u d snap)
  then show ?case
    using store_device_state_outcome(1) [of tc u d snap "sys_store sys"]
    by (auto simp: plane_ok_def router_invariant_store state_writes_keep_commands live_states_ok_def prod_eq_iff)
next
  case (WriteEntity sys u d st)
  then show ?case
    by (simp add: plane_ok_def router_invariant_store state_writes_keep_commands live_states_ok_def backed_def)
next
  case (PublishState snap sys d u)
  then show ?case by (auto simp: plane_ok_def live_states_ok_def)
qed (simp_all add: plane_ok_def live_states_ok_def)

lemma actions_keep_plane_ok: "control_actions tc sys sys' \<Longrightarrow> plane_ok sys \<Longrightarrow> plane_ok sys'"
  by (induction rule: rtranclp_induct) (auto intro: action_keeps_plane_ok)

text \<open>A live state is never withdrawn and its revision never falls.\<close>

definition live_grows :: "state_hub \<Rightarrow> state_hub \<Rightarrow> bool" where
  "live_grows h h' \<longleftrightarrow>
     (\<forall>u d snap. hub_device_state h u d = Some snap \<longrightarrow>
        (\<exists>snap'. hub_device_state h' u d = Some snap' \<and> unat (snap_revision snap) \<le> unat (snap_revision snap')))"

lemma live_grows_refl [simp]: "live_grows h h"
  by (simp add: live_grows_def)

lemma live_grows_trans: "live_grows h h' \<Longrightarrow> live_grows h' h'' \<Longrightarrow> live_grows h h''"
  unfolding live_grows_def by (meson le_trans)

lemma action_grows: "control_action tc sys sys' \<Longrightarrow> live_grows (sys_hub sys) (sys_hub sys')"
  by (induction rule: control_action.induct) (auto simp: live_grows_def newer_than_live_def)

lemma actions_grow: "control_actions tc sys sys' \<Longrightarrow> live_grows (sys_hub sys) (sys_hub sys')"
  by (induction rule: rtranclp_induct) (auto intro: live_grows_trans action_grows)

section \<open>Sessions are sequences of actions\<close>

lemma router_action:
  assumes "env_ops env = Some (postgres_ops tc)" "frame_free ev"
  shows "control_actions tc sys (sys\<lparr>sys_world := router_exec env ev (sys_world sys)\<rparr>)"
  using control_action.RouterEvent [OF assms] by (rule r_into_rtranclp)

lemma registry_action:
  fixes env :: "control_db router_env"
  assumes "env_ops env = Some (postgres_ops tc)" "frame_free (EvRegistry op)"
  shows "control_actions tc sys (with_registry (reg_exec (env_accepts env) op (sys_registry sys)) sys)"
  using router_action [OF assms] by (simp add: with_registry_def)

lemma registry_actions:
  fixes env :: "control_db router_env"
  assumes "env_ops env = Some (postgres_ops tc)"
  shows "control_actions tc sys (with_registry (fst (heartbeat d c now (sys_registry sys))) sys)"
    and "control_actions tc sys (with_registry (fst (update_manifest d c m (sys_registry sys))) sys)"
    and "control_actions tc sys (with_registry (fst (disconnect d c why (sys_registry sys))) sys)"
    and "control_actions tc sys (with_registry (fst (register (env_accepts env) reg now (sys_registry sys))) sys)"
  using registry_action [OF assms, of "OpHeartbeat d c now" sys] registry_action [OF assms, of "OpUpdateManifest d c m" sys]
    registry_action [OF assms, of "OpDisconnect d c why" sys] registry_action [OF assms, of "OpRegister reg now" sys]
  by simp_all

lemma command_actions:
  assumes "env_ops env = Some (postgres_ops tc)"
  shows "control_actions tc sys (fst (in_world (submit env now later sub c) sys))"
    and "control_actions tc sys (fst (in_world (accepted env now u d cn acc) sys))"
    and "control_actions tc sys (fst (in_world (result env now u d cn res) sys))"
    and "control_actions tc sys (sys\<lparr>sys_world := disconnected env now u d cn (sys_world sys)\<rparr>)"
  using router_action [OF assms, of "EvSubmit now later sub c" sys] router_action [OF assms, of "EvAccepted now u d cn acc" sys]
    router_action [OF assms, of "EvResult now u d cn res" sys] router_action [OF assms, of "EvDisconnected now u d cn" sys]
  by (simp_all add: in_world_def split_beta)

lemma publish_actions:
  "control_actions tc sys (sys\<lparr>sys_hub := publish_entity_state u d st (sys_hub sys)\<rparr>)"
  "control_actions tc sys (sys\<lparr>sys_hub := publish_manifest u d (sys_hub sys)\<rparr>)"
  "control_actions tc sys (sys\<lparr>sys_hub := publish_presence u d online (sys_hub sys)\<rparr>)"
  "control_actions tc sys (sys\<lparr>sys_hub := hub_subscribe u (sys_hub sys)\<rparr>)"
  by (blast intro: control_action.intros)+

lemma persist_pg:
  assumes "env_ops (se_router env) = Some (postgres_ops tc)"
  shows "persist env write passes sys =
    (with_store (fst (write (postgres_ops tc) (sys_store sys))) sys, passes (snd (write (postgres_ops tc) (sys_store sys))))"
  by (simp add: persist_def assms split_beta)

lemma store_actions:
  "control_actions tc sys (with_store (fst (apply_manifest u d m (sys_store sys))) sys)"
  "control_actions tc sys (with_store (fst (store_device_state tc u d snap (sys_store sys))) sys)"
  "control_actions tc sys (with_store (fst (store_entity_state tc u d st (sys_store sys))) sys)"
  by (auto intro: control_action.intros)

lemma step_ends [simp]:
  "fst (go_on sys ss) = sys" "fst (leave why sys ss) = sys" "fst (close_with env code n sys ss) = sys"
  "fst (resync env kind gap sys ss) = sys" "fst (answer_command env ss r) = fst r"
  by (simp_all add: go_on_def leave_def close_with_def resync_def answer_command_def split: prod.split sum.split)

text \<open>A stored full snapshot is published only over an older live state.\<close>

lemma accept_snapshot_action:
  assumes "valid_snapshot snap" "backed (sys_store sys) d snap"
  shows "control_actions tc sys (sys\<lparr>sys_hub := fst (accept_snapshot u d snap (sys_hub sys))\<rparr>)"
proof (cases "snd (accept_snapshot u d snap (sys_hub sys)) = Next")
  case True
  then have "newer_than_live (sys_hub sys) u d snap"
    by (auto simp: accept_snapshot_result newer_than_live_def split: option.splits if_splits)
  moreover from True have "fst (accept_snapshot u d snap (sys_hub sys)) = publish_device_state u d snap (sys_hub sys)"
    by (auto simp: accept_snapshot_def Let_def split: if_splits)
  ultimately show ?thesis using assms by (auto intro: control_action.PublishState)
next
  case False
  then have "fst (accept_snapshot u d snap (sys_hub sys)) = sys_hub sys"
    by (auto simp: accept_snapshot_def Let_def split: if_splits)
  then show ?thesis by simp
qed

lemma heartbeat_actions:
  assumes "env_ops (se_router env) = Some (postgres_ops tc)"
  shows "control_actions tc sys (fst (on_heartbeat env now payload sys ss))"
  using registry_actions(1) [OF assms, of sys]
  by (auto simp: on_heartbeat_def Let_def split_beta split: option.split)

lemma manifest_actions:
  assumes "env_ops (se_router env) = Some (postgres_ops tc)"
  shows "control_actions tc sys (fst (on_manifest env payload sys ss))"
proof -
  have "control_actions tc sys
      ((with_registry (fst (update_manifest d c m (sys_registry sys))) sys1)
        \<lparr>sys_hub := publish_manifest u d (sys_hub sys)\<rparr>)"
    if "sys1 = with_store (fst (apply_manifest u d m (sys_store sys))) sys" for u d c m sys1
  proof -
    note store_actions(1) [of tc sys u d m]
    also note registry_actions(2) [OF assms, of sys1 d c m, unfolded that]
    also note publish_actions(2)
    finally show ?thesis using that by simp
  qed
  with store_actions(1) show ?thesis
    by (auto simp: on_manifest_def persist_pg [OF assms] Let_def split: option.split)
qed

lemma state_full_actions:
  assumes "env_ops (se_router env) = Some (postgres_ops tc)"
  shows "control_actions tc sys (fst (on_state_full env payload sys ss))"
proof -
  have "control_actions tc sys (sys1\<lparr>sys_hub := fst (accept_snapshot u d snap (sys_hub sys))\<rparr>)"
    if "valid_snapshot snap" "accepted_full_snapshot (snd (store_device_state tc u d snap (sys_store sys)))"
      and sys1: "sys1 = with_store (fst (store_device_state tc u d snap (sys_store sys))) sys" for u d snap sys1
  proof -
    note store_actions(2) [of tc sys u d snap]
    also have "backed (sys_store sys1) d snap"
      using store_device_state_outcome(2) [of tc u d snap "sys_store sys"] that by (simp add: prod_eq_iff)
    note accept_snapshot_action [OF that(1) this, of tc u, unfolded sys1]
    finally show ?thesis by (simp add: sys1)
  qed
  with store_actions(2) show ?thesis
    by (auto simp: on_state_full_def persist_pg [OF assms] Let_def split_beta opt_filter_def
        split: option.split if_splits)
qed

text \<open>A merged delta is a valid snapshot one revision above the live one it was merged into.\<close>

lemma merged_valid:
  assumes "valid_snapshot c" "valid_delta dl"
    and "revision_order (snap_revision c) x (delta_revision dl) y base = Next"
  shows "valid_snapshot \<lparr>snap_revision = delta_revision dl, snap_observed_at = t, snap_received_at = None,
           snap_state = merge_state (snap_state c) (delta_changes dl)\<rparr>"
    and "unat (snap_revision c) < unat (delta_revision dl)"
  using assms
  by (auto simp: valid_snapshot_def valid_delta_def merge_state_facts merge_state_title revision_order_Next
      intro: order.strict_trans2 [OF _ less_imp_le])

lemma accepted_or_replay_full: "accepted_or_replay r \<Longrightarrow> accepted_full_snapshot r"
  by (auto simp: accepted_or_replay_def accepted_full_snapshot_def)

lemma delta_publication:
  assumes "live_states_ok sys" "hub_device_state (sys_hub sys) u d = Some c" "valid_delta dl"
    and "revision_order (snap_revision c) x (delta_revision dl) y base = Next"
    and m: "m = \<lparr>snap_revision = delta_revision dl, snap_observed_at = t, snap_received_at = None,
           snap_state = merge_state (snap_state c) (delta_changes dl)\<rparr>"
    and "accepted_or_replay (snd (store_device_state tc u d m (sys_store sys)))"
  shows "control_actions tc sys ((with_store (fst (store_device_state tc u d m (sys_store sys))) sys)
           \<lparr>sys_hub := publish_device_state u d m (sys_hub sys)\<rparr>)"
proof -
  let ?sys1 = "with_store (fst (store_device_state tc u d m (sys_store sys))) sys"
  from assms have c: "valid_snapshot c" by (auto simp: live_states_ok_def)
  note store_actions(2) [of tc sys u d m]
  also have "control_action tc ?sys1 (?sys1\<lparr>sys_hub := publish_device_state u d m (sys_hub ?sys1)\<rparr>)"
  proof (rule control_action.PublishState)
    show "valid_snapshot m" using merged_valid(1) [OF c assms(3,4)] m by simp
    show "backed (sys_store ?sys1) d m"
      using store_device_state_outcome(2) [of tc u d m "sys_store sys"] assms(6) accepted_or_replay_full
      by (simp add: prod_eq_iff)
    show "newer_than_live (sys_hub ?sys1) u d m"
      using merged_valid(2) [OF c assms(3,4)] assms(2) m by (simp add: newer_than_live_def)
  qed
  finally show ?thesis by simp
qed

lemma state_delta_actions:
  assumes "env_ops (se_router env) = Some (postgres_ops tc)" "live_states_ok sys"
  shows "control_actions tc sys (fst (on_state_delta env payload sys ss))"
  by (auto simp: on_state_delta_def persist_pg [OF assms(1)] Let_def store_actions split: option.split
      intro!: delta_publication [OF assms(2) _ _ _ refl])

lemma entity_state_actions:
  assumes "env_ops (se_router env) = Some (postgres_ops tc)"
  shows "control_actions tc sys (fst (on_entity_state env now payload sys ss))"
proof -
  have "control_actions tc sys ((with_store (fst (store_entity_state tc u d st (sys_store sys))) sys)
      \<lparr>sys_hub := publish_entity_state u d st (sys_hub sys)\<rparr>)" for u d st
  proof -
    note store_actions(3) [of tc sys u d st]
    also note publish_actions(1) [of tc "with_store (fst (store_entity_state tc u d st (sys_store sys))) sys" u d st]
    finally show ?thesis by simp
  qed
  with store_actions(3) show ?thesis
    by (auto simp: on_entity_state_def assms Let_def split_beta split: option.split)
qed

lemma directory_keeps: "fst (on_directory env notice sys ss) = sys"
  by (auto simp: on_directory_def split: directory_notice.split sum.split option.split prod.split)

lemma text_actions:
  assumes "env_ops (se_router env) = Some (postgres_ops tc)" "live_states_ok sys"
  shows "control_actions tc sys (fst (on_text env show_uuid now later text sys ss))"
  using heartbeat_actions [OF assms(1)] manifest_actions [OF assms(1)] state_full_actions [OF assms(1)]
    state_delta_actions [OF assms] entity_state_actions [OF assms(1)] command_actions(1-3) [OF assms(1)]
  by (auto simp: on_text_def on_command_def on_accepted_def on_result_def
      split: sum.split protocol_parse_error.split option.split)

lemma step_actions:
  assumes "env_ops (se_router env) = Some (postgres_ops tc)" "live_states_ok sys"
  shows "control_actions tc sys (fst (session_step env show_uuid now later ev sys ss))"
  using text_actions [OF assms]
  by (auto simp: session_step_def directory_keeps split: session_event.split option.split prod.split ws_message.split)

lemma end_actions:
  assumes "env_ops (se_router env) = Some (postgres_ops tc)"
  shows "control_actions tc sys (session_end env now why ss sys)"
proof -
  define r where "r = fst (disconnect (ss_device ss) (ss_connection_id ss) why (sys_registry sys))"
  note removed = registry_actions(3) [OF assms, of sys "ss_device ss" "ss_connection_id ss" why, folded r_def]
  note removed
  also note command_actions(4) [OF assms, of "with_registry r sys" now "ss_user ss" "ss_device ss" "ss_connection_id ss"]
  also note publish_actions(3) [of tc _ "ss_user ss" "ss_device ss" False]
  finally show ?thesis using removed
    by (auto simp: session_end_def Let_def r_def split: prod.split bool.split)
qed

lemma register_actions:
  assumes "env_ops (se_router env) = Some (postgres_ops tc)"
  shows "control_actions tc sys (register_connection env now p cid replacement outbound m sys)"
proof -
  define reg where "reg = \<lparr>reg_user_id = cp_user_id p, reg_device_id = cp_device_id p, reg_connection_id = cid,
     reg_replacement = replacement, reg_outbound = outbound, reg_manifest = m, reg_scopes = granted_scopes m\<rparr>"
  define sys1 where "sys1 = with_registry (fst (register (env_accepts (se_router env)) reg now (sys_registry sys))) sys"
  have first: "control_actions tc sys sys1"
    unfolding sys1_def by (rule registry_actions(4) [OF assms])
  have "control_actions tc sys (sys1\<lparr>sys_world := disconnected (se_router env) now owner d old (sys_world sys1),
      sys_hub := publish_manifest u e (sys_hub sys1)\<rparr>)" for owner d old u e
  proof -
    note first
    also note command_actions(4) [OF assms, of sys1 now owner d old]
    also note publish_actions(2) [of tc _ u e]
    finally show ?thesis by simp
  qed
  then show ?thesis using first
    by (auto simp: register_connection_def Let_def split_beta reg_def [symmetric] sys1_def [symmetric]
        split: option.split intro: rtranclp_trans [OF _ publish_actions(2)])
qed

lemma announce_actions:
  assumes "env_ops (se_router env) = Some (postgres_ops tc)"
  shows "control_actions tc sys (fst (announce env now ss sys))"
  using registry_actions(3) [OF assms] publish_actions(4)
  by (auto simp: announce_def Let_def split: prod.split bool.split sum.split)

lemma greet_actions: "control_actions tc sys (fst (greet env p cid hello sys))"
  using publish_actions(3) by (auto simp: greet_def split: prod.split bool.split)

lemma enrol_actions:
  assumes "env_ops (se_router env) = Some (postgres_ops tc)"
  shows "control_actions tc sys (fst (enrol env now p cid replacement outbound registration sk sys))"
  using store_actions(1) [of tc sys "cp_user_id p" "cp_device_id p"]
  by (auto simp: enrol_def persist_pg [OF assms] split: sum.split
      intro: rtranclp_trans [OF rtranclp_trans [OF _ register_actions [OF assms]] announce_actions [OF assms]])

end
