(* ===== verification/Control_Plane.thy ===== *)
theory Control_Plane
  imports Session_Safety
begin

text \<open>
  Many control sessions over one shared state. The plane holds the sockets that were greeted, the
  sessions in their loop and the shared system; its events are the two handshake steps, one branch
  of one session's loop (with the clean-up when it leaves), the router's deadline tasks and the
  revocation of a device. Each event carries the outside it meets: transport, clock, decoders.
\<close>

section \<open>The plane\<close>

record 's control_plane =
  pl_system :: "'s control_system"
  pl_greeted :: "(connection_id \<times> control_principal \<times> socket) list"
  pl_sessions :: "(connection_id \<times> session) list"

datatype plane_event =
    PlHello control_principal connection_id "ws_message option"
  | PlRegister connection_id instant chan chan "ws_message option"
  | PlStep connection_id "uuid \<Rightarrow> string" instant instant session_event
  | PlTimer instant nat
  | PlRevoke user_id device_id

definition plane_hello ::
  "'s session_env \<Rightarrow> control_principal \<Rightarrow> connection_id \<Rightarrow> ws_message option \<Rightarrow> 's control_plane \<Rightarrow> 's control_plane" where
  "plane_hello env p cid hello pl =
     (case greet env p cid hello (pl_system pl) of
        (sys, sk, greeted) \<Rightarrow>
          pl\<lparr>pl_system := sys, pl_greeted := (if greeted then (cid, p, sk) # pl_greeted pl else pl_greeted pl)\<rparr>)"

definition plane_register ::
  "'s session_env \<Rightarrow> connection_id \<Rightarrow> instant \<Rightarrow> chan \<Rightarrow> chan \<Rightarrow> ws_message option \<Rightarrow> 's control_plane \<Rightarrow>
     's control_plane" where
  "plane_register env cid now replacement outbound registration pl =
     (case map_of (pl_greeted pl) cid of
        None \<Rightarrow> pl
      | Some (p, sk) \<Rightarrow>
          (case enrol env now p cid replacement outbound registration sk (pl_system pl) of
             (sys, hs) \<Rightarrow>
               pl\<lparr>pl_system := sys, pl_greeted := AList.delete cid (pl_greeted pl),
                  pl_sessions := (case hs of HsRunning ss \<Rightarrow> (cid, ss) # pl_sessions pl
                                           | HsClosed _ \<Rightarrow> pl_sessions pl)\<rparr>))"

definition plane_branch ::
  "'s session_env \<Rightarrow> connection_id \<Rightarrow> (uuid \<Rightarrow> string) \<Rightarrow> instant \<Rightarrow> instant \<Rightarrow> session_event \<Rightarrow> 's control_plane \<Rightarrow>
     's control_plane" where
  "plane_branch env cid show_uuid now later ev pl =
     (case map_of (pl_sessions pl) cid of
        None \<Rightarrow> pl
      | Some ss \<Rightarrow>
          (case session_step env show_uuid now later ev (pl_system pl) ss of
             (sys, ss1, None) \<Rightarrow> pl\<lparr>pl_system := sys, pl_sessions := AList.update cid ss1 (pl_sessions pl)\<rparr>
           | (sys, ss1, Some why) \<Rightarrow>
               pl\<lparr>pl_system := session_end env later why ss1 sys, pl_sessions := AList.delete cid (pl_sessions pl)\<rparr>))"

fun plane_exec :: "'s session_env \<Rightarrow> plane_event \<Rightarrow> 's control_plane \<Rightarrow> 's control_plane" where
  "plane_exec env (PlHello p cid hello) pl = plane_hello env p cid hello pl"
| "plane_exec env (PlRegister cid now replacement outbound registration) pl =
     plane_register env cid now replacement outbound registration pl"
| "plane_exec env (PlStep cid show_uuid now later ev) pl = plane_branch env cid show_uuid now later ev pl"
| "plane_exec env (PlTimer now i) pl =
     pl\<lparr>pl_system := (pl_system pl)\<lparr>sys_world :=
        router_exec (se_router env) (EvTimer now i) (sys_world (pl_system pl))\<rparr>\<rparr>"
| "plane_exec env (PlRevoke u d) pl =
     pl\<lparr>pl_system := with_registry (fst (revoke (env_accepts (se_router env)) u d (sys_registry (pl_system pl))))
        (pl_system pl)\<rparr>"

definition plane_run :: "('s session_env \<times> plane_event) list \<Rightarrow> 's control_plane \<Rightarrow> 's control_plane" where
  "plane_run evs pl = fold (\<lambda>(env, ev). plane_exec env ev) evs pl"

definition plane_over_postgres :: "(instant \<Rightarrow> string) \<Rightarrow> (control_db session_env \<times> plane_event) list \<Rightarrow> bool" where
  "plane_over_postgres tc evs \<longleftrightarrow> (\<forall>(env, ev) \<in> set evs. env_ops (se_router env) = Some (postgres_ops tc))"

section \<open>Every event is a sequence of actions\<close>

lemma exec_actions:
  assumes "env_ops (se_router env) = Some (postgres_ops tc)" "live_states_ok (pl_system pl)"
  shows "control_actions tc (pl_system pl) (pl_system (plane_exec env ev pl))"
proof (cases ev)
  case (PlHello p cid hello)
  then show ?thesis using greet_actions [of tc "pl_system pl" env p cid hello]
    by (simp add: plane_hello_def split_beta)
next
  case (PlRegister cid now replacement outbound registration)
  then show ?thesis using enrol_actions [OF assms(1)]
    by (auto simp: plane_register_def split_beta split: option.split)
next
  case (PlStep cid show_uuid now later sev)
  show ?thesis
  proof (cases "map_of (pl_sessions pl) cid")
    case (Some ss)
    obtain sys ss1 out where step: "session_step env show_uuid now later sev (pl_system pl) ss = (sys, ss1, out)"
      by (metis prod_cases3)
    with step_actions [OF assms, of show_uuid now later sev ss] have "control_actions tc (pl_system pl) sys" by simp
    with Some PlStep step show ?thesis
      by (cases out) (auto simp: plane_branch_def intro: rtranclp_trans [OF _ end_actions [OF assms(1)]])
  qed (simp add: PlStep plane_branch_def)
next
  case (PlTimer now i)
  then show ?thesis using router_action [OF assms(1), of "EvTimer now i"] by simp
next
  case (PlRevoke u d)
  then show ?thesis using registry_action [OF assms(1), of "OpRevoke u d"] by simp
qed

lemma run_actions:
  assumes "plane_over_postgres tc evs" "plane_ok (pl_system pl)"
  shows "control_actions tc (pl_system pl) (pl_system (plane_run evs pl))"
  using assms
proof (induction evs arbitrary: pl)
  case Nil
  then show ?case by (simp add: plane_run_def)
next
  case (Cons x evs)
  obtain env ev where x: "x = (env, ev)" by (cases x)
  have "control_actions tc (pl_system pl) (pl_system (plane_exec env ev pl))"
    using Cons.prems x by (intro exec_actions) (auto simp: plane_over_postgres_def plane_ok_def)
  moreover from this have "plane_ok (pl_system (plane_exec env ev pl))"
    using Cons.prems actions_keep_plane_ok by blast
  with Cons.IH [of "plane_exec env ev pl"] Cons.prems
  have "control_actions tc (pl_system (plane_exec env ev pl)) (pl_system (plane_run evs (plane_exec env ev pl)))"
    by (simp add: plane_over_postgres_def)
  ultimately show ?case by (simp add: plane_run_def x)
qed

section \<open>The life of one session among the others\<close>

text \<open>
  A session that entered its loop with the manifest \<open>m0\<close>, its own branches, and whatever the other
  sessions, the deadline tasks and revocations do in between.
\<close>

inductive session_life :: "(instant \<Rightarrow> string) \<Rightarrow> device_manifest \<Rightarrow> control_db control_system \<Rightarrow> session \<Rightarrow> bool"
  for tc m0 where
  Started: "env_ops (se_router env) = Some (postgres_ops tc) \<Longrightarrow> plane_ok sys \<Longrightarrow>
    enrol env now p cid replacement outbound registration sk sys = (sys', HsRunning ss) \<Longrightarrow> ss_manifest ss = m0 \<Longrightarrow>
    session_life tc m0 sys' ss"
| Branch: "session_life tc m0 sys ss \<Longrightarrow> env_ops (se_router env) = Some (postgres_ops tc) \<Longrightarrow>
    session_step env show_uuid now later ev sys ss = (sys', ss', None) \<Longrightarrow> session_life tc m0 sys' ss'"
| Others: "session_life tc m0 sys ss \<Longrightarrow> control_actions tc sys sys' \<Longrightarrow> session_life tc m0 sys' ss"

definition has_live_state :: "control_db control_system \<Rightarrow> session \<Rightarrow> bool" where
  "has_live_state sys ss \<longleftrightarrow> hub_device_state (sys_hub sys) (ss_user ss) (ss_device ss) \<noteq> None"

lemma actions_keep_live:
  "control_actions tc sys sys' \<Longrightarrow> has_live_state sys ss \<Longrightarrow> has_live_state sys' ss"
  using actions_grow unfolding live_grows_def has_live_state_def by blast

lemma step_session [simp]:
  "fst (snd (go_on sys ss)) = ss" "fst (snd (leave why sys ss)) = ss"
  "fst (snd (close_with env code n sys ss)) = ss\<lparr>ss_socket := protocol_close env code n (ss_socket ss)\<rparr>"
  "fst (snd (resync env kind gap sys ss)) =
     ss\<lparr>ss_socket := fst (send_envelope env (MResync kind gap) (ss_socket ss))\<rparr>"
  by (simp_all add: go_on_def leave_def close_with_def resync_def)

lemma answer_command_session:
  "\<exists>sk. fst (snd (answer_command env ss r)) = ss\<lparr>ss_socket := sk\<rparr>"
  by (auto simp: answer_command_def split: prod.split sum.split intro: exI [of _ "ss_socket ss"])

lemma answer_command_fields [simp]:
  "ss_principal (fst (snd (answer_command env ss r))) = ss_principal ss"
  "ss_needs_full_state (fst (snd (answer_command env ss r))) = ss_needs_full_state ss"
  using answer_command_session [of env ss r] by auto

lemma directory_session [simp]:
  "ss_principal (fst (snd (on_directory env notice sys ss))) = ss_principal ss"
  "ss_needs_full_state (fst (snd (on_directory env notice sys ss))) = ss_needs_full_state ss"
  by (auto simp: on_directory_def split: directory_notice.split sum.split option.split prod.split)

lemma handler_keeps_principal [simp]:
  "ss_principal (fst (snd (on_heartbeat env now payload sys ss))) = ss_principal ss"
  "ss_principal (fst (snd (on_manifest env payload sys ss))) = ss_principal ss"
  "ss_principal (fst (snd (on_state_full env payload sys ss))) = ss_principal ss"
  "ss_principal (fst (snd (on_state_delta env payload sys ss))) = ss_principal ss"
  "ss_principal (fst (snd (on_entity_state env now payload sys ss))) = ss_principal ss"
  by (simp_all add: on_heartbeat_def on_manifest_def on_state_full_def on_state_delta_def on_entity_state_def
      Let_def split_beta split: option.split)

lemma handler_keeps_demand [simp]:
  "ss_needs_full_state (fst (snd (on_heartbeat env now payload sys ss))) = ss_needs_full_state ss"
  "ss_needs_full_state (fst (snd (on_manifest env payload sys ss))) = ss_needs_full_state ss"
  "ss_needs_full_state (fst (snd (on_entity_state env now payload sys ss))) = ss_needs_full_state ss"
  by (simp_all add: on_heartbeat_def on_manifest_def on_entity_state_def Let_def split_beta split: option.split)

lemma delta_keeps_demand:
  "ss_needs_full_state ss \<Longrightarrow> ss_needs_full_state (fst (snd (on_state_delta env payload sys ss)))"
  by (simp add: on_state_delta_def split: option.split)

text \<open>What a branch does with text is one of the handlers; every other branch only writes to the socket.\<close>

lemma text_session:
  "ss_principal (fst (snd (on_text env show_uuid now later text sys ss))) = ss_principal ss"
  by (simp add: on_text_def on_command_def on_accepted_def on_result_def split: sum.split protocol_parse_error.split)

lemma step_quiet:
  assumes "\<And>text. ev \<noteq> SvMessage (WsText text)"
  shows "ss_principal (fst (snd (session_step env show_uuid now later ev sys ss))) = ss_principal ss"
    and "ss_needs_full_state (fst (snd (session_step env show_uuid now later ev sys ss))) = ss_needs_full_state ss"
  using assms
  by (auto simp: session_step_def split_beta split: session_event.split option.split ws_message.split)

lemma step_text: "session_step env show_uuid now later (SvMessage (WsText text)) sys ss =
    on_text env show_uuid now later text sys ss"
  by (simp add: session_step_def)

lemma step_keeps_principal:
  "ss_principal (fst (snd (session_step env show_uuid now later ev sys ss))) = ss_principal ss"
  by (cases "\<exists>text. ev = SvMessage (WsText text)") (auto simp: step_text text_session step_quiet)

text \<open>Only an accepted full state clears the flag, and then the device has a live state.\<close>

lemma state_full_clears:
  assumes "\<not> ss_needs_full_state (fst (snd (on_state_full env payload sys ss)))"
  shows "\<not> ss_needs_full_state ss \<or> has_live_state (fst (on_state_full env payload sys ss)) ss"
proof -
  have "hub_device_state (fst (accept_snapshot u d snap h)) u d \<noteq> None" for u d snap h
    by (simp add: accept_snapshot_state accept_snapshot_result split: option.split)
  with assms show ?thesis
    by (auto simp: on_state_full_def has_live_state_def Let_def split_beta split: option.splits if_splits)
qed

lemma text_clears:
  assumes "\<not> ss_needs_full_state (fst (snd (on_text env show_uuid now later text sys ss)))"
  shows "\<not> ss_needs_full_state ss \<or> has_live_state (fst (on_text env show_uuid now later text sys ss)) ss"
  using assms
  by (auto simp: on_text_def on_command_def on_accepted_def on_result_def
      split: sum.splits protocol_parse_error.splits if_splits dest: state_full_clears delta_keeps_demand)

lemma step_clears:
  assumes "\<not> ss_needs_full_state (fst (snd (session_step env show_uuid now later ev sys ss)))"
  shows "\<not> ss_needs_full_state ss \<or> has_live_state (fst (session_step env show_uuid now later ev sys ss)) ss"
proof (cases "\<exists>text. ev = SvMessage (WsText text)")
  case True
  with assms text_clears show ?thesis by (auto simp: step_text)
next
  case False
  then have "\<And>text. ev \<noteq> SvMessage (WsText text)" by blast
  with assms step_quiet(2) show ?thesis by metis
qed

lemma announced_session:
  assumes "announce env now ss sys = (sys', HsRunning ss')"
  shows "\<exists>sk. ss' = ss\<lparr>ss_socket := sk\<rparr>"
  using assms by (auto simp: announce_def Let_def split: prod.splits bool.splits sum.splits if_splits)

lemma enrolled_session:
  assumes "enrol env now p cid replacement outbound registration sk sys = (sys', HsRunning ss)"
  shows "\<exists>m sk'. is_ok (manifest_validate m) \<and> ss = new_session now p cid m sk'"
proof -
  obtain payload where r: "register_phase env registration sk = Inr payload"
    using assms by (auto simp: enrol_def split: sum.splits)
  then have "is_ok (manifest_validate (rp_manifest payload))"
    by (auto simp: register_phase_def split: sum.splits protocol_parse_error.splits if_splits)
  moreover obtain sk' where "ss = (new_session now p cid (rp_manifest payload) sk)\<lparr>ss_socket := sk'\<rparr>"
    using assms r by (auto simp: enrol_def split_beta split: if_splits dest!: announced_session)
  ultimately show ?thesis by (auto simp: new_session_def)
qed

lemma life_invariant:
  assumes "session_life tc m0 sys ss"
  shows "plane_ok sys \<and> (requires_full_state (man_roles m0) \<longrightarrow> \<not> ss_needs_full_state ss \<longrightarrow> has_live_state sys ss)"
  using assms
proof (induction rule: session_life.induct)
  case (Started env sys now p cid replacement outbound registration sk sys' ss)
  then have "control_actions tc sys sys'" using enrol_actions [OF Started(1)] by (metis fst_conv)
  with Started have "plane_ok sys'" using actions_keep_plane_ok by blast
  with enrolled_session [OF Started(3)] Started(4) show ?case by (auto simp: new_session_def)
next
  case (Branch sys ss env show_uuid now later ev sys' ss')
  then have acts: "control_actions tc sys sys'"
    using step_actions [OF Branch(2), of sys show_uuid now later ev ss] by (simp add: plane_ok_def)
  have "has_live_state sys' ss' = has_live_state sys' ss"
    using step_keeps_principal [of env show_uuid now later ev sys ss] Branch(3) by (simp add: has_live_state_def)
  with Branch acts step_clears [of env show_uuid now later ev sys ss] actions_keep_live [OF acts]
    actions_keep_plane_ok [OF acts] show ?case by auto
next
  case (Others sys ss sys')
  then show ?case using actions_keep_plane_ok actions_keep_live by blast
qed

section \<open>Answers and clean-up\<close>

text \<open>Heartbeat acknowledgements a session's socket has taken.\<close>

fun is_heartbeat_ack :: "socket_frame \<Rightarrow> bool" where
  "is_heartbeat_ack (FrameMessage (MHeartbeatAck _)) = True"
| "is_heartbeat_ack _ = False"

definition heartbeats_answered :: "session \<Rightarrow> nat" where
  "heartbeats_answered ss = length (filter is_heartbeat_ack (sk_sent (ss_socket ss)))"

lemma sent_other [simp]:
  "\<not> is_heartbeat_ack f \<Longrightarrow>
     filter is_heartbeat_ack (sk_sent (fst (socket_send env f sk))) = filter is_heartbeat_ack (sk_sent sk)"
  by (simp add: socket_send_def Let_def)

lemma closed_other [simp]:
  "filter is_heartbeat_ack (sk_sent (protocol_close env code n sk)) = filter is_heartbeat_ack (sk_sent sk)"
  by (simp add: protocol_close_def send_envelope_def)

lemma answer_command_sent [simp]:
  "heartbeats_answered (fst (snd (answer_command env ss r))) = heartbeats_answered ss"
  by (simp add: answer_command_def heartbeats_answered_def send_command_error_def send_envelope_def go_on_def
      split: prod.split sum.split)

lemma handlers_sent [simp]:
  "heartbeats_answered (fst (snd (on_manifest env payload sys ss))) = heartbeats_answered ss"
  "heartbeats_answered (fst (snd (on_state_full env payload sys ss))) = heartbeats_answered ss"
  "heartbeats_answered (fst (snd (on_state_delta env payload sys ss))) = heartbeats_answered ss"
  "heartbeats_answered (fst (snd (on_entity_state env now payload sys ss))) = heartbeats_answered ss"
  "heartbeats_answered (fst (snd (on_directory env notice sys ss))) = heartbeats_answered ss"
  by (simp_all add: on_manifest_def on_state_full_def on_state_delta_def on_entity_state_def on_directory_def
      heartbeats_answered_def send_envelope_def Let_def split_beta
      split: option.split directory_notice.split sum.split)

lemma heartbeat_sent:
  "ss_needs_full_state ss \<Longrightarrow> heartbeats_answered (fst (snd (on_heartbeat env now payload sys ss))) = heartbeats_answered ss"
  by (simp add: on_heartbeat_def heartbeats_answered_def split: option.split)

lemma step_sent:
  assumes "ss_needs_full_state ss"
  shows "heartbeats_answered (fst (snd (session_step env show_uuid now later ev sys ss))) = heartbeats_answered ss"
proof (cases "\<exists>text. ev = SvMessage (WsText text)")
  case True
  with assms show ?thesis
    by (auto simp: step_text on_text_def on_command_def on_accepted_def on_result_def heartbeat_sent
        heartbeats_answered_def [of "ss\<lparr>ss_socket := sk\<rparr>" for sk] heartbeats_answered_def [of ss, symmetric]
        split: sum.split protocol_parse_error.split)
next
  case False
  then show ?thesis
    by (auto simp: session_step_def split_beta send_envelope_def
        heartbeats_answered_def [of "ss\<lparr>ss_socket := sk\<rparr>" for sk] heartbeats_answered_def [of ss, symmetric]
        split: session_event.split option.split ws_message.split)
qed

text \<open>The registry entry of a device belongs to a connection generation.\<close>

definition owns_generation :: "registry_state \<Rightarrow> device_id \<Rightarrow> connection_id \<Rightarrow> bool" where
  "owns_generation r d c = is_some_and (map_of (active r) d) (\<lambda>a. ac_connection_id a = c)"

lemma disconnect_owned:
  "snd (disconnect d c why r) = owns_generation r d c"
  "map_of (active (fst (disconnect d c why r))) =
     (if owns_generation r d c then (map_of (active r))(d := None) else map_of (active r))"
  "\<not> owns_generation r d c \<Longrightarrow> fst (disconnect d c why r) = r"
  by (auto simp: disconnect_def owns_generation_def delete_conv' split: option.splits)

lemma finish_active [simp]: "active (rw_registry (finish env ops cid res w)) = active (rw_registry w)"
  by (simp add: finish_def Let_def split: option.split prod.split)

lemma disconnected_active [simp]:
  "active (rw_registry (disconnected env now u d c w)) = active (rw_registry w)"
proof -
  have "active (rw_registry (fold (\<lambda>(cid, request_id). 
      finish env ops cid (terminal env now cid request_id ''target_offline'')) xs w)) =
      active (rw_registry w)" for ops xs
    by (induction xs arbitrary: w) auto
  then show ?thesis by (simp add: disconnected_def split: option.split)
qed

lemma register_connection_owns:
  "owns_generation (sys_registry (register_connection env now p cid replacement outbound m sys)) (cp_device_id p) cid"
  by (simp add: register_connection_def Let_def split_beta owns_generation_def register_active split: option.split)

section \<open>An example plane\<close>

definition example_envelope :: "string \<Rightarrow> 'p \<Rightarrow> 'p client_envelope" where
  "example_envelope kind payload =
     \<lparr>ce_protocol_version = 1, ce_message_id = 77, ce_kind = kind, ce_sent_at = ''t'', ce_payload = payload\<rparr>"

definition example_decoders :: decoders where
  "example_decoders =
     \<lparr>dc_hello = (\<lambda>text. if text = ''hello''
        then Some (example_envelope ''protocol.hello'' \<lparr>hp_supported_protocol_versions = [1]\<rparr>) else None),
      dc_register = (\<lambda>text. if text = ''register''
        then Some (example_envelope ''device.register''
          \<lparr>rp_device_type = ''esp32'', rp_app_version = ''1'', rp_manifest = example_declaration 1 ''Lamp''\<rparr>) else None),
      dc_any = (\<lambda>text. if text = ''state'' then Some (example_envelope ''device.state_full'' JNull)
        else if text = ''beat'' then Some (example_envelope ''device.heartbeat'' JNull) else None),
      dc_rfc3339 = (\<lambda>_. Some 0), dc_hello_size = (\<lambda>_. 1), dc_register_size = (\<lambda>_. 1), dc_json_size = (\<lambda>_. 1),
      dc_heartbeat = (\<lambda>_. Some 1), dc_manifest = (\<lambda>_. None),
      dc_full_state = (\<lambda>_. Some (example_level 4 30)), dc_state_delta = (\<lambda>_. None), dc_entity_state = (\<lambda>_. None),
      dc_command = (\<lambda>_. None), dc_accepted = (\<lambda>_. None), dc_result = (\<lambda>_. None)\<rparr>"

definition example_session_env :: "control_db session_env" where
  "example_session_env =
     \<lparr>se_router = example_env None, se_directory = example_directory_env\<lparr>dx_accounts := Some (\<lambda>_. Inl ())\<rparr>,
      se_decoders = example_decoders, se_transport = (\<lambda>_. True), se_offline_ttl = seconds 60\<rparr>"

definition example_system :: "control_db control_system" where
  "example_system =
     \<lparr>sys_world = \<lparr>rw_flights = [], rw_registry = empty_registry, rw_store = example_db, rw_timers = []\<rparr>,
      sys_hub = empty_hub\<rparr>"

definition example_plane :: "control_db control_plane" where
  "example_plane = \<lparr>pl_system = example_system, pl_greeted = [], pl_sessions = []\<rparr>"

definition example_device :: control_principal where
  "example_device = \<lparr>cp_user_id = 5, cp_device_id = 3\<rparr>"

definition example_socket :: socket where
  "example_socket = \<lparr>sk_sent = [], sk_attempts = 0\<rparr>"

definition example_plane_run :: "(control_db session_env \<times> plane_event) list" where
  "example_plane_run =
     [(example_session_env, PlHello example_device 30 (Some (WsText ''hello''))),
      (example_session_env, PlRegister 30 0 40 41 (Some (WsText ''register''))),
      (example_session_env, PlStep 30 (\<lambda>_. ''m'') 1 1 (SvMessage (WsText ''state''))),
      (example_session_env, PlStep 30 (\<lambda>_. ''m'') 2 2 (SvMessage (WsText ''beat'')))]"

definition example_player_session :: session where
  "example_player_session =
     \<lparr>ss_principal = example_device, ss_connection_id = 11, ss_manifest = ac_manifest example_player, ss_scopes = [],
      ss_needs_full_state = False, ss_last_seen = 0, ss_directory_enabled = False, ss_socket = example_socket\<rparr>"

abbreviation example_clock :: "instant \<Rightarrow> string" where
  "example_clock \<equiv> \<lambda>_. ''2026-09-03T00:00:00Z''"

lemma example_session_postgres: "env_ops (se_router example_session_env) = Some (postgres_ops example_clock)"
  by (simp add: example_session_env_def example_env_def)

lemma example_system_ok: "plane_ok example_system"
  using example_db_wf
  by (simp add: plane_ok_def example_system_def router_invariant_def within_capacity_def sent_by_def queued_for_def
      live_states_ok_def hub_device_state_def empty_hub_def empty_registry_def wf_registry_def user_events_def)

section \<open>Properties\<close>





text \<open>C7: a session whose registration declared a role other than controller has a heartbeat
  acknowledged only while the hub holds a valid state of its device that the store covers, however
  the other sessions interfere; before that a heartbeat ends the session.\<close>

theorem heartbeat_needs_state:
  assumes "session_life tc m0 sys ss" "requires_full_state (man_roles m0)"
    and "heartbeats_answered (fst (snd (session_step env show_uuid now later ev sys ss))) \<noteq> heartbeats_answered ss"
  shows "\<exists>snap. hub_device_state (sys_hub sys) (ss_user ss) (ss_device ss) = Some snap \<and> valid_snapshot snap \<and>
    backed (sys_store sys) (ss_device ss) snap"
proof -
  from assms(3) step_sent have "\<not> ss_needs_full_state ss" by blast
  with life_invariant [OF assms(1)] assms(2) show ?thesis
    by (auto simp: has_live_state_def plane_ok_def live_states_ok_def)
qed

definition example_enrolled :: "control_db control_system \<times> handshake_result" where
  "example_enrolled = enrol example_session_env 0 example_device 30 40 41 (Some (WsText ''register'')) example_socket
     example_system"

definition example_stated :: "control_db control_system \<times> session" where
  "example_stated =
     (case example_enrolled of
        (sys, HsRunning ss) \<Rightarrow>
          (case session_step example_session_env (\<lambda>_. ''m'') 1 1 (SvMessage (WsText ''state'')) sys ss of
             (sys', ss', _) \<Rightarrow> (sys', ss'))
      | (sys, HsClosed sk) \<Rightarrow> (sys, new_session 0 example_device 30 (example_declaration 1 ''Lamp'') sk))"

lemma example_registers:
  "register_phase example_session_env (Some (WsText ''register'')) example_socket =
     Inr \<lparr>rp_device_type = ''esp32'', rp_app_version = ''1'', rp_manifest = example_declaration 1 ''Lamp''\<rparr>"
  using example_declaration_valid(1)
  by (simp add: register_phase_def receive_message_def parse_message_def example_session_env_def example_decoders_def
      example_envelope_def MAX_FRAME_BYTES_def MAX_PAYLOAD_BYTES_def valid_registration_def)

lemma hub_device_state_empty: "hub_device_state empty_hub u d = None"
  by (simp add: hub_device_state_def empty_hub_def)

lemma example_applied:
  "snd (apply_manifest 5 3 (example_declaration 1 ''Lamp'') example_db) = Ok OutAccepted"
  using example_declaration_applied by (metis snd_conv)

lemma example_enrols:
  "\<exists>sys sk. example_enrolled = (sys, HsRunning (new_session 0 example_device 30 (example_declaration 1 ''Lamp'') sk)) \<and>
     hub_device_state (sys_hub sys) 5 3 = None \<and>
     sys_store sys = fst (apply_manifest 5 3 (example_declaration 1 ''Lamp'') example_db) \<and>
     owns_generation (sys_registry sys) 3 30"
proof -
  define sys where "sys = register_connection example_session_env 0 example_device 30 40 41 (example_declaration 1 ''Lamp'')
    (with_store (fst (apply_manifest 5 3 (example_declaration 1 ''Lamp'') example_db)) example_system)"
  have owns: "owns_generation (sys_registry sys) 3 30"
    using register_connection_owns [of _ _ example_device] unfolding sys_def by (simp add: example_device_def)
  have rest: "sys_store sys = fst (apply_manifest 5 3 (example_declaration 1 ''Lamp'') example_db)"
    "hub_device_state (sys_hub sys) 5 3 = None"
    by (simp_all add: sys_def register_connection_def register_def empty_registry_def example_system_def Let_def
        hub_device_state_empty)
  define ss where "ss = new_session 0 example_device 30 (example_declaration 1 ''Lamp'') example_socket"
  have "\<exists>sk. announce example_session_env 0 ss sys =
      (sys\<lparr>sys_hub := hub_subscribe 5 (sys_hub sys)\<rparr>, HsRunning (ss\<lparr>ss_socket := sk\<rparr>))"
    by (simp add: announce_def send_envelope_def socket_send_def ss_def new_session_def granted_scopes_def
        example_declaration_def example_session_env_def example_device_def)
  moreover have "example_enrolled = announce example_session_env 0 ss sys"
    unfolding example_enrolled_def enrol_def example_registers sys_def ss_def
    by (simp add: persist_pg [OF example_session_postgres] accepted_or_replay_def example_applied example_device_def
        example_system_def)
  ultimately obtain sk where "example_enrolled =
      (sys\<lparr>sys_hub := hub_subscribe 5 (sys_hub sys)\<rparr>, HsRunning (ss\<lparr>ss_socket := sk\<rparr>))" by metis
  with owns rest show ?thesis by (auto simp: ss_def new_session_def)
qed

lemma example_state_stored:
  "snd (store_device_state tc 5 3 (example_level 4 30)
     (fst (apply_manifest 5 3 (example_declaration 1 ''Lamp'') example_db))) = Ok OutAccepted"
  using manifest_write_keeps [of 5 3 "example_declaration 1 ''Lamp''" example_db]
  by (simp add: store_device_state_def transact_def example_owned)
    (simp add: example_level_def revision_column_ok_def example_db_def empty_control_db_def)

lemma example_texts:
  "on_text example_session_env show_uuid now later ''state'' sys ss = on_state_full example_session_env JNull sys ss"
  "on_text example_session_env show_uuid now later ''beat'' sys ss = on_heartbeat example_session_env now JNull sys ss"
  by (simp_all add: on_text_def parse_any_def MAX_FRAME_BYTES_def MAX_PAYLOAD_BYTES_def example_envelope_def
      example_session_env_def [THEN arg_cong, of se_decoders] example_decoders_def)

lemma example_states:
  "session_life example_clock (example_declaration 1 ''Lamp'') (fst example_stated) (snd example_stated) \<and>
   \<not> ss_needs_full_state (snd example_stated) \<and> ss_principal (snd example_stated) = example_device \<and>
   ss_connection_id (snd example_stated) = 30 \<and> owns_generation (sys_registry (fst example_stated)) 3 30"
proof -
  obtain sys sk where e: "example_enrolled = (sys, HsRunning (new_session 0 example_device 30 (example_declaration 1 ''Lamp'') sk))"
    and h: "hub_device_state (sys_hub sys) 5 3 = None"
    and st: "sys_store sys = fst (apply_manifest 5 3 (example_declaration 1 ''Lamp'') example_db)"
    and own: "owns_generation (sys_registry sys) 3 30"
    using example_enrols by blast
  let ?ss = "new_session 0 example_device 30 (example_declaration 1 ''Lamp'') sk"
  have started: "session_life example_clock (example_declaration 1 ''Lamp'') sys ?ss"
    by (rule session_life.Started [OF example_session_postgres example_system_ok, OF e [unfolded example_enrolled_def]])
      (simp add: new_session_def)
  have full: "opt_filter valid_snapshot (dc_full_state (se_decoders example_session_env) JNull) = Some (example_level 4 30)"
    by (simp add: example_session_env_def example_decoders_def example_level_def valid_snapshot_def
        some_runtime_fact_def valid_track_title_def)
  obtain sys' where step: "session_step example_session_env (\<lambda>_. ''m'') 1 1 (SvMessage (WsText ''state'')) sys ?ss =
      (sys', ?ss\<lparr>ss_needs_full_state := False\<rparr>, None)" and r: "sys_registry sys' = sys_registry sys"
    using h st example_state_stored
    by (simp add: step_text example_texts on_state_full_def full persist_pg [OF example_session_postgres]
        accepted_full_snapshot_def accept_snapshot_def go_on_def new_session_def example_device_def)
  have stated: "example_stated = (sys', ?ss\<lparr>ss_needs_full_state := False\<rparr>)"
    by (simp add: example_stated_def e step)
  show ?thesis
    unfolding stated using session_life.Branch [OF started example_session_postgres step] own r by (simp add: new_session_def)
qed

theorem heartbeat_needs_state_witness:
  "\<exists>snap. hub_device_state (sys_hub (fst example_stated)) 5 3 = Some snap \<and> valid_snapshot snap \<and>
    backed (sys_store (fst example_stated)) 3 snap"
proof -
  note s = example_states
  have env: "dc_heartbeat (se_decoders example_session_env) JNull = Some 1" "se_transport example_session_env n" for n
    by (simp_all add: example_session_env_def example_decoders_def)
  have "heartbeats_answered (fst (snd (session_step example_session_env (\<lambda>_. ''m'') 2 2 (SvMessage (WsText ''beat''))
      (fst example_stated) (snd example_stated)))) = Suc (heartbeats_answered (snd example_stated))"
    using s
    by (auto simp: step_text example_texts on_heartbeat_def Let_def send_envelope_def socket_send_def example_device_def
        heartbeats_answered_def heartbeat_def owns_generation_def env opt_filter_def is_some_and_def split: option.splits)
  with heartbeat_needs_state [of example_clock "example_declaration 1 ''Lamp''" "fst example_stated" "snd example_stated"
      example_session_env "\<lambda>_. ''m''" 2 2 "SvMessage (WsText ''beat'')"] s
  show ?thesis by (simp add: requires_full_state_def example_declaration_def example_device_def)
qed

text \<open>C10: the end of a session removes exactly its own generation: when the registry still lists its
  connection, the device goes offline, the commands delivered to that connection leave the router
  and one offline event is published; when it was replaced or revoked, nothing changes.\<close>

theorem session_end_exact:
  assumes "env_ops (se_router env) = Some ops" "distinct (map fst (rw_flights (sys_world sys)))"
  shows "let sys' = session_end env now why ss sys in
    if owns_generation (sys_registry sys) (ss_device ss) (ss_connection_id ss)
    then map_of (active (sys_registry sys')) = (map_of (active (sys_registry sys)))(ss_device ss := None) \<and>
      rw_flights (sys_world sys') = filter (\<lambda>(_, item). \<not> delivered_to item (ss_user ss) (ss_device ss) (ss_connection_id ss))
        (rw_flights (sys_world sys)) \<and>
      sys_hub sys' = publish_presence (ss_user ss) (ss_device ss) False (sys_hub sys)
    else sys' = sys"
proof (cases "owns_generation (sys_registry sys) (ss_device ss) (ss_connection_id ss)")
  case True
  obtain r where d: "disconnect (ss_device ss) (ss_connection_id ss) why (sys_registry sys) = (r, True)"
    using True disconnect_owned(1) [of "ss_device ss" "ss_connection_id ss" why "sys_registry sys"]
    by (metis prod.collapse)
  with disconnect_owned(2) [of "ss_device ss" "ss_connection_id ss" why "sys_registry sys"] True assms show ?thesis
    by (simp add: session_end_def Let_def disconnected_flights)
next
  case False
  with disconnect_owned(1) [of "ss_device ss" "ss_connection_id ss" why "sys_registry sys"]
    disconnect_owned(3) [of "sys_registry sys" "ss_device ss" "ss_connection_id ss" why]
  have "disconnect (ss_device ss) (ss_connection_id ss) why (sys_registry sys) = (sys_registry sys, False)"
    by (simp add: prod_eq_iff)
  with False show ?thesis by (simp add: session_end_def Let_def with_registry_def)
qed

theorem session_end_exact_witness:
  "map_of (active (sys_registry (session_end example_session_env 9 TransportLost example_player_session
     \<lparr>sys_world = example_world, sys_hub = empty_hub\<rparr>))) 3 = None \<and>
   session_end example_session_env 9 Replaced (example_player_session\<lparr>ss_connection_id := 99\<rparr>)
     \<lparr>sys_world = example_world, sys_hub = empty_hub\<rparr> = \<lparr>sys_world = example_world, sys_hub = empty_hub\<rparr>"
  using session_end_exact [OF example_session_postgres, of "\<lparr>sys_world = example_world, sys_hub = empty_hub\<rparr>" 9
      TransportLost example_player_session]
    session_end_exact [OF example_session_postgres, of "\<lparr>sys_world = example_world, sys_hub = empty_hub\<rparr>" 9
      Replaced "example_player_session\<lparr>ss_connection_id := 99\<rparr>"]
  by (simp add: Let_def owns_generation_def example_world_def example_player_session_def example_device_def
      example_player_def)

text \<open>C11: when the account directory fails right after registration, the handshake closes the socket but
  leaves the device registered under the connection that no longer exists.\<close>

theorem directory_failure_leaves_ghost:
  assumes "Controller \<in> set (man_roles m)" "se_transport env (sk_attempts sk)"
    and "dx_accounts (se_directory env) = Some list_devices" "list_devices (cp_user_id p) = Inl ()"
  shows "\<exists>sys' sk'. announce env now (new_session now p cid m sk)
      (register_connection env now p cid replacement outbound m sys) = (sys', HsClosed sk') \<and>
    owns_generation (sys_registry sys') (cp_device_id p) cid"
  using assms register_connection_owns [of env now p cid replacement outbound m sys]
  by (auto simp: announce_def send_envelope_def socket_send_def Let_def new_session_def granted_scopes_def
      session_directory_def directory_snapshot_def split: option.split)

theorem directory_failure_leaves_ghost_witness:
  "\<exists>sys' sk'. announce example_session_env 0 (new_session 0 example_device 30 (example_manifest [Controller] []) example_socket)
      (register_connection example_session_env 0 example_device 30 40 41 (example_manifest [Controller] []) example_system)
        = (sys', HsClosed sk') \<and>
    owns_generation (sys_registry sys') (cp_device_id example_device) 30"
  by (rule directory_failure_leaves_ghost [of _ _ _ "\<lambda>_. Inl ()"])
    (simp_all add: example_manifest_def example_session_env_def example_directory_env_def)

end
