(* ===== verification/Personal_Data.thy ===== *)
theory Personal_Data
  imports Foundation Json
begin

text \<open>
  Personal-data synchronisation, domain and transport: the models, limits and validation of
  \<open>src/src/personal_data/domain.rs\<close>, the selection \<open>delta_and_echo\<close> that both stores share
  (\<open>in_memory.rs\<close>) and the request and response mapping of \<open>src/src/http/sync.rs\<close>.

  Both of the program's \<open>Timestamp\<close> types are a checked RFC 3339 text with its instant, so the
  record of \<open>Foundation\<close> is used; every comparison is one of instants. The RFC 3339 parser, the
  UUID parser, the UUID printer and the size of a serialized JSON value are arguments. A \<open>u64\<close> revision is a
  natural number; the counter that hands revisions out says where it wraps.
\<close>

section \<open>Limits and errors\<close>

definition MAX_FAVOURITE_RECORDS :: nat where "MAX_FAVOURITE_RECORDS = 500"

definition MAX_HISTORY_RECORDS :: nat where "MAX_HISTORY_RECORDS = 500"

definition MAX_SYNC_BATCH_ITEMS :: nat where "MAX_SYNC_BATCH_ITEMS = 300"

definition HISTORY_RETENTION_DAYS :: int where "HISTORY_RETENTION_DAYS = 90"

definition TOMBSTONE_RETENTION_DAYS :: int where "TOMBSTONE_RETENTION_DAYS = 90"

definition DELETED_ACCOUNT_PURGE_DAYS :: int where "DELETED_ACCOUNT_PURGE_DAYS = 30"

definition MAX_CLIENT_CLOCK_SKEW_SECONDS :: int where "MAX_CLIENT_CLOCK_SKEW_SECONDS = 5 * 60"

definition MAX_METADATA_BYTES :: nat where "MAX_METADATA_BYTES = 4096"

definition MAX_PLAY_DURATION_MS :: nat where "MAX_PLAY_DURATION_MS = 30 * 24 * 60 * 60 * 1000"

definition MAX_STATION_ID_LEN :: nat where "MAX_STATION_ID_LEN = 256"

datatype personal_data_error =
  PdValidation string | FavouriteLimitExceeded | HistoryLimitExceeded | PdDatabase

fun personal_data_error_text :: "personal_data_error \<Rightarrow> string" where
  "personal_data_error_text (PdValidation field) = ''personal data validation failed: '' @ field"
| "personal_data_error_text FavouriteLimitExceeded = ''favourites collection limit exceeded''"
| "personal_data_error_text HistoryLimitExceeded = ''history collection limit exceeded''"
| "personal_data_error_text PdDatabase = ''personal data persistence unavailable''"

definition pd_timestamp_parse ::
  "(string \<Rightarrow> instant option) \<Rightarrow> string \<Rightarrow> personal_data_error + timestamp" where
  "pd_timestamp_parse rfc3339 text =
     (case rfc3339 text of
        None \<Rightarrow> Err (PdValidation ''timestamp'')
      | Some i \<Rightarrow> Ok \<lparr>ts_text = text, ts_instant = i\<rparr>)"

section \<open>Records and requests\<close>

type_synonym revision = nat
type_synonym record_id = uuid

record favourite_record =
  fr_record_id :: record_id
  fr_station_id :: "string option"
  fr_added_at :: timestamp
  fr_updated_at :: timestamp
  fr_deleted_at :: "timestamp option"
  fr_sync_revision :: revision

record history_record =
  hr_record_id :: record_id
  hr_station_id :: "string option"
  hr_started_at :: timestamp
  hr_last_played_at :: timestamp
  hr_ended_at :: "timestamp option"
  hr_play_duration_ms :: "nat option"
  hr_metadata :: "json option"
  hr_updated_at :: timestamp
  hr_deleted_at :: "timestamp option"
  hr_sync_revision :: revision

record favourite_upsert =
  fu_record_id :: record_id
  fu_station_id :: string
  fu_added_at :: timestamp
  fu_updated_at :: timestamp

record history_upsert =
  hu_record_id :: record_id
  hu_station_id :: string
  hu_started_at :: timestamp
  hu_last_played_at :: timestamp
  hu_ended_at :: "timestamp option"
  hu_play_duration_ms :: "nat option"
  hu_metadata :: "json option"
  hu_updated_at :: timestamp

record record_delete =
  rd_record_id :: record_id
  rd_updated_at :: timestamp

record 'u collection_changes =
  cc_upserts :: "'u list"
  cc_deletes :: "record_delete list"

record sync_request =
  sq_since_revision :: revision
  sq_favourites :: "favourite_upsert collection_changes"
  sq_history :: "history_upsert collection_changes"

record sync_outcome =
  so_server_revision :: revision
  so_favourites :: "favourite_record list"
  so_history :: "history_record list"

record retention_sweep =
  sw_history_expired :: nat
  sw_tombstones_removed :: nat
  sw_deleted_account_rows_removed :: nat

section \<open>Validation\<close>

definition canonical_record_id ::
  "(string \<Rightarrow> uuid option) \<Rightarrow> string \<Rightarrow> personal_data_error + record_id" where
  "canonical_record_id parse_uuid raw = ok_or (PdValidation ''record_id'') (parse_uuid raw)"

definition canonical_station_id :: "string \<Rightarrow> personal_data_error + string" where
  "canonical_station_id raw =
     (if raw \<noteq> [] \<and> length (chars raw) \<le> MAX_STATION_ID_LEN \<and> \<not> list_ex is_control (chars raw)
      then Ok raw else Err (PdValidation ''station_id''))"

definition validate_timestamp :: "timestamp \<Rightarrow> instant \<Rightarrow> personal_data_error + unit" where
  "validate_timestamp t now =
     require (ts_instant t \<le> now + seconds MAX_CLIENT_CLOCK_SKEW_SECONDS) (PdValidation ''timestamp'')"

definition is_object :: "json \<Rightarrow> bool" where
  "is_object j = (case j of JObj _ \<Rightarrow> True | _ \<Rightarrow> False)"

definition validate_metadata :: "(json \<Rightarrow> nat) \<Rightarrow> json option \<Rightarrow> personal_data_error + unit" where
  "validate_metadata json_size metadata =
     (case metadata of
        None \<Rightarrow> Ok ()
      | Some m \<Rightarrow> require (is_object m \<and> json_size m \<le> MAX_METADATA_BYTES) (PdValidation ''history.metadata''))"

definition favourite_upsert_validate :: "favourite_upsert \<Rightarrow> instant \<Rightarrow> personal_data_error + unit" where
  "favourite_upsert_validate up now =
     and_then (canonical_station_id (fu_station_id up)) (\<lambda>_.
     and_then (validate_timestamp (fu_added_at up) now) (\<lambda>_.
     validate_timestamp (fu_updated_at up) now))"

definition history_upsert_validate ::
  "(json \<Rightarrow> nat) \<Rightarrow> history_upsert \<Rightarrow> instant \<Rightarrow> personal_data_error + unit" where
  "history_upsert_validate json_size up now =
     and_then (canonical_station_id (hu_station_id up)) (\<lambda>_.
     and_then (validate_timestamp (hu_started_at up) now) (\<lambda>_.
     and_then (validate_timestamp (hu_last_played_at up) now) (\<lambda>_.
     if ts_instant (hu_last_played_at up) < ts_instant (hu_started_at up)
     then Err (PdValidation ''history.last_played_at'')
     else
       and_then (case hu_ended_at up of
           None \<Rightarrow> Ok ()
         | Some ended \<Rightarrow>
             and_then (validate_timestamp ended now) (\<lambda>_.
             require (\<not> ts_instant ended < ts_instant (hu_started_at up)) (PdValidation ''history.ended_at''))) (\<lambda>_.
       if is_some_and (hu_play_duration_ms up) (\<lambda>d. MAX_PLAY_DURATION_MS < d)
       then Err (PdValidation ''history.play_duration_ms'')
       else
         and_then (validate_metadata json_size (hu_metadata up)) (\<lambda>_.
         validate_timestamp (hu_updated_at up) now)))))"

definition collection_record_ids :: "record_id list \<Rightarrow> record_id list \<Rightarrow> record_id list" where
  "collection_record_ids upserts deletes = upserts @ deletes"

definition favourite_record_ids :: "sync_request \<Rightarrow> record_id list" where
  "favourite_record_ids rq =
     collection_record_ids (map fu_record_id (cc_upserts (sq_favourites rq)))
       (map rd_record_id (cc_deletes (sq_favourites rq)))"

definition history_record_ids :: "sync_request \<Rightarrow> record_id list" where
  "history_record_ids rq =
     collection_record_ids (map hu_record_id (cc_upserts (sq_history rq)))
       (map rd_record_id (cc_deletes (sq_history rq)))"

definition sync_request_validate ::
  "(json \<Rightarrow> nat) \<Rightarrow> sync_request \<Rightarrow> instant \<Rightarrow> personal_data_error + unit" where
  "sync_request_validate json_size rq now =
     and_then (try_for_each (\<lambda>(field, len). require (len \<le> MAX_SYNC_BATCH_ITEMS) (PdValidation field))
        [(''favourites.upserts'', length (cc_upserts (sq_favourites rq))),
         (''favourites.deletes'', length (cc_deletes (sq_favourites rq))),
         (''history.upserts'', length (cc_upserts (sq_history rq))),
         (''history.deletes'', length (cc_deletes (sq_history rq)))]) (\<lambda>_.
     and_then (try_for_each (\<lambda>(collection, ids). require (length ids = length (btree_set ids)) (PdValidation collection))
        [(''favourites'', favourite_record_ids rq), (''history'', history_record_ids rq)]) (\<lambda>_.
     and_then (try_for_each (\<lambda>up. favourite_upsert_validate up now) (cc_upserts (sq_favourites rq))) (\<lambda>_.
     try_for_each (\<lambda>up. history_upsert_validate json_size up now) (cc_upserts (sq_history rq)))))"

section \<open>Selecting the delta\<close>

fun select_rows ::
  "revision \<Rightarrow> record_id set \<Rightarrow> ('r \<Rightarrow> revision) \<Rightarrow> (record_id \<times> 'r) list \<Rightarrow>
     (record_id \<times> 'r) list \<times> revision \<Rightarrow> (record_id \<times> 'r) list \<times> revision" where
  "select_rows since pushed revision_of [] acc = acc"
| "select_rows since pushed revision_of ((record_id, row) # rows) (selected, cursor) =
     select_rows since pushed revision_of rows
       (if since < revision_of row \<or> record_id \<in> pushed then amap_insert record_id row selected else selected,
        if cursor < revision_of row then revision_of row else cursor)"

definition delta_and_echo ::
  "(record_id \<times> 'r) list \<Rightarrow> revision \<Rightarrow> record_id set \<Rightarrow> ('r \<Rightarrow> revision) \<Rightarrow> 'r list \<times> revision" where
  "delta_and_echo rows since pushed revision_of =
     (let (selected, cursor) = select_rows since pushed revision_of rows ([], since)
      in (sort_key revision_of (map snd selected), cursor))"

section \<open>Transport mapping\<close>

record favourite_upsert_dto =
  fud_record_id :: string
  fud_station_id :: string
  fud_added_at :: string
  fud_updated_at :: string

record history_upsert_dto =
  hud_record_id :: string
  hud_station_id :: string
  hud_started_at :: string
  hud_last_played_at :: string
  hud_ended_at :: "string option"
  hud_play_duration_ms :: "nat option"
  hud_metadata :: "json option"
  hud_updated_at :: string

record record_delete_dto =
  rdd_record_id :: string
  rdd_updated_at :: string

record 'u sync_collection_dto =
  scd_upserts :: "'u list option"
  scd_deletes :: "record_delete_dto list option"

record sync_request_dto =
  srd_since_revision :: "revision option"
  srd_favourites :: "favourite_upsert_dto sync_collection_dto option"
  srd_history :: "history_upsert_dto sync_collection_dto option"

text \<open>What the crates parse: timestamps and UUIDs.\<close>

record sync_parsers =
  sp_rfc3339 :: "string \<Rightarrow> instant option"
  sp_uuid :: "string \<Rightarrow> uuid option"

fun collect_ok :: "('a \<Rightarrow> 'e + 'b) \<Rightarrow> 'a list \<Rightarrow> 'e + 'b list" where
  "collect_ok f [] = Ok []"
| "collect_ok f (x # xs) = and_then (f x) (\<lambda>y. and_then (collect_ok f xs) (\<lambda>ys. Ok (y # ys)))"

definition opt_list :: "'a list option \<Rightarrow> 'a list" where
  "opt_list v = (case v of None \<Rightarrow> [] | Some xs \<Rightarrow> xs)"

definition record_deletes ::
  "sync_parsers \<Rightarrow> record_delete_dto list \<Rightarrow> personal_data_error + record_delete list" where
  "record_deletes ps = collect_ok (\<lambda>dl.
     and_then (canonical_record_id (sp_uuid ps) (rdd_record_id dl)) (\<lambda>rid.
     and_then (pd_timestamp_parse (sp_rfc3339 ps) (rdd_updated_at dl)) (\<lambda>t.
     Ok \<lparr>rd_record_id = rid, rd_updated_at = t\<rparr>)))"

definition favourite_upsert_of ::
  "sync_parsers \<Rightarrow> favourite_upsert_dto \<Rightarrow> personal_data_error + favourite_upsert" where
  "favourite_upsert_of ps up =
     and_then (canonical_record_id (sp_uuid ps) (fud_record_id up)) (\<lambda>rid.
     and_then (canonical_station_id (fud_station_id up)) (\<lambda>station.
     and_then (pd_timestamp_parse (sp_rfc3339 ps) (fud_added_at up)) (\<lambda>added.
     and_then (pd_timestamp_parse (sp_rfc3339 ps) (fud_updated_at up)) (\<lambda>updated.
     Ok \<lparr>fu_record_id = rid, fu_station_id = station, fu_added_at = added, fu_updated_at = updated\<rparr>))))"

definition favourite_changes ::
  "sync_parsers \<Rightarrow> favourite_upsert_dto sync_collection_dto option \<Rightarrow>
     personal_data_error + favourite_upsert collection_changes" where
  "favourite_changes ps payload =
     and_then (collect_ok (favourite_upsert_of ps) (opt_list (Option.bind payload scd_upserts))) (\<lambda>ups.
     and_then (record_deletes ps (opt_list (Option.bind payload scd_deletes))) (\<lambda>dels.
     Ok \<lparr>cc_upserts = ups, cc_deletes = dels\<rparr>))"

definition history_upsert_of ::
  "sync_parsers \<Rightarrow> history_upsert_dto \<Rightarrow> personal_data_error + history_upsert" where
  "history_upsert_of ps up =
     and_then (canonical_record_id (sp_uuid ps) (hud_record_id up)) (\<lambda>rid.
     and_then (canonical_station_id (hud_station_id up)) (\<lambda>station.
     and_then (pd_timestamp_parse (sp_rfc3339 ps) (hud_started_at up)) (\<lambda>started.
     and_then (pd_timestamp_parse (sp_rfc3339 ps) (hud_last_played_at up)) (\<lambda>played.
     and_then (case hud_ended_at up of
         None \<Rightarrow> Ok None
       | Some s \<Rightarrow> and_then (pd_timestamp_parse (sp_rfc3339 ps) s) (\<lambda>t. Ok (Some t))) (\<lambda>ended.
     and_then (pd_timestamp_parse (sp_rfc3339 ps) (hud_updated_at up)) (\<lambda>updated.
     Ok \<lparr>hu_record_id = rid, hu_station_id = station, hu_started_at = started, hu_last_played_at = played,
         hu_ended_at = ended, hu_play_duration_ms = hud_play_duration_ms up, hu_metadata = hud_metadata up,
         hu_updated_at = updated\<rparr>))))))"

definition history_changes ::
  "sync_parsers \<Rightarrow> history_upsert_dto sync_collection_dto option \<Rightarrow>
     personal_data_error + history_upsert collection_changes" where
  "history_changes ps payload =
     and_then (collect_ok (history_upsert_of ps) (opt_list (Option.bind payload scd_upserts))) (\<lambda>ups.
     and_then (record_deletes ps (opt_list (Option.bind payload scd_deletes))) (\<lambda>dels.
     Ok \<lparr>cc_upserts = ups, cc_deletes = dels\<rparr>))"

definition domain_request :: "sync_parsers \<Rightarrow> sync_request_dto \<Rightarrow> personal_data_error + sync_request" where
  "domain_request ps payload =
     and_then (favourite_changes ps (srd_favourites payload)) (\<lambda>favs.
     and_then (history_changes ps (srd_history payload)) (\<lambda>hist.
     Ok \<lparr>sq_since_revision = (case srd_since_revision payload of None \<Rightarrow> 0 | Some n \<Rightarrow> n),
         sq_favourites = favs, sq_history = hist\<rparr>))"

end
