(* ===== verification/Personal_Store.thy ===== *)
theory Personal_Store
  imports Personal_Data "HOL-Library.Product_Lexorder"
begin

text \<open>
  The two personal-data stores: the in-memory one (\<open>src/src/personal_data/in_memory.rs\<close>) and
  the PostgreSQL one (\<open>src/src/persistence/personal_data_postgres.rs\<close>) over the tables of
  migration 0025.

  A collection is an association list with distinct keys \<open>(user, record)\<close>. A call of a store is
  one function of its state; the clock readings are arguments. For the PostgreSQL store the
  arguments of \<open>pg_env\<close> say how the server reads a timestamp text (to microseconds, or not at
  all), prints one, and reads a \<open>jsonb\<close> value. A transaction that fails restores the tables,
  but not the sequence: sequence values are never given back.
\<close>

type_synonym 'r collection = "((user_id \<times> record_id) \<times> 'r) list"

definition owned_rows :: "user_id \<Rightarrow> 'r collection \<Rightarrow> (record_id \<times> 'r) list" where
  "owned_rows u t = map (\<lambda>((_, rid), row). (rid, row)) (filter (\<lambda>((owner, _), _). owner = u) t)"

definition count_live :: "('r \<Rightarrow> 'd option) \<Rightarrow> user_id \<Rightarrow> 'r collection \<Rightarrow> nat" where
  "count_live deleted u t = length (filter (\<lambda>((owner, _), row). owner = u \<and> deleted row = None) t)"

definition history_retention :: instant where
  "history_retention = days HISTORY_RETENTION_DAYS"

definition tombstone_retention :: instant where
  "tombstone_retention = days TOMBSTONE_RETENTION_DAYS"

section \<open>The in-memory store\<close>

record memory_store =
  mem_favourites :: "favourite_record collection"
  mem_history :: "history_record collection"
  mem_revision :: revision

text \<open>The 64-bit atomic counter: the new value is the revision handed out.\<close>

definition mem_next :: "revision \<Rightarrow> revision" where
  "mem_next n = (n + 1) mod 2 ^ 64"

definition strictly_newer :: "timestamp option \<Rightarrow> timestamp \<Rightarrow> bool" where
  "strictly_newer stored incoming = is_none_or stored (\<lambda>current. ts_instant current < ts_instant incoming)"

definition merge_favourite ::
  "user_id \<Rightarrow> favourite_upsert \<Rightarrow> favourite_record collection \<times> revision \<Rightarrow>
     favourite_record collection \<times> revision" where
  "merge_favourite u up = (\<lambda>(t, n).
     let key = (u, fu_record_id up)
     in if \<not> strictly_newer (map_option fr_updated_at (map_of t key)) (fu_updated_at up) then (t, n)
        else (amap_insert key
                \<lparr>fr_record_id = fu_record_id up, fr_station_id = Some (fu_station_id up),
                 fr_added_at = fu_added_at up, fr_updated_at = fu_updated_at up, fr_deleted_at = None,
                 fr_sync_revision = mem_next n\<rparr> t, mem_next n))"

definition tombstone_favourite ::
  "user_id \<Rightarrow> record_delete \<Rightarrow> favourite_record collection \<times> revision \<Rightarrow>
     favourite_record collection \<times> revision" where
  "tombstone_favourite u dl = (\<lambda>(t, n).
     let key = (u, rd_record_id dl)
     in case map_of t key of
          Some row \<Rightarrow>
            if fr_deleted_at row = None \<and> strictly_newer (Some (fr_updated_at row)) (rd_updated_at dl)
            then (amap_insert key (row\<lparr>fr_deleted_at := Some (rd_updated_at dl),
                     fr_updated_at := rd_updated_at dl, fr_sync_revision := mem_next n\<rparr>) t, mem_next n)
            else (t, n)
        | None \<Rightarrow>
            (amap_insert key
               \<lparr>fr_record_id = rd_record_id dl, fr_station_id = None, fr_added_at = rd_updated_at dl,
                fr_updated_at = rd_updated_at dl, fr_deleted_at = Some (rd_updated_at dl),
                fr_sync_revision = mem_next n\<rparr> t, mem_next n))"

definition merge_history ::
  "user_id \<Rightarrow> history_upsert \<Rightarrow> history_record collection \<times> revision \<Rightarrow>
     history_record collection \<times> revision" where
  "merge_history u up = (\<lambda>(t, n).
     let key = (u, hu_record_id up)
     in if \<not> strictly_newer (map_option hr_updated_at (map_of t key)) (hu_updated_at up) then (t, n)
        else (amap_insert key
                \<lparr>hr_record_id = hu_record_id up, hr_station_id = Some (hu_station_id up),
                 hr_started_at = hu_started_at up, hr_last_played_at = hu_last_played_at up,
                 hr_ended_at = hu_ended_at up, hr_play_duration_ms = hu_play_duration_ms up,
                 hr_metadata = hu_metadata up, hr_updated_at = hu_updated_at up, hr_deleted_at = None,
                 hr_sync_revision = mem_next n\<rparr> t, mem_next n))"

definition tombstone_history ::
  "user_id \<Rightarrow> record_delete \<Rightarrow> history_record collection \<times> revision \<Rightarrow>
     history_record collection \<times> revision" where
  "tombstone_history u dl = (\<lambda>(t, n).
     let key = (u, rd_record_id dl)
     in case map_of t key of
          Some row \<Rightarrow>
            if hr_deleted_at row = None \<and> strictly_newer (Some (hr_updated_at row)) (rd_updated_at dl)
            then (amap_insert key (row\<lparr>hr_deleted_at := Some (rd_updated_at dl),
                     hr_updated_at := rd_updated_at dl, hr_sync_revision := mem_next n\<rparr>) t, mem_next n)
            else (t, n)
        | None \<Rightarrow>
            (amap_insert key
               \<lparr>hr_record_id = rd_record_id dl, hr_station_id = None, hr_started_at = rd_updated_at dl,
                hr_last_played_at = rd_updated_at dl, hr_ended_at = None, hr_play_duration_ms = None,
                hr_metadata = None, hr_updated_at = rd_updated_at dl,
                hr_deleted_at = Some (rd_updated_at dl), hr_sync_revision = mem_next n\<rparr> t, mem_next n))"

text \<open>Marking the collected keys of expired rows, in key order.\<close>

fun mark_expired ::
  "(user_id \<times> record_id) list \<Rightarrow> history_record collection \<times> revision \<Rightarrow>
     history_record collection \<times> revision" where
  "mark_expired [] s = s"
| "mark_expired (key # keys) (t, n) =
     (case map_of t key of
        None \<Rightarrow> mark_expired keys (t, n)
      | Some row \<Rightarrow>
          mark_expired keys
            (amap_insert key (row\<lparr>hr_deleted_at := Some (hr_updated_at row), hr_sync_revision := mem_next n\<rparr>) t,
             mem_next n))"

definition expire_history ::
  "user_id \<Rightarrow> instant \<Rightarrow> history_record collection \<times> revision \<Rightarrow>
     history_record collection \<times> revision" where
  "expire_history u now s =
     mark_expired (map fst (filter (\<lambda>((owner, _), row). owner = u \<and> hr_deleted_at row = None \<and>
        ts_instant (hr_started_at row) < now - history_retention) (fst s))) s"

definition mem_synchronize ::
  "(json \<Rightarrow> nat) \<Rightarrow> instant \<Rightarrow> user_id \<Rightarrow> sync_request \<Rightarrow> memory_store \<Rightarrow>
     memory_store \<times> (personal_data_error + sync_outcome)" where
  "mem_synchronize json_size now u rq m =
     (case sync_request_validate json_size rq now of
        Inl e \<Rightarrow> (m, Err e)
      | Inr _ \<Rightarrow>
          let (favs, n1) = fold (tombstone_favourite u) (cc_deletes (sq_favourites rq))
                (fold (merge_favourite u) (cc_upserts (sq_favourites rq)) (mem_favourites m, mem_revision m));
              m1 = m\<lparr>mem_favourites := favs, mem_revision := n1\<rparr>
          in if MAX_FAVOURITE_RECORDS < count_live fr_deleted_at u favs then (m1, Err FavouriteLimitExceeded)
             else
               let (hist, n2) = expire_history u now
                     (fold (tombstone_history u) (cc_deletes (sq_history rq))
                       (fold (merge_history u) (cc_upserts (sq_history rq)) (mem_history m1, n1)));
                   m2 = m1\<lparr>mem_history := hist, mem_revision := n2\<rparr>
               in if MAX_HISTORY_RECORDS < count_live hr_deleted_at u hist then (m2, Err HistoryLimitExceeded)
                  else
                    let (fav_delta, fav_cursor) = delta_and_echo (owned_rows u favs) (sq_since_revision rq)
                          (set (favourite_record_ids rq)) fr_sync_revision;
                        (hist_delta, hist_cursor) = delta_and_echo (owned_rows u hist) (sq_since_revision rq)
                          (set (history_record_ids rq)) hr_sync_revision
                    in (m2, Ok \<lparr>so_server_revision = max fav_cursor hist_cursor,
                                 so_favourites = fav_delta, so_history = hist_delta\<rparr>))"

definition kept_tombstone :: "instant \<Rightarrow> timestamp option \<Rightarrow> bool" where
  "kept_tombstone cutoff deleted = is_none_or deleted (\<lambda>t. cutoff \<le> ts_instant t)"

definition mem_sweep_retention :: "instant \<Rightarrow> memory_store \<Rightarrow> memory_store \<times> retention_sweep" where
  "mem_sweep_retention now m =
     (let expired = map fst (filter (\<lambda>(_, row). hr_deleted_at row = None \<and>
             ts_instant (hr_started_at row) < now - history_retention) (mem_history m));
          (hist, n) = mark_expired expired (mem_history m, mem_revision m);
          cutoff = now - tombstone_retention;
          hist' = filter (\<lambda>(_, row). kept_tombstone cutoff (hr_deleted_at row)) hist;
          favs' = filter (\<lambda>(_, row). kept_tombstone cutoff (fr_deleted_at row)) (mem_favourites m)
      in (m\<lparr>mem_history := hist', mem_favourites := favs', mem_revision := n\<rparr>,
          \<lparr>sw_history_expired = length expired,
           sw_tombstones_removed = (length hist - length hist') + (length (mem_favourites m) - length favs'),
           sw_deleted_account_rows_removed = 0\<rparr>))"

section \<open>The PostgreSQL tables\<close>

record favourite_row =
  pf_station_id :: "string option"
  pf_added_at :: instant
  pf_updated_at :: instant
  pf_deleted_at :: "instant option"
  pf_sync_revision :: revision

record history_row =
  ph_station_id :: "string option"
  ph_started_at :: instant
  ph_last_played_at :: instant
  ph_ended_at :: "instant option"
  ph_play_duration_ms :: "nat option"
  ph_metadata :: "json option"
  ph_updated_at :: instant
  ph_deleted_at :: "instant option"
  ph_sync_revision :: revision

text \<open>What the personal-data statements read of an account's row.\<close>

record account_row =
  acc_deleted :: bool
  acc_deleted_at :: "instant option"

record personal_db =
  pd_favourites :: "favourite_row collection"
  pd_history :: "history_row collection"
  pd_sequence :: revision
  pd_accounts :: "user_id \<Rightarrow> account_row option"
  pd_now :: instant
  pd_available :: bool

record pg_env =
  pg_timestamptz :: "timestamp \<Rightarrow> instant option"
  pg_to_char :: "instant \<Rightarrow> string"
  pg_jsonb :: "json \<Rightarrow> json option"
  pg_rfc3339 :: "string \<Rightarrow> instant option"
  pg_json_size :: "json \<Rightarrow> nat"

text \<open>The sequence is a \<open>bigint\<close>: \<open>nextval\<close> fails past its maximum.\<close>

definition nextval :: "personal_db \<Rightarrow> (revision \<times> personal_db) option" where
  "nextval db =
     (if pd_sequence db < 2 ^ 63 - 1
      then Some (Suc (pd_sequence db), db\<lparr>pd_sequence := Suc (pd_sequence db)\<rparr>) else None)"

text \<open>A statement inside the transaction: the tables it leaves and whether it failed.\<close>

type_synonym statement = "personal_db \<Rightarrow> personal_db \<times> (personal_data_error + unit)"

definition then_do :: "statement \<Rightarrow> statement \<Rightarrow> statement" where
  "then_do f g db = (case f db of (db', Inl e) \<Rightarrow> (db', Err e) | (db', Inr _) \<Rightarrow> g db')"

fun for_each :: "('a \<Rightarrow> statement) \<Rightarrow> 'a list \<Rightarrow> statement" where
  "for_each f [] db = (db, Ok ())"
| "for_each f (x # xs) db = then_do (f x) (for_each f xs) db"

definition apply_favourite_upsert :: "pg_env \<Rightarrow> user_id \<Rightarrow> favourite_upsert \<Rightarrow> statement" where
  "apply_favourite_upsert env u up db =
     (case (pg_timestamptz env (fu_added_at up), pg_timestamptz env (fu_updated_at up), nextval db) of
        (Some added, Some updated, Some (n, db1)) \<Rightarrow>
          (let key = (u, fu_record_id up);
               row = \<lparr>pf_station_id = Some (fu_station_id up), pf_added_at = added,
                      pf_updated_at = updated, pf_deleted_at = None, pf_sync_revision = n\<rparr>
           in case map_of (pd_favourites db1) key of
                None \<Rightarrow>
                  if pd_accounts db1 u = None then (db1, Err PdDatabase)
                  else (db1\<lparr>pd_favourites := amap_insert key row (pd_favourites db1)\<rparr>, Ok ())
              | Some old \<Rightarrow>
                  if pf_updated_at old < updated
                  then (db1\<lparr>pd_favourites := amap_insert key row (pd_favourites db1)\<rparr>, Ok ())
                  else (db1, Ok ()))
      | _ \<Rightarrow> (db, Err PdDatabase))"

definition apply_favourite_delete :: "pg_env \<Rightarrow> user_id \<Rightarrow> record_delete \<Rightarrow> statement" where
  "apply_favourite_delete env u dl db =
     (case (pg_timestamptz env (rd_updated_at dl), nextval db) of
        (Some t, Some (n, db1)) \<Rightarrow>
          (let key = (u, rd_record_id dl)
           in case map_of (pd_favourites db1) key of
                None \<Rightarrow>
                  if pd_accounts db1 u = None then (db1, Err PdDatabase)
                  else (db1\<lparr>pd_favourites := amap_insert key
                         \<lparr>pf_station_id = None, pf_added_at = t, pf_updated_at = t,
                          pf_deleted_at = Some t, pf_sync_revision = n\<rparr> (pd_favourites db1)\<rparr>, Ok ())
              | Some old \<Rightarrow>
                  if pf_updated_at old < t \<and> pf_deleted_at old = None
                  then (db1\<lparr>pd_favourites := amap_insert key
                         (old\<lparr>pf_updated_at := t, pf_deleted_at := Some t, pf_sync_revision := n\<rparr>)
                         (pd_favourites db1)\<rparr>, Ok ())
                  else (db1, Ok ()))
      | _ \<Rightarrow> (db, Err PdDatabase))"

text \<open>An optional parameter: absent, or read by the server; \<open>None\<close> when the server refuses it.\<close>

definition bind_optional :: "('a \<Rightarrow> 'b option) \<Rightarrow> 'a option \<Rightarrow> 'b option option" where
  "bind_optional f v = (case v of None \<Rightarrow> Some None | Some x \<Rightarrow> map_option Some (f x))"

text \<open>The table's checks on the session's instants.\<close>

definition history_checks :: "history_row \<Rightarrow> bool" where
  "history_checks row \<longleftrightarrow>
     ph_started_at row \<le> ph_last_played_at row \<and> is_none_or (ph_ended_at row) (\<lambda>t. ph_started_at row \<le> t)"

definition history_row_of :: "pg_env \<Rightarrow> history_upsert \<Rightarrow> revision \<Rightarrow> history_row option" where
  "history_row_of env up n =
     (case (pg_timestamptz env (hu_started_at up), pg_timestamptz env (hu_last_played_at up),
            bind_optional (pg_timestamptz env) (hu_ended_at up), bind_optional (pg_jsonb env) (hu_metadata up),
            pg_timestamptz env (hu_updated_at up)) of
        (Some started, Some played, Some ended, Some metadata, Some updated) \<Rightarrow>
          Some \<lparr>ph_station_id = Some (hu_station_id up), ph_started_at = started, ph_last_played_at = played,
                ph_ended_at = ended, ph_play_duration_ms = hu_play_duration_ms up, ph_metadata = metadata,
                ph_updated_at = updated, ph_deleted_at = None, ph_sync_revision = n\<rparr>
      | _ \<Rightarrow> None)"

definition apply_history_upsert :: "pg_env \<Rightarrow> user_id \<Rightarrow> history_upsert \<Rightarrow> statement" where
  "apply_history_upsert env u up db =
     (case nextval db of
        None \<Rightarrow> (db, Err PdDatabase)
      | Some (n, db1) \<Rightarrow>
     (case history_row_of env up n of
        None \<Rightarrow> (db, Err PdDatabase)
      | Some row \<Rightarrow>
          let key = (u, hu_record_id up)
          in if \<not> history_checks row then (db1, Err PdDatabase)
             else case map_of (pd_history db1) key of
                None \<Rightarrow>
                  if pd_accounts db1 u = None then (db1, Err PdDatabase)
                  else (db1\<lparr>pd_history := amap_insert key row (pd_history db1)\<rparr>, Ok ())
              | Some old \<Rightarrow>
                  if ph_updated_at old < ph_updated_at row
                  then (db1\<lparr>pd_history := amap_insert key row (pd_history db1)\<rparr>, Ok ())
                  else (db1, Ok ())))"

definition apply_history_delete :: "pg_env \<Rightarrow> user_id \<Rightarrow> record_delete \<Rightarrow> statement" where
  "apply_history_delete env u dl db =
     (case (pg_timestamptz env (rd_updated_at dl), nextval db) of
        (Some t, Some (n, db1)) \<Rightarrow>
          (let key = (u, rd_record_id dl)
           in case map_of (pd_history db1) key of
                None \<Rightarrow>
                  if pd_accounts db1 u = None then (db1, Err PdDatabase)
                  else (db1\<lparr>pd_history := amap_insert key
                         \<lparr>ph_station_id = None, ph_started_at = t, ph_last_played_at = t, ph_ended_at = None,
                          ph_play_duration_ms = None, ph_metadata = None, ph_updated_at = t,
                          ph_deleted_at = Some t, ph_sync_revision = n\<rparr> (pd_history db1)\<rparr>, Ok ())
              | Some old \<Rightarrow>
                  if ph_updated_at old < t \<and> ph_deleted_at old = None
                  then (db1\<lparr>pd_history := amap_insert key
                         (old\<lparr>ph_updated_at := t, ph_deleted_at := Some t, ph_sync_revision := n\<rparr>)
                         (pd_history db1)\<rparr>, Ok ())
                  else (db1, Ok ()))
      | _ \<Rightarrow> (db, Err PdDatabase))"

definition enforce_live_limit ::
  "(personal_db \<Rightarrow> nat) \<Rightarrow> nat \<Rightarrow> personal_data_error \<Rightarrow> statement" where
  "enforce_live_limit live max_records exceeded db =
     (db, if max_records < live db then Err exceeded else Ok ())"

text \<open>
  Expiry updates the rows a condition selects, each with a fresh revision, in the order the
  server visits them; the whole statement fails when the sequence does.
\<close>

fun expire_rows ::
  "(((user_id \<times> record_id) \<times> history_row) \<Rightarrow> bool) \<Rightarrow> instant \<Rightarrow> history_row collection \<Rightarrow> revision \<Rightarrow>
     history_row collection \<times> revision \<times> nat" where
  "expire_rows selected now [] n = ([], n, 0)"
| "expire_rows selected now ((key, row) # rows) n =
     (if selected (key, row)
      then let (rows', n', k) = expire_rows selected now rows (Suc n)
           in ((key, row\<lparr>ph_deleted_at := Some now, ph_updated_at := now, ph_sync_revision := Suc n\<rparr>) # rows', n', Suc k)
      else let (rows', n', k) = expire_rows selected now rows n
           in ((key, row) # rows', n', k))"

definition past_retention :: "instant \<Rightarrow> history_row \<Rightarrow> bool" where
  "past_retention now row \<longleftrightarrow> ph_deleted_at row = None \<and> ph_started_at row < now - history_retention"

definition expire_where ::
  "(((user_id \<times> record_id) \<times> history_row) \<Rightarrow> bool) \<Rightarrow> personal_db \<Rightarrow>
     personal_db \<times> (personal_data_error + nat)" where
  "expire_where selected db =
     (let (rows, n, k) = expire_rows selected (pd_now db) (pd_history db) (pd_sequence db)
      in if n \<le> 2 ^ 63 - 1 then (db\<lparr>pd_history := rows, pd_sequence := n\<rparr>, Ok k)
         else (db, Err PdDatabase))"

definition expire_user_history :: "user_id \<Rightarrow> statement" where
  "expire_user_history u db =
     (case expire_where (\<lambda>((owner, _), row). owner = u \<and> past_retention (pd_now db) row) db of
        (db', r) \<Rightarrow> (db', and_then r (\<lambda>_. Ok ())))"

section \<open>Reading rows back\<close>

definition pg_instant :: "pg_env \<Rightarrow> instant \<Rightarrow> personal_data_error + timestamp" where
  "pg_instant env t =
     map_err (\<lambda>_. PdDatabase) (pd_timestamp_parse (pg_rfc3339 env) (pg_to_char env t))"

definition pg_optional_instant :: "pg_env \<Rightarrow> instant option \<Rightarrow> personal_data_error + timestamp option" where
  "pg_optional_instant env v =
     (case v of None \<Rightarrow> Ok None | Some t \<Rightarrow> and_then (pg_instant env t) (\<lambda>x. Ok (Some x)))"

definition favourite_from_row ::
  "pg_env \<Rightarrow> record_id \<times> favourite_row \<Rightarrow> personal_data_error + record_id \<times> favourite_record" where
  "favourite_from_row env = (\<lambda>(rid, row).
     and_then (pg_instant env (pf_added_at row)) (\<lambda>added.
     and_then (pg_instant env (pf_updated_at row)) (\<lambda>updated.
     and_then (pg_optional_instant env (pf_deleted_at row)) (\<lambda>deleted.
     Ok (rid, \<lparr>fr_record_id = rid, fr_station_id = pf_station_id row, fr_added_at = added,
               fr_updated_at = updated, fr_deleted_at = deleted, fr_sync_revision = pf_sync_revision row\<rparr>)))))"

definition history_from_row ::
  "pg_env \<Rightarrow> record_id \<times> history_row \<Rightarrow> personal_data_error + record_id \<times> history_record" where
  "history_from_row env = (\<lambda>(rid, row).
     and_then (pg_instant env (ph_started_at row)) (\<lambda>started.
     and_then (pg_instant env (ph_last_played_at row)) (\<lambda>played.
     and_then (pg_optional_instant env (ph_ended_at row)) (\<lambda>ended.
     and_then (pg_instant env (ph_updated_at row)) (\<lambda>updated.
     and_then (pg_optional_instant env (ph_deleted_at row)) (\<lambda>deleted.
     Ok (rid, \<lparr>hr_record_id = rid, hr_station_id = ph_station_id row, hr_started_at = started,
               hr_last_played_at = played, hr_ended_at = ended, hr_play_duration_ms = ph_play_duration_ms row,
               hr_metadata = ph_metadata row, hr_updated_at = updated, hr_deleted_at = deleted,
               hr_sync_revision = ph_sync_revision row\<rparr>)))))))"

section \<open>The PostgreSQL store\<close>

definition when_do :: "bool \<Rightarrow> statement \<Rightarrow> statement" where
  "when_do b f db = (if b then f db else (db, Ok ()))"

definition sync_statements :: "pg_env \<Rightarrow> user_id \<Rightarrow> sync_request \<Rightarrow> statement" where
  "sync_statements env u rq =
     then_do (for_each (apply_favourite_upsert env u) (cc_upserts (sq_favourites rq)))
    (then_do (for_each (apply_favourite_delete env u) (cc_deletes (sq_favourites rq)))
    (then_do (when_do (cc_upserts (sq_favourites rq) \<noteq> [])
        (enforce_live_limit (\<lambda>db. count_live pf_deleted_at u (pd_favourites db)) MAX_FAVOURITE_RECORDS
          FavouriteLimitExceeded))
    (then_do (for_each (apply_history_upsert env u) (cc_upserts (sq_history rq)))
    (then_do (for_each (apply_history_delete env u) (cc_deletes (sq_history rq)))
    (when_do (cc_upserts (sq_history rq) \<noteq> [])
        (then_do (expire_user_history u)
          (enforce_live_limit (\<lambda>db. count_live ph_deleted_at u (pd_history db)) MAX_HISTORY_RECORDS
            HistoryLimitExceeded)))))))"

text \<open>What the committed transaction answers.\<close>

definition sync_answer ::
  "pg_env \<Rightarrow> user_id \<Rightarrow> sync_request \<Rightarrow> personal_db \<Rightarrow> personal_data_error + sync_outcome" where
  "sync_answer env u rq db =
     and_then (collect_ok (favourite_from_row env) (owned_rows u (pd_favourites db))) (\<lambda>favourites.
     and_then (collect_ok (history_from_row env) (owned_rows u (pd_history db))) (\<lambda>history.
     let (fav_delta, fav_cursor) = delta_and_echo favourites (sq_since_revision rq)
           (set (favourite_record_ids rq)) fr_sync_revision;
         (hist_delta, hist_cursor) = delta_and_echo history (sq_since_revision rq)
           (set (history_record_ids rq)) hr_sync_revision
     in Ok \<lparr>so_server_revision = max fav_cursor hist_cursor, so_favourites = fav_delta,
            so_history = hist_delta\<rparr>))"

definition pg_synchronize ::
  "pg_env \<Rightarrow> instant \<Rightarrow> user_id \<Rightarrow> sync_request \<Rightarrow> personal_db \<Rightarrow>
     personal_db \<times> (personal_data_error + sync_outcome)" where
  "pg_synchronize env now u rq db =
     (case sync_request_validate (pg_json_size env) rq now of
        Inl e \<Rightarrow> (db, Err e)
      | Inr _ \<Rightarrow>
          if \<not> pd_available db then (db, Err PdDatabase)
          else case sync_statements env u rq db of
              (db', Inl e) \<Rightarrow> (db\<lparr>pd_sequence := pd_sequence db'\<rparr>, Err e)
            | (db', Inr _) \<Rightarrow> (db', sync_answer env u rq db'))"

definition expired_tombstone :: "instant \<Rightarrow> instant option \<Rightarrow> bool" where
  "expired_tombstone now deleted = is_some_and deleted (\<lambda>t. t < now - tombstone_retention)"

definition prune_tombstones :: "instant \<Rightarrow> ('r \<Rightarrow> instant option) \<Rightarrow> 'r collection \<Rightarrow> 'r collection" where
  "prune_tombstones now deleted t = filter (\<lambda>(_, row). \<not> expired_tombstone now (deleted row)) t"

definition purged_account :: "personal_db \<Rightarrow> user_id \<Rightarrow> bool" where
  "purged_account db u =
     is_some_and (pd_accounts db u) (\<lambda>a. acc_deleted a \<and>
       is_some_and (acc_deleted_at a) (\<lambda>t. t < pd_now db - days DELETED_ACCOUNT_PURGE_DAYS))"

definition purge_deleted_account_rows :: "personal_db \<Rightarrow> 'r collection \<Rightarrow> 'r collection" where
  "purge_deleted_account_rows db t = filter (\<lambda>((u, _), _). \<not> purged_account db u) t"

definition pg_sweep_retention ::
  "personal_db \<Rightarrow> personal_db \<times> (personal_data_error + retention_sweep)" where
  "pg_sweep_retention db =
     (if \<not> pd_available db then (db, Err PdDatabase)
      else case expire_where (\<lambda>(_, row). past_retention (pd_now db) row) db of
          (db1, Inl e) \<Rightarrow> (db1, Err e)
        | (db1, Inr expired) \<Rightarrow>
            let favs1 = prune_tombstones (pd_now db) pf_deleted_at (pd_favourites db1);
                hist1 = prune_tombstones (pd_now db) ph_deleted_at (pd_history db1);
                favs2 = purge_deleted_account_rows db favs1;
                hist2 = purge_deleted_account_rows db hist1
            in (db1\<lparr>pd_favourites := favs2, pd_history := hist2\<rparr>,
                Ok \<lparr>sw_history_expired = expired,
                    sw_tombstones_removed = (length (pd_favourites db1) - length favs1) +
                      (length (pd_history db1) - length hist1),
                    sw_deleted_account_rows_removed = (length favs1 - length favs2) +
                      (length hist1 - length hist2)\<rparr>))"

end
