(* ===== verification/Personal_Sync.thy ===== *)
theory Personal_Sync
  imports Personal_Store "HOL-Library.Multiset"
begin

text \<open>
  What personal-data synchronisation guarantees: last-writer-wins merging of the two stores
  against one abstract cell, convergence of a client's replica through revision deltas, the
  collection limits, and what a deletion with an unreadable instant does to an account.
\<close>

section \<open>Tables\<close>

abbreviation sorted_table :: "(('a::linorder) \<times> 'r) list \<Rightarrow> bool" where
  "sorted_table t \<equiv> sorted_wrt (<) (map fst t)"

lemma sorted_table_distinct: "sorted_table t \<Longrightarrow> distinct (map fst t)"
  by (simp add: strict_sorted_iff)

lemma sorted_table_filter: "sorted_table t \<Longrightarrow> sorted_table (filter p t)"
  by (induction t) auto

lemma map_of_filter_sorted:
  "sorted_table t \<Longrightarrow> map_of (filter p t) k = opt_filter (\<lambda>row. p (k, row)) (map_of t k)"
proof (induction t)
  case (Cons x t)
  obtain a b where x: "x = (a, b)" by (cases x)
  have "map_of t k = None" if "k = a"
    using Cons.prems that by (force simp: x map_of_eq_None_iff)
  with Cons show ?case by (auto simp: x)
qed simp

lemma map_of_owned_rows:
  "sorted_table t \<Longrightarrow> map_of (owned_rows u t) rid = map_of t (u, rid)"
proof (induction t)
  case (Cons x t)
  then show ?case by (cases x) (auto simp: owned_rows_def)
qed (simp add: owned_rows_def)

lemma owned_rows_distinct: "sorted_table t \<Longrightarrow> distinct (map fst (owned_rows u t))"
proof (induction t)
  case (Cons x t)
  obtain v r row where x: "x = ((v, r), row)" by (metis prod.exhaust)
  have "r \<notin> fst ` set (owned_rows v t)"
  proof
    assume "r \<in> fst ` set (owned_rows v t)"
    then obtain row' where "((v, r), row') \<in> set t" by (auto simp: owned_rows_def)
    with Cons.prems show False by (force simp: x)
  qed
  with Cons show ?case by (auto simp: x owned_rows_def)
qed (simp add: owned_rows_def)

lemma owned_rows_mem:
  assumes "sorted_table t"
  shows "(rid, row) \<in> set (owned_rows u t) \<longleftrightarrow> map_of t (u, rid) = Some row"
  using map_of_eq_Some_iff [OF owned_rows_distinct [OF assms], of u rid row] map_of_owned_rows [OF assms]
  by simp

lemma count_live_simps [simp]:
  "count_live deleted u [] = 0"
  "count_live deleted u ((k, row) # t) =
     (if fst k = u \<and> deleted row = None then Suc (count_live deleted u t) else count_live deleted u t)"
  by (simp_all add: count_live_def split: prod.split)

lemma count_live_insert_dead:
  "deleted row \<noteq> None \<Longrightarrow> count_live deleted u (amap_insert k row t) \<le> count_live deleted u t"
  by (induction t rule: amap_insert.induct) auto

lemma count_live_insert_other:
  "fst k \<noteq> u \<Longrightarrow> count_live deleted u (amap_insert k row t) = count_live deleted u t"
  by (induction t rule: amap_insert.induct) auto

lemma count_live_filter: "count_live deleted u (filter p t) \<le> count_live deleted u t"
proof (induction t)
  case (Cons x t)
  then show ?case by (cases x) simp
qed simp

section \<open>The abstract cell\<close>

text \<open>
  One record as every device sees it: its value, or nothing when it is deleted, with the instant
  of the change that put it there. A change wins over strictly older ones; a deletion of a deleted
  record does nothing.
\<close>

datatype ('k, 'v) change = Put 'k 'v instant | Del 'k instant

fun change_key :: "('k, 'v) change \<Rightarrow> 'k" where
  "change_key (Put k _ _) = k"
| "change_key (Del k _) = k"

fun change_cell :: "('k, 'v) change \<Rightarrow> 'v option \<times> instant" where
  "change_cell (Put _ v t) = (Some v, t)"
| "change_cell (Del _ t) = (None, t)"

fun is_del :: "('k, 'v) change \<Rightarrow> bool" where
  "is_del (Del _ _) = True"
| "is_del (Put _ _ _) = False"

definition lww_step ::
  "('k, 'v) change \<Rightarrow> ('v option \<times> instant) option \<Rightarrow> ('v option \<times> instant) option" where
  "lww_step c cell =
     (case cell of
        None \<Rightarrow> Some (change_cell c)
      | Some (v, t) \<Rightarrow>
          if t < snd (change_cell c) \<and> \<not> (is_del c \<and> v = None) then Some (change_cell c) else cell)"

text \<open>The change that wins when every change is looked at: the first one of the largest instant.\<close>

definition newest_step :: "('k, 'v) change \<Rightarrow> ('k, 'v) change option \<Rightarrow> ('k, 'v) change option" where
  "newest_step c best =
     (case best of
        None \<Rightarrow> Some c
      | Some b \<Rightarrow> if snd (change_cell b) < snd (change_cell c) then Some c else Some b)"

definition newest :: "('k, 'v) change list \<Rightarrow> ('k, 'v) change option" where
  "newest cs = fold newest_step cs None"

lemma newest_simps [simp]:
  "newest [] = None"
  "newest (cs @ [c]) = newest_step c (newest cs)"
  by (simp_all add: newest_def)

lemma lww_step_simps [simp]:
  "lww_step c None = Some (change_cell c)"
  "lww_step c (Some (v, t)) =
     (if t < snd (change_cell c) \<and> \<not> (is_del c \<and> v = None) then Some (change_cell c) else Some (v, t))"
  by (simp_all add: lww_step_def)

lemma newest_None: "newest cs = None \<longleftrightarrow> cs = []"
  by (induction cs rule: rev_induct) (auto simp: newest_step_def split: option.split)

lemma newest_mem: "newest cs = Some c \<Longrightarrow> c \<in> set cs"
proof (induction cs arbitrary: c rule: rev_induct)
  case (snoc x xs)
  then show ?case by (auto simp: newest_step_def split: option.splits if_splits)
qed simp

lemma newest_max: "newest cs = Some c \<Longrightarrow> d \<in> set cs \<Longrightarrow> snd (change_cell d) \<le> snd (change_cell c)"
proof (induction cs arbitrary: c rule: rev_induct)
  case (snoc x xs)
  show ?case
  proof (cases "newest xs")
    case None
    with snoc.prems show ?thesis by (auto simp: newest_None newest_step_def)
  next
    case (Some b)
    with snoc.prems have c: "c = (if snd (change_cell b) < snd (change_cell x) then x else b)"
      by (auto simp: newest_step_def)
    from snoc.IH [OF Some] snoc.prems show ?thesis by (fastforce simp: c)
  qed
qed simp

text \<open>With at most one deletion, step by step merging finds the newest change.\<close>

lemma lww_newest:
  "length (filter is_del cs) \<le> 1 \<Longrightarrow> fold lww_step cs None = map_option change_cell (newest cs)"
proof (induction cs rule: rev_induct)
  case (snoc c cs)
  then have IH: "fold lww_step cs None = map_option change_cell (newest cs)" by simp
  have live: "fst (change_cell b) \<noteq> None" if "is_del c" "newest cs = Some b" for b
  proof -
    have "filter is_del cs = []" using snoc.prems that(1) by simp
    with newest_mem [OF that(2)] have "\<not> is_del b" by (auto simp: filter_empty_conv)
    then show ?thesis by (cases b) simp_all
  qed
  show ?case
  proof (cases "newest cs")
    case (Some b)
    with IH live show ?thesis by (cases "change_cell b") (auto simp: newest_step_def)
  qed (use IH in \<open>simp add: newest_step_def\<close>)
qed simp

lemma lww_winner:
  assumes "length (filter is_del cs) \<le> 1" "c \<in> set cs"
    and "\<forall>d \<in> set cs. d \<noteq> c \<longrightarrow> snd (change_cell d) < snd (change_cell c)"
  shows "fold lww_step cs None = Some (change_cell c)"
proof -
  obtain b where b: "newest cs = Some b" using assms(2) newest_None [of cs] by fastforce
  have "b = c" using newest_mem [OF b] newest_max [OF b assms(2)] assms(3) by fastforce
  with lww_newest [OF assms(1)] b show ?thesis by simp
qed

section \<open>The merge contract\<close>

text \<open>
  What a client of a record collection relies on: an operation that succeeds acts on the cell of
  its own record as the abstract step does, and leaves every other cell alone.
\<close>

locale lww_store =
  fixes step :: "'c \<Rightarrow> 's \<Rightarrow> 's option"
    and cell :: "'s \<Rightarrow> 'k \<Rightarrow> ('v option \<times> instant) option"
    and view :: "'c \<Rightarrow> ('k, 'v) change"
  assumes step_cell: "step c s = Some s' \<Longrightarrow>
    cell s' k = (if change_key (view c) = k then lww_step (view c) (cell s k) else cell s k)"
begin

fun run :: "'c list \<Rightarrow> 's \<Rightarrow> 's option" where
  "run [] s = Some s"
| "run (c # cs) s = Option.bind (step c s) (run cs)"

lemma run_cell:
  "run cs s = Some s' \<Longrightarrow>
     cell s' k = fold lww_step (filter (\<lambda>c. change_key c = k) (map view cs)) (cell s k)"
proof (induction cs arbitrary: s)
  case (Cons c cs)
  then obtain s1 where "step c s = Some s1" "run cs s1 = Some s'" by (auto simp: bind_eq_Some_conv)
  with Cons.IH step_cell [of c s s1 k] show ?case by auto
qed simp

end

section \<open>The stores keep the contract\<close>

datatype 'u pushed = PushUpsert 'u | PushDelete record_delete

definition pushed_favourites :: "sync_request \<Rightarrow> favourite_upsert pushed list" where
  "pushed_favourites rq =
     map PushUpsert (cc_upserts (sq_favourites rq)) @ map PushDelete (cc_deletes (sq_favourites rq))"

type_synonym favourite_value = "string option \<times> instant"
type_synonym history_value =
  "string option \<times> instant \<times> instant \<times> instant option \<times> nat option \<times> json option"

definition mem_fav_cell ::
  "user_id \<Rightarrow> favourite_record collection \<times> revision \<Rightarrow> record_id \<Rightarrow>
     (favourite_value option \<times> instant) option" where
  "mem_fav_cell u s rid =
     map_option (\<lambda>row. (if fr_deleted_at row = None then Some (fr_station_id row, ts_instant (fr_added_at row))
                        else None, ts_instant (fr_updated_at row))) (map_of (fst s) (u, rid))"

fun mem_fav_step ::
  "user_id \<Rightarrow> favourite_upsert pushed \<Rightarrow> favourite_record collection \<times> revision \<Rightarrow>
     (favourite_record collection \<times> revision) option" where
  "mem_fav_step u (PushUpsert up) s = Some (merge_favourite u up s)"
| "mem_fav_step u (PushDelete dl) s = Some (tombstone_favourite u dl s)"

fun mem_fav_view :: "favourite_upsert pushed \<Rightarrow> (record_id, favourite_value) change" where
  "mem_fav_view (PushUpsert up) =
     Put (fu_record_id up) (Some (fu_station_id up), ts_instant (fu_added_at up)) (ts_instant (fu_updated_at up))"
| "mem_fav_view (PushDelete dl) = Del (rd_record_id dl) (ts_instant (rd_updated_at dl))"

lemma mem_fav_law:
  "mem_fav_step u c s = Some s' \<Longrightarrow>
     mem_fav_cell u s' k =
       (if change_key (mem_fav_view c) = k then lww_step (mem_fav_view c) (mem_fav_cell u s k) else mem_fav_cell u s k)"
proof (cases c)
  case (PushUpsert up)
  obtain t n where s: "s = (t, n)" by (cases s)
  assume "mem_fav_step u c s = Some s'"
  with PushUpsert show ?thesis
    by (cases "map_of t (u, fu_record_id up)"; cases "k = fu_record_id up")
      (auto simp: s mem_fav_cell_def merge_favourite_def strictly_newer_def Let_def
          simp del: map_option_eq_Some split: if_splits)
next
  case (PushDelete dl)
  obtain t n where s: "s = (t, n)" by (cases s)
  assume "mem_fav_step u c s = Some s'"
  with PushDelete show ?thesis
    by (cases "map_of t (u, rd_record_id dl)"; cases "k = rd_record_id dl")
      (auto simp: s mem_fav_cell_def tombstone_favourite_def strictly_newer_def Let_def
          simp del: map_option_eq_Some split: if_splits)
qed

interpretation memf: lww_store "mem_fav_step u" "mem_fav_cell u" mem_fav_view for u
  by unfold_locales (rule mem_fav_law)

definition mem_hist_cell ::
  "user_id \<Rightarrow> history_record collection \<times> revision \<Rightarrow> record_id \<Rightarrow> (history_value option \<times> instant) option" where
  "mem_hist_cell u s rid =
     map_option (\<lambda>row. (if hr_deleted_at row = None
         then Some (hr_station_id row, ts_instant (hr_started_at row), ts_instant (hr_last_played_at row),
                    map_option ts_instant (hr_ended_at row), hr_play_duration_ms row, hr_metadata row)
         else None, ts_instant (hr_updated_at row))) (map_of (fst s) (u, rid))"

fun mem_hist_step ::
  "user_id \<Rightarrow> history_upsert pushed \<Rightarrow> history_record collection \<times> revision \<Rightarrow>
     (history_record collection \<times> revision) option" where
  "mem_hist_step u (PushUpsert up) s = Some (merge_history u up s)"
| "mem_hist_step u (PushDelete dl) s = Some (tombstone_history u dl s)"

fun mem_hist_view :: "history_upsert pushed \<Rightarrow> (record_id, history_value) change" where
  "mem_hist_view (PushUpsert up) =
     Put (hu_record_id up)
       (Some (hu_station_id up), ts_instant (hu_started_at up), ts_instant (hu_last_played_at up),
        map_option ts_instant (hu_ended_at up), hu_play_duration_ms up, hu_metadata up)
       (ts_instant (hu_updated_at up))"
| "mem_hist_view (PushDelete dl) = Del (rd_record_id dl) (ts_instant (rd_updated_at dl))"

lemma mem_hist_law:
  "mem_hist_step u c s = Some s' \<Longrightarrow>
     mem_hist_cell u s' k =
       (if change_key (mem_hist_view c) = k then lww_step (mem_hist_view c) (mem_hist_cell u s k)
        else mem_hist_cell u s k)"
proof (cases c)
  case (PushUpsert up)
  obtain t n where s: "s = (t, n)" by (cases s)
  assume "mem_hist_step u c s = Some s'"
  with PushUpsert show ?thesis
    by (cases "map_of t (u, hu_record_id up)"; cases "k = hu_record_id up")
      (auto simp: s mem_hist_cell_def merge_history_def strictly_newer_def Let_def
          simp del: map_option_eq_Some split: if_splits)
next
  case (PushDelete dl)
  obtain t n where s: "s = (t, n)" by (cases s)
  assume "mem_hist_step u c s = Some s'"
  with PushDelete show ?thesis
    by (cases "map_of t (u, rd_record_id dl)"; cases "k = rd_record_id dl")
      (auto simp: s mem_hist_cell_def tombstone_history_def strictly_newer_def Let_def
          simp del: map_option_eq_Some split: if_splits)
qed

interpretation memh: lww_store "mem_hist_step u" "mem_hist_cell u" mem_hist_view for u
  by unfold_locales (rule mem_hist_law)

text \<open>The PostgreSQL statements. A statement that fails ends the run.\<close>

definition committed_step :: "personal_db \<times> (personal_data_error + unit) \<Rightarrow> personal_db option" where
  "committed_step r = (case snd r of Inl _ \<Rightarrow> None | Inr _ \<Rightarrow> Some (fst r))"

lemma committed_step_Some: "committed_step r = Some db' \<longleftrightarrow> r = (db', Ok ())"
  by (cases r) (auto simp: committed_step_def split: sum.split)

definition pg_fav_cell ::
  "user_id \<Rightarrow> personal_db \<Rightarrow> record_id \<Rightarrow> (favourite_value option \<times> instant) option" where
  "pg_fav_cell u db rid =
     map_option (\<lambda>row. (if pf_deleted_at row = None then Some (pf_station_id row, pf_added_at row) else None,
                        pf_updated_at row)) (map_of (pd_favourites db) (u, rid))"

fun pg_fav_statement :: "pg_env \<Rightarrow> user_id \<Rightarrow> favourite_upsert pushed \<Rightarrow> statement" where
  "pg_fav_statement env u (PushUpsert up) = apply_favourite_upsert env u up"
| "pg_fav_statement env u (PushDelete dl) = apply_favourite_delete env u dl"

definition pg_fav_step :: "pg_env \<Rightarrow> user_id \<Rightarrow> favourite_upsert pushed \<Rightarrow> personal_db \<Rightarrow> personal_db option" where
  "pg_fav_step env u c db = committed_step (pg_fav_statement env u c db)"

definition pg_time :: "pg_env \<Rightarrow> timestamp \<Rightarrow> instant" where
  "pg_time env t = (case pg_timestamptz env t of None \<Rightarrow> 0 | Some i \<Rightarrow> i)"

fun pg_fav_view :: "pg_env \<Rightarrow> favourite_upsert pushed \<Rightarrow> (record_id, favourite_value) change" where
  "pg_fav_view env (PushUpsert up) =
     Put (fu_record_id up) (Some (fu_station_id up), pg_time env (fu_added_at up)) (pg_time env (fu_updated_at up))"
| "pg_fav_view env (PushDelete dl) = Del (rd_record_id dl) (pg_time env (rd_updated_at dl))"

lemma nextval_Some: "nextval db = Some (n, db1) \<longleftrightarrow>
    pd_sequence db < 2 ^ 63 - 1 \<and> n = Suc (pd_sequence db) \<and> db1 = db\<lparr>pd_sequence := n\<rparr>"
  by (auto simp: nextval_def)

lemma pg_fav_law:
  assumes "pg_fav_step env u c db = Some db'"
  shows "pg_fav_cell u db' k =
       (if change_key (pg_fav_view env c) = k then lww_step (pg_fav_view env c) (pg_fav_cell u db k)
        else pg_fav_cell u db k)"
proof (cases c)
  case (PushUpsert up)
  with assms show ?thesis
    by (auto simp: pg_fav_step_def committed_step_def pg_fav_cell_def apply_favourite_upsert_def pg_time_def
        nextval_def Let_def split: option.splits if_splits prod.splits)
next
  case (PushDelete dl)
  with assms show ?thesis
    by (auto simp: pg_fav_step_def committed_step_def pg_fav_cell_def apply_favourite_delete_def pg_time_def
        nextval_def Let_def split: option.splits if_splits prod.splits)
qed

interpretation pgf: lww_store "pg_fav_step env u" "pg_fav_cell u" "pg_fav_view env" for env u
  by unfold_locales (rule pg_fav_law)

definition history_value_of :: "history_row \<Rightarrow> history_value" where
  "history_value_of row =
     (ph_station_id row, ph_started_at row, ph_last_played_at row, ph_ended_at row, ph_play_duration_ms row,
      ph_metadata row)"

definition pg_hist_cell ::
  "user_id \<Rightarrow> personal_db \<Rightarrow> record_id \<Rightarrow> (history_value option \<times> instant) option" where
  "pg_hist_cell u db rid =
     map_option (\<lambda>row. (if ph_deleted_at row = None then Some (history_value_of row) else None,
                        ph_updated_at row)) (map_of (pd_history db) (u, rid))"

fun pg_hist_statement :: "pg_env \<Rightarrow> user_id \<Rightarrow> history_upsert pushed \<Rightarrow> statement" where
  "pg_hist_statement env u (PushUpsert up) = apply_history_upsert env u up"
| "pg_hist_statement env u (PushDelete dl) = apply_history_delete env u dl"

definition pg_hist_step :: "pg_env \<Rightarrow> user_id \<Rightarrow> history_upsert pushed \<Rightarrow> personal_db \<Rightarrow> personal_db option" where
  "pg_hist_step env u c db = committed_step (pg_hist_statement env u c db)"

text \<open>A row the server refuses gives no change: the statement fails before it matters.\<close>

fun pg_hist_view :: "pg_env \<Rightarrow> history_upsert pushed \<Rightarrow> (record_id, history_value) change" where
  "pg_hist_view env (PushUpsert up) =
     (case history_row_of env up 0 of
        None \<Rightarrow> Del (hu_record_id up) 0
      | Some row \<Rightarrow> Put (hu_record_id up) (history_value_of row) (ph_updated_at row))"
| "pg_hist_view env (PushDelete dl) = Del (rd_record_id dl) (pg_time env (rd_updated_at dl))"

lemma history_row_of_Some:
  assumes "history_row_of env up n = Some row"
  obtains row0 where "history_row_of env up 0 = Some row0" "row = row0\<lparr>ph_sync_revision := n\<rparr>"
    "ph_deleted_at row = None" "history_value_of row0 = history_value_of row" "ph_updated_at row0 = ph_updated_at row"
    "ph_sync_revision row = n"
  using assms by (auto simp: history_row_of_def history_value_of_def split: option.splits)

lemma apply_history_upsert_Ok:
  assumes "apply_history_upsert env u up db = (db', Ok r)"
  obtains n row where "nextval db = Some (n, db\<lparr>pd_sequence := n\<rparr>)" "history_row_of env up n = Some row"
    "n = Suc (pd_sequence db)"
    "db' = (if is_none_or (map_of (pd_history db) (u, hu_record_id up)) (\<lambda>old. ph_updated_at old < ph_updated_at row)
            then db\<lparr>pd_sequence := n, pd_history := amap_insert (u, hu_record_id up) row (pd_history db)\<rparr>
            else db\<lparr>pd_sequence := n\<rparr>)"
  using assms
  by (auto simp: apply_history_upsert_def nextval_def Let_def split: option.splits if_splits)

lemma pg_hist_law:
  assumes "pg_hist_step env u c db = Some db'"
  shows "pg_hist_cell u db' k =
       (if change_key (pg_hist_view env c) = k then lww_step (pg_hist_view env c) (pg_hist_cell u db k)
        else pg_hist_cell u db k)"
proof (cases c)
  case (PushUpsert up)
  have "apply_history_upsert env u up db = (db', Ok ())"
    using assms PushUpsert by (simp add: pg_hist_step_def committed_step_Some)
  then obtain n row where a: "history_row_of env up n = Some row"
    "db' = (if is_none_or (map_of (pd_history db) (u, hu_record_id up)) (\<lambda>old. ph_updated_at old < ph_updated_at row)
            then db\<lparr>pd_sequence := n, pd_history := amap_insert (u, hu_record_id up) row (pd_history db)\<rparr>
            else db\<lparr>pd_sequence := n\<rparr>)"
    by (rule apply_history_upsert_Ok)
  obtain row0 where "history_row_of env up 0 = Some row0" "ph_deleted_at row = None"
    "history_value_of row0 = history_value_of row" "ph_updated_at row0 = ph_updated_at row"
    using a(1) by (rule history_row_of_Some)
  with a PushUpsert show ?thesis
    by (cases "map_of (pd_history db) (u, hu_record_id up)"; cases "k = hu_record_id up")
      (auto simp: pg_hist_cell_def simp del: map_option_eq_Some)
next
  case (PushDelete dl)
  with assms show ?thesis
    by (auto simp: pg_hist_step_def committed_step_def pg_hist_cell_def apply_history_delete_def pg_time_def
        nextval_def Let_def split: option.splits if_splits prod.splits)
qed

interpretation pgh: lww_store "pg_hist_step env u" "pg_hist_cell u" "pg_hist_view env" for env u
  by unfold_locales (rule pg_hist_law)

section \<open>Statements\<close>

lemma then_do_Ok:
  "then_do f g db = (db', Ok ()) \<longleftrightarrow> (\<exists>db1. f db = (db1, Ok ()) \<and> g db1 = (db', Ok ()))"
  by (auto simp: then_do_def split: prod.split sum.split)

lemma when_do_simps [simp]: "when_do True f = f" "when_do False f db = (db, Ok ())"
  by (auto simp: when_do_def fun_eq_iff)

lemma enforce_live_limit_simps [simp]:
  "enforce_live_limit live n e db = (db', Ok ()) \<longleftrightarrow> db' = db \<and> live db \<le> n"
  "fst (enforce_live_limit live n e db) = db"
  by (auto simp: enforce_live_limit_def)

text \<open>A transitive relation that every statement keeps is kept by their sequence.\<close>

definition keeps :: "('s \<Rightarrow> 's \<Rightarrow> bool) \<Rightarrow> ('s \<Rightarrow> 's \<times> 'r) \<Rightarrow> bool" where
  "keeps R f \<longleftrightarrow> (\<forall>db. R db (fst (f db)))"

lemma keeps_then_do: "keeps R f \<Longrightarrow> keeps R g \<Longrightarrow> transp R \<Longrightarrow> keeps R (then_do f g)"
  by (auto simp: keeps_def then_do_def transp_def split: prod.split sum.split)
    (metis fst_conv)+

lemma keeps_for_each:
  assumes "\<And>x. x \<in> set xs \<Longrightarrow> keeps R (f x)" "transp R" "reflp R"
  shows "keeps R (for_each f xs)"
  using assms(1)
proof (induction xs)
  case Nil
  then show ?case using assms(3) by (simp add: keeps_def reflp_def)
next
  case (Cons x xs)
  then have "keeps R (then_do (f x) (for_each f xs))"
    using assms(2) by (intro keeps_then_do) simp_all
  then show ?case by (simp add: keeps_def)
qed

lemma keeps_when_do: "keeps R f \<Longrightarrow> reflp R \<Longrightarrow> keeps R (when_do b f)"
  by (simp add: keeps_def when_do_def reflp_def)

lemma keeps_enforce: "reflp R \<Longrightarrow> keeps R (enforce_live_limit live n e)"
  by (simp add: keeps_def reflp_def)

section \<open>Revisions move forward\<close>

definition wf_personal :: "personal_db \<Rightarrow> bool" where
  "wf_personal db \<longleftrightarrow>
     sorted_table (pd_favourites db) \<and> sorted_table (pd_history db) \<and>
     (\<forall>k row. map_of (pd_favourites db) k = Some row \<longrightarrow> pf_sync_revision row \<le> pd_sequence db) \<and>
     (\<forall>k row. map_of (pd_history db) k = Some row \<longrightarrow> ph_sync_revision row \<le> pd_sequence db)"

text \<open>Every row of the later state is a row of the earlier one, or carries a later revision.\<close>

definition advances :: "personal_db \<Rightarrow> personal_db \<Rightarrow> bool" where
  "advances db db' \<longleftrightarrow> (wf_personal db \<longrightarrow>
     wf_personal db' \<and> pd_sequence db \<le> pd_sequence db' \<and>
     (\<forall>k row. map_of (pd_favourites db') k = Some row \<longrightarrow>
        map_of (pd_favourites db) k = Some row \<or> pd_sequence db < pf_sync_revision row) \<and>
     (\<forall>k row. map_of (pd_history db') k = Some row \<longrightarrow>
        map_of (pd_history db) k = Some row \<or> pd_sequence db < ph_sync_revision row))"

lemma advances_refl: "reflp advances"
  by (simp add: reflp_def advances_def)

lemma advances_trans: "transp advances"
  by (rule transpI) (fastforce simp: advances_def)

definition retains :: "personal_db \<Rightarrow> personal_db \<Rightarrow> bool" where
  "retains db db' \<longleftrightarrow>
     dom (map_of (pd_favourites db)) \<subseteq> dom (map_of (pd_favourites db')) \<and>
     dom (map_of (pd_history db)) \<subseteq> dom (map_of (pd_history db'))"

lemma retains_refl: "reflp retains"
  by (simp add: reflp_def retains_def)

lemma retains_trans: "transp retains"
  by (rule transpI) (unfold retains_def, blast)

lemma advances_favourite:
  "n = Suc (pd_sequence db) \<Longrightarrow> pf_sync_revision row = n \<Longrightarrow>
     advances db (db\<lparr>pd_sequence := n, pd_favourites := amap_insert k row (pd_favourites db)\<rparr>)"
  by (auto simp: advances_def wf_personal_def le_SucI sorted_amap_insert)

lemma advances_history:
  "n = Suc (pd_sequence db) \<Longrightarrow> ph_sync_revision row = n \<Longrightarrow>
     advances db (db\<lparr>pd_sequence := n, pd_history := amap_insert k row (pd_history db)\<rparr>)"
  by (auto simp: advances_def wf_personal_def le_SucI sorted_amap_insert)

lemma advances_sequence: "pd_sequence db \<le> n \<Longrightarrow> advances db (db\<lparr>pd_sequence := n\<rparr>)"
  by (fastforce simp: advances_def wf_personal_def)

lemma advances_same: "advances db db"
  using advances_refl by (simp add: reflp_def)

lemmas advances_intros = advances_same advances_sequence advances_favourite advances_history

lemma fav_upsert_advances: "keeps advances (apply_favourite_upsert env u up)"
  unfolding keeps_def apply_favourite_upsert_def nextval_def Let_def
  by (auto intro!: advances_intros split: option.split)

lemma fav_delete_advances: "keeps advances (apply_favourite_delete env u dl)"
  unfolding keeps_def apply_favourite_delete_def nextval_def Let_def
  by (auto intro!: advances_intros split: option.split)

lemma hist_upsert_advances: "keeps advances (apply_history_upsert env u up)"
  unfolding keeps_def apply_history_upsert_def nextval_def Let_def
  by (auto intro!: advances_intros elim: history_row_of_Some split: option.split)

lemma hist_delete_advances: "keeps advances (apply_history_delete env u dl)"
  unfolding keeps_def apply_history_delete_def nextval_def Let_def
  by (auto intro!: advances_intros split: option.split)

lemma expire_rows_effect:
  "expire_rows sel now t n = (t', n', k) \<Longrightarrow>
     map fst t' = map fst t \<and> n \<le> n' \<and>
     (\<forall>x \<in> set t'. x \<in> set t \<or> (n < ph_sync_revision (snd x) \<and> ph_sync_revision (snd x) \<le> n')) \<and>
     count_live ph_deleted_at u t' \<le> count_live ph_deleted_at u t"
proof (induction t arbitrary: t' n n' k)
  case (Cons x t)
  obtain key row where x: "x = (key, row)" by (cases x)
  show ?case
  proof (cases "sel (key, row)")
    case True
    obtain rows' m j where r: "expire_rows sel now t (Suc n) = (rows', m, j)" by (metis prod_cases3)
    with Cons.prems True have "t' = (key, row\<lparr>ph_deleted_at := Some now, ph_updated_at := now,
        ph_sync_revision := Suc n\<rparr>) # rows'" "n' = m" by (simp_all add: x)
    with Cons.IH [OF r] show ?thesis by (fastforce simp: x)
  next
    case False
    obtain rows' m j where r: "expire_rows sel now t n = (rows', m, j)" by (metis prod_cases3)
    with Cons.prems False have "t' = (key, row) # rows'" "n' = m" by (simp_all add: x)
    with Cons.IH [OF r] show ?thesis by (auto simp: x)
  qed
qed simp

lemma expire_where_advances: "keeps advances (expire_where sel)"
  unfolding keeps_def
proof
  fix db :: personal_db
  obtain rows n k where r: "expire_rows sel (pd_now db) (pd_history db) (pd_sequence db) = (rows, n, k)"
    by (metis prod_cases3)
  note e = expire_rows_effect [OF r]
  have "advances db (db\<lparr>pd_history := rows, pd_sequence := n\<rparr>)"
    unfolding advances_def
  proof
    assume wf: "wf_personal db"
    have d: "distinct (map fst rows)" "distinct (map fst (pd_history db))"
      using wf e sorted_table_distinct by (auto simp: wf_personal_def)
    have "map_of (pd_history db) key = Some row \<or>
        (pd_sequence db < ph_sync_revision row \<and> ph_sync_revision row \<le> n)" if "map_of rows key = Some row" for key row
      using e that map_of_eq_Some_iff [OF d(1), of key row] map_of_eq_Some_iff [OF d(2), of key row] by fastforce
    with wf e show "wf_personal (db\<lparr>pd_history := rows, pd_sequence := n\<rparr>) \<and>
      pd_sequence db \<le> pd_sequence (db\<lparr>pd_history := rows, pd_sequence := n\<rparr>) \<and>
      (\<forall>k row. map_of (pd_favourites (db\<lparr>pd_history := rows, pd_sequence := n\<rparr>)) k = Some row \<longrightarrow>
        map_of (pd_favourites db) k = Some row \<or> pd_sequence db < pf_sync_revision row) \<and>
      (\<forall>k row. map_of (pd_history (db\<lparr>pd_history := rows, pd_sequence := n\<rparr>)) k = Some row \<longrightarrow>
        map_of (pd_history db) k = Some row \<or> pd_sequence db < ph_sync_revision row)"
      unfolding wf_personal_def by (auto; fastforce)
  qed
  then show "advances db (fst (expire_where sel db))"
    by (simp add: expire_where_def r advances_same)
qed

lemma expire_where_retains: "keeps retains (expire_where sel)"
  unfolding keeps_def
proof
  fix db :: personal_db
  obtain rows n k where r: "expire_rows sel (pd_now db) (pd_history db) (pd_sequence db) = (rows, n, k)"
    by (metis prod_cases3)
  then have "map fst rows = map fst (pd_history db)" using expire_rows_effect [OF r] by blast
  then have "dom (map_of rows) = dom (map_of (pd_history db))"
    by (metis dom_map_of_conv_image_fst set_map)
  then show "retains db (fst (expire_where sel db))"
    by (simp add: expire_where_def r retains_def)
qed

lemma statements_retain:
  "keeps retains (apply_favourite_upsert env u up)"
  "keeps retains (apply_favourite_delete env u dl)"
  "keeps retains (apply_history_upsert env u hp)"
  "keeps retains (apply_history_delete env u dl)"
  unfolding keeps_def apply_favourite_upsert_def apply_favourite_delete_def apply_history_upsert_def
    apply_history_delete_def nextval_def Let_def
  by (auto simp: retains_def split: option.split)

lemma expire_user_history_fst: "\<exists>sel. fst (expire_user_history u db) = fst (expire_where sel db)"
  by (auto simp: expire_user_history_def split: prod.split) (metis fst_conv)

lemma keeps_expire_user: "(\<And>sel. keeps R (expire_where sel)) \<Longrightarrow> keeps R (expire_user_history u)"
  unfolding keeps_def by (metis expire_user_history_fst)

lemmas keeps_rules = keeps_then_do keeps_for_each keeps_when_do keeps_enforce keeps_expire_user

lemma sync_statements_advance: "keeps advances (sync_statements env u rq)"
  unfolding sync_statements_def
  by (intro keeps_rules fav_upsert_advances fav_delete_advances hist_upsert_advances hist_delete_advances
      expire_where_advances advances_refl advances_trans)

lemma sync_statements_retain: "keeps retains (sync_statements env u rq)"
  unfolding sync_statements_def
  by (intro keeps_rules statements_retain expire_where_retains retains_refl retains_trans)

lemma advances_rollback: "advances db db' \<Longrightarrow> advances db (db\<lparr>pd_sequence := pd_sequence db'\<rparr>)"
  unfolding advances_def
proof
  assume a: "wf_personal db \<longrightarrow> wf_personal db' \<and> pd_sequence db \<le> pd_sequence db' \<and>
     (\<forall>k row. map_of (pd_favourites db') k = Some row \<longrightarrow>
        map_of (pd_favourites db) k = Some row \<or> pd_sequence db < pf_sync_revision row) \<and>
     (\<forall>k row. map_of (pd_history db') k = Some row \<longrightarrow>
        map_of (pd_history db) k = Some row \<or> pd_sequence db < ph_sync_revision row)"
    and wf: "wf_personal db"
  then have "advances db (db\<lparr>pd_sequence := pd_sequence db'\<rparr>)" by (intro advances_sequence) simp
  with wf show "wf_personal (db\<lparr>pd_sequence := pd_sequence db'\<rparr>) \<and>
     pd_sequence db \<le> pd_sequence (db\<lparr>pd_sequence := pd_sequence db'\<rparr>) \<and>
     (\<forall>k row. map_of (pd_favourites (db\<lparr>pd_sequence := pd_sequence db'\<rparr>)) k = Some row \<longrightarrow>
        map_of (pd_favourites db) k = Some row \<or> pd_sequence db < pf_sync_revision row) \<and>
     (\<forall>k row. map_of (pd_history (db\<lparr>pd_sequence := pd_sequence db'\<rparr>)) k = Some row \<longrightarrow>
        map_of (pd_history db) k = Some row \<or> pd_sequence db < ph_sync_revision row)"
    by (simp add: advances_def)
qed

text \<open>A call leaves the tables alone, rolls them back, or commits its statements.\<close>

lemma pg_synchronize_cases:
  obtains (unchanged) e where "pg_synchronize env now u rq db = (db, Err e)"
  | (rolled_back) e where "pg_synchronize env now u rq db =
      (db\<lparr>pd_sequence := pd_sequence (fst (sync_statements env u rq db))\<rparr>, Err e)"
  | (committed) db' where "sync_statements env u rq db = (db', Ok ())"
      "sync_request_validate (pg_json_size env) rq now = Ok ()"
      "pg_synchronize env now u rq db = (db', sync_answer env u rq db')"
  by (cases "sync_request_validate (pg_json_size env) rq now"; cases "pd_available db";
      cases "sync_statements env u rq db"; cases "snd (sync_statements env u rq db)")
    (auto simp: pg_synchronize_def)

lemma pg_synchronize_advances: "keeps advances (pg_synchronize env now u rq)"
  unfolding keeps_def
proof
  fix db
  have "advances db (fst (sync_statements env u rq db))"
    using sync_statements_advance by (simp add: keeps_def)
  then show "advances db (fst (pg_synchronize env now u rq db))"
    by (cases rule: pg_synchronize_cases [of env now u rq db]) (simp_all add: advances_same advances_rollback)
qed

lemma pg_synchronize_retains: "keeps retains (pg_synchronize env now u rq)"
  unfolding keeps_def
proof
  fix db
  have "retains db (fst (sync_statements env u rq db))"
    using sync_statements_retain by (simp add: keeps_def)
  then show "retains db (fst (pg_synchronize env now u rq db))"
    by (cases rule: pg_synchronize_cases [of env now u rq db]) (simp_all add: retains_def)
qed

lemma advances_subtables:
  assumes "wf_personal db \<Longrightarrow> sorted_table favs \<and> sorted_table hist"
    and "wf_personal db \<Longrightarrow> map_of favs \<subseteq>\<^sub>m map_of (pd_favourites db)"
    and "wf_personal db \<Longrightarrow> map_of hist \<subseteq>\<^sub>m map_of (pd_history db)"
  shows "advances db (db\<lparr>pd_favourites := favs, pd_history := hist\<rparr>)"
  using assms by (fastforce simp: advances_def wf_personal_def map_le_def dom_def)

lemma map_le_filter: "sorted_table t \<Longrightarrow> map_of (filter p t) \<subseteq>\<^sub>m map_of t"
  by (auto simp: map_le_def map_of_filter_sorted dom_def opt_filter_Some)

lemma pg_sweep_advances: "keeps advances pg_sweep_retention"
  unfolding keeps_def
proof
  fix db :: personal_db
  let ?sel = "\<lambda>(_ :: user_id \<times> record_id, row). past_retention (pd_now db) row"
  obtain db1 r where e: "expire_where ?sel db = (db1, r)" by (cases "expire_where ?sel db")
  have a: "advances db db1" using expire_where_advances e unfolding keeps_def by (metis fst_conv)
  have "advances db1 (db1\<lparr>pd_favourites := filter p (pd_favourites db1), pd_history := filter q (pd_history db1)\<rparr>)"
    for p q
    by (rule advances_subtables) (auto simp: wf_personal_def sorted_table_filter intro: map_le_filter)
  with a advances_trans have "advances db
      (db1\<lparr>pd_favourites := filter p (pd_favourites db1), pd_history := filter q (pd_history db1)\<rparr>)" for p q
    by (metis transpE)
  then show "advances db (fst (pg_sweep_retention db))"
    by (auto simp: pg_sweep_retention_def e Let_def prune_tombstones_def purge_deleted_account_rows_def
        advances_same a split: sum.split)
qed

section \<open>Runs of the PostgreSQL store\<close>

text \<open>A call by any account at some clock readings (of the server and of the database), or a sweep.\<close>

datatype personal_event =
    PeSync instant instant user_id sync_request
  | PeSweep instant

fun personal_exec :: "pg_env \<Rightarrow> personal_event \<Rightarrow> personal_db \<Rightarrow> personal_db" where
  "personal_exec env (PeSync now db_now u rq) db = fst (pg_synchronize env now u rq (db\<lparr>pd_now := db_now\<rparr>))"
| "personal_exec env (PeSweep db_now) db = fst (pg_sweep_retention (db\<lparr>pd_now := db_now\<rparr>))"

definition personal_run :: "pg_env \<Rightarrow> personal_event list \<Rightarrow> personal_db \<Rightarrow> personal_db" where
  "personal_run env evs db = fold (personal_exec env) evs db"

fun is_sweep :: "personal_event \<Rightarrow> bool" where
  "is_sweep (PeSweep _) = True"
| "is_sweep (PeSync _ _ _ _) = False"

lemma advances_now: "advances (db\<lparr>pd_now := n\<rparr>) db' \<longleftrightarrow> advances db db'"
  by (simp add: advances_def wf_personal_def)

lemma personal_exec_advances: "advances db (personal_exec env ev db)"
proof -
  have "advances (db\<lparr>pd_now := n\<rparr>) (personal_exec env ev db)"
    if "ev = PeSync now n u rq \<or> ev = PeSweep n" for n now u rq
    using that pg_synchronize_advances pg_sweep_advances unfolding keeps_def by auto
  then show ?thesis unfolding advances_now by (cases ev) auto
qed

lemma retains_now: "retains (db\<lparr>pd_now := n\<rparr>) db' \<longleftrightarrow> retains db db'"
  by (simp add: retains_def)

lemma personal_run_advances: "advances db (personal_run env evs db)"
  unfolding personal_run_def
proof (induction evs arbitrary: db)
  case (Cons ev evs)
  then show ?case using advances_trans personal_exec_advances by (metis fold_simps(2) transpE)
qed (simp add: advances_same)

lemma personal_run_retains: "list_all (\<lambda>ev. \<not> is_sweep ev) evs \<Longrightarrow> retains db (personal_run env evs db)"
  unfolding personal_run_def
proof (induction evs arbitrary: db)
  case (Cons ev evs)
  have "retains (db\<lparr>pd_now := n\<rparr>) (personal_exec env ev db)" if "ev = PeSync now n u rq" for n now u rq
    using that pg_synchronize_retains unfolding keeps_def by auto
  then have "retains db (personal_exec env ev db)"
    using Cons.prems unfolding retains_now by (cases ev) auto
  moreover have "retains (personal_exec env ev db) (fold (personal_exec env) evs (personal_exec env ev db))"
    using Cons by simp
  ultimately show ?case using retains_trans by (metis fold_simps(2) transpE)
qed (simp add: retains_def)

section \<open>Deltas\<close>

definition apply_records :: "('r \<Rightarrow> record_id) \<Rightarrow> 'r list \<Rightarrow> (record_id \<Rightarrow> 'r option) \<Rightarrow> record_id \<Rightarrow> 'r option" where
  "apply_records id_of rs m = fold (\<lambda>r m. m(id_of r \<mapsto> r)) rs m"

lemma apply_records_lookup:
  "distinct (map id_of rs) \<Longrightarrow>
     apply_records id_of rs m rid =
       (case find (\<lambda>r. id_of r = rid) rs of None \<Rightarrow> m rid | Some r \<Rightarrow> Some r)"
  unfolding apply_records_def
proof (induction rs arbitrary: m)
  case (Cons r rs)
  have "find (\<lambda>x. id_of x = id_of r) rs = None" using Cons.prems by (simp add: find_None_iff) (metis rev_image_eqI)
  with Cons show ?case by auto
qed simp

lemma find_unique:
  assumes "distinct (map f xs)" "x \<in> set xs"
  shows "find (\<lambda>y. f y = f x) xs = Some x"
  using assms by (induction xs) auto

lemma select_rows_effect:
  assumes "distinct (map fst rows)" "sorted_table sel"
    and "select_rows since pushed rv rows (sel, cur) = (sel', cur')"
  shows "sorted_table sel' \<and> cur \<le> cur' \<and>
    (\<forall>rid. map_of sel' rid =
       (case map_of rows rid of
          Some row \<Rightarrow> if since < rv row \<or> rid \<in> pushed then Some row else map_of sel rid
        | None \<Rightarrow> map_of sel rid)) \<and>
    (\<forall>(rid, row) \<in> set rows. rv row \<le> cur') \<and> (cur' = cur \<or> (\<exists>(rid, row) \<in> set rows. cur' = rv row))"
  using assms
proof (induction rows arbitrary: sel cur)
  case (Cons x rows)
  obtain rid row where x: "x = (rid, row)" by (cases x)
  let ?sel = "if since < rv row \<or> rid \<in> pushed then amap_insert rid row sel else sel"
  let ?cur = "if cur < rv row then rv row else cur"
  have none: "map_of rows rid = None" using Cons.prems(1) by (simp add: x map_of_eq_None_iff)
  have s: "select_rows since pushed rv rows (?sel, ?cur) = (sel', cur')" using Cons.prems(3) by (simp add: x)
  have "sorted_table ?sel" using Cons.prems(2) by (simp add: sorted_amap_insert)
  from Cons.IH [OF _ this s] Cons.prems(1) none show ?case
    by (auto simp: x split: option.splits if_splits)
qed auto

lemma delta_applied:
  assumes "distinct (map fst rows)" "\<forall>(rid, row) \<in> set rows. id_of row = rid"
    and "delta_and_echo rows since pushed rv = (rs, cur)"
  shows "apply_records id_of rs m rid =
      (case map_of rows rid of
         Some row \<Rightarrow> if since < rv row \<or> rid \<in> pushed then Some row else m rid
       | None \<Rightarrow> m rid)"
    and "since \<le> cur" "map_of rows rid = Some row \<Longrightarrow> rv row \<le> cur"
    and "cur = since \<or> (\<exists>rid row. map_of rows rid = Some row \<and> cur = rv row)"
proof -
  obtain sel where s: "select_rows since pushed rv rows ([], since) = (sel, cur)"
    and rs: "rs = sort_key rv (map snd sel)"
    using assms(3) by (auto simp: delta_and_echo_def Let_def split: prod.splits)
  note e = select_rows_effect [OF assms(1) _ s, simplified]
  have dsel: "distinct (map fst sel)" using e sorted_table_distinct by blast
  have sel: "map_of sel rid = (case map_of rows rid of
      Some row \<Rightarrow> if since < rv row \<or> rid \<in> pushed then Some row else None | None \<Rightarrow> None)" for rid
    using e by (auto split: option.split)
  have ids: "id_of (snd x) = fst x" if "x \<in> set sel" for x
  proof -
    have "map_of sel (fst x) = Some (snd x)" using that dsel by (simp add: map_of_eq_Some_iff)
    then have "map_of rows (fst x) = Some (snd x)" by (auto simp: sel split: option.splits if_splits)
    with assms(1,2) show ?thesis by (fastforce simp: map_of_eq_Some_iff)
  qed
  have di: "distinct (map id_of rs)"
  proof -
    have "map id_of (map snd sel) = map fst sel" using ids by simp
    then have "distinct (map id_of (map snd sel))" using dsel by (simp only:)
    moreover have "mset (map id_of rs) = mset (map id_of (map snd sel))" by (simp add: rs image_mset.compositionality comp_def)
    ultimately show ?thesis using mset_eq_imp_distinct_iff by blast
  qed
  show "apply_records id_of rs m rid =
      (case map_of rows rid of
         Some row \<Rightarrow> if since < rv row \<or> rid \<in> pushed then Some row else m rid
       | None \<Rightarrow> m rid)"
  proof (cases "map_of sel rid")
    case None
    then have "find (\<lambda>r. id_of r = rid) rs = None"
      using ids by (force simp: find_None_iff rs map_of_eq_None_iff)
    with None show ?thesis
      by (auto simp: apply_records_lookup [OF di] sel split: option.splits if_splits)
  next
    case (Some row)
    then have "(rid, row) \<in> set sel" using dsel by (simp add: map_of_eq_Some_iff)
    then have "row \<in> set rs" "id_of row = rid" using ids by (force simp: rs)+
    with find_unique [OF di] have "find (\<lambda>r. id_of r = rid) rs = Some row" by blast
    with Some show ?thesis
      by (auto simp: apply_records_lookup [OF di] sel split: option.splits if_splits)
  qed
  show "since \<le> cur" using e by simp
  show "rv row \<le> cur" if "map_of rows rid = Some row"
    using e map_of_SomeD [OF that] by auto
  show "cur = since \<or> (\<exists>rid row. map_of rows rid = Some row \<and> cur = rv row)"
    using e assms(1) by (fastforce simp: map_of_eq_Some_iff)
qed

section \<open>A client's replica\<close>

record replica =
  rp_cursor :: revision
  rp_favourites :: "record_id \<Rightarrow> favourite_record option"
  rp_history :: "record_id \<Rightarrow> history_record option"

text \<open>A client keeps the cursor of the answer and replaces the records it lists.\<close>

definition receive :: "sync_outcome \<Rightarrow> replica \<Rightarrow> replica" where
  "receive out rp =
     \<lparr>rp_cursor = so_server_revision out,
      rp_favourites = apply_records fr_record_id (so_favourites out) (rp_favourites rp),
      rp_history = apply_records hr_record_id (so_history out) (rp_history rp)\<rparr>"

text \<open>A stored row as the record that is sent for it.\<close>

definition favourite_image :: "pg_env \<Rightarrow> record_id \<Rightarrow> favourite_row \<Rightarrow> favourite_record option" where
  "favourite_image env rid row = (case favourite_from_row env (rid, row) of Inl _ \<Rightarrow> None | Inr r \<Rightarrow> Some (snd r))"

definition history_image :: "pg_env \<Rightarrow> record_id \<Rightarrow> history_row \<Rightarrow> history_record option" where
  "history_image env rid row = (case history_from_row env (rid, row) of Inl _ \<Rightarrow> None | Inr r \<Rightarrow> Some (snd r))"

definition server_favourites :: "pg_env \<Rightarrow> user_id \<Rightarrow> personal_db \<Rightarrow> record_id \<Rightarrow> favourite_record option" where
  "server_favourites env u db rid = Option.bind (map_of (pd_favourites db) (u, rid)) (favourite_image env rid)"

definition server_history :: "pg_env \<Rightarrow> user_id \<Rightarrow> personal_db \<Rightarrow> record_id \<Rightarrow> history_record option" where
  "server_history env u db rid = Option.bind (map_of (pd_history db) (u, rid)) (history_image env rid)"

text \<open>A replica is up to date as far as its cursor reaches.\<close>

definition up_to_cursor :: "pg_env \<Rightarrow> user_id \<Rightarrow> personal_db \<Rightarrow> replica \<Rightarrow> bool" where
  "up_to_cursor env u db rp \<longleftrightarrow> rp_cursor rp \<le> pd_sequence db \<and>
     (\<forall>rid row. map_of (pd_favourites db) (u, rid) = Some row \<longrightarrow> pf_sync_revision row \<le> rp_cursor rp \<longrightarrow>
        rp_favourites rp rid = favourite_image env rid row) \<and>
     (\<forall>rid row. map_of (pd_history db) (u, rid) = Some row \<longrightarrow> ph_sync_revision row \<le> rp_cursor rp \<longrightarrow>
        rp_history rp rid = history_image env rid row)"

definition no_ghosts :: "user_id \<Rightarrow> personal_db \<Rightarrow> replica \<Rightarrow> bool" where
  "no_ghosts u db rp \<longleftrightarrow>
     (\<forall>rid. rp_favourites rp rid \<noteq> None \<longrightarrow> map_of (pd_favourites db) (u, rid) \<noteq> None) \<and>
     (\<forall>rid. rp_history rp rid \<noteq> None \<longrightarrow> map_of (pd_history db) (u, rid) \<noteq> None)"

lemma up_to_cursor_advances:
  assumes "advances db db'" "wf_personal db" "up_to_cursor env u db rp"
  shows "up_to_cursor env u db' rp"
proof -
  from assms(1,2) have a: "pd_sequence db \<le> pd_sequence db'"
    "\<And>k row. map_of (pd_favourites db') k = Some row \<Longrightarrow> pf_sync_revision row \<le> pd_sequence db \<Longrightarrow>
      map_of (pd_favourites db) k = Some row"
    "\<And>k row. map_of (pd_history db') k = Some row \<Longrightarrow> ph_sync_revision row \<le> pd_sequence db \<Longrightarrow>
      map_of (pd_history db) k = Some row"
    by (fastforce simp: advances_def)+
  from assms(3) a show ?thesis unfolding up_to_cursor_def by (meson le_trans)
qed

lemma favourite_from_row_Ok:
  "favourite_from_row env (rid, row) = Ok r \<Longrightarrow>
     fst r = rid \<and> fr_record_id (snd r) = rid \<and> fr_sync_revision (snd r) = pf_sync_revision row"
  by (auto simp: favourite_from_row_def and_then_Ok)

lemma history_from_row_Ok:
  "history_from_row env (rid, row) = Ok r \<Longrightarrow>
     fst r = rid \<and> hr_record_id (snd r) = rid \<and> hr_sync_revision (snd r) = ph_sync_revision row"
  by (auto simp: history_from_row_def and_then_Ok)

lemma collect_ok_rows:
  assumes "collect_ok f rows = Ok rows'" "\<And>k x y. f (k, x) = Ok y \<Longrightarrow> fst y = k"
  shows "map fst rows' = map fst rows"
    and "map_of rows' k = Option.bind (map_of rows k) (\<lambda>x. case f (k, x) of Inl _ \<Rightarrow> None | Inr y \<Rightarrow> Some (snd y))"
    and "(k, y) \<in> set rows' \<Longrightarrow> \<exists>x. (k, x) \<in> set rows \<and> f (k, x) = Ok (k, y)"
    and "(k, x) \<in> set rows \<Longrightarrow> \<exists>y. f (k, x) = Ok (k, y)"
  using assms(1)
proof (induction rows arbitrary: rows')
  case (Cons x rows)
  {
    case 1
    then show ?case using Cons.IH(1) assms(2) by (cases x) (fastforce simp: and_then_Ok)
  next
    case 2
    then show ?case using Cons.IH(2) assms(2) by (cases x) (fastforce simp: and_then_Ok)
  next
    case 3
    then show ?case using Cons.IH(3) assms(2) by (cases x) (fastforce simp: and_then_Ok)
  next
    case 4
    then show ?case using Cons.IH(4) assms(2) by (cases x) (fastforce simp: and_then_Ok)
  }
qed simp_all

lemma collection_received:
  assumes t: "sorted_table t" and rows: "collect_ok f (owned_rows u t) = Ok rows"
    and f: "\<And>rid row y. f (rid, row) = Ok y \<Longrightarrow> fst y = rid \<and> id_of (snd y) = rid \<and> rv (snd y) = rowrev row"
    and d: "delta_and_echo rows since pushed rv = (rs, cur)"
    and m: "\<And>rid row. map_of t (u, rid) = Some row \<Longrightarrow> rowrev row \<le> since \<Longrightarrow>
      m rid = (case f (rid, row) of Inl _ \<Rightarrow> None | Inr y \<Rightarrow> Some (snd y))"
  shows "apply_records id_of rs m rid =
      (case map_of t (u, rid) of None \<Rightarrow> m rid
       | Some row \<Rightarrow> (case f (rid, row) of Inl _ \<Rightarrow> None | Inr y \<Rightarrow> Some (snd y)))"
    and "map_of t (u, rid) = Some row \<Longrightarrow> \<exists>y. f (rid, row) = Ok (rid, y)"
    and "since \<le> cur" "map_of t (u, rid) = Some row \<Longrightarrow> rowrev row \<le> cur"
    and "cur = since \<or> (\<exists>rid row. map_of t (u, rid) = Some row \<and> cur = rowrev row)"
proof -
  have key: "\<And>k x y. f (k, x) = Ok y \<Longrightarrow> fst y = k" using f by blast
  note c = collect_ok_rows [OF rows key]
  have dist: "distinct (map fst rows)" using c(1) owned_rows_distinct [OF t] by simp
  have ids: "\<forall>(rid, row) \<in> set rows. id_of row = rid"
    using c(3) f by fastforce
  have look: "map_of rows k = Option.bind (map_of t (u, k)) (\<lambda>x. case f (k, x) of Inl _ \<Rightarrow> None | Inr y \<Rightarrow> Some (snd y))" for k
    using c(2) [where k = k] by (simp add: map_of_owned_rows [OF t])
  have total: "\<exists>y. f (k, x) = Ok (k, y)" if "map_of t (u, k) = Some x" for k x
    using c(4) that by (simp add: owned_rows_mem [OF t])
  note e = delta_applied [OF dist ids d]
  show "apply_records id_of rs m rid =
      (case map_of t (u, rid) of None \<Rightarrow> m rid
       | Some row \<Rightarrow> (case f (rid, row) of Inl _ \<Rightarrow> None | Inr y \<Rightarrow> Some (snd y)))"
  proof (cases "map_of t (u, rid)")
    case (Some row)
    with total obtain y where y: "f (rid, row) = Ok (rid, y)" by blast
    with f have "rv y = rowrev row" by fastforce
    with Some y m [OF Some] show ?thesis by (auto simp: e(1) look)
  qed (simp add: e(1) look)
  show "\<exists>y. f (rid, row) = Ok (rid, y)" if "map_of t (u, rid) = Some row" using total [OF that] .
  show "since \<le> cur" by (rule e(2))
  show "rowrev row \<le> cur" if s: "map_of t (u, rid) = Some row"
  proof -
    obtain y where y: "f (rid, row) = Ok (rid, y)" using total [OF s] by blast
    with s have "map_of rows rid = Some y" by (simp add: look)
    from e(3) [OF this] f [OF y] show ?thesis by simp
  qed
  show "cur = since \<or> (\<exists>rid row. map_of t (u, rid) = Some row \<and> cur = rowrev row)"
  proof (cases "cur = since")
    case False
    with e(4) obtain rid' y where y: "map_of rows rid' = Some y" "cur = rv y" by blast
    then obtain row where "map_of t (u, rid') = Some row" "f (rid', row) = Ok (rid', y)"
      using total by (fastforce simp: look bind_eq_Some_conv)
    with f y show ?thesis by fastforce
  qed simp
qed

lemma sync_received:
  assumes wf: "wf_personal db" and up: "up_to_cursor env u db rp"
    and ans: "sync_answer env u rq db = Ok out" and since: "sq_since_revision rq = rp_cursor rp"
  shows "rp_favourites (receive out rp) rid =
      (case map_of (pd_favourites db) (u, rid) of None \<Rightarrow> rp_favourites rp rid
       | Some row \<Rightarrow> favourite_image env rid row)"
    and "rp_history (receive out rp) rid =
      (case map_of (pd_history db) (u, rid) of None \<Rightarrow> rp_history rp rid
       | Some row \<Rightarrow> history_image env rid row)"
    and "up_to_cursor env u db (receive out rp)"
    and "map_of (pd_favourites db) (u, rid) = Some frow \<Longrightarrow> favourite_image env rid frow \<noteq> None"
    and "map_of (pd_history db) (u, rid) = Some hrow \<Longrightarrow> history_image env rid hrow \<noteq> None"
proof -
  obtain favs hist fd fc hd hc where a:
    "collect_ok (favourite_from_row env) (owned_rows u (pd_favourites db)) = Ok favs"
    "collect_ok (history_from_row env) (owned_rows u (pd_history db)) = Ok hist"
    "delta_and_echo favs (rp_cursor rp) (set (favourite_record_ids rq)) fr_sync_revision = (fd, fc)"
    "delta_and_echo hist (rp_cursor rp) (set (history_record_ids rq)) hr_sync_revision = (hd, hc)"
    "out = \<lparr>so_server_revision = max fc hc, so_favourites = fd, so_history = hd\<rparr>"
  proof -
    obtain favs hist where c: "collect_ok (favourite_from_row env) (owned_rows u (pd_favourites db)) = Ok favs"
      "collect_ok (history_from_row env) (owned_rows u (pd_history db)) = Ok hist"
      using ans by (auto simp: sync_answer_def and_then_Ok)
    obtain fd fc where f: "delta_and_echo favs (rp_cursor rp) (set (favourite_record_ids rq)) fr_sync_revision = (fd, fc)"
      by fastforce
    obtain hd hc where h: "delta_and_echo hist (rp_cursor rp) (set (history_record_ids rq)) hr_sync_revision = (hd, hc)"
      by fastforce
    have "out = \<lparr>so_server_revision = max fc hc, so_favourites = fd, so_history = hd\<rparr>"
      using ans by (simp add: sync_answer_def c since f h)
    with c f h show thesis by (rule that)
  qed
  have s: "sorted_table (pd_favourites db)" "sorted_table (pd_history db)" using wf by (simp_all add: wf_personal_def)
  have m: "\<And>rid row. map_of (pd_favourites db) (u, rid) = Some row \<Longrightarrow> pf_sync_revision row \<le> rp_cursor rp \<Longrightarrow>
      rp_favourites rp rid = (case favourite_from_row env (rid, row) of Inl _ \<Rightarrow> None | Inr y \<Rightarrow> Some (snd y))"
    "\<And>rid row. map_of (pd_history db) (u, rid) = Some row \<Longrightarrow> ph_sync_revision row \<le> rp_cursor rp \<Longrightarrow>
      rp_history rp rid = (case history_from_row env (rid, row) of Inl _ \<Rightarrow> None | Inr y \<Rightarrow> Some (snd y))"
    using up by (simp_all add: up_to_cursor_def favourite_image_def history_image_def)
  note F = collection_received [where rowrev = pf_sync_revision, OF s(1) a(1) favourite_from_row_Ok [of env] a(3) m(1)]
  note H = collection_received [where rowrev = ph_sync_revision, OF s(2) a(2) history_from_row_Ok [of env] a(4) m(2)]
  show fav: "rp_favourites (receive out rp) rid =
      (case map_of (pd_favourites db) (u, rid) of None \<Rightarrow> rp_favourites rp rid
       | Some row \<Rightarrow> favourite_image env rid row)" for rid
    using F(1) [where rid = rid] by (simp add: receive_def a(5) favourite_image_def split: option.split)
  show hist: "rp_history (receive out rp) rid =
      (case map_of (pd_history db) (u, rid) of None \<Rightarrow> rp_history rp rid
       | Some row \<Rightarrow> history_image env rid row)" for rid
    using H(1) [where rid = rid] by (simp add: receive_def a(5) history_image_def split: option.split)
  have "fc \<le> pd_sequence db" "hc \<le> pd_sequence db"
    using F(5) H(5) wf up by (auto simp: wf_personal_def up_to_cursor_def)
  then show "up_to_cursor env u db (receive out rp)"
    by (simp add: up_to_cursor_def fav hist) (simp add: receive_def a(5))
  show "map_of (pd_favourites db) (u, rid) = Some frow \<Longrightarrow> favourite_image env rid frow \<noteq> None"
    using F(2) by (fastforce simp: favourite_image_def)
  show "map_of (pd_history db) (u, rid) = Some hrow \<Longrightarrow> history_image env rid hrow \<noteq> None"
    using H(2) by (fastforce simp: history_image_def)
qed

section \<open>Properties\<close>


section \<open>Merging whole requests\<close>

text \<open>Calls that all succeed, each with its clock readings and its account.\<close>

type_synonym sync_call = "instant \<times> instant \<times> user_id \<times> sync_request"

fun synced_run :: "pg_env \<Rightarrow> sync_call list \<Rightarrow> personal_db \<Rightarrow> personal_db option" where
  "synced_run env [] db = Some db"
| "synced_run env ((now, db_now, u, rq) # calls) db =
     (case pg_synchronize env now u rq (db\<lparr>pd_now := db_now\<rparr>) of
        (db', Inl _) \<Rightarrow> None
      | (db', Inr _) \<Rightarrow> synced_run env calls db')"

text \<open>The changes an account's calls push for its favourites, in order.\<close>

definition favourite_pushes :: "user_id \<Rightarrow> sync_call list \<Rightarrow> favourite_upsert pushed list" where
  "favourite_pushes u calls = concat (map (\<lambda>(_, _, v, rq). if v = u then pushed_favourites rq else []) calls)"

definition same_favourites :: "user_id \<Rightarrow> personal_db \<Rightarrow> personal_db \<Rightarrow> bool" where
  "same_favourites v db db' \<longleftrightarrow> (\<forall>rid. map_of (pd_favourites db') (v, rid) = map_of (pd_favourites db) (v, rid))"

lemma same_favourites_refl: "reflp (same_favourites v)"
  by (simp add: reflp_def same_favourites_def)

lemma same_favourites_trans: "transp (same_favourites v)"
  by (rule transpI) (simp add: same_favourites_def)

lemma same_favourites_statements:
  "keeps (same_favourites v) (apply_history_upsert env u hp)"
  "keeps (same_favourites v) (apply_history_delete env u dl)"
  "keeps (same_favourites v) (expire_where sel)"
  "u \<noteq> v \<Longrightarrow> keeps (same_favourites v) (apply_favourite_upsert env u up)"
  "u \<noteq> v \<Longrightarrow> keeps (same_favourites v) (apply_favourite_delete env u dl)"
  unfolding keeps_def apply_favourite_upsert_def apply_favourite_delete_def apply_history_upsert_def
    apply_history_delete_def expire_where_def nextval_def Let_def
  by (auto simp: same_favourites_def split: option.split prod.split)

lemmas same_favourites_intros = keeps_rules same_favourites_statements same_favourites_refl same_favourites_trans

lemma other_account_favourites:
  "u \<noteq> v \<Longrightarrow> keeps (same_favourites v) (sync_statements env u rq)"
  unfolding sync_statements_def by (intro same_favourites_intros)

definition favourites_untouched :: "personal_db \<Rightarrow> personal_db \<Rightarrow> bool" where
  "favourites_untouched db db' \<longleftrightarrow> pd_favourites db' = pd_favourites db"

lemma favourites_untouched_rules:
  "reflp favourites_untouched" "transp favourites_untouched"
  "keeps favourites_untouched (apply_history_upsert env u hp)"
  "keeps favourites_untouched (apply_history_delete env u dl)"
  "keeps favourites_untouched (expire_where sel)"
  by (simp_all add: reflp_def transp_def favourites_untouched_def keeps_def apply_history_upsert_def
      apply_history_delete_def expire_where_def nextval_def Let_def split: option.split prod.split)

lemma for_each_map: "for_each f (map g xs) db = for_each (\<lambda>x. f (g x)) xs db"
proof (induction xs arbitrary: db)
  case (Cons x xs)
  then have "for_each f (map g xs) = for_each (\<lambda>x. f (g x)) xs" by blast
  then show ?case by simp
qed simp

lemma for_each_append: "for_each f (xs @ ys) db = then_do (for_each f xs) (for_each f ys) db"
proof (induction xs arbitrary: db)
  case (Cons x xs)
  then have "for_each f (xs @ ys) = then_do (for_each f xs) (for_each f ys)" by blast
  then show ?case by (simp add: then_do_def split: prod.split sum.split)
qed (simp add: then_do_def)

lemma for_each_run:
  "for_each (pg_fav_statement env u) cs db = (db', Ok ()) \<longleftrightarrow> pgf.run env u cs db = Some db'"
  by (induction cs arbitrary: db)
    (auto simp: then_do_Ok pg_fav_step_def committed_step_Some bind_eq_Some_conv)

lemma sync_statements_favourites:
  assumes "sync_statements env u rq db = (db', Ok ())"
  obtains db1 where "pgf.run env u (pushed_favourites rq) db = Some db1" "pd_favourites db' = pd_favourites db1"
    "cc_upserts (sq_favourites rq) \<noteq> [] \<Longrightarrow> count_live pf_deleted_at u (pd_favourites db1) \<le> MAX_FAVOURITE_RECORDS"
proof -
  let ?hist = "then_do (for_each (apply_history_upsert env u) (cc_upserts (sq_history rq)))
    (then_do (for_each (apply_history_delete env u) (cc_deletes (sq_history rq)))
    (when_do (cc_upserts (sq_history rq) \<noteq> [])
        (then_do (expire_user_history u)
          (enforce_live_limit (\<lambda>db. count_live ph_deleted_at u (pd_history db)) MAX_HISTORY_RECORDS
            HistoryLimitExceeded))))"
  obtain dba db1 db2 where a: "for_each (apply_favourite_upsert env u) (cc_upserts (sq_favourites rq)) db = (dba, Ok ())"
    "for_each (apply_favourite_delete env u) (cc_deletes (sq_favourites rq)) dba = (db1, Ok ())"
    "when_do (cc_upserts (sq_favourites rq) \<noteq> [])
        (enforce_live_limit (\<lambda>db. count_live pf_deleted_at u (pd_favourites db)) MAX_FAVOURITE_RECORDS
          FavouriteLimitExceeded) db1 = (db2, Ok ())"
    "?hist db2 = (db', Ok ())"
    using assms unfolding sync_statements_def then_do_Ok by blast
  have "for_each (pg_fav_statement env u) (pushed_favourites rq) db = (db1, Ok ())"
    using a(1,2) by (simp add: pushed_favourites_def for_each_append for_each_map then_do_def)
  then have run: "pgf.run env u (pushed_favourites rq) db = Some db1" by (simp add: for_each_run)
  have b: "db2 = db1"
    "cc_upserts (sq_favourites rq) \<noteq> [] \<Longrightarrow> count_live pf_deleted_at u (pd_favourites db1) \<le> MAX_FAVOURITE_RECORDS"
    using a(3) by (cases "cc_upserts (sq_favourites rq) = []"; simp)+
  have "keeps favourites_untouched ?hist" by (intro keeps_rules favourites_untouched_rules)
  then have "favourites_untouched db1 (fst (?hist db1))" unfolding keeps_def by (rule spec)
  then have "pd_favourites db' = pd_favourites db1" using a(4) b(1) by (simp add: favourites_untouched_def)
  with run b(2) show thesis by (intro that) auto
qed

lemma synced_run_cell:
  "synced_run env calls db = Some db' \<Longrightarrow>
     pg_fav_cell u db' rid =
       fold lww_step (filter (\<lambda>c. change_key c = rid) (map (pg_fav_view env) (favourite_pushes u calls)))
         (pg_fav_cell u db rid)"
proof (induction calls arbitrary: db)
  case (Cons call calls)
  obtain now db_now v rq where call: "call = (now, db_now, v, rq)" by (metis prod_cases4)
  let ?db = "db\<lparr>pd_now := db_now\<rparr>"
  obtain db1 where run: "synced_run env calls db1 = Some db'"
    and st: "sync_statements env v rq ?db = (db1, Ok ())"
    using Cons.prems by (cases rule: pg_synchronize_cases [of env now v rq ?db])
      (auto simp: call split: prod.splits sum.splits)
  have now: "pg_fav_cell u ?db rid = pg_fav_cell u db rid" by (simp add: pg_fav_cell_def)
  have "pg_fav_cell u db1 rid =
      fold lww_step (filter (\<lambda>c. change_key c = rid) (map (pg_fav_view env) (if v = u then pushed_favourites rq else [])))
        (pg_fav_cell u db rid)"
  proof (cases "v = u")
    case True
    obtain dbx where x: "pgf.run env v (pushed_favourites rq) ?db = Some dbx" "pd_favourites db1 = pd_favourites dbx"
      using sync_statements_favourites [OF st] by metis
    from x(2) have "pg_fav_cell u db1 rid = pg_fav_cell u dbx rid"
      by (simp add: pg_fav_cell_def)
    with pgf.run_cell [OF x(1), of rid] True now show ?thesis by simp
  next
    case False
    then have "same_favourites u ?db db1"
      using other_account_favourites [of v u env rq] st unfolding keeps_def by (metis fst_conv)
    with False now show ?thesis by (simp add: pg_fav_cell_def same_favourites_def)
  qed
  with Cons.IH [OF run] show ?case by (simp add: call favourite_pushes_def)
qed (simp add: favourite_pushes_def)

text \<open>The in-memory store on the same calls.\<close>

fun mem_synced_run :: "(json \<Rightarrow> nat) \<Rightarrow> sync_call list \<Rightarrow> memory_store \<Rightarrow> memory_store option" where
  "mem_synced_run js [] m = Some m"
| "mem_synced_run js ((now, _, u, rq) # calls) m =
     (case mem_synchronize js now u rq m of
        (m', Inl _) \<Rightarrow> None
      | (m', Inr _) \<Rightarrow> mem_synced_run js calls m')"

definition empty_memory :: memory_store where
  "empty_memory = \<lparr>mem_favourites = [], mem_history = [], mem_revision = 0\<rparr>"

lemma memf_run_append: "memf.run u (cs @ cs') s = Option.bind (memf.run u cs s) (memf.run u cs')"
  by (induction cs arbitrary: s) (auto split: bind_split)

lemma memf_run_upserts: "memf.run u (map PushUpsert ups) s = Some (fold (merge_favourite u) ups s)"
  by (induction ups arbitrary: s) simp_all

lemma memf_run_deletes: "memf.run u (map PushDelete dls) s = Some (fold (tombstone_favourite u) dls s)"
  by (induction dls arbitrary: s) simp_all

lemma mem_synchronize_favourites:
  assumes "mem_synchronize js now u rq m = (m', Ok out)"
  obtains n where "memf.run u (pushed_favourites rq) (mem_favourites m, mem_revision m) = Some (mem_favourites m', n)"
proof -
  obtain favs n where f: "fold (tombstone_favourite u) (cc_deletes (sq_favourites rq))
      (fold (merge_favourite u) (cc_upserts (sq_favourites rq)) (mem_favourites m, mem_revision m)) = (favs, n)"
    by fastforce
  then have "memf.run u (pushed_favourites rq) (mem_favourites m, mem_revision m) = Some (favs, n)"
    by (simp add: pushed_favourites_def memf_run_append memf_run_upserts memf_run_deletes)
  moreover have "mem_favourites m' = favs"
    using assms by (auto simp: mem_synchronize_def f Let_def split: sum.splits if_splits prod.splits)
  ultimately show thesis using that by blast
qed

lemma mem_fav_cell_other:
  "u \<noteq> v \<Longrightarrow> memf.run u cs s = Some s' \<Longrightarrow> mem_fav_cell v s' rid = mem_fav_cell v s rid"
proof (induction cs arbitrary: s)
  case (Cons c cs)
  have "mem_fav_cell v s1 rid = mem_fav_cell v s rid" if "mem_fav_step u c s = Some s1" for s1
    using that Cons.prems(1)
    by (cases s; cases c)
      (auto simp: mem_fav_cell_def merge_favourite_def tombstone_favourite_def Let_def split: if_splits option.splits)
  with Cons show ?case by (auto simp: bind_eq_Some_conv)
qed simp

lemma mem_synced_run_cell:
  "mem_synced_run js calls m = Some m' \<Longrightarrow>
     mem_fav_cell u (mem_favourites m', n') rid =
       fold lww_step (filter (\<lambda>c. change_key c = rid) (map mem_fav_view (favourite_pushes u calls)))
         (mem_fav_cell u (mem_favourites m, n) rid)"
proof (induction calls arbitrary: m)
  case Nil
  then show ?case by (simp add: favourite_pushes_def mem_fav_cell_def)
next
  case (Cons call calls)
  obtain now db_now v rq where call: "call = (now, db_now, v, rq)" by (metis prod_cases4)
  obtain m1 out where s: "mem_synchronize js now v rq m = (m1, Ok out)" and run: "mem_synced_run js calls m1 = Some m'"
    using Cons.prems by (auto simp: call split: prod.splits sum.splits)
  obtain k where r: "memf.run v (pushed_favourites rq) (mem_favourites m, mem_revision m) = Some (mem_favourites m1, k)"
    using s by (rule mem_synchronize_favourites)
  have n: "mem_fav_cell u (mem_favourites x, a) rid = mem_fav_cell u (mem_favourites x, b) rid" for x a b
    by (simp add: mem_fav_cell_def)
  have "mem_fav_cell u (mem_favourites m1, n) rid =
      fold lww_step (filter (\<lambda>c. change_key c = rid) (map mem_fav_view (if v = u then pushed_favourites rq else [])))
        (mem_fav_cell u (mem_favourites m, n) rid)"
  proof (cases "v = u")
    case True
    with memf.run_cell [OF r, of rid] show ?thesis
      by (simp add: n [of m1 n k] n [of m n "mem_revision m"])
  next
    case False
    with mem_fav_cell_other [OF False r, of rid] show ?thesis
      by (simp add: n [of m1 n k] n [of m n "mem_revision m"])
  qed
  with Cons.IH [OF run] show ?case by (simp add: call favourite_pushes_def)
qed

text \<open>An account's favourite, as either store holds it.\<close>

definition favourite_cell where
  "favourite_cell db u rid = pg_fav_cell u db rid"

definition memory_favourite_cell where
  "memory_favourite_cell m u rid = mem_fav_cell u (mem_favourites m, mem_revision m) rid"

text \<open>C30: last writer wins, whatever the order: after any sequence of successful calls by any
  accounts, a favourite of which at most one deletion was pushed is exactly what the change with the
  latest instant made it, in whichever order the changes arrived.\<close>

theorem favourites_last_writer_wins:
  assumes "synced_run env calls db = Some db'" "map_of (pd_favourites db) (u, rid) = None"
    and "cs = filter (\<lambda>c. change_key c = rid) (map (pg_fav_view env) (favourite_pushes u calls))"
    and "length (filter is_del cs) \<le> 1"
    and "c \<in> set cs" "\<forall>d \<in> set cs. d \<noteq> c \<longrightarrow> snd (change_cell d) < snd (change_cell c)"
  shows "favourite_cell db' u rid = Some (change_cell c)"
proof -
  have "favourite_cell db' u rid = fold lww_step cs None"
    using synced_run_cell [OF assms(1), of u rid] assms(2,3)
    by (simp add: favourite_cell_def pg_fav_cell_def)
  with lww_winner [OF assms(4-6)] show ?thesis by simp
qed


section \<open>Example calls\<close>

definition example_pg_env :: pg_env where
  "example_pg_env =
     \<lparr>pg_timestamptz = (\<lambda>t. Some (ts_instant t)), pg_to_char = (\<lambda>i. replicate (nat i) (CHR ''i'')),
      pg_jsonb = Some, pg_rfc3339 = (\<lambda>s. if length s < 100 then Some (int (length s)) else None),
      pg_json_size = (\<lambda>_. 2)\<rparr>"

definition example_personal_db :: personal_db where
  "example_personal_db =
     \<lparr>pd_favourites = [], pd_history = [], pd_sequence = 0,
      pd_accounts = (\<lambda>u. if u = 5 then Some \<lparr>acc_deleted = False, acc_deleted_at = None\<rparr> else None),
      pd_now = 0, pd_available = True\<rparr>"

definition example_time :: "int \<Rightarrow> timestamp" where
  "example_time i = \<lparr>ts_text = [], ts_instant = i\<rparr>"

definition example_put :: "string \<Rightarrow> int \<Rightarrow> sync_request" where
  "example_put station i =
     \<lparr>sq_since_revision = 0,
      sq_favourites = \<lparr>cc_upserts = [\<lparr>fu_record_id = 3, fu_station_id = station, fu_added_at = example_time i,
        fu_updated_at = example_time i\<rparr>], cc_deletes = []\<rparr>,
      sq_history = \<lparr>cc_upserts = [], cc_deletes = []\<rparr>\<rparr>"

definition example_del :: "int \<Rightarrow> sync_request" where
  "example_del i =
     \<lparr>sq_since_revision = 0,
      sq_favourites = \<lparr>cc_upserts = [], cc_deletes = [\<lparr>rd_record_id = 3, rd_updated_at = example_time i\<rparr>]\<rparr>,
      sq_history = \<lparr>cc_upserts = [], cc_deletes = []\<rparr>\<rparr>"

lemma ascii_chars: "chars ''s'' = [115]"
  by (simp add: chars_def byte_def)

lemmas sync_eval = pg_synchronize_def sync_request_validate_def sync_statements_def sync_answer_def
  apply_favourite_upsert_def apply_favourite_delete_def then_do_def when_do_def enforce_live_limit_def nextval_def
  favourite_record_ids_def history_record_ids_def collection_record_ids_def favourite_upsert_validate_def
  canonical_station_id_def validate_timestamp_def require_def favourite_from_row_def pg_instant_def
  pg_optional_instant_def pd_timestamp_parse_def delta_and_echo_def owned_rows_def btree_set_def
  MAX_SYNC_BATCH_ITEMS_def MAX_CLIENT_CLOCK_SKEW_SECONDS_def MAX_STATION_ID_LEN_def seconds_def nanos_per_second_def
  ascii_chars is_control_def MAX_FAVOURITE_RECORDS_def example_put_def example_del_def example_pg_env_def
  example_personal_db_def example_time_def

theorem favourites_last_writer_wins_witness:
  "\<exists>db'. synced_run example_pg_env [(0, 0, 5, example_put ''s'' 7), (0, 0, 5, example_del 9)] example_personal_db = Some db' \<and>
     favourite_cell db' 5 3 = Some (None, 9)"
proof -
  let ?calls = "[(0, 0, 5, example_put ''s'' 7), (0, 0, 5, example_del 9)]"
  have "\<exists>db'. synced_run example_pg_env ?calls example_personal_db = Some db'"
    by (simp add: sync_eval)
  then obtain db' where db': "synced_run example_pg_env ?calls example_personal_db = Some db'" by blast
  have cs: "filter (\<lambda>c. change_key c = 3) (map (pg_fav_view example_pg_env) (favourite_pushes 5 ?calls)) =
      [Put 3 (Some ''s'', 7) 7, Del 3 9]"
    by (simp add: favourite_pushes_def pushed_favourites_def example_put_def example_del_def pg_time_def
        example_pg_env_def example_time_def)
  have "favourite_cell db' 5 3 = Some (change_cell (Del 3 9 :: (record_id, favourite_value) change))"
    by (rule favourites_last_writer_wins [OF db' _ refl]) (simp_all only: cs, simp_all add: example_personal_db_def)
  with db' show ?thesis by simp
qed



definition empty_replica :: replica where
  "empty_replica = \<lparr>rp_cursor = 0, rp_favourites = (\<lambda>_. None), rp_history = (\<lambda>_. None)\<rparr>"


end
