(* ===== verification/Personal_Limits.thy ===== *)
theory Personal_Limits
  imports Personal_Sync
begin

text \<open>
  Bounds and failure of personal-data synchronisation: the collection limits hold in every run of
  the PostgreSQL store, and a deletion whose instant cannot be read back blocks its account.
\<close>

section \<open>Collection limits\<close>

definition live_favourites :: "personal_db \<Rightarrow> user_id \<Rightarrow> nat" where
  "live_favourites db u = count_live pf_deleted_at u (pd_favourites db)"

definition live_history :: "personal_db \<Rightarrow> user_id \<Rightarrow> nat" where
  "live_history db u = count_live ph_deleted_at u (pd_history db)"

definition within_limits :: "personal_db \<Rightarrow> bool" where
  "within_limits db \<longleftrightarrow>
     (\<forall>u. live_favourites db u \<le> MAX_FAVOURITE_RECORDS \<and> live_history db u \<le> MAX_HISTORY_RECORDS)"

definition fewer :: "(personal_db \<Rightarrow> nat) \<Rightarrow> personal_db \<Rightarrow> personal_db \<Rightarrow> bool" where
  "fewer live db db' \<longleftrightarrow> live db' \<le> live db"

lemma fewer_refl: "reflp (fewer live)"
  by (simp add: reflp_def fewer_def)

lemma fewer_trans: "transp (fewer live)"
  by (rule transpI) (simp add: fewer_def)

lemma fewer_upserts:
  "u \<noteq> v \<Longrightarrow> keeps (fewer (\<lambda>db. live_favourites db v)) (apply_favourite_upsert env u up)"
  "u \<noteq> v \<Longrightarrow> keeps (fewer (\<lambda>db. live_history db v)) (apply_history_upsert env u hp)"
  "keeps (fewer (\<lambda>db. live_favourites db v)) (apply_history_upsert env u hp)"
  "keeps (fewer (\<lambda>db. live_history db v)) (apply_favourite_upsert env u up)"
  unfolding keeps_def apply_favourite_upsert_def apply_history_upsert_def nextval_def Let_def
  by (auto simp: fewer_def live_favourites_def live_history_def count_live_insert_other split: option.split)

lemma fewer_deletes:
  "keeps (fewer (\<lambda>db. live_favourites db v)) (apply_favourite_delete env u dl)"
  "keeps (fewer (\<lambda>db. live_history db v)) (apply_history_delete env u dl)"
  "keeps (fewer (\<lambda>db. live_favourites db v)) (apply_history_delete env u dl)"
  "keeps (fewer (\<lambda>db. live_history db v)) (apply_favourite_delete env u dl)"
  unfolding keeps_def apply_favourite_delete_def apply_history_delete_def nextval_def Let_def
  by (auto simp: fewer_def live_favourites_def live_history_def intro: count_live_insert_dead split: option.split)

lemma fewer_expire:
  "keeps (fewer (\<lambda>db. live_favourites db v)) (expire_where sel)"
  "keeps (fewer (\<lambda>db. live_history db v)) (expire_where sel)"
proof -
  have "count_live ph_deleted_at v rows \<le> count_live ph_deleted_at v (pd_history db)"
    if "expire_rows sel (pd_now db) (pd_history db) (pd_sequence db) = (rows, n, k)" for db rows n k
    using expire_rows_effect [OF that, of v] by blast
  then show "keeps (fewer (\<lambda>db. live_favourites db v)) (expire_where sel)"
    "keeps (fewer (\<lambda>db. live_history db v)) (expire_where sel)"
    by (auto simp: keeps_def expire_where_def fewer_def live_favourites_def live_history_def split: prod.split)
qed

lemmas fewer_intros = keeps_rules fewer_upserts fewer_deletes fewer_expire fewer_refl fewer_trans

lemma keepsD: "keeps R f \<Longrightarrow> f db = (db', r) \<Longrightarrow> R db db'"
  unfolding keeps_def by (metis fst_conv)

lemma other_account_limits:
  assumes "u \<noteq> v"
  shows "keeps (fewer (\<lambda>db. live_favourites db v)) (sync_statements env u rq)"
    and "keeps (fewer (\<lambda>db. live_history db v)) (sync_statements env u rq)"
  using assms unfolding sync_statements_def by (intro fewer_intros; assumption)+

lemma own_favourite_limit:
  assumes st: "sync_statements env u rq db = (db', Ok ())" and lim: "live_favourites db u \<le> MAX_FAVOURITE_RECORDS"
  shows "live_favourites db' u \<le> MAX_FAVOURITE_RECORDS"
proof (cases "cc_upserts (sq_favourites rq) = []")
  case True
  have none: "for_each (apply_favourite_upsert env u) [] = (\<lambda>db. (db, Ok ()))" by (simp add: fun_eq_iff)
  have "keeps (fewer (\<lambda>db. live_favourites db u)) (sync_statements env u rq)"
    unfolding sync_statements_def True none
    by (intro fewer_intros) (simp add: keeps_def fewer_def)
  from keepsD [OF this st] lim show ?thesis by (simp add: fewer_def)
next
  case False
  show ?thesis
    using st by (rule sync_statements_favourites) (simp add: live_favourites_def False)
qed

lemma own_history_limit:
  assumes st: "sync_statements env u rq db = (db', Ok ())" and lim: "live_history db u \<le> MAX_HISTORY_RECORDS"
  shows "live_history db' u \<le> MAX_HISTORY_RECORDS"
proof (cases "cc_upserts (sq_history rq) = []")
  case True
  have none: "for_each (apply_history_upsert env u) [] = (\<lambda>db. (db, Ok ()))" by (simp add: fun_eq_iff)
  have "keeps (fewer (\<lambda>db. live_history db u)) (sync_statements env u rq)"
    unfolding sync_statements_def True none
    by (intro fewer_intros) (simp add: keeps_def fewer_def)
  from keepsD [OF this st] lim show ?thesis by (simp add: fewer_def)
next
  case False
  then show ?thesis
    using st unfolding sync_statements_def by (auto simp: then_do_Ok live_history_def)
qed
lemma within_limits_now [simp]: "within_limits (db\<lparr>pd_now := n\<rparr>) \<longleftrightarrow> within_limits db"
  by (simp add: within_limits_def live_favourites_def live_history_def)

lemma pg_synchronize_limits:
  assumes "within_limits db"
  shows "within_limits (fst (pg_synchronize env now u rq db))"
proof (cases rule: pg_synchronize_cases [of env now u rq db])
  case (committed db')
  have "live_favourites db' v \<le> MAX_FAVOURITE_RECORDS \<and> live_history db' v \<le> MAX_HISTORY_RECORDS" for v
  proof (cases "u = v")
    case True
    with own_favourite_limit [OF committed(1)] own_history_limit [OF committed(1)] assms show ?thesis
      by (auto simp: within_limits_def)
  next
    case False
    from keepsD [OF other_account_limits(1) [OF this] committed(1)]
      keepsD [OF other_account_limits(2) [OF this] committed(1)] assms
    show ?thesis unfolding within_limits_def fewer_def by (meson le_trans)
  qed
  with committed(3) show ?thesis by (simp add: within_limits_def)
qed (use assms in \<open>simp_all add: within_limits_def live_favourites_def live_history_def\<close>)

lemma pg_sweep_limits:
  assumes "within_limits db"
  shows "within_limits (fst (pg_sweep_retention db))"
proof -
  let ?sel = "\<lambda>(_ :: user_id \<times> record_id, row). past_retention (pd_now db) row"
  obtain db1 r where e: "expire_where ?sel db = (db1, r)" by (cases "expire_where ?sel db")
  have f: "live_favourites db1 v \<le> live_favourites db v" "live_history db1 v \<le> live_history db v" for v
    using keepsD [OF fewer_expire(1) e] keepsD [OF fewer_expire(2) e] by (simp_all add: fewer_def)
  have g: "count_live d v (filter p t) \<le> n" if "count_live d v t \<le> n" for d v p n and t :: "'r collection"
    using that count_live_filter le_trans by blast
  have h: "count_live pf_deleted_at v (pd_favourites db1) \<le> MAX_FAVOURITE_RECORDS"
    "count_live ph_deleted_at v (pd_history db1) \<le> MAX_HISTORY_RECORDS" for v
    using f [of v] assms unfolding within_limits_def live_favourites_def live_history_def
    by (meson le_trans)+
  show ?thesis
    using assms
    by (auto simp: pg_sweep_retention_def e Let_def prune_tombstones_def purge_deleted_account_rows_def
        within_limits_def live_favourites_def live_history_def h split: sum.split intro!: g)
qed



section \<open>An unreadable deletion\<close>

text \<open>
  A row whose update instant is printed in a form the server's own parser refuses: for PostgreSQL,
  a year of more than four digits.
\<close>

definition unreadable_row :: "pg_env \<Rightarrow> user_id \<Rightarrow> record_id \<Rightarrow> instant \<Rightarrow> personal_db \<Rightarrow> bool" where
  "unreadable_row env u rid t db \<longleftrightarrow>
     pg_rfc3339 env (pg_to_char env t) = None \<and>
     is_some_and (map_of (pd_favourites db) (u, rid)) (\<lambda>row. pf_updated_at row = t \<and> pf_deleted_at row = Some t)"

lemma collect_ok_blocked: "x \<in> set xs \<Longrightarrow> \<not> is_ok (f x) \<Longrightarrow> \<exists>e. collect_ok f xs = Err e"
proof (induction xs)
  case (Cons y ys)
  then show ?case by (cases "f y") (auto simp: and_then_def split: sum.split)
qed simp

lemma unreadable_row_blocks:
  assumes "unreadable_row env u rid t db" "wf_personal db"
  shows "\<exists>e. sync_answer env u rq db = Err e"
proof -
  obtain row where row: "map_of (pd_favourites db) (u, rid) = Some row" "pf_updated_at row = t"
    "pg_rfc3339 env (pg_to_char env t) = None"
    using assms(1) by (cases "map_of (pd_favourites db) (u, rid)") (auto simp: unreadable_row_def)
  have "(rid, row) \<in> set (owned_rows u (pd_favourites db))"
    using row(1) assms(2) by (simp add: owned_rows_mem wf_personal_def)
  moreover have "\<not> is_ok (favourite_from_row env (rid, row))"
    using row(2,3)
    by (auto simp: favourite_from_row_def pg_instant_def pd_timestamp_parse_def and_then_def is_ok_def split: sum.split)
  ultimately show ?thesis
    using collect_ok_blocked [of "(rid, row)" _ "favourite_from_row env"] by (fastforce simp: sync_answer_def)
qed

text \<open>The row stays as long as no addition of that record carries a later instant.\<close>

definition no_later_addition :: "pg_env \<Rightarrow> record_id \<Rightarrow> instant \<Rightarrow> sync_request \<Rightarrow> bool" where
  "no_later_addition env rid t rq \<longleftrightarrow>
     list_all (\<lambda>up. fu_record_id up = rid \<longrightarrow> pg_time env (fu_updated_at up) \<le> t) (cc_upserts (sq_favourites rq))"

definition row_stays :: "user_id \<Rightarrow> record_id \<Rightarrow> instant \<Rightarrow> personal_db \<Rightarrow> personal_db \<Rightarrow> bool" where
  "row_stays u rid t db db' \<longleftrightarrow>
     (is_some_and (map_of (pd_favourites db) (u, rid)) (\<lambda>row. pf_updated_at row = t \<and> pf_deleted_at row = Some t) \<longrightarrow>
      map_of (pd_favourites db') (u, rid) = map_of (pd_favourites db) (u, rid))"

lemma row_stays_rules:
  "reflp (row_stays u rid t)" "transp (row_stays u rid t)"
  "keeps (row_stays u rid t) (apply_history_upsert env v hp)"
  "keeps (row_stays u rid t) (apply_history_delete env v dl)"
  "keeps (row_stays u rid t) (expire_where sel)"
  by (auto simp: reflp_def transp_def row_stays_def keeps_def apply_history_upsert_def
      apply_history_delete_def expire_where_def nextval_def Let_def split: option.split prod.split)

lemma row_stays_delete: "keeps (row_stays u rid t) (apply_favourite_delete env v dl)"
  unfolding keeps_def apply_favourite_delete_def nextval_def Let_def
  by (auto simp: row_stays_def split: option.split)

lemma row_stays_upsert:
  "(fu_record_id up = rid \<longrightarrow> pg_time env (fu_updated_at up) \<le> t) \<Longrightarrow>
     keeps (row_stays u rid t) (apply_favourite_upsert env u up)"
  unfolding keeps_def apply_favourite_upsert_def nextval_def Let_def
  by (auto simp: row_stays_def pg_time_def split: option.split)

lemma sync_statements_row_stays:
  assumes "no_later_addition env rid t rq"
  shows "keeps (row_stays u rid t) (sync_statements env u rq)"
  unfolding sync_statements_def
  by (intro keeps_rules row_stays_rules row_stays_delete row_stays_upsert)
    (use assms in \<open>simp_all add: no_later_addition_def list_all_iff\<close>)

text \<open>Calls that leave such a row alone: any of other accounts, and the account's own that add nothing later.\<close>

fun harmless :: "pg_env \<Rightarrow> user_id \<Rightarrow> record_id \<Rightarrow> instant \<Rightarrow> personal_event \<Rightarrow> bool" where
  "harmless env u rid t (PeSync _ _ v rq) = (v = u \<longrightarrow> no_later_addition env rid t rq)"
| "harmless env u rid t (PeSweep _) = False"

lemma harmless_keeps_row:
  assumes "harmless env u rid t ev" "unreadable_row env u rid t db"
  shows "unreadable_row env u rid t (personal_exec env ev db)"
proof (cases ev)
  case (PeSync now db_now v rq)
  let ?db = "db\<lparr>pd_now := db_now\<rparr>"
  have same: "map_of (pd_favourites db') (u, rid) = map_of (pd_favourites db) (u, rid)"
    if st: "sync_statements env v rq ?db = (db', Ok ())" for db'
  proof (cases "v = u")
    case True
    with assms(1) PeSync have "keeps (row_stays u rid t) (sync_statements env v rq)"
      by (simp add: sync_statements_row_stays)
    from keepsD [OF this st] assms(2) show ?thesis by (simp add: row_stays_def unreadable_row_def)
  next
    case False
    from keepsD [OF other_account_favourites [OF False] st] show ?thesis by (simp add: same_favourites_def)
  qed
  show ?thesis
    using assms(2) same
    by (cases rule: pg_synchronize_cases [of env now v rq ?db]) (simp_all add: PeSync unreadable_row_def)
qed (use assms in simp)

lemma harmless_run_keeps_row:
  "list_all (harmless env u rid t) evs \<Longrightarrow> unreadable_row env u rid t db \<Longrightarrow>
     unreadable_row env u rid t (personal_run env evs db)"
  unfolding personal_run_def
  by (induction evs arbitrary: db) (simp_all add: harmless_keeps_row)

definition deletion_request :: "record_id \<Rightarrow> timestamp \<Rightarrow> sync_request" where
  "deletion_request rid t =
     \<lparr>sq_since_revision = 0,
      sq_favourites = \<lparr>cc_upserts = [], cc_deletes = [\<lparr>rd_record_id = rid, rd_updated_at = t\<rparr>]\<rparr>,
      sq_history = \<lparr>cc_upserts = [], cc_deletes = []\<rparr>\<rparr>"

lemma deletion_request_valid: "sync_request_validate js (deletion_request rid t) now = Ok ()"
  by (simp add: deletion_request_def sync_request_validate_def favourite_record_ids_def history_record_ids_def
      collection_record_ids_def require_def btree_set_def MAX_SYNC_BATCH_ITEMS_def)



end
