(* ===== verification/Intent.thy ===== *)
theory Intent
  imports Router Directory
begin

text \<open>
  Typed intent resolution (\<open>src/src/device_control_intent.rs\<close> and
  \<open>src/src/device_control_intent/model.rs\<close>): from a bounded user intent and an account-owned
  projection of the directory to a plan, a question, a confirmation or an error, without side
  effects. The text of a JSON value (\<open>Display\<close> of \<open>serde_json::Value\<close>) is a parameter.
\<close>

section \<open>The intent schema\<close>

definition MAX_INTENT_TEXT :: nat where "MAX_INTENT_TEXT = 128"

definition MAX_AREA_ID :: nat where "MAX_AREA_ID = 64"

record intent_target =
  it_device_id :: "device_id option"
  it_surface_id :: "string option"
  it_area_id :: "string option"

record actuator_target =
  at_device_id :: device_id
  at_entity_id :: string

datatype media_intent_action =
    MiPlay | MiPause | MiStop | MiNext | MiPrevious | MiSetVolume u8 | MiChangeVolume i8 | MiSetMute bool

datatype user_intent =
    IntPlayRadio string "intent_target option"
  | IntShowSensors "intent_target option"
  | IntQuerySensor "string option" "intent_target option"
  | IntMedia media_intent_action "intent_target option"
  | IntShowNowPlaying "intent_target option"
  | IntActuator actuator_action "f64 option" actuator_target

record versioned_user_intent =
  vui_version :: u8
  vui_intent :: user_intent

datatype intent_error_code =
    InvalidIntent | IntForbidden | IntTargetOffline | IntCapabilityNotSupported | StateUnavailable | UnsupportedSelector

record intent_error =
  ie_code :: intent_error_code
  ie_field :: "string option"

definition intent_invalid :: "string \<Rightarrow> intent_error" where
  "intent_invalid field = \<lparr>ie_code = InvalidIntent, ie_field = Some field\<rparr>"

definition intent_code :: "intent_error_code \<Rightarrow> intent_error" where
  "intent_code c = \<lparr>ie_code = c, ie_field = None\<rparr>"

definition bounded_id :: "string \<Rightarrow> string \<Rightarrow> intent_error + unit" where
  "bounded_id v field =
     (if v = [] \<or> MAX_INTENT_TEXT < length v then Err (intent_invalid field) else Ok ())"

definition intent_target_validate :: "intent_target option \<Rightarrow> intent_error + unit" where
  "intent_target_validate t =
     (case t of
        None \<Rightarrow> Ok ()
      | Some tgt \<Rightarrow>
          and_then (case it_surface_id tgt of None \<Rightarrow> Ok () | Some s \<Rightarrow> bounded_id s ''surface_id'') (\<lambda>_.
          if is_some_and (it_area_id tgt) (\<lambda>a. a = [] \<or> MAX_AREA_ID < length a)
          then Err (intent_invalid ''area_id'') else Ok ()))"

fun media_validate :: "media_intent_action \<Rightarrow> intent_error + unit" where
  "media_validate (MiChangeVolume delta) = (if delta = 0 then Err (intent_invalid ''delta'') else Ok ())"
| "media_validate _ = Ok ()"

fun media_command_body :: "media_intent_action \<Rightarrow> command_body" where
  "media_command_body MiPlay = Playback ''play''"
| "media_command_body MiPause = Playback ''pause''"
| "media_command_body MiStop = Playback ''stop''"
| "media_command_body MiNext = Playback ''next''"
| "media_command_body MiPrevious = Playback ''previous''"
| "media_command_body (MiSetVolume level) = Volume (SetLevel level)"
| "media_command_body (MiChangeVolume delta) = Volume (Change delta)"
| "media_command_body (MiSetMute muted) = Volume (SetMute muted)"

fun user_intent_validate :: "user_intent \<Rightarrow> intent_error + unit" where
  "user_intent_validate (IntPlayRadio station_id t) =
     and_then (bounded_id station_id ''station_id'') (\<lambda>_. intent_target_validate t)"
| "user_intent_validate (IntShowSensors t) = intent_target_validate t"
| "user_intent_validate (IntShowNowPlaying t) = intent_target_validate t"
| "user_intent_validate (IntQuerySensor entity_id t) =
     and_then (case entity_id of None \<Rightarrow> Ok () | Some e \<Rightarrow> bounded_id e ''entity_id'') (\<lambda>_. intent_target_validate t)"
| "user_intent_validate (IntMedia action t) = and_then (media_validate action) (\<lambda>_. intent_target_validate t)"
| "user_intent_validate (IntActuator action v t) =
     and_then (bounded_id (at_entity_id t) ''entity_id'') (\<lambda>_.
     case (action, v) of
       (SetValue, Some x) \<Rightarrow> if is_finite x then Ok () else Err (intent_invalid ''value'')
     | (SetValue, None) \<Rightarrow> Err (intent_invalid ''value'')
     | (_, Some _) \<Rightarrow> Err (intent_invalid ''value'')
     | _ \<Rightarrow> Ok ())"

definition versioned_validate :: "versioned_user_intent \<Rightarrow> intent_error + unit" where
  "versioned_validate v =
     (if vui_version v \<noteq> 1 then Err (intent_invalid ''version'') else user_intent_validate (vui_intent v))"

section \<open>Resolution input and result\<close>

record resolution_actor =
  ra_user_id :: user_id
  ra_scopes :: "device_control_scope list"

record resolver_device =
  rd_device_id :: device_id
  rd_display_name :: string
  rd_device_type :: string
  rd_manifest :: device_manifest
  rd_online :: bool
  rd_runtime_state :: "device_runtime_state option"
  rd_entity_states :: "entity_state list"

record directory_projection =
  dp_owner_id :: user_id
  dp_devices :: "resolver_device list"

record current_target =
  ct_device_id :: "device_id option"
  ct_surface_id :: "string option"

record canonical_area =
  ca_area_id :: string
  ca_device_ids :: "device_id list"

record resolution_context =
  rc_current_target :: "current_target option"
  rc_canonical_areas :: "canonical_area list"

record resolution_request =
  rr_actor :: resolution_actor
  rr_directory :: directory_projection
  rr_command_id :: command_id
  rr_received_at :: timestamp
  rr_context :: resolution_context

record intent_plan =
  ip_presentation :: "presentation option"
  ip_commands :: "device_command list"

datatype clarification_code = AmbiguousTarget | AmbiguousEntity | AmbiguousSurface | MissingTarget

record clarification =
  cl_code :: clarification_code
  cl_device_ids :: "device_id list"
  cl_surface_ids :: "string list"

record confirmation =
  cf_target :: command_target
  cf_action :: actuator_action
  cf_value :: "f64 option"

datatype resolution_result =
    ResPlan intent_plan
  | ResClarification clarification
  | ResConfirmation confirmation
  | ResError intent_error

definition res_error :: "intent_error_code \<Rightarrow> resolution_result" where
  "res_error c = ResError (intent_code c)"

section \<open>Selection\<close>

definition require_scope :: "resolution_request \<Rightarrow> device_control_scope \<Rightarrow> intent_error + unit" where
  "require_scope rq scope =
     (if scope \<in> set (ra_scopes (rr_actor rq)) then Ok () else Err (intent_code IntForbidden))"

definition has_role :: "device_manifest \<Rightarrow> device_role \<Rightarrow> bool" where
  "has_role m role \<longleftrightarrow> role \<in> set (man_roles m)"

definition has_capability :: "device_manifest \<Rightarrow> (device_capability \<Rightarrow> bool) \<Rightarrow> bool" where
  "has_capability m p \<longleftrightarrow> list_ex p (caps_items (man_capabilities m))"

definition canonical_area_devices :: "resolution_request \<Rightarrow> string \<Rightarrow> device_id list option" where
  "canonical_area_devices rq area_id =
     map_option ca_device_ids (find (\<lambda>area. ca_area_id area = area_id) (rc_canonical_areas (rr_context rq)))"

definition unique_device_ids :: "device_id list \<Rightarrow> device_id list" where
  "unique_device_ids ids = fold (\<lambda>d acc. if d \<in> set acc then acc else acc @ [d]) ids []"

definition requested_area :: "intent_target option \<Rightarrow> string option" where
  "requested_area t = Option.bind t it_area_id"

definition compatible_devices ::
  "resolution_request \<Rightarrow> intent_target option \<Rightarrow> (resolver_device \<Rightarrow> bool) \<Rightarrow> resolver_device list" where
  "compatible_devices rq t p =
     (let area_ids = Option.bind (requested_area t) (canonical_area_devices rq)
      in filter (\<lambda>d. is_none_or area_ids (\<lambda>ids. rd_device_id d \<in> set ids))
           (filter p (dp_devices (rr_directory rq))))"

definition choose_one :: "resolver_device list \<Rightarrow> clarification_code \<Rightarrow> resolution_result + resolver_device" where
  "choose_one candidates code =
     (case candidates of
        [d] \<Rightarrow> Ok d
      | [] \<Rightarrow> Err (ResClarification \<lparr>cl_code = MissingTarget, cl_device_ids = [], cl_surface_ids = []\<rparr>)
      | _ \<Rightarrow> Err (ResClarification \<lparr>cl_code = code,
               cl_device_ids = unique_device_ids (map rd_device_id candidates), cl_surface_ids = []\<rparr>))"

definition choose_exact ::
  "resolution_request \<Rightarrow> resolver_device list \<Rightarrow> device_id \<Rightarrow> resolution_result + resolver_device" where
  "choose_exact rq candidates device_id =
     (case filter (\<lambda>d. rd_device_id d = device_id) candidates of
        [] \<Rightarrow>
          Err (res_error (case opt_filter (\<lambda>d. \<not> rd_online d)
                 (find (\<lambda>d. rd_device_id d = device_id) (dp_devices (rr_directory rq))) of
                 Some _ \<Rightarrow> IntTargetOffline | None \<Rightarrow> IntCapabilityNotSupported))
      | found \<Rightarrow> choose_one found AmbiguousTarget)"

definition select_device ::
  "resolution_request \<Rightarrow> intent_target option \<Rightarrow> resolver_device list \<Rightarrow> resolution_result + resolver_device" where
  "select_device rq t candidates =
     (if is_some (requested_area t) \<and> Option.bind (requested_area t) (canonical_area_devices rq) = None
      then Err (res_error UnsupportedSelector)
      else case Option.bind t it_device_id of
          Some device_id \<Rightarrow> choose_exact rq candidates device_id
        | None \<Rightarrow>
            (case Option.bind t it_surface_id of
               Some surface_id \<Rightarrow>
                 choose_one (filter (\<lambda>d. list_ex (\<lambda>s. sur_id s = surface_id) (man_surfaces (rd_manifest d))) candidates)
                   AmbiguousTarget
             | None \<Rightarrow>
                 (case Option.bind (rc_current_target (rr_context rq)) ct_device_id of
                    Some device_id \<Rightarrow> choose_exact rq candidates device_id
                  | None \<Rightarrow> choose_one candidates AmbiguousTarget)))"

definition select_surface ::
  "resolution_request \<Rightarrow> resolver_device \<Rightarrow> intent_target option \<Rightarrow> view_kind \<Rightarrow> resolution_result + surface" where
  "select_surface rq device t view =
     (let explicit = Option.bind t it_surface_id;
          current = Option.bind (opt_filter (\<lambda>c. ct_device_id c = Some (rd_device_id device))
                      (rc_current_target (rr_context rq))) ct_surface_id;
          requested = opt_or explicit current;
          candidates = filter (\<lambda>s. is_none_or requested (\<lambda>i. sur_id s = i))
            (filter (\<lambda>s. sur_kind s = DisplayKind \<and> view \<in> set (sur_views s)) (man_surfaces (rd_manifest device)))
      in case candidates of
           [s] \<Rightarrow> Ok s
         | [] \<Rightarrow> Err (res_error IntCapabilityNotSupported)
         | _ \<Rightarrow> Err (ResClarification \<lparr>cl_code = AmbiguousSurface, cl_device_ids = [rd_device_id device],
                  cl_surface_ids = map sur_id candidates\<rparr>))"

definition command_plan ::
  "resolution_request \<Rightarrow> resolver_device \<Rightarrow> string option \<Rightarrow> surface option \<Rightarrow> command_body \<Rightarrow> intent_plan" where
  "command_plan rq device entity_id surface body =
     \<lparr>ip_presentation = None,
      ip_commands = [\<lparr>cmd_id = rr_command_id rq,
        cmd_target = \<lparr>tgt_device_id = rd_device_id device, tgt_entity_id = entity_id,
                      tgt_surface_id = map_option sur_id surface\<rparr>,
        cmd_deadline_at = None, cmd_body = body\<rparr>]\<rparr>"

definition with_presentation :: "presentation \<Rightarrow> intent_plan \<Rightarrow> intent_plan" where
  "with_presentation p plan = plan\<lparr>ip_presentation := Some p\<rparr>"

section \<open>Sensors\<close>

definition is_readable_sensor :: "entity \<Rightarrow> bool" where
  "is_readable_sensor e \<longleftrightarrow> ent_domain e = Sensor \<and> ent_readable e"

definition readable_sensor_count :: "resolver_device \<Rightarrow> nat" where
  "readable_sensor_count d = length (filter is_readable_sensor (man_entities (rd_manifest d)))"

definition state_for :: "resolver_device \<Rightarrow> string \<Rightarrow> entity_state option" where
  "state_for d entity_id = find (\<lambda>s. es_entity_id s = entity_id) (rd_entity_states d)"

definition sensor_value :: "entity_state \<Rightarrow> timestamp \<Rightarrow> json \<times> quality \<times> freshness" where
  "sensor_value st now =
     (if es_quality st = Unavailable then (JNull, Unavailable, FreshnessUnknown)
      else (es_value st, es_quality st, freshness_at st now))"

definition intent_sensor_card :: "entity \<Rightarrow> entity_state option \<Rightarrow> timestamp \<Rightarrow> sensor_card" where
  "intent_sensor_card e st now =
     (case st of
        None \<Rightarrow> \<lparr>sc_entity_id = ent_id e, sc_label = ent_label e, sc_value = JNull, sc_unit = ent_unit e,
                 sc_quality = Unavailable, sc_freshness = FreshnessUnknown\<rparr>
      | Some s \<Rightarrow>
          (case sensor_value s now of
             (v, q, f) \<Rightarrow> \<lparr>sc_entity_id = ent_id e, sc_label = ent_label e, sc_value = v,
                           sc_unit = opt_or (es_unit s) (ent_unit e), sc_quality = q, sc_freshness = f\<rparr>))"

text \<open>The derived \<open>Debug\<close> names.\<close>

fun quality_debug :: "quality \<Rightarrow> string" where
  "quality_debug QualityOk = ''Ok''"
| "quality_debug Degraded = ''Degraded''"
| "quality_debug Unavailable = ''Unavailable''"
| "quality_debug QualityUnknown = ''Unknown''"

fun freshness_debug :: "freshness \<Rightarrow> string" where
  "freshness_debug Fresh = ''Fresh''"
| "freshness_debug StaleValue = ''Stale''"
| "freshness_debug FreshnessUnknown = ''Unknown''"

definition format_sensor_text ::
  "(json \<Rightarrow> string) \<Rightarrow> entity \<Rightarrow> json \<Rightarrow> string option \<Rightarrow> quality \<Rightarrow> freshness \<Rightarrow> string" where
  "format_sensor_text show_value e v unit q f =
     (let suffix = '' ('' @ quality_debug q @ '', '' @ freshness_debug f @ '')'';
          unit_text = (case unit of None \<Rightarrow> [] | Some u \<Rightarrow> '' '' @ u)
      in case v of
           JNull \<Rightarrow> ent_label e @ '': unavailable'' @ suffix
         | JStr s \<Rightarrow> ent_label e @ '': '' @ s @ unit_text @ suffix
         | _ \<Rightarrow> ent_label e @ '': '' @ show_value v @ unit_text @ suffix)"

section \<open>Capabilities\<close>

fun is_station_capability :: "device_capability \<Rightarrow> bool" where
  "is_station_capability (CapStation _) = True"
| "is_station_capability _ = False"

fun shows_view :: "view_kind \<Rightarrow> device_capability \<Rightarrow> bool" where
  "shows_view view (CapDisplay views _ _) = (view \<in> set views)"
| "shows_view view _ = False"

definition media_supported :: "device_manifest \<Rightarrow> command_body \<Rightarrow> bool" where
  "media_supported m body \<longleftrightarrow>
     has_role m Player \<and>
     (case body of
        Playback action \<Rightarrow> has_capability m (offers_playback action)
      | Volume command \<Rightarrow> has_capability m (offers_volume command)
      | _ \<Rightarrow> False)"

definition display_capable :: "device_manifest \<Rightarrow> view_kind \<Rightarrow> bool" where
  "display_capable m view \<longleftrightarrow> has_role m DisplaySurface \<and> has_capability m (shows_view view)"

definition presentation_supported :: "device_manifest \<Rightarrow> presentation \<Rightarrow> bool" where
  "presentation_supported m p \<longleftrightarrow> has_capability m (offers_display p)"

definition safe_actuator_entity :: "entity \<Rightarrow> bool" where
  "safe_actuator_entity e \<longleftrightarrow>
     (ent_domain e = Switch \<or> ent_domain e = Light) \<and> ent_device_class e \<notin> {''lock'', ''climate''}"

section \<open>Resolution\<close>

definition resolve_radio :: "resolution_request \<Rightarrow> string \<Rightarrow> intent_target option \<Rightarrow> resolution_result" where
  "resolve_radio rq station_id t =
     (case require_scope rq MediaControl of
        Inl e \<Rightarrow> ResError e
      | Inr _ \<Rightarrow>
          (case select_device rq t (compatible_devices rq t (\<lambda>d.
                  rd_online d \<and> has_role (rd_manifest d) Player \<and> has_capability (rd_manifest d) is_station_capability)) of
             Inl r \<Rightarrow> r
           | Inr device \<Rightarrow> ResPlan (command_plan rq device None None (PlayStation station_id))))"

definition resolve_media ::
  "resolution_request \<Rightarrow> media_intent_action \<Rightarrow> intent_target option \<Rightarrow> resolution_result" where
  "resolve_media rq action t =
     (case require_scope rq MediaControl of
        Inl e \<Rightarrow> ResError e
      | Inr _ \<Rightarrow>
          let body = media_command_body action
          in case select_device rq t (compatible_devices rq t (\<lambda>d.
                    rd_online d \<and> media_supported (rd_manifest d) body)) of
               Inl r \<Rightarrow> r
             | Inr device \<Rightarrow> ResPlan (command_plan rq device None None body))"

definition plan_display :: "resolution_request \<Rightarrow> resolver_device \<Rightarrow> surface \<Rightarrow> presentation \<Rightarrow> resolution_result" where
  "plan_display rq device surface p =
     (if \<not> is_ok (presentation_validate p) \<or> \<not> presentation_supported (rd_manifest device) p
      then res_error IntCapabilityNotSupported
      else ResPlan (with_presentation p (command_plan rq device None (Some surface) (Display p))))"

definition resolve_sensors :: "resolution_request \<Rightarrow> intent_target option \<Rightarrow> resolution_result" where
  "resolve_sensors rq t =
     (case and_then (require_scope rq EntityStateRead) (\<lambda>_. require_scope rq DisplayControl) of
        Inl e \<Rightarrow> ResError e
      | Inr _ \<Rightarrow>
          (case select_device rq t (compatible_devices rq t (\<lambda>d.
                  rd_online d \<and> 0 < readable_sensor_count d \<and> display_capable (rd_manifest d) SensorGridView)) of
             Inl r \<Rightarrow> r
           | Inr device \<Rightarrow>
               (case select_surface rq device t SensorGridView of
                  Inl r \<Rightarrow> r
                | Inr surface \<Rightarrow>
                    plan_display rq device surface (PSensorGrid ''Sensors''
                      (map (\<lambda>e. intent_sensor_card e (state_for device (ent_id e)) (rr_received_at rq))
                        (filter is_readable_sensor (man_entities (rd_manifest device))))))))"

definition sensor_candidates ::
  "string option \<Rightarrow> resolver_device list \<Rightarrow> (resolver_device \<times> entity) list" where
  "sensor_candidates entity_id devices =
     concat (map (\<lambda>d. map (Pair d)
       (filter (\<lambda>e. is_readable_sensor e \<and> is_none_or entity_id (\<lambda>i. ent_id e = i)) (man_entities (rd_manifest d)))) devices)"

definition resolve_sensor_query ::
  "(json \<Rightarrow> string) \<Rightarrow> resolution_request \<Rightarrow> string option \<Rightarrow> intent_target option \<Rightarrow> resolution_result" where
  "resolve_sensor_query show_value rq entity_id t =
     (case require_scope rq EntityStateRead of
        Inl e \<Rightarrow> ResError e
      | Inr _ \<Rightarrow>
          (case sensor_candidates entity_id (compatible_devices rq t (\<lambda>d. rd_online d \<and> 0 < readable_sensor_count d)) of
             [] \<Rightarrow> ResClarification \<lparr>cl_code = MissingTarget, cl_device_ids = [], cl_surface_ids = []\<rparr>
           | [(device, e)] \<Rightarrow>
               (case state_for device (ent_id e) of
                  None \<Rightarrow> res_error StateUnavailable
                | Some st \<Rightarrow>
                    (case sensor_value st (rr_received_at rq) of
                       (v, q, f) \<Rightarrow>
                         let p = PText (format_sensor_text show_value e v (es_unit st) q f)
                         in if \<not> is_ok (presentation_validate p) then res_error IntCapabilityNotSupported
                            else ResPlan \<lparr>ip_presentation = Some p, ip_commands = []\<rparr>))
           | candidates \<Rightarrow>
               ResClarification \<lparr>cl_code = AmbiguousEntity,
                 cl_device_ids = unique_device_ids (map (\<lambda>(d, _). rd_device_id d) candidates), cl_surface_ids = []\<rparr>))"

definition resolve_now_playing :: "resolution_request \<Rightarrow> intent_target option \<Rightarrow> resolution_result" where
  "resolve_now_playing rq t =
     (case require_scope rq DisplayControl of
        Inl e \<Rightarrow> ResError e
      | Inr _ \<Rightarrow>
          (case select_device rq t (compatible_devices rq t (\<lambda>d.
                  rd_online d \<and> display_capable (rd_manifest d) NowPlayingView \<and> has_role (rd_manifest d) Player)) of
             Inl r \<Rightarrow> r
           | Inr device \<Rightarrow>
               (case select_surface rq device t NowPlayingView of
                  Inl r \<Rightarrow> r
                | Inr surface \<Rightarrow>
                    (case Option.bind (rd_runtime_state device) rt_playback of
                       None \<Rightarrow> res_error StateUnavailable
                     | Some pb \<Rightarrow>
                         (case pb_station_id pb of
                            None \<Rightarrow> res_error StateUnavailable
                          | Some station_id \<Rightarrow>
                              if pb_status pb \<noteq> ''playing'' then res_error StateUnavailable
                              else plan_display rq device surface (PNowPlaying station_id station_id None))))))"

definition resolve_actuator ::
  "resolution_request \<Rightarrow> actuator_action \<Rightarrow> f64 option \<Rightarrow> actuator_target \<Rightarrow> resolution_result" where
  "resolve_actuator rq action v t =
     (case require_scope rq ActuatorControl of
        Inl e \<Rightarrow> ResError e
      | Inr _ \<Rightarrow>
          (case find (\<lambda>d. rd_device_id d = at_device_id t) (dp_devices (rr_directory rq)) of
             None \<Rightarrow> res_error IntForbidden
           | Some device \<Rightarrow>
               if \<not> rd_online device then res_error IntTargetOffline
               else
                 (case find (\<lambda>e. ent_id e = at_entity_id t) (man_entities (rd_manifest device)) of
                    None \<Rightarrow> res_error IntCapabilityNotSupported
                  | Some e \<Rightarrow>
                      let allowed = ent_controllable e \<and> action \<in> set (ent_allowed_commands e) \<and>
                            has_role (rd_manifest device) ActuatorRole \<and>
                            has_capability (rd_manifest device) (offers_actuator action);
                          x = (case v of None \<Rightarrow> Fin 0 | Some y \<Rightarrow> y)
                      in if \<not> allowed \<or> \<not> safe_actuator_entity e then res_error IntCapabilityNotSupported
                         else if action = SetValue \<and>
                                 (is_some_and (ent_minimum e) (\<lambda>lo. f64_less x lo) \<or>
                                  is_some_and (ent_maximum e) (\<lambda>hi. f64_less hi x))
                         then ResError (intent_invalid ''value'')
                         else ResConfirmation \<lparr>cf_target = \<lparr>tgt_device_id = at_device_id t,
                                  tgt_entity_id = Some (at_entity_id t), tgt_surface_id = None\<rparr>,
                                cf_action = action, cf_value = v\<rparr>)))"

definition resolve :: "(json \<Rightarrow> string) \<Rightarrow> resolution_request \<Rightarrow> user_intent \<Rightarrow> resolution_result" where
  "resolve show_value rq intent =
     (case user_intent_validate intent of
        Inl e \<Rightarrow> ResError e
      | Inr _ \<Rightarrow>
          if ra_user_id (rr_actor rq) \<noteq> dp_owner_id (rr_directory rq) then res_error IntForbidden
          else case intent of
              IntPlayRadio station_id t \<Rightarrow> resolve_radio rq station_id t
            | IntShowSensors t \<Rightarrow> resolve_sensors rq t
            | IntQuerySensor entity_id t \<Rightarrow> resolve_sensor_query show_value rq entity_id t
            | IntMedia action t \<Rightarrow> resolve_media rq action t
            | IntShowNowPlaying t \<Rightarrow> resolve_now_playing rq t
            | IntActuator action v t \<Rightarrow> resolve_actuator rq action v t)"

section \<open>What selection guarantees\<close>

text \<open>
  The selector of a request as a predicate: the explicit device, else the explicit surface, else
  the device of the request's current target, else anything.
\<close>

definition selected_by :: "resolution_request \<Rightarrow> intent_target option \<Rightarrow> resolver_device \<Rightarrow> bool" where
  "selected_by rq t d =
     (case Option.bind t it_device_id of
        Some i \<Rightarrow> rd_device_id d = i
      | None \<Rightarrow>
          (case Option.bind t it_surface_id of
             Some s \<Rightarrow> list_ex (\<lambda>x. sur_id x = s) (man_surfaces (rd_manifest d))
           | None \<Rightarrow> is_none_or (Option.bind (rc_current_target (rr_context rq)) ct_device_id) (\<lambda>i. rd_device_id d = i)))"

definition area_known :: "resolution_request \<Rightarrow> intent_target option \<Rightarrow> bool" where
  "area_known rq t \<longleftrightarrow> requested_area t = None \<or> Option.bind (requested_area t) (canonical_area_devices rq) \<noteq> None"

lemma filter_single: "filter p xs = [x] \<Longrightarrow> x \<in> set xs \<and> p x"
proof -
  assume "filter p xs = [x]"
  then have "x \<in> set (filter p xs)" by simp
  then show ?thesis by simp
qed

lemma choose_one_Inr: "choose_one cs code = Inr d \<longleftrightarrow> cs = [d]"
  by (auto simp: choose_one_def split: list.splits)

lemma choose_exact_Inr: "choose_exact rq cs i = Inr d \<longleftrightarrow> filter (\<lambda>x. rd_device_id x = i) cs = [d]"
  by (auto simp: choose_exact_def choose_one_Inr split: list.split)

lemma select_device_Inr:
  "select_device rq t cs = Inr d \<longleftrightarrow> area_known rq t \<and> filter (selected_by rq t) cs = [d]"
proof -
  have "filter (selected_by rq t) cs = filter (\<lambda>x. rd_device_id x = i) cs" if "Option.bind t it_device_id = Some i" for i
    by (rule filter_cong) (simp_all add: selected_by_def that)
  moreover have "filter (selected_by rq t) cs = cs"
    if "Option.bind t it_device_id = None" "Option.bind t it_surface_id = None"
      "Option.bind (rc_current_target (rr_context rq)) ct_device_id = None"
    using that by (simp add: selected_by_def)
  ultimately show ?thesis
    by (auto simp: select_device_def area_known_def choose_one_Inr choose_exact_Inr selected_by_def [abs_def]
        split: option.split)
qed

lemma selection_never_plans [simp]:
  "choose_one cs code \<noteq> Inl (ResPlan plan)" "choose_exact rq cs i \<noteq> Inl (ResPlan plan)"
  "select_device rq t cs \<noteq> Inl (ResPlan plan)" "select_surface rq d t view \<noteq> Inl (ResPlan plan)"
  "res_error e \<noteq> ResPlan plan"
proof -
  show one: "choose_one cs code \<noteq> Inl (ResPlan plan)" for cs code
    by (simp add: choose_one_def split: list.split)
  show exact: "choose_exact rq cs i \<noteq> Inl (ResPlan plan)" for cs i
    using one by (simp add: choose_exact_def res_error_def split: list.split)
  show "select_device rq t cs \<noteq> Inl (ResPlan plan)"
    using one exact by (simp add: select_device_def res_error_def split: option.split)
  show "select_surface rq d t view \<noteq> Inl (ResPlan plan)"
    by (simp add: select_surface_def res_error_def Let_def split: list.split)
qed (simp add: res_error_def)

lemma compatible_devices_set:
  "d \<in> set (compatible_devices rq t p) \<Longrightarrow> d \<in> set (dp_devices (rr_directory rq)) \<and> p d"
  by (auto simp: compatible_devices_def Let_def)

lemma selected_compatible:
  assumes "select_device rq t (compatible_devices rq t p) = Inr d"
  shows "d \<in> set (dp_devices (rr_directory rq))" "p d"
proof -
  from assms have "filter (selected_by rq t) (compatible_devices rq t p) = [d]" by (simp add: select_device_Inr)
  from filter_single [OF this] have "d \<in> set (compatible_devices rq t p)" ..
  then show "d \<in> set (dp_devices (rr_directory rq))" "p d" using compatible_devices_set by blast+
qed

lemma select_surface_Inr:
  assumes "select_surface rq d t view = Inr s"
  shows "s \<in> set (man_surfaces (rd_manifest d))" "sur_kind s = DisplayKind"
proof -
  let ?cs = "filter (\<lambda>s. is_none_or (opt_or (Option.bind t it_surface_id)
      (Option.bind (opt_filter (\<lambda>c. ct_device_id c = Some (rd_device_id d)) (rc_current_target (rr_context rq)))
        ct_surface_id)) (\<lambda>i. sur_id s = i))
      (filter (\<lambda>s. sur_kind s = DisplayKind \<and> view \<in> set (sur_views s)) (man_surfaces (rd_manifest d)))"
  from assms have "?cs = [s]" by (simp add: select_surface_def Let_def split: list.splits)
  then have "s \<in> set ?cs" by simp
  then show "s \<in> set (man_surfaces (rd_manifest d))" "sur_kind s = DisplayKind" by simp_all
qed

lemma find_key_unique:
  "distinct (map f xs) \<Longrightarrow> x \<in> set xs \<Longrightarrow> find (\<lambda>y. f y = f x) xs = Some x"
  by (induction xs) auto

section \<open>What a plan contains\<close>

text \<open>The command is one the router takes from an actor with these scopes, for this device.\<close>

definition router_accepts :: "resolution_request \<Rightarrow> device_command \<Rightarrow> resolver_device \<Rightarrow> bool" where
  "router_accepts rq c d \<longleftrightarrow>
     d \<in> set (dp_devices (rr_directory rq)) \<and> rd_online d \<and> tgt_device_id (cmd_target c) = rd_device_id d \<and>
     validate_at c (rr_received_at rq) = Ok () \<and> executable c = Ok () \<and>
     required_scope (cmd_body c) \<in> set (ra_scopes (rr_actor rq))"

lemma planned_command:
  assumes "c \<in> set (ip_commands (command_plan rq d None s body))" "body_validate body = Ok ()"
    and "d \<in> set (dp_devices (rr_directory rq))" "rd_online d" "\<And>n p. body \<noteq> Unknown n p"
    and "required_scope body \<in> set (ra_scopes (rr_actor rq))"
  shows "router_accepts rq c d \<and> cmd_body c = body \<and> tgt_surface_id (cmd_target c) = map_option sur_id s"
  using assms
  by (auto simp: router_accepts_def command_plan_def validate_at_Ok deadline_validate_Ok executable_Ok
      command_target_validate_def)

lemma resolve_radio_plan:
  assumes "resolve_radio rq sid t = ResPlan plan" "c \<in> set (ip_commands plan)" "bounded_id sid f = Ok ()"
  shows "\<exists>d. router_accepts rq c d \<and> cmd_body c = PlayStation sid \<and> has_role (rd_manifest d) Player"
proof -
  obtain d where d: "select_device rq t (compatible_devices rq t (\<lambda>d. rd_online d \<and> has_role (rd_manifest d) Player \<and>
        has_capability (rd_manifest d) is_station_capability)) = Inr d"
    and plan: "plan = command_plan rq d None None (PlayStation sid)" and scope: "require_scope rq MediaControl = Ok ()"
    using assms(1) by (auto simp: resolve_radio_def split: sum.splits)
  have "body_validate (PlayStation sid) = Ok ()"
    using assms(3) by (cases sid) (auto simp: bounded_def bounded_id_def MAX_INTENT_TEXT_def split: if_splits)
  then have "router_accepts rq c d \<and> cmd_body c = PlayStation sid"
    using planned_command [of c rq d None "PlayStation sid"] selected_compatible [OF d] scope assms(2) unfolding plan
    by (auto simp: require_scope_def split: if_splits)
  then show ?thesis using selected_compatible(2) [OF d] by blast
qed

lemma media_body_valid:
  "media_validate action = Ok () \<Longrightarrow> body_validate (media_command_body action) = Ok ()"
  by (cases action) (auto split: if_splits)

lemma media_body_scope: "required_scope (media_command_body action) = MediaControl"
  by (cases action) simp_all

lemma media_body_known: "media_command_body action \<noteq> Unknown n p"
  by (cases action) simp_all

lemma media_target:
  "media_supported m (media_command_body action) \<Longrightarrow> cmd_body c = media_command_body action \<Longrightarrow>
     validate_target c m = Ok ()"
  by (cases action) (simp_all add: media_supported_def validate_target_def require_role_capability_def has_role_def
      has_capability_def)

lemma resolve_media_plan:
  assumes "resolve_media rq action t = ResPlan plan" "c \<in> set (ip_commands plan)" "media_validate action = Ok ()"
  shows "\<exists>d. router_accepts rq c d \<and> validate_target c (rd_manifest d) = Ok ()"
proof -
  obtain d where d: "select_device rq t (compatible_devices rq t (\<lambda>d. rd_online d \<and>
        media_supported (rd_manifest d) (media_command_body action))) = Inr d"
    and plan: "plan = command_plan rq d None None (media_command_body action)" and scope: "require_scope rq MediaControl = Ok ()"
    using assms(1) by (auto simp: resolve_media_def Let_def split: sum.splits)
  have "router_accepts rq c d \<and> cmd_body c = media_command_body action"
    using planned_command [of c rq d None "media_command_body action"] selected_compatible [OF d] scope assms(2)
    unfolding plan
    by (auto simp: require_scope_def media_body_scope media_body_known media_body_valid [OF assms(3)] split: if_splits)
  then show ?thesis using selected_compatible(2) [OF d] media_target by blast
qed

lemma plan_display_plan:
  assumes "plan_display rq d s p = ResPlan plan" "c \<in> set (ip_commands plan)"
    and "d \<in> set (dp_devices (rr_directory rq))" "rd_online d" "DisplayControl \<in> set (ra_scopes (rr_actor rq))"
    and "s \<in> set (man_surfaces (rd_manifest d))" "sur_kind s = DisplayKind" "DisplaySurface \<in> set (man_roles (rd_manifest d))"
    and "manifest_validate (rd_manifest d) = Ok ()"
  shows "router_accepts rq c d \<and> validate_target c (rd_manifest d) = Ok () \<and> cmd_body c = Display p"
proof -
  have plan: "plan = with_presentation p (command_plan rq d None (Some s) (Display p))"
    and ok: "is_ok (presentation_validate p)" "presentation_supported (rd_manifest d) p"
    using assms(1) by (auto simp: plan_display_def res_error_def split: if_splits)
  have c: "router_accepts rq c d \<and> cmd_body c = Display p \<and> tgt_surface_id (cmd_target c) = map_option sur_id (Some s)"
    using assms ok unfolding plan
    by (intro planned_command) (auto simp: with_presentation_def is_ok_def split: sum.splits)
  moreover have "find (\<lambda>x. sur_id x = sur_id s) (man_surfaces (rd_manifest d)) = Some s"
    using assms(6,9) by (intro find_key_unique) (auto simp: manifest_validate_wf wf_manifest_def)
  ultimately show ?thesis
    using ok assms(7,8)
    by (simp add: validate_target_def validate_display_target_def presentation_supported_def has_capability_def)
qed

lemma display_plan:
  assumes "plan_display rq d s p = ResPlan plan" "c \<in> set (ip_commands plan)"
    and "select_device rq t (compatible_devices rq t q) = Inr d" "select_surface rq d t view = Inr s"
    and "\<And>x. q x \<Longrightarrow> rd_online x \<and> display_capable (rd_manifest x) view" "DisplayControl \<in> set (ra_scopes (rr_actor rq))"
    and "\<forall>x \<in> set (dp_devices (rr_directory rq)). manifest_validate (rd_manifest x) = Ok ()"
  shows "\<exists>d. router_accepts rq c d \<and> validate_target c (rd_manifest d) = Ok () \<and> cmd_body c = Display p"
  using plan_display_plan [OF assms(1,2)] selected_compatible [OF assms(3)] select_surface_Inr [OF assms(4)] assms(5-7)
  by (auto simp: display_capable_def has_role_def)

text \<open>What a radio plan may miss: the resolver takes any station source, the router needs the catalog.\<close>

definition lacks_catalog :: "resolver_device \<Rightarrow> device_command \<Rightarrow> bool" where
  "lacks_catalog d c \<longleftrightarrow>
     (\<exists>sid. cmd_body c = PlayStation sid) \<and>
     \<not> has_capability (rd_manifest d) (offers_station CATALOG_STATION_SOURCE)"

lemma plan_commands:
  assumes "resolve show_value rq intent = ResPlan plan" "c \<in> set (ip_commands plan)"
    and valid: "\<forall>x \<in> set (dp_devices (rr_directory rq)). manifest_validate (rd_manifest x) = Ok ()"
  shows "\<exists>d. router_accepts rq c d \<and> (validate_target c (rd_manifest d) = Ok () \<longleftrightarrow> \<not> lacks_catalog d c)"
proof -
  have v: "user_intent_validate intent = Ok ()"
    using assms(1) by (auto simp: resolve_def split: sum.splits)
  show ?thesis
  proof (cases intent)
    case (IntPlayRadio sid t)
    with assms(1) v have "resolve_radio rq sid t = ResPlan plan" "bounded_id sid ''station_id'' = Ok ()"
      by (auto simp: resolve_def and_then_Ok split: if_splits)
    from resolve_radio_plan [OF this(1) assms(2) this(2)] show ?thesis
      by (auto simp: validate_target_def require_role_capability_def lacks_catalog_def has_role_def has_capability_def)
  next
    case (IntShowSensors t)
    with assms(1) v obtain d s where
      "select_device rq t (compatible_devices rq t (\<lambda>d. rd_online d \<and> 0 < readable_sensor_count d \<and>
         display_capable (rd_manifest d) SensorGridView)) = Inr d" "select_surface rq d t SensorGridView = Inr s"
      "DisplayControl \<in> set (ra_scopes (rr_actor rq))" "\<exists>p. plan_display rq d s p = ResPlan plan"
      by (auto simp: resolve_def resolve_sensors_def require_scope_def split: if_splits sum.splits)
    with display_plan [of rq d s _ plan c t _ SensorGridView] assms(2) valid show ?thesis
      by (fastforce simp: lacks_catalog_def)
  next
    case (IntQuerySensor e t)
    with assms(1,2) v show ?thesis
      by (auto simp: resolve_def resolve_sensor_query_def Let_def split: if_splits sum.splits list.splits option.splits prod.splits)
  next
    case (IntMedia action t)
    with assms(1) v have "resolve_media rq action t = ResPlan plan" "media_validate action = Ok ()"
      by (auto simp: resolve_def and_then_Ok split: if_splits)
    from resolve_media_plan [OF this(1) assms(2) this(2)] obtain d
      where "router_accepts rq c d" "validate_target c (rd_manifest d) = Ok ()" by blast
    then show ?thesis
      by (auto simp: lacks_catalog_def validate_target_def require_role_capability_def has_capability_def
          intro!: exI [of _ d] split: if_splits)
  next
    case (IntShowNowPlaying t)
    with assms(1) v obtain d s where
      "select_device rq t (compatible_devices rq t (\<lambda>d. rd_online d \<and> display_capable (rd_manifest d) NowPlayingView \<and>
         has_role (rd_manifest d) Player)) = Inr d" "select_surface rq d t NowPlayingView = Inr s"
      "DisplayControl \<in> set (ra_scopes (rr_actor rq))" "\<exists>p. plan_display rq d s p = ResPlan plan"
      by (auto simp: resolve_def resolve_now_playing_def require_scope_def split: if_splits sum.splits option.splits)
    with display_plan [of rq d s _ plan c t _ NowPlayingView] assms(2) valid show ?thesis
      by (fastforce simp: lacks_catalog_def)
  next
    case (IntActuator action x t)
    with assms(1) v show ?thesis
      by (auto simp: resolve_def resolve_actuator_def Let_def split: if_splits sum.splits option.splits)
  qed
qed

text \<open>A confirmed actuator request is a command the router takes for the named entity.\<close>

definition confirmed_command :: "resolution_request \<Rightarrow> confirmation \<Rightarrow> device_command" where
  "confirmed_command rq cf =
     \<lparr>cmd_id = rr_command_id rq, cmd_target = cf_target cf, cmd_deadline_at = None,
      cmd_body = Actuator (cf_action cf) (cf_value cf)\<rparr>"

lemma actuator_values:
  "user_intent_validate (IntActuator action v t) = Ok () \<Longrightarrow> actuator_validate action v = Ok ()"
  by (cases action; cases v) (auto simp: and_then_Ok split: if_splits)

lemma find_member: "find p xs = Some x \<Longrightarrow> x \<in> set xs \<and> p x"
  by (auto simp: find_Some_iff)

lemma resolve_media_exact:
  "resolve show_value rq (IntMedia action t) = ResPlan plan \<longleftrightarrow>
     user_intent_validate (IntMedia action t) = Ok () \<and> ra_user_id (rr_actor rq) = dp_owner_id (rr_directory rq) \<and>
     MediaControl \<in> set (ra_scopes (rr_actor rq)) \<and> area_known rq t \<and>
     (\<exists>d. filter (selected_by rq t) (compatible_devices rq t (\<lambda>d. rd_online d \<and>
             media_supported (rd_manifest d) (media_command_body action))) = [d] \<and>
          plan = command_plan rq d None None (media_command_body action))"
proof -
  have "resolve_media rq action t = ResPlan plan \<longleftrightarrow>
      MediaControl \<in> set (ra_scopes (rr_actor rq)) \<and>
      (\<exists>d. select_device rq t (compatible_devices rq t (\<lambda>d. rd_online d \<and>
             media_supported (rd_manifest d) (media_command_body action))) = Inr d \<and>
          plan = command_plan rq d None None (media_command_body action))"
    by (auto simp: resolve_media_def require_scope_def Let_def split: sum.splits)
  then show ?thesis
    by (auto simp: resolve_def select_device_Inr split: sum.splits simp del: user_intent_validate.simps)
qed

section \<open>Properties\<close>


definition example_resolver_device :: resolver_device where
  "example_resolver_device =
     \<lparr>rd_device_id = 3, rd_display_name = ''Kitchen'', rd_device_type = ''player'', rd_manifest = ac_manifest example_player,
      rd_online = True, rd_runtime_state = None, rd_entity_states = []\<rparr>"

definition example_resolution :: resolution_request where
  "example_resolution =
     \<lparr>rr_actor = \<lparr>ra_user_id = 5, ra_scopes = [MediaControl]\<rparr>,
      rr_directory = \<lparr>dp_owner_id = 5, dp_devices = [example_resolver_device]\<rparr>, rr_command_id = 7,
      rr_received_at = example_timestamp 0,
      rr_context = \<lparr>rc_current_target = None, rc_canonical_areas = []\<rparr>\<rparr>"

lemmas example_resolution_simps =
  resolve_def resolve_media_def require_scope_def select_device_def requested_area_def compatible_devices_def
  choose_one_def media_supported_def has_role_def has_capability_def intent_target_validate_def

lemma example_pause:
  "resolve show_value example_resolution (IntMedia MiPause None) =
     ResPlan (command_plan example_resolution example_resolver_device None None (Playback ''pause''))"
  by (simp add: example_resolution_simps example_resolution_def example_resolver_device_def example_player_def
      example_manifest_def)

lemma example_player_valid: "manifest_validate (ac_manifest example_player) = Ok ()"
  unfolding manifest_validate_wf
  by (simp add: wf_manifest_def wf_capabilities_def example_player_def example_manifest_def list_within_Ok)


text \<open>A media intent becomes a plan exactly when it is valid, the directory is the actor's, the
  scope is held, a requested area is mapped, and one compatible online device, not more, satisfies
  the selector; the plan then holds the one command to that device. Nothing is broadcast.\<close>

theorem media_plan_exact:
  "resolve show_value rq (IntMedia action t) = ResPlan plan \<longleftrightarrow>
     user_intent_validate (IntMedia action t) = Ok () \<and> ra_user_id (rr_actor rq) = dp_owner_id (rr_directory rq) \<and>
     MediaControl \<in> set (ra_scopes (rr_actor rq)) \<and> area_known rq t \<and>
     (\<exists>d. filter (selected_by rq t) (compatible_devices rq t (\<lambda>d. rd_online d \<and>
             media_supported (rd_manifest d) (media_command_body action))) = [d] \<and>
          plan = command_plan rq d None None (media_command_body action))"
  by (rule resolve_media_exact)

text \<open>C36: an actuator intent never becomes a plan; what it offers for confirmation targets the named
  entity of an online device of the actor, and the confirmed command passes the router's checks.\<close>

theorem actuator_only_confirmed:
  assumes "resolve show_value rq (IntActuator action v t) = ResConfirmation cf"
  shows "(\<exists>d. router_accepts rq (confirmed_command rq cf) d \<and>
      validate_target (confirmed_command rq cf) (rd_manifest d) = Ok ()) \<and>
    (\<forall>plan rq' a x t'. resolve show_value rq' (IntActuator a x t') \<noteq> ResPlan plan)"
proof
  have v: "user_intent_validate (IntActuator action v t) = Ok ()"
    and r: "resolve_actuator rq action v t = ResConfirmation cf"
    using assms by (auto simp: resolve_def res_error_def split: sum.splits if_splits)
  obtain d e where d: "find (\<lambda>d. rd_device_id d = at_device_id t) (dp_devices (rr_directory rq)) = Some d"
    and e: "find (\<lambda>e. ent_id e = at_entity_id t) (man_entities (rd_manifest d)) = Some e"
    and rest: "rd_online d" "ActuatorControl \<in> set (ra_scopes (rr_actor rq))" "ent_controllable e"
      "ActuatorRole \<in> set (man_roles (rd_manifest d))" "list_ex (offers_actuator action) (caps_items (man_capabilities (rd_manifest d)))"
      "cf = \<lparr>cf_target = \<lparr>tgt_device_id = at_device_id t, tgt_entity_id = Some (at_entity_id t), tgt_surface_id = None\<rparr>,
             cf_action = action, cf_value = v\<rparr>"
      "action = SetValue \<Longrightarrow> \<not> is_some_and v (\<lambda>x. is_some_and (ent_minimum e) (\<lambda>lo. f64_less x lo) \<or>
          is_some_and (ent_maximum e) (\<lambda>hi. f64_less hi x))"
    using r by (auto simp: resolve_actuator_def res_error_def require_scope_def has_role_def has_capability_def Let_def
        is_some_and_def split: sum.splits option.splits if_splits)
  have "router_accepts rq (confirmed_command rq cf) d"
    using find_member [OF d] rest actuator_values [OF v]
    by (auto simp: router_accepts_def confirmed_command_def validate_at_Ok deadline_validate_Ok executable_Ok
        command_target_validate_def)
  moreover have "validate_target (confirmed_command rq cf) (rd_manifest d) = Ok ()"
    using e rest by (auto simp: validate_target_def validate_actuator_target_def confirmed_command_def)
  ultimately show "\<exists>d. router_accepts rq (confirmed_command rq cf) d \<and>
      validate_target (confirmed_command rq cf) (rd_manifest d) = Ok ()" by blast
  show "\<forall>plan rq' a x t'. resolve show_value rq' (IntActuator a x t') \<noteq> ResPlan plan"
    by (auto simp: resolve_def resolve_actuator_def Let_def split: sum.splits option.splits)
qed

definition example_lamp_resolution :: resolution_request where
  "example_lamp_resolution =
     example_resolution\<lparr>rr_actor := \<lparr>ra_user_id = 5, ra_scopes = [ActuatorControl]\<rparr>,
       rr_directory := \<lparr>dp_owner_id = 5, dp_devices = [example_resolver_device\<lparr>rd_manifest :=
         \<lparr>man_revision = 1, man_roles = [ActuatorRole],
          man_capabilities = \<lparr>caps_revision = 1, caps_items = [CapActuator [TurnOn]]\<rparr>,
          man_entities = [(example_entity ''Lamp'')\<lparr>ent_domain := Light, ent_controllable := True,
            ent_allowed_commands := [TurnOn]\<rparr>], man_surfaces = []\<rparr>\<rparr>]\<rparr>\<rparr>"

theorem actuator_only_confirmed_witness:
  "\<exists>cf (d :: resolver_device). resolve (\<lambda>_. []) example_lamp_resolution (IntActuator TurnOn None
       \<lparr>at_device_id = 3, at_entity_id = ''room.lamp''\<rparr>) = ResConfirmation cf \<and>
     validate_target (confirmed_command example_lamp_resolution cf) (rd_manifest d) = Ok ()"
proof -
  have "\<exists>cf. resolve (\<lambda>_. []) example_lamp_resolution (IntActuator TurnOn None
       \<lparr>at_device_id = 3, at_entity_id = ''room.lamp''\<rparr>) = ResConfirmation cf"
    by (simp add: resolve_def resolve_actuator_def require_scope_def has_role_def has_capability_def safe_actuator_entity_def
        example_lamp_resolution_def example_resolution_def example_resolver_device_def example_entity_def bounded_id_def
        MAX_INTENT_TEXT_def)
  then show ?thesis using actuator_only_confirmed by blast
qed

end
