(* ===== verification/Voice_Device.thy ===== *)
theory Voice_Device
  imports Intent Control_Session Personal_Sync
begin

text \<open>
  The end of a device voice session (\<open>src/src/http/voice/device.rs\<close>): the admission of a voice
  surface, the mapping of a classified utterance to a media intent for the speaking device itself,
  its resolution and submission to the command router, the wait for the terminal result, and the
  favourite branch over the personal-data store. The classifier's answer, the search branch and the
  clock are parameters; the answers of the polled store come as a list.
\<close>

section \<open>Voice commands\<close>

datatype voice_intent =
    VPlayRadio | VStop | VResume | VNextStation | VPreviousStation | VVolumeChange | VSetVolume | VAddFavorite | VUnknown

record radio_query =
  rq_genres :: "string list"
  rq_moods :: "string list"
  rq_similar_to :: "string option"
  rq_language :: "string option"
  rq_country_code :: "string option"

record voice_command =
  vc_intent :: voice_intent
  vc_query :: "radio_query option"
  vc_volume_delta :: "i8 option"
  vc_volume_level :: "u8 option"

datatype voice_stream_error_code =
    VeProtocolError | VeValidationFailed | VeSpeechProviderUnavailable | VeSpeechProviderError | VeSpeechTimeout
  | VeSpeechNotRecognized | VeVoiceTimeout | VeAudioChunkInvalid | VeAudioTooLarge | VeCancelled
  | VeIntentResolutionFailed | VeUnsupportedIntent | VeClarificationRequired | VeStationNotFound | VeSearchTimeout
  | VeSearchUnavailable | VeTargetOffline | VeCapabilityNotSupported | VeFavouriteLimitExceeded | VeForbidden
  | VeInvalidPayload | VeCommandTimeout | VeDuplicateCommand | VeTooManyInFlight | VePersistenceUnavailable
  | VeInternalError

type_synonym voice_error = "voice_stream_error_code \<times> string"

section \<open>Admission of the surface\<close>

fun takes_pcm :: "device_capability \<Rightarrow> bool" where
  "takes_pcm (CapVoiceInput formats) = (''pcm16_mono_16000'' \<in> set formats)"
| "takes_pcm _ = False"

definition validate_device_voice_start ::
  "registry_state \<Rightarrow> control_principal \<Rightarrow> string option \<Rightarrow> voice_error + unit" where
  "validate_device_voice_start r p surface_id =
     (if surface_id \<noteq> Some ''voice.main''
      then Err (VeValidationFailed, ''A device voice session requires the voice.main surface.'')
      else
        and_then (ok_or (VeTargetOffline, ''The source device is offline.'')
          (active_for r (cp_user_id p) (cp_device_id p))) (\<lambda>a.
        let m = ad_manifest a;
            voice_surface = list_ex (\<lambda>s. sur_id s = ''voice.main'' \<and> sur_kind s = VoiceKind) (man_surfaces m);
            voice_input = list_ex takes_pcm (caps_items (man_capabilities m))
        in if VoiceEndpoint \<notin> set (man_roles m) \<or> \<not> voice_surface \<or> \<not> voice_input
           then Err (VeCapabilityNotSupported, ''The source device does not support this voice surface.'')
           else Ok ()))"

section \<open>From an utterance to a command\<close>

definition device_user_intent :: "voice_command \<Rightarrow> device_id \<Rightarrow> voice_error + user_intent" where
  "device_user_intent c device_id =
     (let t = Some \<lparr>it_device_id = Some device_id, it_surface_id = None, it_area_id = None\<rparr>
      in case vc_intent c of
           VStop \<Rightarrow> Ok (IntMedia MiStop t)
         | VResume \<Rightarrow> Ok (IntMedia MiPlay t)
         | VNextStation \<Rightarrow> Ok (IntMedia MiNext t)
         | VPreviousStation \<Rightarrow> Ok (IntMedia MiPrevious t)
         | VVolumeChange \<Rightarrow>
             (case vc_volume_delta c of
                Some delta \<Rightarrow> Ok (IntMedia (MiChangeVolume delta) t)
              | None \<Rightarrow> Err (VeInvalidPayload, ''The volume command is invalid.''))
         | VSetVolume \<Rightarrow>
             (case vc_volume_level c of
                Some level \<Rightarrow> Ok (IntMedia (MiSetVolume level) t)
              | None \<Rightarrow> Err (VeInvalidPayload, ''The volume command is invalid.''))
         | _ \<Rightarrow> Err (VeUnsupportedIntent, ''This voice intent is not supported.''))"

fun map_intent_error :: "intent_error_code \<Rightarrow> voice_error" where
  "map_intent_error IntTargetOffline = (VeTargetOffline, ''The target device is offline.'')"
| "map_intent_error IntCapabilityNotSupported = (VeCapabilityNotSupported, ''The target does not support this command.'')"
| "map_intent_error IntForbidden = (VeForbidden, ''The voice command is not permitted.'')"
| "map_intent_error InvalidIntent = (VeInvalidPayload, ''The voice command is invalid.'')"
| "map_intent_error StateUnavailable = (VeUnsupportedIntent, ''This voice intent is not supported.'')"
| "map_intent_error UnsupportedSelector = (VeUnsupportedIntent, ''This voice intent is not supported.'')"

definition map_command_error :: "string \<Rightarrow> voice_error" where
  "map_command_error code =
     (if code = ''target_offline'' then (VeTargetOffline, ''The target device is offline.'')
      else if code = ''capability_not_supported'' then (VeCapabilityNotSupported, ''The target does not support this command.'')
      else if code = ''forbidden'' then (VeForbidden, ''The voice command is not permitted.'')
      else if code = ''invalid_payload'' then (VeInvalidPayload, ''The device command is invalid.'')
      else if code = ''command_timeout'' then (VeCommandTimeout, ''The device command timed out.'')
      else if code = ''duplicate_command'' then (VeDuplicateCommand, ''The device command could not be admitted.'')
      else if code = ''too_many_in_flight'' then (VeTooManyInFlight, ''The device is busy.'')
      else if code = ''persistence_unavailable'' then (VePersistenceUnavailable, ''Voice command state is temporarily unavailable.'')
      else (VeInternalError, ''The voice command could not be executed.''))"

definition voice_resolution_request ::
  "timestamp \<Rightarrow> control_principal \<Rightarrow> string option \<Rightarrow> command_id \<Rightarrow> active_device \<Rightarrow> state_hub \<Rightarrow> resolution_request" where
  "voice_resolution_request received_at p surface_id command_id a hub =
     \<lparr>rr_actor = \<lparr>ra_user_id = cp_user_id p, ra_scopes = ad_scopes a\<rparr>,
      rr_directory = \<lparr>dp_owner_id = cp_user_id p,
        dp_devices = [\<lparr>rd_device_id = cp_device_id p, rd_display_name = ''Voice device'', rd_device_type = ''device'',
          rd_manifest = ad_manifest a, rd_online = True,
          rd_runtime_state = map_option snap_state (hub_device_state hub (cp_user_id p) (cp_device_id p)),
          rd_entity_states = []\<rparr>]\<rparr>,
      rr_command_id = command_id, rr_received_at = received_at,
      rr_context = \<lparr>rc_current_target = Some \<lparr>ct_device_id = Some (cp_device_id p), ct_surface_id = surface_id\<rparr>,
        rc_canonical_areas = []\<rparr>\<rparr>"

definition voice_device_command ::
  "(json \<Rightarrow> string) \<Rightarrow> timestamp \<Rightarrow> control_principal \<Rightarrow> string option \<Rightarrow> command_id \<Rightarrow> voice_command \<Rightarrow>
     registry_state \<Rightarrow> state_hub \<Rightarrow> voice_error + (active_device \<times> device_command)" where
  "voice_device_command show_value received_at p surface_id command_id c r hub =
     and_then (device_user_intent c (cp_device_id p)) (\<lambda>intent.
     and_then (ok_or (VeTargetOffline, ''The target device is offline.'')
       (active_for r (cp_user_id p) (cp_device_id p))) (\<lambda>a.
     case resolve show_value (voice_resolution_request received_at p surface_id command_id a hub) intent of
       ResPlan plan \<Rightarrow>
         (case ip_commands plan of
            [command] \<Rightarrow> Ok (a, command)
          | _ \<Rightarrow> Err (VeInternalError, ''The voice command could not be executed.''))
     | ResClarification _ \<Rightarrow> Err (VeClarificationRequired, ''The voice command needs clarification.'')
     | ResConfirmation _ \<Rightarrow> Err (VeUnsupportedIntent, ''This voice intent is not supported.'')
     | ResError e \<Rightarrow> Err (map_intent_error (ie_code e))))"

definition voice_submitter :: "control_principal \<Rightarrow> active_device \<Rightarrow> string \<Rightarrow> submitter" where
  "voice_submitter p a request_id =
     \<lparr>sub_owner = cp_user_id p, sub_device = cp_device_id p, sub_connection = ad_connection_id a,
      sub_request_id = request_id\<rparr>"

text \<open>Submission; on success the command whose terminal result is then polled.\<close>

definition voice_submit ::
  "'s router_env \<Rightarrow> (json \<Rightarrow> string) \<Rightarrow> instant \<Rightarrow> instant \<Rightarrow> control_principal \<Rightarrow> string \<Rightarrow> string option \<Rightarrow>
     command_id \<Rightarrow> voice_command \<Rightarrow> 's control_system \<Rightarrow> 's control_system \<times> (voice_error + device_id)" where
  "voice_submit env show_value now later p request_id surface_id command_id c sys =
     (case voice_device_command show_value (server_timestamp env now) p surface_id command_id c (sys_registry sys)
             (sys_hub sys) of
        Inl e \<Rightarrow> (sys, Err e)
      | Inr (a, command) \<Rightarrow>
          (case in_world (submit env now later (voice_submitter p a request_id) command) sys of
             (sys', Inl code) \<Rightarrow> (sys', Err (map_command_error code))
           | (sys', Inr _) \<Rightarrow>
               if env_ops env = None
               then (sys', Err (VePersistenceUnavailable, ''Voice command state is temporarily unavailable.''))
               else (sys', Ok (tgt_device_id (cmd_target command)))))"

text \<open>The answers of the store while the 31 seconds last.\<close>

fun poll_result :: "(store_error + command_lifecycle option) list \<Rightarrow> voice_error + command_status" where
  "poll_result [] = Err (VeCommandTimeout, ''The device command timed out.'')"
| "poll_result (Inl _ # answers) = Err (VePersistenceUnavailable, ''Voice command state is temporarily unavailable.'')"
| "poll_result (Inr None # answers) = poll_result answers"
| "poll_result (Inr (Some lifecycle) # answers) =
     (case lc_result lifecycle of None \<Rightarrow> poll_result answers | Some res \<Rightarrow> Ok (res_status res))"

section \<open>Favourites\<close>

definition current_station_id :: "state_hub \<Rightarrow> user_id \<Rightarrow> device_id \<Rightarrow> string option" where
  "current_station_id hub u d =
     opt_filter (\<lambda>s. s \<noteq> []) (Option.bind (Option.bind (hub_device_state hub u d) (\<lambda>snap. rt_playback (snap_state snap)))
       pb_station_id)"

definition is_live_favourite :: "string \<Rightarrow> favourite_record list \<Rightarrow> bool" where
  "is_live_favourite station_id = list_ex (\<lambda>r. fr_deleted_at r = None \<and> fr_station_id r = Some station_id)"

definition empty_sync :: sync_request where
  "empty_sync = \<lparr>sq_since_revision = 0, sq_favourites = \<lparr>cc_upserts = [], cc_deletes = []\<rparr>,
     sq_history = \<lparr>cc_upserts = [], cc_deletes = []\<rparr>\<rparr>"

definition favourite_sync :: "revision \<Rightarrow> favourite_upsert \<Rightarrow> sync_request" where
  "favourite_sync since up = \<lparr>sq_since_revision = since, sq_favourites = \<lparr>cc_upserts = [up], cc_deletes = []\<rparr>,
     sq_history = \<lparr>cc_upserts = [], cc_deletes = []\<rparr>\<rparr>"

text \<open>The store's \<open>synchronize\<close> at its two calls, the fresh record id and the server's time.\<close>

definition add_favourite_voice ::
  "(user_id \<Rightarrow> sync_request \<Rightarrow> 'p \<Rightarrow> 'p \<times> (personal_data_error + sync_outcome)) option \<Rightarrow> record_id \<Rightarrow> timestamp \<Rightarrow>
     control_principal \<Rightarrow> state_hub \<Rightarrow> 'p \<Rightarrow> 'p \<times> (voice_error + command_status)" where
  "add_favourite_voice store record_id now p hub db =
     (case store of
        None \<Rightarrow> (db, Err (VePersistenceUnavailable, ''Favourite state is temporarily unavailable.''))
      | Some synchronize \<Rightarrow>
          (case current_station_id hub (cp_user_id p) (cp_device_id p) of
             None \<Rightarrow> (db, Err (VeStationNotFound, ''No station is currently playing.''))
           | Some station_id \<Rightarrow>
               (case synchronize (cp_user_id p) empty_sync db of
                  (db1, Inl _) \<Rightarrow> (db1, Err (VePersistenceUnavailable, ''Favourite state is temporarily unavailable.''))
                | (db1, Inr snapshot) \<Rightarrow>
                    if is_live_favourite station_id (so_favourites snapshot) then (db1, Ok Succeeded)
                    else
                      (case synchronize (cp_user_id p) (favourite_sync (so_server_revision snapshot)
                              \<lparr>fu_record_id = record_id, fu_station_id = station_id, fu_added_at = now,
                               fu_updated_at = now\<rparr>) db1 of
                         (db2, Inr outcome) \<Rightarrow>
                           (db2, if is_live_favourite station_id (so_favourites outcome) then Ok Succeeded
                                 else Err (VeInternalError, ''The favourite could not be confirmed.''))
                       | (db2, Inl FavouriteLimitExceeded) \<Rightarrow>
                           (db2, Err (VeFavouriteLimitExceeded, ''The account favourites limit was reached.''))
                       | (db2, Inl _) \<Rightarrow>
                           (db2, Err (VePersistenceUnavailable, ''Favourite state is temporarily unavailable.''))))))"

section \<open>The end of a session\<close>

datatype voice_reply = VrSearch | VrError voice_error | VrResult command_status voice_intent | VrAwait device_id

record ('s, 'p) voice_world =
  vw_system :: "'s control_system"
  vw_personal :: 'p

definition finish_device_voice ::
  "'s router_env \<Rightarrow> (json \<Rightarrow> string) \<Rightarrow>
     (user_id \<Rightarrow> sync_request \<Rightarrow> 'p \<Rightarrow> 'p \<times> (personal_data_error + sync_outcome)) option \<Rightarrow>
     record_id \<Rightarrow> timestamp \<Rightarrow> instant \<Rightarrow> instant \<Rightarrow> control_principal \<Rightarrow> string \<Rightarrow> string option \<Rightarrow> command_id \<Rightarrow>
     voice_command option \<Rightarrow> ('s, 'p) voice_world \<Rightarrow> ('s, 'p) voice_world \<times> voice_reply" where
  "finish_device_voice env show_value store record_id stamp now later p request_id surface_id command_id interpreted w =
     (case interpreted of
        None \<Rightarrow> (w, VrError (VeIntentResolutionFailed, ''The voice intent could not be resolved.''))
      | Some c \<Rightarrow>
          if vc_intent c = VAddFavorite then
            (case add_favourite_voice store record_id stamp p (sys_hub (vw_system w)) (vw_personal w) of
               (db, Inl e) \<Rightarrow> (w\<lparr>vw_personal := db\<rparr>, VrError e)
             | (db, Inr st) \<Rightarrow> (w\<lparr>vw_personal := db\<rparr>, VrResult st VAddFavorite))
          else if vc_intent c = VPlayRadio then (w, VrSearch)
          else
            (case voice_submit env show_value now later p request_id surface_id command_id c (vw_system w) of
               (sys, Inl e) \<Rightarrow> (w\<lparr>vw_system := sys\<rparr>, VrError e)
             | (sys, Inr target) \<Rightarrow> (w\<lparr>vw_system := sys\<rparr>, VrAwait target)))"

definition finish_waiting ::
  "voice_intent \<Rightarrow> (store_error + command_lifecycle option) list \<Rightarrow> voice_reply" where
  "finish_waiting intent answers = (case poll_result answers of Inl e \<Rightarrow> VrError e | Inr st \<Rightarrow> VrResult st intent)"

section \<open>What a voice command is\<close>

lemma device_user_intent_media:
  "device_user_intent c d = Inr intent \<Longrightarrow>
     \<exists>action. intent = IntMedia action (Some \<lparr>it_device_id = Some d, it_surface_id = None, it_area_id = None\<rparr>)"
  by (auto simp: device_user_intent_def Let_def split: voice_intent.splits option.splits)

lemma voice_device_command_Inr:
  assumes "voice_device_command show_value t p surface_id cid c r hub = Inr (a, command)"
  obtains action where "active_for r (cp_user_id p) (cp_device_id p) = Some a" "media_validate action = Ok ()"
    "media_supported (ad_manifest a) (media_command_body action)" "MediaControl \<in> set (ad_scopes a)"
    "command = \<lparr>cmd_id = cid, cmd_target = \<lparr>tgt_device_id = cp_device_id p, tgt_entity_id = None, tgt_surface_id = None\<rparr>,
       cmd_deadline_at = None, cmd_body = media_command_body action\<rparr>"
proof -
  let ?rq = "voice_resolution_request t p surface_id cid a hub"
  obtain intent b where intent: "device_user_intent c (cp_device_id p) = Inr intent"
    and b: "active_for r (cp_user_id p) (cp_device_id p) = Some b"
    and res: "(case resolve show_value (voice_resolution_request t p surface_id cid b hub) intent of
       ResPlan plan \<Rightarrow> (case ip_commands plan of [command] \<Rightarrow> Ok (b, command)
          | _ \<Rightarrow> Err (VeInternalError, ''The voice command could not be executed.''))
     | ResClarification _ \<Rightarrow> Err (VeClarificationRequired, ''The voice command needs clarification.'')
     | ResConfirmation _ \<Rightarrow> Err (VeUnsupportedIntent, ''This voice intent is not supported.'')
     | ResError e \<Rightarrow> Err (map_intent_error (ie_code e))) = Inr (a, command)"
    using assms unfolding voice_device_command_def and_then_Ok ok_or_Ok by blast
  obtain plan where "resolve show_value (voice_resolution_request t p surface_id cid b hub) intent = ResPlan plan"
    "ip_commands plan = [command]" "b = a"
    using res by (auto split: resolution_result.splits list.splits)
  then obtain action where a: "active_for r (cp_user_id p) (cp_device_id p) = Some a"
    and plan: "resolve show_value ?rq (IntMedia action (Some \<lparr>it_device_id = Some (cp_device_id p), it_surface_id = None,
        it_area_id = None\<rparr>)) = ResPlan plan" and c: "ip_commands plan = [command]"
    using b device_user_intent_media [OF intent] by blast
  let ?t = "Some \<lparr>it_device_id = Some (cp_device_id p), it_surface_id = None, it_area_id = None\<rparr>"
  let ?cs = "compatible_devices ?rq ?t (\<lambda>d. rd_online d \<and> media_supported (rd_manifest d) (media_command_body action))"
  from plan obtain d where d: "filter (selected_by ?rq ?t) ?cs = [d]"
    and rest: "plan = command_plan ?rq d None None (media_command_body action)"
    and ok: "user_intent_validate (IntMedia action ?t) = Ok ()" and scope: "MediaControl \<in> set (ra_scopes (rr_actor ?rq))"
    unfolding resolve_media_exact by blast
  have "media_validate action = Ok ()" using ok by (simp add: and_then_Ok)
  moreover have "MediaControl \<in> set (ad_scopes a)" using scope by (simp add: voice_resolution_request_def)
  moreover have "d \<in> set ?cs" using filter_single [OF d] by blast
  from compatible_devices_set [OF this]
  have "rd_device_id d = cp_device_id p \<and> media_supported (ad_manifest a) (media_command_body action)"
    by (auto simp: voice_resolution_request_def)
  ultimately show thesis
    using a rest c by (intro that [of action]) (simp_all add: command_plan_def voice_resolution_request_def)
qed

section \<open>What a favourite is\<close>

lemma amap_insert_subset: "set (amap_insert k v m) \<subseteq> insert (k, v) (set m)"
  by (induction k v m rule: amap_insert.induct) auto

lemma select_rows_origin:
  "(rid, row) \<in> set (fst (select_rows since pushed rv rows (sel, cur))) \<Longrightarrow> (rid, row) \<in> set rows \<union> set sel"
proof (induction rows arbitrary: sel cur)
  case (Cons x rows)
  obtain k v where x: "x = (k, v)" by (cases x)
  from Cons.IH Cons.prems show ?case using amap_insert_subset [of k v sel] by (fastforce simp: x split: if_splits)
qed simp

lemma delta_origin:
  "row \<in> set (fst (delta_and_echo rows since pushed rv)) \<Longrightarrow> \<exists>rid. (rid, row) \<in> set rows"
  using select_rows_origin [of _ row since pushed rv rows "[]" since]
  by (force simp: delta_and_echo_def Let_def split: prod.splits)

lemma favourite_from_row_fst: "favourite_from_row env (k, x) = Ok y \<Longrightarrow> fst y = k"
  by (auto simp: favourite_from_row_def and_then_Ok)

text \<open>A live record of an answer is a live row of the account.\<close>

lemma answered_favourite:
  assumes "sync_answer env u rq db = Ok out" "is_live_favourite station_id (so_favourites out)"
  shows "\<exists>rid row. ((u, rid), row) \<in> set (pd_favourites db) \<and> pf_station_id row = Some station_id \<and> pf_deleted_at row = None"
proof -
  obtain favs where favs: "collect_ok (favourite_from_row env) (owned_rows u (pd_favourites db)) = Ok favs"
    and out: "so_favourites out = fst (delta_and_echo favs (sq_since_revision rq) (set (favourite_record_ids rq)) fr_sync_revision)"
    using assms(1) by (auto simp: sync_answer_def and_then_Ok Let_def split_beta)
  from assms(2) obtain r where r: "r \<in> set (so_favourites out)" "fr_deleted_at r = None" "fr_station_id r = Some station_id"
    by (auto simp: is_live_favourite_def list_ex_iff)
  with out delta_origin obtain rid where "(rid, r) \<in> set favs" by metis
  then obtain row where row: "(rid, row) \<in> set (owned_rows u (pd_favourites db))" "favourite_from_row env (rid, row) = Ok (rid, r)"
    using collect_ok_rows(3) [OF favs, of rid r] favourite_from_row_fst [of env] by blast
  from row(1) have "((u, rid), row) \<in> set (pd_favourites db)" by (auto simp: owned_rows_def)
  moreover from row(2) r have "pf_station_id row = Some station_id" "pf_deleted_at row = None"
    by (auto simp: favourite_from_row_def pg_optional_instant_def and_then_Ok split: option.splits)
  ultimately show ?thesis by blast
qed

lemma synced_answer: "pg_synchronize env now u rq db = (db', Ok out) \<Longrightarrow> sync_answer env u rq db' = Ok out"
  by (auto simp: pg_synchronize_def split: sum.splits prod.splits if_splits)

lemma empty_sync_keeps: "fst (pg_synchronize env now u empty_sync db) = db"
  by (simp add: pg_synchronize_def empty_sync_def sync_statements_def then_do_def when_do_def split: sum.split)

section \<open>Properties\<close>


definition example_stop :: voice_command where
  "example_stop = \<lparr>vc_intent = VStop, vc_query = None, vc_volume_delta = None, vc_volume_level = None\<rparr>"

definition example_speaker :: active_connection where
  "example_speaker = example_player\<lparr>ac_manifest := example_manifest [Player, Controller] [CapPlayback [''stop'']],
     ac_scopes := [MediaControl]\<rparr>"

definition example_voice_world :: "control_db router_world" where
  "example_voice_world = example_world\<lparr>rw_registry := empty_registry\<lparr>active := [(3, example_speaker)]\<rparr>\<rparr>"

lemma example_voice_command:
  "\<exists>a command. voice_device_command (\<lambda>_. []) (example_timestamp 0) \<lparr>cp_user_id = 5, cp_device_id = 3\<rparr> (Some ''voice.main'') 8
     example_stop (rw_registry example_voice_world) empty_hub = Inr (a, command)"
  by (simp add: voice_device_command_def device_user_intent_def example_stop_def example_voice_world_def active_for_def
      example_speaker_def example_player_def example_manifest_def voice_resolution_request_def choose_exact_def
      example_resolution_simps command_plan_def)


text \<open>A spoken favourite is confirmed only when the account then has a live row for the station the
  device reports, and when it had one that the first read showed, nothing is written.\<close>

theorem favourite_confirmed:
  assumes "add_favourite_voice (Some (pg_synchronize env now)) rid stamp p hub db = (db', Ok status)"
  shows "status = Succeeded \<and>
    (\<exists>station_id rid' row. current_station_id hub (cp_user_id p) (cp_device_id p) = Some station_id \<and>
       ((cp_user_id p, rid'), row) \<in> set (pd_favourites db') \<and> pf_station_id row = Some station_id \<and>
       pf_deleted_at row = None \<and>
       (\<forall>out. snd (pg_synchronize env now (cp_user_id p) empty_sync db) = Ok out \<longrightarrow>
          is_live_favourite station_id (so_favourites out) \<longrightarrow> db' = db))"
proof -
  let ?u = "cp_user_id p"
  obtain st where st: "current_station_id hub ?u (cp_device_id p) = Some st"
    using assms by (auto simp: add_favourite_voice_def split: option.splits)
  obtain out where first: "pg_synchronize env now ?u empty_sync db = (db, Ok out)"
    using assms st empty_sync_keeps [of env now ?u db]
    by (auto simp: add_favourite_voice_def split: prod.splits sum.splits)
  show ?thesis
  proof (cases "is_live_favourite st (so_favourites out)")
    case True
    with assms st first have "db' = db" "status = Succeeded" by (simp_all add: add_favourite_voice_def)
    with answered_favourite [OF synced_answer [OF first] True] st show ?thesis by blast
  next
    case False
    then obtain rq out' where second: "pg_synchronize env now ?u rq db = (db', Ok out')"
      and "is_live_favourite st (so_favourites out')" "status = Succeeded"
      using assms st first
      by (auto simp: add_favourite_voice_def split: prod.splits sum.splits personal_data_error.splits if_splits)
    with answered_favourite [OF synced_answer [OF second]] st False first show ?thesis by auto
  qed
qed

definition example_playing_hub :: state_hub where
  "example_playing_hub = empty_hub\<lparr>hub_state := (\<lambda>k. if k = (5, 3) then Some
     ((example_snapshot 7 62)\<lparr>snap_state := \<lparr>rt_playback = Some \<lparr>pb_status = ''playing'', pb_station_id = Some ''s'',
        pb_track_title = None\<rparr>, rt_volume = None, rt_display = None\<rparr>\<rparr>) else None)\<rparr>"

lemma example_favourite:
  "\<exists>db'. add_favourite_voice (Some (pg_synchronize example_pg_env 0)) 4 (example_time 0) \<lparr>cp_user_id = 5, cp_device_id = 3\<rparr>
     example_playing_hub example_personal_db = (db', Ok Succeeded)"
  by (simp add: add_favourite_voice_def current_station_id_def example_playing_hub_def hub_device_state_def
      empty_sync_def favourite_sync_def is_live_favourite_def sync_eval)

theorem favourite_confirmed_witness:
  "\<exists>(db' :: personal_db) rid (row :: favourite_row). ((5, rid), row) \<in> set (pd_favourites db') \<and> pf_station_id row = Some ''s'' \<and> pf_deleted_at row = None"
proof -
  obtain db' where "add_favourite_voice (Some (pg_synchronize example_pg_env 0)) 4 (example_time 0)
      \<lparr>cp_user_id = 5, cp_device_id = 3\<rparr> example_playing_hub example_personal_db = (db', Ok Succeeded)"
    using example_favourite by blast
  from favourite_confirmed [OF this] show ?thesis
    by (auto simp: current_station_id_def example_playing_hub_def hub_device_state_def)
qed

end
