(* ===== verification/Relay_Stream.thy ===== *)
theory Relay_Stream
  imports Prelude
begin

text \<open>
  The audio path of the station relay: the chunk reader and the title parser of
  \<open>http/relay/icy.rs\<close>, the loop \<open>pump\<close> of \<open>http/relay.rs\<close> that separates audio from interleaved
  ICY metadata, and the title snapshots of \<open>http/relay/metadata.rs\<close>.

  The transport is the list of what its reads return, in order; an exhausted list is the end of
  the body. Bytes are characters. The client is the number of frames it still takes before it
  goes away (\<open>None\<close>: it stays). \<open>pump_matches_demux\<close> compares the loop with a reference
  demultiplexer of the whole stream, which knows nothing of chunks, pieces or offsets.
\<close>

section \<open>The chunk reader\<close>

type_synonym bytes = string

datatype read_outcome = Chunk bytes | ReadFailed

record reader =
  rd_source :: "read_outcome list"
  rd_chunk :: bytes
  rd_offset :: nat

definition reader_new :: "read_outcome list \<Rightarrow> reader" where
  "reader_new response = \<lparr> rd_source = response, rd_chunk = [], rd_offset = 0 \<rparr>"

definition reader_from_icy :: "read_outcome list \<Rightarrow> bytes \<Rightarrow> reader" where
  "reader_from_icy socket first_body =
     \<lparr> rd_source = socket, rd_chunk = first_body, rd_offset = 0 \<rparr>"

definition reader_slice :: "nat \<Rightarrow> reader \<Rightarrow> bytes \<times> reader" where
  "reader_slice limit r =
     (let stop = min (rd_offset r + limit) (length (rd_chunk r))
      in (List.take (stop - rd_offset r) (drop (rd_offset r) (rd_chunk r)), r\<lparr>rd_offset := stop\<rparr>))"

function (sequential) reader_take :: "nat \<Rightarrow> reader \<Rightarrow> (unit + bytes option) \<times> reader" where
  "reader_take limit r =
     (if rd_offset r = length (rd_chunk r) then
        (case rd_source r of
           [] \<Rightarrow> (Ok None, r\<lparr>rd_chunk := [], rd_offset := 0\<rparr>)
         | ReadFailed # source \<Rightarrow> (Err (), r\<lparr>rd_source := source\<rparr>)
         | Chunk b # source \<Rightarrow>
             (let r' = r\<lparr>rd_source := source, rd_chunk := b, rd_offset := 0\<rparr>
              in if b = [] then (Ok None, r') else reader_take limit r'))
      else (let (piece, r') = reader_slice limit r in (Ok (Some piece), r')))"
  by pat_completeness auto
termination by (relation "measure (\<lambda>(_, r). length (rd_source r))") auto

declare reader_take.simps [simp del]

text \<open>What is left to read, as a measure: it shrinks with every piece that is returned.\<close>

definition reader_rest :: "reader \<Rightarrow> nat" where
  "reader_rest r =
     (length (rd_chunk r) - rd_offset r) + (rd_offset r - length (rd_chunk r))
     + sum_list (map (\<lambda>e. case e of Chunk b \<Rightarrow> Suc (length b) | ReadFailed \<Rightarrow> 1) (rd_source r))"

lemma reader_slice_rest:
  "0 < limit \<Longrightarrow> rd_offset r \<noteq> length (rd_chunk r) \<Longrightarrow> reader_slice limit r = (piece, r')
     \<Longrightarrow> reader_rest r' < reader_rest r"
  by (auto simp: reader_slice_def reader_rest_def Let_def min_def split: if_splits)

text \<open>The loop reads at most once: a chunk that is not empty ends it.\<close>

lemma reader_take_once:
  "reader_take limit r =
     (if rd_offset r \<noteq> length (rd_chunk r) then map_prod (Ok \<circ> Some) id (reader_slice limit r)
      else (case rd_source r of
         [] \<Rightarrow> (Ok None, r\<lparr>rd_chunk := [], rd_offset := 0\<rparr>)
       | ReadFailed # source \<Rightarrow> (Err (), r\<lparr>rd_source := source\<rparr>)
       | Chunk b # source \<Rightarrow>
           (let r' = r\<lparr>rd_source := source, rd_chunk := b, rd_offset := 0\<rparr>
            in if b = [] then (Ok None, r') else map_prod (Ok \<circ> Some) id (reader_slice limit r'))))"
proof -
  have again: "b \<noteq> [] \<Longrightarrow> reader_take limit (r\<lparr>rd_source := source, rd_chunk := b, rd_offset := 0\<rparr>)
    = map_prod (Ok \<circ> Some) id (reader_slice limit (r\<lparr>rd_source := source, rd_chunk := b, rd_offset := 0\<rparr>))"
    for b source
    by (subst reader_take.simps) (simp add: split_beta map_prod_def)
  show ?thesis
    by (subst reader_take.simps)
       (auto simp: again split_beta map_prod_def Let_def split: list.split read_outcome.split)
qed

lemma reader_take_rest:
  assumes "reader_take limit r = (res, r')"
  shows "reader_rest r' \<le> reader_rest r"
    and "0 < limit \<Longrightarrow> res = Ok (Some b) \<Longrightarrow> reader_rest r' < reader_rest r"
  using assms
  by (auto simp: reader_take_once reader_slice_def reader_rest_def Let_def
      split: if_splits list.splits read_outcome.splits)

lemma reader_take_less:
  "reader_take limit r = (Inr (Some b), r') \<Longrightarrow> 0 < limit \<Longrightarrow> reader_rest r' < reader_rest r"
  using reader_take_rest(2) by blast

function exact_from :: "nat \<Rightarrow> bytes \<Rightarrow> reader \<Rightarrow> (unit + bytes option) \<times> reader" where
  "exact_from len result r =
     (if length result < len then
        (case reader_take (len - length result) r of
           (Inl e, r') \<Rightarrow> (Err e, r')
         | (Inr None, r') \<Rightarrow> (Ok None, r')
         | (Inr (Some b), r') \<Rightarrow> exact_from len (result @ b) r')
      else (Ok (Some result), r))"
  by pat_completeness auto
termination
  by (relation "measure (\<lambda>(_, _, r). reader_rest r)") (auto intro: reader_take_less dest: sym)

declare exact_from.simps [simp del]

definition reader_exact :: "nat \<Rightarrow> reader \<Rightarrow> (unit + bytes option) \<times> reader" where
  "reader_exact len r = exact_from len [] r"

lemma exact_from_rest: "exact_from len acc r = (res, r') \<Longrightarrow> reader_rest r' \<le> reader_rest r"
proof (induction len acc r rule: exact_from.induct)
  case (1 len acc r)
  then show ?case
    by (subst (asm) (2) exact_from.simps)
       (fastforce dest: reader_take_rest split: if_splits prod.splits sum.splits option.splits)
qed

section \<open>Titles\<close>

text \<open>
  \<open>from_utf8\<close> accepts exactly the well-formed sequences of Unicode: no overlong forms, no
  surrogates, nothing above U+10FFFF.
\<close>

definition continuation :: "nat \<Rightarrow> bool" where
  "continuation b = (128 \<le> b \<and> b < 192)"

fun utf8_valid :: "nat list \<Rightarrow> bool" where
  "utf8_valid [] = True"
| "utf8_valid (b # bs) =
     (if b < 128 then utf8_valid bs
      else if 194 \<le> b \<and> b < 224 then
        (case bs of c # bs' \<Rightarrow> continuation c \<and> utf8_valid bs' | _ \<Rightarrow> False)
      else if 224 \<le> b \<and> b < 240 then
        (case bs of c # d # bs' \<Rightarrow>
           continuation c \<and> continuation d \<and> (b = 224 \<longrightarrow> 160 \<le> c) \<and> (b = 237 \<longrightarrow> c < 160)
           \<and> utf8_valid bs'
         | _ \<Rightarrow> False)
      else if 240 \<le> b \<and> b < 245 then
        (case bs of c # d # e # bs' \<Rightarrow>
           continuation c \<and> continuation d \<and> continuation e \<and> (b = 240 \<longrightarrow> 144 \<le> c)
           \<and> (b = 244 \<longrightarrow> c < 144) \<and> utf8_valid bs'
         | _ \<Rightarrow> False)
      else False)"

definition from_utf8 :: "bytes \<Rightarrow> string option" where
  "from_utf8 b = (if utf8_valid (map byte b) then Some b else None)"

definition trim_end_nuls :: "string \<Rightarrow> string" where
  "trim_end_nuls s = rev (dropWhile (\<lambda>c. c = CHR 0x00) (rev s))"

text \<open>\<open>split_once\<close> with a string pattern: the text before its first occurrence.\<close>

fun before_first :: "string \<Rightarrow> string \<Rightarrow> string option" where
  "before_first pat [] = (if pat = [] then Some [] else None)"
| "before_first pat (c # cs) =
     (if List.take (length pat) (c # cs) = pat then Some []
      else map_option ((#) c) (before_first pat cs))"

definition raw_title :: "bytes \<Rightarrow> string option" where
  "raw_title block =
     Option.bind (from_utf8 block) (\<lambda>text.
     Option.bind (strip_prefix (''StreamTitle='' @ [CHR 0x27]) (trim_end_nuls text)) (\<lambda>rest.
     Option.bind (before_first [CHR 0x27, CHR '';''] rest) (\<lambda>title.
       if title = [] \<or> 512 < length title \<or> list_ex is_control (chars title) then None
       else Some title)))"

record title_snapshot =
  ts_raw_title :: string
  ts_observed_at :: instant
  ts_updated_at :: string

text \<open>
  The title table and the broadcast. The table is the list of its entries in the order the hash
  map happens to iterate, which only decides between titles observed at the same instant.
\<close>

record relay_state =
  rl_titles :: "(string \<times> title_snapshot) list"
  rl_changes :: "(string \<times> title_snapshot) list"

definition MAX_TITLES :: nat where "MAX_TITLES = 1024"

fun oldest_title :: "(string \<times> title_snapshot) list \<Rightarrow> (string \<times> title_snapshot) option" where
  "oldest_title [] = None"
| "oldest_title (e # es) =
     (case oldest_title es of None \<Rightarrow> Some e
      | Some m \<Rightarrow> if ts_observed_at (snd e) \<le> ts_observed_at (snd m) then Some e else Some m)"

definition remember_title :: "string \<Rightarrow> title_snapshot \<Rightarrow> relay_state \<Rightarrow> relay_state" where
  "remember_title station_id title relay =
     (let titles = rl_titles relay;
          kept = (if MAX_TITLES \<le> length titles \<and> map_of titles station_id = None then
                    (case oldest_title titles of None \<Rightarrow> titles
                     | Some (oldest, _) \<Rightarrow> AList.delete oldest titles)
                  else titles)
      in relay\<lparr>rl_titles := AList.update station_id title kept,
               rl_changes := rl_changes relay @ [(station_id, title)]\<rparr>)"

section \<open>The pump\<close>

definition PIECE_LIMIT :: nat where "PIECE_LIMIT = 16 * 1024"

definition USIZE_MAX :: nat where "USIZE_MAX = 2 ^ 64 - 1"

text \<open>
  The client end of the bounded channel: the frames it received and how many more it takes. A
  send to a client that has gone fails; \<open>is_closed\<close> tells that it has gone.
\<close>

record client =
  cl_sent :: "bytes list"
  cl_left :: "nat option"

definition client_closed :: "client \<Rightarrow> bool" where
  "client_closed c = (cl_left c = Some 0)"

definition client_send :: "bytes \<Rightarrow> client \<Rightarrow> bool \<times> client" where
  "client_send frame c =
     (if client_closed c then (False, c)
      else (True, c\<lparr>cl_sent := cl_sent c @ [frame],
                    cl_left := map_option (\<lambda>n. n - 1) (cl_left c)\<rparr>))"

record pump_state =
  pm_reader :: reader
  pm_remaining :: nat
  pm_relay :: relay_state
  pm_client :: client
  pm_clock :: nat

text \<open>The two reads of a metadata block: its length byte and the block itself.\<close>

definition read_block :: "reader \<Rightarrow> (char \<times> bytes \<times> reader) option" where
  "read_block r =
     (case reader_exact 1 r of
        (Inr (Some len), r1) \<Rightarrow>
          (case reader_exact (byte (len ! 0) * 16) r1 of
             (Inr (Some block), r2) \<Rightarrow> Some (len ! 0, block, r2)
           | _ \<Rightarrow> None)
      | _ \<Rightarrow> None)"

text \<open>
  Forwarding a block to a client that asked for metadata: the length byte, then a block that is
  not empty. The flag says whether the loop goes on.
\<close>

definition forward_block :: "bool \<Rightarrow> char \<Rightarrow> bytes \<Rightarrow> client \<Rightarrow> bool \<times> client" where
  "forward_block wants_icy len block c =
     (if wants_icy then
        (let (sent, c1) = client_send [len] c
         in if sent \<and> block \<noteq> [] then client_send block c1
            else (\<not> client_closed c1, c1))
      else (True, c))"

definition observe_block ::
  "(nat \<Rightarrow> instant \<times> string) \<Rightarrow> string \<Rightarrow> bytes \<Rightarrow> nat \<times> relay_state \<Rightarrow> nat \<times> relay_state" where
  "observe_block clock station_id block s =
     (case raw_title block of None \<Rightarrow> s
      | Some title \<Rightarrow>
          (Suc (fst s),
           remember_title station_id
             \<lparr> ts_raw_title = title, ts_observed_at = fst (clock (fst s)),
               ts_updated_at = snd (clock (fst s)) \<rparr> (snd s)))"

lemma read_block_rest: "read_block r = Some (len, block, r') \<Longrightarrow> reader_rest r' < reader_rest r"
proof -
  assume h: "read_block r = Some (len, block, r')"
  then obtain l r1 where 1: "reader_exact 1 r = (Inr (Some l), r1)"
    and 2: "reader_exact (byte (l ! 0) * 16) r1 = (Inr (Some block), r')"
    by (auto simp: read_block_def split: prod.splits sum.splits option.splits)
  from 1 have "reader_rest r1 < reader_rest r"
    unfolding reader_exact_def
    by (subst (asm) exact_from.simps)
       (auto split: prod.splits sum.splits option.splits
          dest!: exact_from_rest reader_take_less [of 1, simplified])
  with exact_from_rest [OF 2 [unfolded reader_exact_def]] show ?thesis by simp
qed

text \<open>
  One run of the loop. The interval is absent when the station sends no metadata; then the
  counter starts at the largest word and the task would panic after that many bytes.
\<close>

function pump_loop ::
  "(nat \<Rightarrow> instant \<times> string) \<Rightarrow> nat option \<Rightarrow> bool \<Rightarrow> string \<Rightarrow> pump_state \<Rightarrow> pump_state" where
  "pump_loop clock metaint wants_icy station_id s =
     (if 0 < pm_remaining s then
        (case reader_take (min (pm_remaining s) PIECE_LIMIT) (pm_reader s) of
           (Inr (Some b), r) \<Rightarrow>
             (let (sent, c) = client_send b (pm_client s);
                  s1 = s\<lparr>pm_reader := r, pm_remaining := pm_remaining s - length b, pm_client := c\<rparr>
              in if sent then pump_loop clock metaint wants_icy station_id s1 else s1)
         | (_, r) \<Rightarrow> s\<lparr>pm_reader := r\<rparr>)
      else
        (case read_block (pm_reader s) of
           None \<Rightarrow> s
         | Some (len, block, r) \<Rightarrow>
             (let (clk, relay) = observe_block clock station_id block (pm_clock s, pm_relay s);
                  (go_on, c) = forward_block wants_icy len block (pm_client s);
                  s1 = s\<lparr>pm_reader := r, pm_clock := clk, pm_relay := relay, pm_client := c\<rparr>
              in if \<not> go_on then s1
                 else case metaint of None \<Rightarrow> s1
                   | Some n \<Rightarrow> pump_loop clock metaint wants_icy station_id (s1\<lparr>pm_remaining := n\<rparr>))))"
  by pat_completeness auto
termination
proof (relation "measure (\<lambda>(_, _, _, _, s). reader_rest (pm_reader s))", goal_cases)
  case (2 clock metaint wants_icy station_id s)
  then show ?case
    by (auto simp: PIECE_LIMIT_def dest!: sym [of _ "reader_take _ _"] reader_take_less)
qed (auto dest: read_block_rest)

declare pump_loop.simps [simp del]

definition pump ::
  "(nat \<Rightarrow> instant \<times> string) \<Rightarrow> reader \<Rightarrow> nat option \<Rightarrow> bool \<Rightarrow> string \<Rightarrow> relay_state \<Rightarrow> nat option
   \<Rightarrow> pump_state" where
  "pump clock r metaint wants_icy station_id relay takes =
     pump_loop clock metaint wants_icy station_id
       \<lparr> pm_reader = r, pm_remaining = (case metaint of None \<Rightarrow> USIZE_MAX | Some n \<Rightarrow> n),
         pm_relay = relay, pm_client = \<lparr> cl_sent = [], cl_left = takes \<rparr>, pm_clock = 0 \<rparr>"
section \<open>The reference demultiplexer\<close>

text \<open>
  The bytes a reader will deliver: the rest of its chunk and the body up to the end, to an empty
  read or to a failure.
\<close>

fun body_bytes :: "read_outcome list \<Rightarrow> bytes" where
  "body_bytes [] = []"
| "body_bytes (ReadFailed # source) = []"
| "body_bytes (Chunk b # source) = (if b = [] then [] else b @ body_bytes source)"

definition flat :: "reader \<Rightarrow> bytes" where
  "flat r = drop (rd_offset r) (rd_chunk r) @ body_bytes (rd_source r)"

definition wf_reader :: "reader \<Rightarrow> bool" where
  "wf_reader r = (rd_offset r \<le> length (rd_chunk r))"

text \<open>
  The ICY format on a whole stream: \<open>m\<close> bytes of audio before the first block, \<open>n\<close> before every
  later one, a length byte that counts blocks of sixteen. A truncated block is dropped.
\<close>

function icy_frames :: "nat \<Rightarrow> nat \<Rightarrow> bytes \<Rightarrow> (bytes \<times> char \<times> bytes) list \<times> bytes" where
  "icy_frames n m s =
     (if length s \<le> m then ([], s)
      else (let size = byte (s ! m) * 16; tail = drop (Suc m) s
            in if length tail < size then ([], List.take m s)
               else map_prod ((#) (List.take m s, s ! m, List.take size tail)) id
                      (icy_frames n n (drop size tail))))"
  by pat_completeness auto
termination by (relation "measure (\<lambda>(_, _, s). length s)") auto

declare icy_frames.simps [simp del]

definition demux_bytes :: "bool \<Rightarrow> (bytes \<times> char \<times> bytes) list \<times> bytes \<Rightarrow> bytes" where
  "demux_bytes wants_icy fs =
     concat (map (\<lambda>(audio, len, block). if wants_icy then audio @ len # block else audio) (fst fs))
     @ snd fs"

definition demux_titles ::
  "(nat \<Rightarrow> instant \<times> string) \<Rightarrow> string \<Rightarrow> (bytes \<times> char \<times> bytes) list \<times> bytes
   \<Rightarrow> nat \<times> relay_state \<Rightarrow> nat \<times> relay_state" where
  "demux_titles clock station_id fs =
     fold (\<lambda>(_, _, block). observe_block clock station_id block) (fst fs)"

lemma demux_prepend:
  assumes "length b \<le> m"
  shows "demux_bytes w (icy_frames n m (b @ s)) = b @ demux_bytes w (icy_frames n (m - length b) s)"
    and "demux_titles c i (icy_frames n m (b @ s)) = demux_titles c i (icy_frames n (m - length b) s)"
proof -
  have at: "(b @ s) ! m = s ! (m - length b)" using assms by (simp add: nth_append)
  have dr: "drop (Suc m) (b @ s) = drop (Suc (m - length b)) s" using assms by (simp add: Suc_diff_le)
  have le: "length (b @ s) \<le> m \<longleftrightarrow> length s \<le> m - length b" using assms by auto
  have tk: "List.take m (b @ s) = b @ List.take (m - length b) s" using assms by simp
  note parts = at dr le tk
  show "demux_bytes w (icy_frames n m (b @ s)) = b @ demux_bytes w (icy_frames n (m - length b) s)"
    by (subst (1 2) icy_frames.simps)
       (simp only: parts Let_def, simp add: demux_bytes_def)
  show "demux_titles c i (icy_frames n m (b @ s)) = demux_titles c i (icy_frames n (m - length b) s)"
    by (subst (1 2) icy_frames.simps)
       (simp only: parts Let_def, simp add: demux_titles_def fun_eq_iff)
qed

lemma reader_slice_flat:
  assumes "wf_reader r" "rd_offset r \<noteq> length (rd_chunk r)" "0 < limit"
    "reader_slice limit r = (b, r')"
  shows "b \<noteq> [] \<and> length b \<le> limit \<and> flat r = b @ flat r' \<and> wf_reader r'"
proof -
  have lt: "rd_offset r < length (rd_chunk r)" using assms(1,2) by (simp add: wf_reader_def)
  define stop where "stop = min (rd_offset r + limit) (length (rd_chunk r))"
  have st: "rd_offset r < stop" "stop \<le> length (rd_chunk r)" "stop \<le> rd_offset r + limit"
    using lt assms(3) by (auto simp: stop_def)
  have b: "b = List.take (stop - rd_offset r) (drop (rd_offset r) (rd_chunk r))"
    and r': "r' = r\<lparr>rd_offset := stop\<rparr>"
    using assms(4) by (auto simp: reader_slice_def Let_def stop_def)
  have "drop (rd_offset r) (rd_chunk r) = b @ drop stop (rd_chunk r)"
    using append_take_drop_id [of "stop - rd_offset r" "drop (rd_offset r) (rd_chunk r)"] st
    by (simp add: b)
  moreover have "length b = stop - rd_offset r" using st by (simp add: b)
  ultimately show ?thesis using st by (auto simp: flat_def r' wf_reader_def)
qed

text \<open>A read returns a piece of what is left, or nothing is left.\<close>

lemma reader_take_flat:
  assumes wf: "wf_reader r" and lim: "0 < limit" and take: "reader_take limit r = (res, r')"
  shows "wf_reader r' \<and>
    (case res of
       Inr (Some b) \<Rightarrow> b \<noteq> [] \<and> length b \<le> limit \<and> flat r = b @ flat r'
     | _ \<Rightarrow> flat r = [])"
proof (cases "rd_offset r = length (rd_chunk r)")
  case False
  with take have "res = Ok (Some (fst (reader_slice limit r)))" "r' = snd (reader_slice limit r)"
    by (simp_all add: reader_take_once map_prod_def split_beta)
  with reader_slice_flat [OF wf False lim] show ?thesis by (cases "reader_slice limit r") simp
next
  case True
  show ?thesis
  proof (cases "\<exists>b source. rd_source r = Chunk b # source \<and> b \<noteq> []")
    case False
    with take True show ?thesis
      by (auto simp: reader_take_once wf_reader_def flat_def Let_def
          split: list.splits read_outcome.splits)
  next
    case more: True
    then obtain b source where src: "rd_source r = Chunk b # source" "b \<noteq> []" by blast
    define r1 where "r1 = r\<lparr>rd_source := source, rd_chunk := b, rd_offset := 0\<rparr>"
    have "res = Ok (Some (fst (reader_slice limit r1)))" "r' = snd (reader_slice limit r1)"
      using take True src by (auto simp: reader_take_once map_prod_def split_beta Let_def r1_def)
    moreover have "wf_reader r1" "rd_offset r1 \<noteq> length (rd_chunk r1)" "flat r1 = flat r"
      using src True by (auto simp: r1_def wf_reader_def flat_def)
    ultimately show ?thesis
      using reader_slice_flat [of r1 limit] lim by (cases "reader_slice limit r1") simp
  qed
qed

lemma exact_from_flat:
  assumes "wf_reader r" "length acc \<le> len" "exact_from len acc r = (res, r')"
  shows "if len \<le> length (acc @ flat r)
         then res = Ok (Some (List.take len (acc @ flat r))) \<and> flat r' = drop len (acc @ flat r) \<and> wf_reader r'
         else \<forall>b. res \<noteq> Ok (Some b)"
  using assms
proof (induction len acc r rule: exact_from.induct)
  case (1 len acc r)
  show ?case
  proof (cases "length acc < len")
    case False
    with "1.prems" show ?thesis by (subst (asm) exact_from.simps) auto
  next
    case lt: True
    obtain res1 r1 where tk: "reader_take (len - length acc) r = (res1, r1)" by fastforce
    note f = reader_take_flat [OF "1.prems"(1) _ tk]
    show ?thesis
    proof (cases "\<exists>b. res1 = Ok (Some b)")
      case True
      then obtain b where b: "res1 = Ok (Some b)" by blast
      with f lt have fl: "flat r = b @ flat r1" "length b \<le> len - length acc" "wf_reader r1" by auto
      have "exact_from len (acc @ b) r1 = (res, r')"
        using "1.prems"(3) lt tk b by (subst (asm) exact_from.simps) simp
      with "1.IH" [OF lt tk [symmetric] b refl] fl lt show ?thesis by simp
    next
      case False
      with f lt have "flat r = []" by (auto split: sum.splits option.splits)
      moreover from False "1.prems"(3) lt tk have "\<forall>b. res \<noteq> Ok (Some b)"
        by (subst (asm) exact_from.simps) (auto split: sum.splits option.splits)
      ultimately show ?thesis using lt by simp
    qed
  qed
qed

lemma reader_exact_flat:
  assumes "wf_reader r" "reader_exact len r = (res, r')"
  shows "if len \<le> length (flat r)
         then res = Ok (Some (List.take len (flat r))) \<and> flat r' = drop len (flat r) \<and> wf_reader r'
         else \<forall>b. res \<noteq> Ok (Some b)"
  using exact_from_flat [of r "[]" len res r'] assms by (simp add: reader_exact_def)

lemma read_block_flat:
  assumes wf: "wf_reader r"
  shows "case flat r of
      [] \<Rightarrow> read_block r = None
    | len # tail \<Rightarrow>
        if length tail < byte len * 16 then read_block r = None
        else \<exists>r'. read_block r = Some (len, List.take (byte len * 16) tail, r')
               \<and> flat r' = drop (byte len * 16) tail \<and> wf_reader r'"
proof -
  obtain res1 r1 where 1: "reader_exact 1 r = (res1, r1)" by fastforce
  note f1 = reader_exact_flat [OF wf 1]
  show ?thesis
  proof (cases "flat r")
    case Nil
    with f1 1 show ?thesis
      by (auto simp: read_block_def split: sum.splits option.splits)
  next
    case (Cons len tail)
    with f1 have a: "res1 = Ok (Some [len])" "flat r1 = tail" "wf_reader r1" by auto
    obtain res2 r2 where 2: "reader_exact (byte len * 16) r1 = (res2, r2)" by fastforce
    from reader_exact_flat [OF a(3) 2] Cons 1 2 a show ?thesis
      by (auto simp: read_block_def split: sum.splits option.splits)
  qed
qed

lemma client_stays:
  assumes "cl_left c = None"
  shows "client_send b c = (True, c\<lparr>cl_sent := cl_sent c @ [b]\<rparr>)"
    and "\<exists>c'. forward_block w len block c = (True, c') \<and> cl_left c' = None
           \<and> concat (cl_sent c') = concat (cl_sent c) @ (if w then len # block else [])"
  using assms by (auto simp: client_send_def client_closed_def forward_block_def Let_def split_beta)

text \<open>The result of the loop is what the reference says of the rest of the stream.\<close>

definition demuxed ::
  "(nat \<Rightarrow> instant \<times> string) \<Rightarrow> nat \<Rightarrow> bool \<Rightarrow> string \<Rightarrow> pump_state \<Rightarrow> pump_state \<Rightarrow> bool" where
  "demuxed clock n w i s t =
     (let fs = icy_frames n (pm_remaining s) (flat (pm_reader s))
      in concat (cl_sent (pm_client t)) = concat (cl_sent (pm_client s)) @ demux_bytes w fs
         \<and> (pm_clock t, pm_relay t) = demux_titles clock i fs (pm_clock s, pm_relay s))"

lemma pump_loop_audio:
  assumes "wf_reader (pm_reader s)" "cl_left (pm_client s) = None" "0 < pm_remaining s"
  obtains (stops) r where "pump_loop clock metaint w i s = s\<lparr>pm_reader := r\<rparr>" "flat (pm_reader s) = []"
  | (goes) b r where
      "pump_loop clock metaint w i s = pump_loop clock metaint w i
         (s\<lparr>pm_reader := r, pm_remaining := pm_remaining s - length b,
            pm_client := (pm_client s)\<lparr>cl_sent := cl_sent (pm_client s) @ [b]\<rparr>\<rparr>)"
      "flat (pm_reader s) = b @ flat r" "length b \<le> pm_remaining s" "wf_reader r"
      "reader_rest r < reader_rest (pm_reader s)"
proof -
  let ?limit = "min (pm_remaining s) PIECE_LIMIT"
  obtain res r where tk: "reader_take ?limit (pm_reader s) = (res, r)" by fastforce
  have lim: "0 < ?limit" using assms(3) by (simp add: PIECE_LIMIT_def)
  note f = reader_take_flat [OF assms(1) lim tk]
  show thesis
  proof (cases "\<exists>b. res = Ok (Some b)")
    case False
    show ?thesis
    proof (rule stops)
      show "flat (pm_reader s) = []" using f False by (auto split: sum.splits option.splits)
      show "pump_loop clock metaint w i s = s\<lparr>pm_reader := r\<rparr>"
        using False assms(3) tk by (subst pump_loop.simps) (auto split: sum.splits option.splits)
    qed
  next
    case True
    then obtain b where b: "res = Ok (Some b)" by blast
    show ?thesis
    proof (rule goes)
      show "pump_loop clock metaint w i s = pump_loop clock metaint w i
         (s\<lparr>pm_reader := r, pm_remaining := pm_remaining s - length b,
            pm_client := (pm_client s)\<lparr>cl_sent := cl_sent (pm_client s) @ [b]\<rparr>\<rparr>)"
        using assms(3) tk b client_stays(1) [OF assms(2), of b] by (subst pump_loop.simps) simp
      show "reader_rest r < reader_rest (pm_reader s)" using reader_take_less tk b lim by simp
    qed (use f b in auto)
  qed
qed

lemma pump_loop_block:
  assumes "cl_left (pm_client s) = None" "pm_remaining s = 0" "metaint = Some n"
    "read_block (pm_reader s) = Some (len, block, r)"
  obtains c where
      "pump_loop clock metaint w i s = pump_loop clock metaint w i
         (s\<lparr>pm_reader := r, pm_clock := fst (observe_block clock i block (pm_clock s, pm_relay s)),
            pm_relay := snd (observe_block clock i block (pm_clock s, pm_relay s)),
            pm_client := c, pm_remaining := n\<rparr>)"
      "cl_left c = None"
      "concat (cl_sent c) = concat (cl_sent (pm_client s)) @ (if w then len # block else [])"
proof -
  from client_stays(2) [OF assms(1)] obtain c where
    c: "forward_block w len block (pm_client s) = (True, c)" "cl_left c = None"
      "concat (cl_sent c) = concat (cl_sent (pm_client s)) @ (if w then len # block else [])"
    by metis
  show thesis
    by (rule that [OF _ c(2,3)]) (use assms c(1) in \<open>subst pump_loop.simps, simp add: split_beta\<close>)
qed

lemma icy_frames_block:
  assumes "byte len * 16 \<le> length tail"
  shows "icy_frames n 0 (len # tail) =
    map_prod ((#) ([], len, List.take (byte len * 16) tail)) id (icy_frames n n (drop (byte len * 16) tail))"
  using assms by (subst icy_frames.simps) (simp add: Let_def)

lemma demux_cons:
  "demux_bytes w (map_prod ((#) ([], len, block)) id fs) = (if w then len # block else []) @ demux_bytes w fs"
  "demux_titles clock i (map_prod ((#) ([], len, block)) id fs) s
     = demux_titles clock i fs (observe_block clock i block s)"
  by (cases fs; simp add: demux_bytes_def demux_titles_def)+

lemma icy_frames_end:
  "flat_rest = [] \<or> (\<exists>len tail. flat_rest = len # tail \<and> length tail < byte len * 16) \<Longrightarrow>
     icy_frames n 0 flat_rest = ([], [])"
  by (subst icy_frames.simps) auto

lemma pump_loop_demux:
  assumes "wf_reader (pm_reader s)" "cl_left (pm_client s) = None" "metaint = Some n"
  shows "demuxed clock n w i s (pump_loop clock metaint w i s)"
  using assms
proof (induction "reader_rest (pm_reader s)" arbitrary: s rule: less_induct)
  case less
  show ?case
  proof (cases "0 < pm_remaining s")
    case pos: True
    show ?thesis
    proof (cases rule: pump_loop_audio [OF less.prems(1,2) pos, of clock metaint w i, case_names stops goes])
      case (stops r)
      then show ?thesis
        by (simp add: demuxed_def icy_frames.simps [of _ _ "[]"] demux_bytes_def demux_titles_def)
    next
      case (goes b r)
      let ?s1 = "s\<lparr>pm_reader := r, pm_remaining := pm_remaining s - length b,
            pm_client := (pm_client s)\<lparr>cl_sent := cl_sent (pm_client s) @ [b]\<rparr>\<rparr>"
      have "demuxed clock n w i ?s1 (pump_loop clock metaint w i ?s1)"
        using less.prems goes by (intro less.hyps) auto
      with goes show ?thesis by (simp add: demuxed_def demux_prepend Let_def)
    qed
  next
    case False
    then have zero: "pm_remaining s = 0" by simp
    show ?thesis
    proof (cases "read_block (pm_reader s)")
      case None
      with read_block_flat [OF less.prems(1)]
      have "icy_frames n 0 (flat (pm_reader s)) = ([], [])"
        by (intro icy_frames_end) (auto split: list.splits if_splits)
      moreover have "pump_loop clock metaint w i s = s"
        using None zero by (subst pump_loop.simps) simp
      ultimately show ?thesis
        using zero by (simp add: demuxed_def demux_bytes_def demux_titles_def)
    next
      case (Some p)
      then obtain len block r where rb: "read_block (pm_reader s) = Some (len, block, r)"
        by (cases p) auto
      from pump_loop_block [OF less.prems(2) zero less.prems(3) rb, of clock w i]
      obtain c where c: "pump_loop clock metaint w i s = pump_loop clock metaint w i
         (s\<lparr>pm_reader := r, pm_clock := fst (observe_block clock i block (pm_clock s, pm_relay s)),
            pm_relay := snd (observe_block clock i block (pm_clock s, pm_relay s)),
            pm_client := c, pm_remaining := n\<rparr>)" (is "_ = pump_loop _ _ _ _ ?s1")
        and left: "cl_left c = None"
        and sent: "concat (cl_sent c) = concat (cl_sent (pm_client s)) @ (if w then len # block else [])"
        by metis
      from read_block_flat [OF less.prems(1)] rb obtain tail where
        fl: "flat (pm_reader s) = len # tail" "byte len * 16 \<le> length tail"
          "block = List.take (byte len * 16) tail" "flat r = drop (byte len * 16) tail" "wf_reader r"
        by (auto split: list.splits if_splits)
      have "demuxed clock n w i ?s1 (pump_loop clock metaint w i ?s1)"
        using less.prems left fl read_block_rest [OF rb] by (intro less.hyps) auto
      then show ?thesis
        unfolding demuxed_def c using zero fl sent
        by (simp add: Let_def icy_frames_block demux_cons)
    qed
  qed
qed

text \<open>Without a metadata interval the loop forwards the stream as it is.\<close>

lemma pump_loop_plain:
  assumes "wf_reader (pm_reader s)" "cl_left (pm_client s) = None" "length (flat (pm_reader s)) \<le> pm_remaining s"
  shows "concat (cl_sent (pm_client (pump_loop clock None w i s)))
           = concat (cl_sent (pm_client s)) @ flat (pm_reader s)
       \<and> pm_relay (pump_loop clock None w i s) = pm_relay s"
  using assms
proof (induction "reader_rest (pm_reader s)" arbitrary: s rule: less_induct)
  case less
  show ?case
  proof (cases "0 < pm_remaining s")
    case pos: True
    show ?thesis
    proof (cases rule: pump_loop_audio [OF less.prems(1,2) pos, of clock None w i, case_names stops goes])
      case (stops r)
      then show ?thesis by simp
    next
      case (goes b r)
      let ?s1 = "s\<lparr>pm_reader := r, pm_remaining := pm_remaining s - length b,
            pm_client := (pm_client s)\<lparr>cl_sent := cl_sent (pm_client s) @ [b]\<rparr>\<rparr>"
      have "concat (cl_sent (pm_client (pump_loop clock None w i ?s1)))
           = concat (cl_sent (pm_client ?s1)) @ flat (pm_reader ?s1)
       \<and> pm_relay (pump_loop clock None w i ?s1) = pm_relay ?s1"
        using less.prems goes by (intro less.hyps) auto
      with goes show ?thesis by simp
    qed
  next
    case False
    with less.prems read_block_flat [OF less.prems(1)] have "flat (pm_reader s) = []" "read_block (pm_reader s) = None"
      by auto
    moreover have "pump_loop clock None w i s = s"
      using False calculation by (subst pump_loop.simps) simp
    ultimately show ?thesis by simp
  qed
qed

section \<open>A client that leaves\<close>

text \<open>A client that takes \<open>k\<close> frames gets the first \<open>k\<close> frames of one that stays.\<close>

definition leaving :: "nat \<Rightarrow> pump_state \<Rightarrow> pump_state" where
  "leaving k s = s\<lparr>pm_client := (pm_client s)\<lparr>cl_left := Some k\<rparr>\<rparr>"

definition block_frames :: "bool \<Rightarrow> char \<Rightarrow> bytes \<Rightarrow> bytes list" where
  "block_frames w len block = (if w then [len] # (if block = [] then [] else [block]) else [])"

lemma forward_stays:
  "cl_left c = None \<Longrightarrow>
     forward_block w len block c = (True, c\<lparr>cl_sent := cl_sent c @ block_frames w len block\<rparr>)"
  by (auto simp: forward_block_def client_send_def client_closed_def block_frames_def)

lemma forward_leaves:
  "forward_block w len block (c\<lparr>cl_left := Some k\<rparr>) = (go_on, c') \<Longrightarrow>
     (if go_on then c' = c\<lparr>cl_sent := cl_sent c @ block_frames w len block, cl_left := Some (k - length (block_frames w len block))\<rparr>
                    \<and> length (block_frames w len block) \<le> k
      else cl_sent c' = cl_sent c @ List.take k (block_frames w len block) \<and> k \<le> length (block_frames w len block))"
  by (cases k; cases "k - 1")
     (auto simp: forward_block_def client_send_def client_closed_def block_frames_def Let_def split_beta
       split: if_splits)

text \<open>The four branches of an iteration.\<close>

lemma pump_loop_steps:
  "0 < pm_remaining s \<Longrightarrow> reader_take (min (pm_remaining s) PIECE_LIMIT) (pm_reader s) = (res, r) \<Longrightarrow>
     (\<forall>b. res \<noteq> Ok (Some b)) \<Longrightarrow> pump_loop clock metaint w i s = s\<lparr>pm_reader := r\<rparr>"
  "0 < pm_remaining s \<Longrightarrow> reader_take (min (pm_remaining s) PIECE_LIMIT) (pm_reader s) = (Ok (Some b), r) \<Longrightarrow>
     client_send b (pm_client s) = (sent, c) \<Longrightarrow>
     s1 = s\<lparr>pm_reader := r, pm_remaining := pm_remaining s - length b, pm_client := c\<rparr> \<Longrightarrow>
     pump_loop clock metaint w i s = (if sent then pump_loop clock metaint w i s1 else s1)"
  "pm_remaining s = 0 \<Longrightarrow> read_block (pm_reader s) = None \<Longrightarrow> pump_loop clock metaint w i s = s"
  "pm_remaining s = 0 \<Longrightarrow> read_block (pm_reader s) = Some (len, block, r) \<Longrightarrow>
     forward_block w len block (pm_client s) = (go_on, c) \<Longrightarrow>
     observe_block clock i block (pm_clock s, pm_relay s) = (clk, relay) \<Longrightarrow>
     s1 = s\<lparr>pm_reader := r, pm_clock := clk, pm_relay := relay, pm_client := c\<rparr> \<Longrightarrow>
     pump_loop clock metaint w i s =
       (if \<not> go_on then s1
        else case metaint of None \<Rightarrow> s1
          | Some n \<Rightarrow> pump_loop clock metaint w i (s1\<lparr>pm_remaining := n\<rparr>))"
  by (subst pump_loop.simps; auto split: sum.splits option.splits)+

definition cut_after :: "nat \<Rightarrow> pump_state \<Rightarrow> pump_state \<Rightarrow> pump_state \<Rightarrow> bool" where
  "cut_after k s t t' =
     (\<exists>more. cl_sent (pm_client t) = cl_sent (pm_client s) @ more
           \<and> cl_sent (pm_client t') = cl_sent (pm_client s) @ List.take k more)"

lemma cut_after_step:
  "cut_after (k - length fs) s1 t t' \<Longrightarrow> cl_sent (pm_client s1) = cl_sent (pm_client s) @ fs \<Longrightarrow>
     length fs \<le> k \<Longrightarrow> cut_after k s t t'"
  by (auto simp: cut_after_def)

lemma cut_after_stop:
  "cut_after 0 s1 t t1 \<Longrightarrow> cl_sent (pm_client s1) = cl_sent (pm_client s) @ fs \<Longrightarrow>
     k \<le> length fs \<Longrightarrow> cl_sent (pm_client t') = cl_sent (pm_client s) @ List.take k fs \<Longrightarrow>
     cut_after k s t t'"
  by (auto simp: cut_after_def)

lemma pump_leaving_audio:
  assumes none: "cl_left (pm_client s) = None" and pos: "0 < pm_remaining s"
    and hyp: "\<And>s1 k. reader_rest (pm_reader s1) < reader_rest (pm_reader s) \<Longrightarrow> cl_left (pm_client s1) = None \<Longrightarrow>
      cut_after k s1 (pump_loop clock metaint w i s1) (pump_loop clock metaint w i (leaving k s1))"
  shows "cut_after k s (pump_loop clock metaint w i s) (pump_loop clock metaint w i (leaving k s))"
proof -
  let ?p = "pump_loop clock metaint w i"
  obtain res r where tk: "reader_take (min (pm_remaining s) PIECE_LIMIT) (pm_reader s) = (res, r)"
    by fastforce
  show ?thesis
  proof (cases "\<exists>b. res = Ok (Some b)")
    case False
    with pos tk pump_loop_steps(1) [of s res r] pump_loop_steps(1) [of "leaving k s" res r]
    show ?thesis by (simp add: leaving_def cut_after_def)
  next
    case True
    then obtain b where b: "res = Ok (Some b)" by blast
    let ?s1 = "s\<lparr>pm_reader := r, pm_remaining := pm_remaining s - length b,
        pm_client := (pm_client s)\<lparr>cl_sent := cl_sent (pm_client s) @ [b]\<rparr>\<rparr>"
    have go: "?p s = ?p ?s1"
      using pump_loop_steps(2) [OF pos tk [unfolded b] client_stays(1) [OF none]] by simp
    have ih: "cut_after k' ?s1 (?p ?s1) (?p (leaving k' ?s1))" for k'
      using none reader_take_less [OF tk [unfolded b]] pos by (intro hyp) (simp_all add: PIECE_LIMIT_def)
    show ?thesis
    proof (cases k)
      case 0
      then have "cl_sent (pm_client (?p (leaving k s))) = cl_sent (pm_client s)"
        using pump_loop_steps(2) [of "leaving k s" b r False "pm_client (leaving k s)", OF _ _ _ refl] pos tk b
        by (simp add: leaving_def client_send_def client_closed_def)
      then show ?thesis
        unfolding go using 0 by (intro cut_after_stop [OF ih [of 0], of s "[b]"]) simp_all
    next
      case (Suc k')
      then have "?p (leaving k s) = ?p (leaving k' ?s1)"
        using pump_loop_steps(2) [of "leaving k s" b r True "pm_client (leaving k' ?s1)", OF _ _ _ refl] pos tk b
        by (simp add: leaving_def client_send_def client_closed_def)
      then show ?thesis
        unfolding go using Suc ih [of k'] by (intro cut_after_step [of k "[b]" ?s1]) simp_all
    qed
  qed
qed

lemma pump_leaving_block:
  assumes none: "cl_left (pm_client s) = None" and zero: "pm_remaining s = 0"
    and rb: "read_block (pm_reader s) = Some (len, block, r)"
    and hyp: "\<And>s1 k. reader_rest (pm_reader s1) < reader_rest (pm_reader s) \<Longrightarrow> cl_left (pm_client s1) = None \<Longrightarrow>
      cut_after k s1 (pump_loop clock metaint w i s1) (pump_loop clock metaint w i (leaving k s1))"
  shows "cut_after k s (pump_loop clock metaint w i s) (pump_loop clock metaint w i (leaving k s))"
proof -
  let ?p = "pump_loop clock metaint w i" and ?fs = "block_frames w len block"
  obtain clk relay where ob: "observe_block clock i block (pm_clock s, pm_relay s) = (clk, relay)"
    by fastforce
  define s1 where "s1 = s\<lparr>pm_reader := r, pm_clock := clk, pm_relay := relay,
      pm_client := (pm_client s)\<lparr>cl_sent := cl_sent (pm_client s) @ ?fs\<rparr>\<rparr>"
  obtain go_on c where fw: "forward_block w len block (pm_client (leaving k s)) = (go_on, c)"
    by fastforce
  note fl = forward_leaves [OF fw [unfolded leaving_def, simplified]]
  note stay = pump_loop_steps(4) [OF zero rb forward_stays [OF none] ob s1_def, where metaint = metaint]
  have zero': "pm_remaining (leaving k s) = 0"
    and rb': "read_block (pm_reader (leaving k s)) = Some (len, block, r)"
    and ob': "observe_block clock i block (pm_clock (leaving k s), pm_relay (leaving k s)) = (clk, relay)"
    using rb ob zero by (simp_all add: leaving_def)
  note leave = pump_loop_steps(4) [OF zero' rb' fw ob' refl, where metaint = metaint]
  have ih: "cut_after k' (s1\<lparr>pm_remaining := n\<rparr>) (?p (s1\<lparr>pm_remaining := n\<rparr>))
      (?p (leaving k' (s1\<lparr>pm_remaining := n\<rparr>)))" for k' n
    using none read_block_rest [OF rb] by (intro hyp) (simp_all add: s1_def)
  show ?thesis
  proof (cases metaint)
    case None
    with stay leave fl show ?thesis
      by (cases go_on) (auto simp: cut_after_def s1_def)
  next
    case (Some n)
    then have p: "?p s = ?p (s1\<lparr>pm_remaining := n\<rparr>)" using stay by simp
    show ?thesis
    proof (cases go_on)
      case True
      with fl Some leave have "?p (leaving k s) = ?p (leaving (k - length ?fs) (s1\<lparr>pm_remaining := n\<rparr>))"
        by (cases s) (simp add: leaving_def s1_def)
      with True fl p ih [of "k - length ?fs" n] show ?thesis
        by (intro cut_after_step [of k ?fs "s1\<lparr>pm_remaining := n\<rparr>"]) (simp_all add: s1_def)
    next
      case False
      with fl leave p ih [of 0 n] show ?thesis
        by (intro cut_after_stop [of "s1\<lparr>pm_remaining := n\<rparr>" _ _ s ?fs]) (simp_all add: s1_def)
    qed
  qed
qed

lemma pump_loop_leaving:
  "cl_left (pm_client s) = None \<Longrightarrow>
     cut_after k s (pump_loop clock metaint w i s) (pump_loop clock metaint w i (leaving k s))"
proof (induction "reader_rest (pm_reader s)" arbitrary: s k rule: less_induct)
  case less
  show ?case
  proof (cases "0 < pm_remaining s")
    case True
    show ?thesis by (rule pump_leaving_audio [OF less.prems True less.hyps])
  next
    case False
    then have zero: "pm_remaining s = 0" "pm_remaining (leaving k s) = 0" by (simp_all add: leaving_def)
    show ?thesis
    proof (cases "read_block (pm_reader s)")
      case None
      with zero pump_loop_steps(3) [of s] pump_loop_steps(3) [of "leaving k s"]
      show ?thesis by (simp add: leaving_def cut_after_def)
    next
      case (Some p)
      then obtain len block r where rb: "read_block (pm_reader s) = Some (len, block, r)"
        by (cases p) auto
      show ?thesis by (rule pump_leaving_block [OF less.prems zero(1) rb less.hyps])
    qed
  qed
qed

section \<open>The title table and its readers\<close>

text \<open>
  \<open>http/relay/metadata.rs\<close>: what a client is told of the latest title, and when a title that is
  still fresh will become stale.
\<close>

definition STALE_AFTER :: int where "STALE_AFTER = seconds 120"

record now_playing =
  np_station_id :: string
  np_raw_title :: "string option"
  np_updated_at :: "string option"
  np_state :: string

definition title_snapshot_of :: "relay_state \<Rightarrow> instant \<Rightarrow> string \<Rightarrow> now_playing" where
  "title_snapshot_of relay now station_id =
     (let title = map_of (rl_titles relay) station_id
      in \<lparr> np_station_id = station_id, np_raw_title = map_option ts_raw_title title,
           np_updated_at = map_option ts_updated_at title,
           np_state = (case title of None \<Rightarrow> ''missing''
             | Some t \<Rightarrow> if STALE_AFTER \<le> now - ts_observed_at t then ''stale'' else ''fresh'') \<rparr>)"

definition stale_deadline :: "relay_state \<Rightarrow> instant \<Rightarrow> string \<Rightarrow> instant option" where
  "stale_deadline relay now station_id =
     map_option (\<lambda>t. ts_observed_at t + STALE_AFTER)
       (opt_filter (\<lambda>t. now - ts_observed_at t < STALE_AFTER) (map_of (rl_titles relay) station_id))"

text \<open>
  The subscriber task of \<open>events\<close>: after the first snapshot it wakes for a stale deadline, for a
  change of its station and for a lagging broadcast, and sends the snapshot of that moment. The
  snapshot and the deadline read the clock one after the other (\<open>now\<close>, then \<open>later\<close>).
\<close>

datatype subscriber_event = StaleReached | TitleChanged string | Lagged | StreamOver

record subscriber =
  sb_station :: string
  sb_stale_at :: "instant option"
  sb_frames :: "now_playing list"
  sb_open :: bool

definition subscribe_titles :: "relay_state \<Rightarrow> instant \<Rightarrow> instant \<Rightarrow> string \<Rightarrow> subscriber" where
  "subscribe_titles relay now later station_id =
     \<lparr> sb_station = station_id, sb_stale_at = stale_deadline relay later station_id,
       sb_frames = [title_snapshot_of relay now station_id], sb_open = True \<rparr>"

definition push_snapshot :: "relay_state \<Rightarrow> instant \<Rightarrow> bool \<Rightarrow> subscriber \<Rightarrow> subscriber" where
  "push_snapshot relay now room sb =
     (if room then sb\<lparr>sb_frames := sb_frames sb @ [title_snapshot_of relay now (sb_station sb)]\<rparr>
      else sb\<lparr>sb_open := False\<rparr>)"

definition refresh_subscriber ::
  "relay_state \<Rightarrow> instant \<Rightarrow> instant \<Rightarrow> bool \<Rightarrow> subscriber \<Rightarrow> subscriber" where
  "refresh_subscriber relay now later room sb =
     (let sb1 = push_snapshot relay now room sb
      in if sb_open sb1 then sb1\<lparr>sb_stale_at := stale_deadline relay later (sb_station sb)\<rparr> else sb1)"

definition subscriber_step ::
  "relay_state \<Rightarrow> instant \<Rightarrow> instant \<Rightarrow> bool \<Rightarrow> subscriber_event \<Rightarrow> subscriber \<Rightarrow> subscriber" where
  "subscriber_step relay now later room event sb =
     (if \<not> sb_open sb then sb
      else case event of
        StreamOver \<Rightarrow> sb\<lparr>sb_open := False\<rparr>
      | StaleReached \<Rightarrow>
          (case sb_stale_at sb of
             Some due \<Rightarrow> if due \<le> now then push_snapshot relay now room (sb\<lparr>sb_stale_at := None\<rparr>) else sb
           | None \<Rightarrow> sb)
      | Lagged \<Rightarrow> refresh_subscriber relay now later room sb
      | TitleChanged changed_id \<Rightarrow>
          if changed_id = sb_station sb then refresh_subscriber relay now later room sb else sb)"

text \<open>The table is a map with at most 1024 keys, and every title in it is one the parser admits.\<close>

definition admissible_title :: "string \<Rightarrow> bool" where
  "admissible_title t = (t \<noteq> [] \<and> length t \<le> 512 \<and> \<not> list_ex is_control (chars t))"

definition wf_titles :: "relay_state \<Rightarrow> bool" where
  "wf_titles relay =
     (distinct (map fst (rl_titles relay)) \<and> length (rl_titles relay) \<le> MAX_TITLES
      \<and> list_all (\<lambda>(_, t). admissible_title (ts_raw_title t)) (rl_titles relay))"

lemma raw_title_admissible: "raw_title block = Some t \<Longrightarrow> admissible_title t"
  by (auto simp: raw_title_def admissible_title_def bind_eq_Some_conv split: if_splits)

lemma oldest_title_in: "oldest_title es = Some e \<Longrightarrow> e \<in> set es"
  by (induction es arbitrary: e) (auto split: option.splits if_splits)

lemma oldest_title_None: "oldest_title es = None \<longleftrightarrow> es = []"
  by (cases es) (auto split: option.splits)

lemma oldest_title_least:
  "oldest_title es = Some e \<Longrightarrow> f \<in> set es \<Longrightarrow> ts_observed_at (snd e) \<le> ts_observed_at (snd f)"
  by (induction es arbitrary: e)
     (fastforce simp: oldest_title_None split: option.splits if_splits)+

lemma length_update_absent:
  "k \<notin> fst ` set m \<Longrightarrow> length (AList.update k v m) = Suc (length m)"
  by (induction m) auto

lemma length_update_present:
  "k \<in> fst ` set m \<Longrightarrow> length (AList.update k v m) = length m"
  by (induction m) auto

lemma length_delete_present:
  "k \<in> fst ` set m \<Longrightarrow> length (AList.delete k m) < length m"
  by (induction m) (auto simp: AList.delete_eq length_filter_less le_imp_less_Suc)

lemma set_update_subset: "set (AList.update k v m) \<subseteq> insert (k, v) (set m)"
  by (induction m) auto

lemma wf_titles_remember:
  assumes "wf_titles relay" "admissible_title (ts_raw_title t)"
  shows "wf_titles (remember_title i t relay)"
proof -
  let ?titles = "rl_titles relay"
  define kept where "kept = (if MAX_TITLES \<le> length ?titles \<and> map_of ?titles i = None then
      (case oldest_title ?titles of None \<Rightarrow> ?titles | Some (oldest, _) \<Rightarrow> AList.delete oldest ?titles)
    else ?titles)"
  have sub: "set kept \<subseteq> set ?titles" "distinct (map fst kept)"
    using assms(1)
    by (auto simp: kept_def wf_titles_def AList.delete_eq distinct_map_filter split: option.splits if_splits)
  have room: "i \<in> fst ` set kept \<or> length kept < MAX_TITLES"
  proof (cases "MAX_TITLES \<le> length ?titles \<and> map_of ?titles i = None")
    case False
    then show ?thesis
      by (auto simp: kept_def map_of_eq_None_iff image_iff dest: map_of_SomeD)
  next
    case True
    then obtain oldest v where "oldest_title ?titles = Some (oldest, v)"
      by (cases "oldest_title ?titles") (auto simp: oldest_title_None MAX_TITLES_def)
    with True oldest_title_in [of ?titles] have "length kept < length ?titles"
      by (force simp: kept_def intro!: length_delete_present)
    with assms(1) show ?thesis by (simp add: wf_titles_def)
  qed
  moreover have "length kept \<le> MAX_TITLES"
    using assms(1) room by (auto simp: kept_def wf_titles_def AList.delete_eq split: option.splits if_splits
      intro: le_trans [OF length_filter_le])
  ultimately have "length (AList.update i t kept) \<le> MAX_TITLES"
    using length_update_present [of i kept t] length_update_absent [of i kept t] by fastforce
  moreover have "list_all (\<lambda>(_, t). admissible_title (ts_raw_title t)) (AList.update i t kept)"
    using assms sub set_update_subset [of i t kept] by (fastforce simp: wf_titles_def list_all_iff)
  moreover have "rl_titles (remember_title i t relay) = AList.update i t kept"
    by (simp add: remember_title_def kept_def Let_def)
  ultimately show ?thesis using sub by (simp add: wf_titles_def distinct_update)
qed

lemma wf_titles_observe:
  assumes "wf_titles (snd s)"
  shows "wf_titles (snd (observe_block clock i block s))"
  using assms raw_title_admissible [of block]
  by (auto simp: observe_block_def intro!: wf_titles_remember split: option.split)

lemma wf_titles_pump_loop:
  "wf_titles (pm_relay s) \<Longrightarrow> wf_titles (pm_relay (pump_loop clock metaint w i s))"
proof (induction "reader_rest (pm_reader s)" arbitrary: s rule: less_induct)
  case less
  let ?p = "pump_loop clock metaint w i"
  show ?case
  proof (cases "0 < pm_remaining s")
    case pos: True
    obtain res r where tk: "reader_take (min (pm_remaining s) PIECE_LIMIT) (pm_reader s) = (res, r)"
      by fastforce
    show ?thesis
    proof (cases "\<exists>b. res = Ok (Some b)")
      case False
      with pos tk pump_loop_steps(1) [of s res r] less.prems show ?thesis by simp
    next
      case True
      then obtain b where tk': "reader_take (min (pm_remaining s) PIECE_LIMIT) (pm_reader s) = (Ok (Some b), r)"
        using tk by auto
      obtain sent c where cs: "client_send b (pm_client s) = (sent, c)" by fastforce
      have "reader_rest r < reader_rest (pm_reader s)"
        using reader_take_less [OF tk'] pos by (simp add: PIECE_LIMIT_def)
      with less show ?thesis unfolding pump_loop_steps(2) [OF pos tk' cs refl] by simp
    qed
  next
    case False
    then have zero: "pm_remaining s = 0" by simp
    show ?thesis
    proof (cases "read_block (pm_reader s)")
      case None
      with zero pump_loop_steps(3) [of s] less.prems show ?thesis by simp
    next
      case (Some p)
      then obtain len block r where rb: "read_block (pm_reader s) = Some (len, block, r)"
        by (cases p) auto
      obtain clk relay where ob: "observe_block clock i block (pm_clock s, pm_relay s) = (clk, relay)"
        by fastforce
      obtain go_on c where fw: "forward_block w len block (pm_client s) = (go_on, c)" by fastforce
      have "wf_titles relay"
        using wf_titles_observe [of "(pm_clock s, pm_relay s)" clock i block] less.prems ob by simp
      moreover have "wf_titles (pm_relay (?p (s\<lparr>pm_reader := r, pm_clock := clk, pm_relay := relay,
          pm_client := c, pm_remaining := n\<rparr>)))" for n
        using calculation read_block_rest [OF rb] by (intro less.hyps) simp_all
      ultimately show ?thesis
        unfolding pump_loop_steps(4) [OF zero rb fw ob refl] by (cases metaint) simp_all
    qed
  qed
qed

lemma remember_title_lookup:
  assumes "wf_titles relay"
  shows "map_of (rl_titles (remember_title i t relay)) j =
    (if j = i then Some t
     else if MAX_TITLES \<le> length (rl_titles relay) \<and> map_of (rl_titles relay) i = None
             \<and> map_option fst (oldest_title (rl_titles relay)) = Some j then None
     else map_of (rl_titles relay) j)"
  by (auto simp: remember_title_def Let_def split: option.split)

section \<open>The relayed stream\<close>

lemma pump_demux:
  fixes clock :: "nat \<Rightarrow> instant \<times> string"
  assumes "length (first @ body_bytes source) \<le> USIZE_MAX"
  shows "concat (cl_sent (pm_client (pump clock (reader_from_icy source first) (Some n) w i relay None)))
           = demux_bytes w (icy_frames n n (first @ body_bytes source))
       \<and> pm_relay (pump clock (reader_from_icy source first) (Some n) w i relay None)
           = snd (demux_titles clock i (icy_frames n n (first @ body_bytes source)) (0, relay))
       \<and> concat (cl_sent (pm_client (pump clock (reader_from_icy source first) None w i relay None)))
           = first @ body_bytes source
       \<and> cl_sent (pm_client (pump clock (reader_from_icy source first) m w i relay (Some k)))
           = List.take k (cl_sent (pm_client (pump clock (reader_from_icy source first) m w i relay None)))"
proof -
  let ?r = "reader_from_icy source first"
  have r: "wf_reader ?r" "flat ?r = first @ body_bytes source"
    by (simp_all add: reader_from_icy_def wf_reader_def flat_def)
  define s0 where "s0 m = \<lparr> pm_reader = ?r, pm_remaining = (case m of None \<Rightarrow> USIZE_MAX | Some n \<Rightarrow> n),
      pm_relay = relay, pm_client = \<lparr> cl_sent = [], cl_left = None \<rparr>, pm_clock = 0 \<rparr>" for m :: "nat option"
  have p: "pump clock ?r m w i relay None = pump_loop clock m w i (s0 m)"
    and q: "pump clock ?r m w i relay (Some k) = pump_loop clock m w i (leaving k (s0 m))" for m
    by (simp_all add: pump_def s0_def leaving_def)
  have "demuxed clock n w i (s0 (Some n)) (pump_loop clock (Some n) w i (s0 (Some n)))"
    using r by (intro pump_loop_demux) (simp_all add: s0_def)
  moreover have "concat (cl_sent (pm_client (pump_loop clock None w i (s0 None)))) = flat ?r"
    using r assms pump_loop_plain [of "s0 None" clock w i] by (simp add: s0_def)
  moreover have "cut_after k (s0 m) (pump_loop clock m w i (s0 m)) (pump_loop clock m w i (leaving k (s0 m)))"
    by (intro pump_loop_leaving) (simp add: s0_def)
  ultimately show ?thesis
    unfolding p q by (auto simp: demuxed_def cut_after_def s0_def r Let_def dest: arg_cong [of _ _ snd])
qed

text \<open>
  C24: The relay demultiplexes a station's stream correctly whatever the transport chunks are:
  with a metadata interval a client that asked for metadata receives the stream as sent and one
  that did not receives the audio bytes alone, in order and each once, up to a truncated block;
  the observed titles are those of the complete blocks. Without an interval the whole stream is
  forwarded (up to the largest word of bytes). A client that leaves after k frames has
  received the first k frames of what a client that stays receives.
\<close>
theorem pump_matches_demux:
  fixes clock :: "nat \<Rightarrow> instant \<times> string"
  assumes "length (first @ body_bytes source) \<le> USIZE_MAX"
  shows "concat (cl_sent (pm_client (pump clock (reader_from_icy source first) (Some n) w i relay None)))
           = demux_bytes w (icy_frames n n (first @ body_bytes source))
       \<and> pm_relay (pump clock (reader_from_icy source first) (Some n) w i relay None)
           = snd (demux_titles clock i (icy_frames n n (first @ body_bytes source)) (0, relay))
       \<and> concat (cl_sent (pm_client (pump clock (reader_from_icy source first) None w i relay None)))
           = first @ body_bytes source
       \<and> cl_sent (pm_client (pump clock (reader_from_icy source first) m w i relay (Some k)))
           = List.take k (cl_sent (pm_client (pump clock (reader_from_icy source first) m w i relay None)))"
  using assms by (rule pump_demux)

text \<open>A stream in awkward chunks: one byte of audio per block, one empty block, one title.\<close>

definition example_chunks :: "read_outcome list" where
  "example_chunks =
     [Chunk [CHR ''a'', CHR 0x00], Chunk ''b'', Chunk (CHR 0x02 # ''StreamTitle''),
      Chunk (CHR ''='' # CHR 0x27 # ''Song'' @ [CHR 0x27, CHR '';'']),
      Chunk (replicate 13 (CHR 0x00) @ ''c'')]"

definition empty_relay :: relay_state where
  "empty_relay = \<lparr> rl_titles = [], rl_changes = [] \<rparr>"

definition example_clock :: "nat \<Rightarrow> instant \<times> string" where
  "example_clock k = (int k, ''2025-01-01T00:00:00Z'')"

lemma example_demux:
  "icy_frames 1 1 (body_bytes example_chunks)
     = ([(''a'', CHR 0x00, []),
         (''b'', CHR 0x02, ''StreamTitle='' @ [CHR 0x27] @ ''Song'' @ [CHR 0x27, CHR '';''] @ replicate 13 (CHR 0x00))],
        ''c'')"
  by (simp add: example_chunks_def byte_def icy_frames.simps Let_def)

theorem pump_matches_demux_witness:
  "length ([] @ body_bytes example_chunks) \<le> USIZE_MAX
   \<and> concat (cl_sent (pm_client (pump example_clock (reader_from_icy example_chunks []) (Some 1) False ''s'' empty_relay None)))
       = ''abc''"
proof -
  have len: "length ([] @ body_bytes example_chunks) \<le> USIZE_MAX"
    by (simp add: example_chunks_def USIZE_MAX_def)
  have "demux_bytes False (icy_frames 1 1 ([] @ body_bytes example_chunks)) = ''abc''"
    by (simp only: append_Nil example_demux) (simp add: demux_bytes_def)
  with pump_matches_demux [OF len, of example_clock 1 False "''s''" empty_relay None 0] len
  show ?thesis by simp
qed

text \<open>
  The title table keeps its shape whatever a station sends and whenever the client leaves:
  one entry per station, at most 1024 of them, each title non-empty, at most 512 bytes and free
  of control characters. A new title is found under its station; every other entry stays, but a
  full table gives up one entry, and none was observed earlier than that one.
\<close>
theorem title_table_invariant:
  assumes "wf_titles relay"
  shows "wf_titles (pm_relay (pump clock r metaint w i relay takes))
       \<and> map_of (rl_titles (remember_title i t relay)) i = Some t
       \<and> (\<forall>j. j \<noteq> i \<longrightarrow>
            map_of (rl_titles (remember_title i t relay)) j = map_of (rl_titles relay) j
            \<or> length (rl_titles relay) = MAX_TITLES \<and> map_of (rl_titles relay) i = None
              \<and> (\<exists>v. map_of (rl_titles relay) j = Some v
                   \<and> (\<forall>e \<in> set (rl_titles relay). ts_observed_at v \<le> ts_observed_at (snd e))))"
proof -
  have "wf_titles (pm_relay (pump clock r metaint w i relay takes))"
    unfolding pump_def using assms by (intro wf_titles_pump_loop) simp
  moreover have "map_of (rl_titles relay) j = Some (snd e) \<and>
      (\<forall>f \<in> set (rl_titles relay). ts_observed_at (snd e) \<le> ts_observed_at (snd f))"
    if "oldest_title (rl_titles relay) = Some e" "fst e = j" for e j
    using that assms oldest_title_in [OF that(1)] oldest_title_least [OF that(1)]
    by (cases e) (auto simp: wf_titles_def)
  ultimately show ?thesis
    using assms by (auto simp: remember_title_lookup wf_titles_def) blast
qed

theorem title_table_invariant_witness:
  "wf_titles empty_relay \<and>
   wf_titles (pm_relay (pump example_clock (reader_from_icy example_chunks []) (Some 1) True ''s'' empty_relay None))"
proof -
  have "wf_titles empty_relay" by (simp add: wf_titles_def empty_relay_def)
  with title_table_invariant [OF this] show ?thesis by blast
qed

text \<open>
  The deadline is read after the snapshot: a title that grows stale between the two readings is
  reported as fresh and no notice that it went stale is ever armed.
\<close>

lemma stale_notice_missed:
  "\<exists>relay now later. now < later \<and>
     np_state (hd (sb_frames (subscribe_titles relay now later ''s''))) = ''fresh'' \<and>
     sb_stale_at (subscribe_titles relay now later ''s'') = None"
proof -
  let ?t = "\<lparr> ts_raw_title = ''x'', ts_observed_at = 0, ts_updated_at = [] \<rparr>"
  let ?relay = "\<lparr> rl_titles = [(''s'', ?t)], rl_changes = [] \<rparr>"
  have "STALE_AFTER - 1 < STALE_AFTER \<and>
     np_state (hd (sb_frames (subscribe_titles ?relay (STALE_AFTER - 1) STALE_AFTER ''s''))) = ''fresh'' \<and>
     sb_stale_at (subscribe_titles ?relay (STALE_AFTER - 1) STALE_AFTER ''s'') = None"
    by (simp add: subscribe_titles_def title_snapshot_of_def stale_deadline_def Let_def)
  then show ?thesis by blast
qed

end
