(* ===== verification/Transport.thy ===== *)
theory Transport
  imports Directory
begin

text \<open>
  The HTTP boundary every handler shares: header and cookie access, credential comparison and
  the trusted-proxy checks of \<open>http/transport.rs\<close>, the process-local admission limits of
  \<open>http/state.rs\<close> and the native-session gate \<open>authenticate_and_throttle\<close> of
  \<open>http/control_auth.rs\<close>.

  A header map is the list of its entries, names in lower case as the library stores them. A
  response is the value of a success or an \<open>http_error\<close>. The token digest is an argument.
\<close>

unbundle bit_operations_syntax

section \<open>Headers\<close>

type_synonym header_map = "(string \<times> string) list"

text \<open>\<open>HeaderValue::to_str\<close> accepts visible ASCII and tabs only.\<close>

definition header_text :: "string \<Rightarrow> string option" where
  "header_text value =
     (if list_all (\<lambda>c. 32 \<le> byte c \<and> byte c < 127 \<or> byte c = 9) value then Some value else None)"

definition header_str :: "string \<Rightarrow> header_map \<Rightarrow> string option" where
  "header_str name headers = Option.bind (map_of headers name) header_text"

definition is_json_content_type :: "header_map \<Rightarrow> bool" where
  "is_json_content_type headers =
     is_some_and (header_str ''content-type'' headers)
       (\<lambda>value. is_some (strip_prefix ''application/json'' (map to_ascii_lowercase value)))"

definition MAX_PUBLIC_JSON_REQUEST_BODY_BYTES :: nat where
  "MAX_PUBLIC_JSON_REQUEST_BODY_BYTES = 16 * 1024"

definition http_failure :: "nat \<Rightarrow> string \<Rightarrow> http_error" where
  "http_failure status code = \<lparr>he_status = status, he_code = code, he_retry_after = None\<rparr>"

definition with_retry_after :: "nat \<Rightarrow> http_error \<Rightarrow> http_error" where
  "with_retry_after seconds_left e = e\<lparr>he_retry_after := Some seconds_left\<rparr>"

text \<open>
  The bounded JSON body. \<open>parse\<close> is the JSON reader and \<open>decode\<close> the typed deserialiser of the
  endpoint, which are generated code.
\<close>

definition parse_json_request_with_limit ::
  "(string \<Rightarrow> 'j option) \<Rightarrow> ('j \<Rightarrow> 'a option) \<Rightarrow> header_map \<Rightarrow> string \<Rightarrow> nat \<Rightarrow> http_error + 'a" where
  "parse_json_request_with_limit parse decode headers body max_bytes =
     (if \<not> is_json_content_type headers then Err (http_failure 400 ''malformed_request'')
      else if max_bytes < length body then Err (http_failure 413 ''request_too_large'')
      else case parse body of
        None \<Rightarrow> Err (http_failure 400 ''malformed_request'')
      | Some value \<Rightarrow> ok_or (http_failure 422 ''validation_failed'') (decode value))"

definition parse_json_request ::
  "(string \<Rightarrow> 'j option) \<Rightarrow> ('j \<Rightarrow> 'a option) \<Rightarrow> header_map \<Rightarrow> string \<Rightarrow> http_error + 'a" where
  "parse_json_request parse decode headers body =
     parse_json_request_with_limit parse decode headers body MAX_PUBLIC_JSON_REQUEST_BODY_BYTES"

definition is_ascii_alphanumeric :: "char \<Rightarrow> bool" where
  "is_ascii_alphanumeric c =
     (is_ascii_digit c \<or> is_ascii_lowercase c \<or> 65 \<le> byte c \<and> byte c \<le> 90)"

definition is_valid_request_id :: "string \<Rightarrow> bool" where
  "is_valid_request_id value =
     (value \<noteq> [] \<and> length value \<le> 128
      \<and> list_all (\<lambda>c. is_ascii_alphanumeric c \<or> c = CHR ''-'' \<or> c = CHR ''_'') value)"

text \<open>\<open>fallback\<close> is the identifier the process-local sequence would allocate.\<close>

definition request_id :: "string \<Rightarrow> header_map \<Rightarrow> string" where
  "request_id fallback headers =
     (case opt_filter is_valid_request_id (header_str ''x-request-id'' headers) of
        Some value \<Rightarrow> value | None \<Rightarrow> fallback)"

section \<open>Trimming\<close>

text \<open>The UTF-8 encodings of the characters with the \<open>White_Space\<close> property.\<close>

definition whitespace_chars :: "string list" where
  "whitespace_chars =
     [[CHR 0x09], [CHR 0x0A], [CHR 0x0B], [CHR 0x0C], [CHR 0x0D], [CHR 0x20],
      [CHR 0xC2, CHR 0x85], [CHR 0xC2, CHR 0xA0], [CHR 0xE1, CHR 0x9A, CHR 0x80]]
     @ map (\<lambda>n. [CHR 0xE2, CHR 0x80, char_of n]) ([128..<139] @ [168, 169, 175 :: nat])
     @ [[CHR 0xE2, CHR 0x81, CHR 0x9F], [CHR 0xE3, CHR 0x80, CHR 0x80]]"

definition starts_with :: "'a list \<Rightarrow> 'a list \<Rightarrow> bool" where
  "starts_with s p = (take (length p) s = p)"

lemma starts_with_drop: "starts_with s p \<Longrightarrow> p \<noteq> [] \<Longrightarrow> length s - length p < length s"
  by (cases s) (auto simp: starts_with_def)

function trim_front :: "string list \<Rightarrow> string \<Rightarrow> string" where
  "trim_front pats s =
     (case find (\<lambda>p. p \<noteq> [] \<and> starts_with s p) pats of
        None \<Rightarrow> s | Some p \<Rightarrow> trim_front pats (drop (length p) s))"
  by pat_completeness auto
termination
  by (relation "measure (\<lambda>(_, s). length s)") (auto simp: find_Some_iff intro: starts_with_drop)

declare trim_front.simps [simp del]

definition str_trim :: "string \<Rightarrow> string" where
  "str_trim s =
     rev (trim_front (map rev whitespace_chars) (rev (trim_front whitespace_chars s)))"

section \<open>Credentials\<close>

text \<open>The loop over the longer of the two lengths; an absent byte reads as zero.\<close>

definition byte_at :: "string \<Rightarrow> nat \<Rightarrow> nat" where
  "byte_at s i = (if i < length s then byte (s ! i) else 0)"

definition constant_time_eq :: "string \<Rightarrow> string \<Rightarrow> bool" where
  "constant_time_eq left right =
     (fold (\<lambda>i difference. difference OR (byte_at left i XOR byte_at right i))
        [0..<max (length left) (length right)]
        (length left XOR length right) = 0)"

definition bearer_token :: "header_map \<Rightarrow> string option" where
  "bearer_token headers =
     opt_filter (\<lambda>value. value \<noteq> [] \<and> length value \<le> 512)
       (Option.bind (header_str ''authorization'' headers) (strip_prefix ''Bearer ''))"

fun find_map :: "('a \<Rightarrow> 'b option) \<Rightarrow> 'a list \<Rightarrow> 'b option" where
  "find_map f [] = None"
| "find_map f (x # xs) = (case f x of Some y \<Rightarrow> Some y | None \<Rightarrow> find_map f xs)"

definition cookie_value :: "header_map \<Rightarrow> string \<Rightarrow> string option" where
  "cookie_value headers name =
     Option.bind (header_str ''cookie'' headers) (\<lambda>cookies.
       find_map (\<lambda>cookie. Option.bind (strip_prefix name (str_trim cookie)) (strip_prefix ''=''))
         (split_on (CHR '';'') cookies))"

definition FIRST_PARTY_ORIGIN :: string where
  "FIRST_PARTY_ORIGIN = ''https://rockplatform.win''"

definition is_trusted_browser_request :: "header_map \<Rightarrow> bool" where
  "is_trusted_browser_request headers =
     (is_some_and (header_str ''origin'' headers) (\<lambda>origin. origin = FIRST_PARTY_ORIGIN)
      \<and> is_some_and (header_str ''x-forwarded-proto'' headers)
          (\<lambda>protocol. eq_ignore_ascii_case protocol ''https''))"

definition is_trusted_admin_browser_request :: "header_map \<Rightarrow> string option \<Rightarrow> bool" where
  "is_trusted_admin_browser_request headers local_admin_origin =
     (is_trusted_browser_request headers
      \<or> is_some_and local_admin_origin (\<lambda>expected.
          is_some_and (header_str ''origin'' headers) (\<lambda>origin. origin = expected)))"

definition trusted_proxy_header_matches :: "header_map \<Rightarrow> string option \<Rightarrow> bool" where
  "trusted_proxy_header_matches headers expected =
     (case opt_filter (\<lambda>value. value \<noteq> []) expected of
        None \<Rightarrow> False
      | Some token \<Rightarrow>
          (case header_str ''x-rockserver-proxy'' headers of
             None \<Rightarrow> False | Some actual \<Rightarrow> constant_time_eq actual token))"

text \<open>A header value is ASCII, so its first 256 characters are its first 256 bytes.\<close>

definition request_rate_limit_scope :: "header_map \<Rightarrow> string option \<Rightarrow> string" where
  "request_rate_limit_scope headers expected_proxy_token =
     (if trusted_proxy_header_matches headers expected_proxy_token then
        (case header_str ''x-forwarded-for'' headers of
           Some forwarded \<Rightarrow>
             if str_trim (take 256 forwarded) \<noteq> [] then take 256 forwarded
             else ''trusted-proxy-unknown-client''
         | None \<Rightarrow> ''trusted-proxy-unknown-client'')
      else ''direct-peer'')"

definition is_authorized :: "string \<Rightarrow> header_map \<Rightarrow> bool" where
  "is_authorized api_bearer_token headers =
     (case Option.bind (header_str ''authorization'' headers) (strip_prefix ''Bearer '') of
        None \<Rightarrow> False | Some token \<Rightarrow> constant_time_eq token api_bearer_token)"

section \<open>Comparison\<close>

lemma xor_nat_eq_0 [simp]: "a XOR b = 0 \<longleftrightarrow> a = (b :: nat)"
proof
  assume "a XOR b = 0"
  then have "\<forall>n. bit a n = bit b n" by (simp add: bit_eq_iff bit_simps)
  then show "a = b" by (simp add: bit_eq_iff)
qed simp

lemma or_nat_eq_0 [simp]: "a OR b = 0 \<longleftrightarrow> a = 0 \<and> b = (0 :: nat)"
  by (auto simp: bit_eq_iff bit_simps)

lemma fold_or_eq_0:
  "fold (\<lambda>i difference. difference OR f i) is d = (0 :: nat) \<longleftrightarrow> d = 0 \<and> (\<forall>i \<in> set is. f i = 0)"
  by (induction "is" arbitrary: d) auto

lemma byte_inj [simp]: "byte a = byte b \<longleftrightarrow> a = b"
  by (simp add: byte_def)

lemma constant_time_eq_iff: "constant_time_eq left right \<longleftrightarrow> left = right"
proof -
  have "constant_time_eq left right \<longleftrightarrow> length left = length right
      \<and> (\<forall>i < max (length left) (length right). byte_at left i = byte_at right i)"
    unfolding constant_time_eq_def fold_or_eq_0 by auto
  also have "\<dots> \<longleftrightarrow> length left = length right \<and> (\<forall>i < length left. left ! i = right ! i)"
    by (rule conj_cong [OF refl]) (simp add: byte_at_def)
  finally show ?thesis by (simp only: list_eq_iff_nth_eq)
qed

lemma trusted_proxy_iff:
  "trusted_proxy_header_matches headers expected \<longleftrightarrow>
     (\<exists>token. expected = Some token \<and> token \<noteq> [] \<and> header_str ''x-rockserver-proxy'' headers = Some token)"
  by (cases expected)
     (auto simp: trusted_proxy_header_matches_def constant_time_eq_iff split: option.splits)

section \<open>Admission limits\<close>

definition RATE_WINDOW :: int where "RATE_WINDOW = seconds 60"

definition RETRY_AFTER_SECONDS :: nat where "RETRY_AFTER_SECONDS = 60"

definition GLOBAL_VOICE_SESSIONS :: nat where "GLOBAL_VOICE_SESSIONS = 100"

definition VOICE_CAPACITY_RETRY_AFTER_SECONDS :: nat where
  "VOICE_CAPACITY_RETRY_AFTER_SECONDS = 30"

record public_limit =
  pl_requests :: nat
  pl_burst :: nat

text \<open>
  The buckets are keyed by endpoint, and by endpoint and device. The device identifier has a
  fixed length in the source's text key, so the pair is as good as the text.
\<close>

record public_limit_state =
  ls_requests :: "string \<Rightarrow> instant list"
  ls_device_requests :: "string \<times> device_id \<Rightarrow> instant list"
  ls_active_voice :: nat

definition live_bucket :: "instant \<Rightarrow> instant list \<Rightarrow> instant list" where
  "live_bucket now bucket = filter (\<lambda>seen. now - seen < RATE_WINDOW) bucket"

definition rate_limited :: http_error where
  "rate_limited = with_retry_after RETRY_AFTER_SECONDS (http_failure 429 ''rate_limited'')"

definition public_request_allowed ::
  "instant \<Rightarrow> string \<Rightarrow> public_limit \<Rightarrow> public_limit_state \<Rightarrow> (http_error + unit) \<times> public_limit_state" where
  "public_request_allowed now endpoint limit st =
     (let bucket = live_bucket now (ls_requests st endpoint)
      in if pl_burst limit \<le> length bucket
         then (Err rate_limited, st\<lparr>ls_requests := (ls_requests st)(endpoint := bucket)\<rparr>)
         else (Ok (), st\<lparr>ls_requests := (ls_requests st)(endpoint := bucket @ [now])\<rparr>))"

definition device_request_allowed ::
  "instant \<Rightarrow> string \<Rightarrow> device_id \<Rightarrow> public_limit \<Rightarrow> public_limit_state
   \<Rightarrow> (http_error + unit) \<times> public_limit_state" where
  "device_request_allowed now endpoint device limit st =
     (let bucket = live_bucket now (ls_device_requests st (endpoint, device))
      in if pl_burst limit \<le> length bucket
         then (Err rate_limited,
               st\<lparr>ls_device_requests := (ls_device_requests st)((endpoint, device) := bucket)\<rparr>)
         else (Ok (),
               st\<lparr>ls_device_requests := (ls_device_requests st)((endpoint, device) := bucket @ [now])\<rparr>))"

definition reserve_voice_slot :: "public_limit_state \<Rightarrow> (http_error + unit) \<times> public_limit_state" where
  "reserve_voice_slot st =
     (if GLOBAL_VOICE_SESSIONS \<le> ls_active_voice st
      then (Err (with_retry_after VOICE_CAPACITY_RETRY_AFTER_SECONDS
                   (http_failure 503 ''voice_capacity_exhausted'')), st)
      else (Ok (), st\<lparr>ls_active_voice := ls_active_voice st + 1\<rparr>))"

text \<open>Dropping a slot; the counter never goes below zero.\<close>

definition release_voice_slot :: "public_limit_state \<Rightarrow> public_limit_state" where
  "release_voice_slot st = st\<lparr>ls_active_voice := ls_active_voice st - 1\<rparr>"

definition authenticate_control_ingress ::
  "(string \<Rightarrow> string) \<Rightarrow> header_map \<Rightarrow> session_resolver \<Rightarrow> control_auth_error + control_principal" where
  "authenticate_control_ingress token_hash headers resolver =
     authenticate_device_control token_hash (header_str ''authorization'' headers) resolver"

definition authenticate_and_throttle ::
  "(string \<Rightarrow> string) \<Rightarrow> session_resolver option \<Rightarrow> instant \<Rightarrow> header_map \<Rightarrow> string \<Rightarrow> public_limit
   \<Rightarrow> public_limit_state \<Rightarrow> (http_error + control_principal) \<times> public_limit_state" where
  "authenticate_and_throttle token_hash resolver now headers endpoint limit st =
     (case resolver of
        None \<Rightarrow> (Err (retryable ''control_auth_unavailable''), st)
      | Some lookup \<Rightarrow>
          (case authenticate_control_ingress token_hash headers lookup of
             Inl InvalidCredential \<Rightarrow> (Err unauthorized_response, st)
           | Inl AuthUnavailable \<Rightarrow> (Err (retryable ''control_auth_unavailable''), st)
           | Inr caller \<Rightarrow>
               (let (allowed, st') = device_request_allowed now endpoint (cp_device_id caller) limit st
                in (and_then allowed (\<lambda>_. Ok caller), st'))))"

section \<open>The sliding window\<close>

text \<open>
  The specification of a quota: a request is admitted when fewer than \<open>burst\<close> requests were
  admitted in the last sixty seconds, counted over the whole history.
\<close>

fun window_admits :: "nat \<Rightarrow> instant list \<Rightarrow> instant list \<Rightarrow> instant list" where
  "window_admits burst seen [] = []"
| "window_admits burst seen (now # later) =
     (if length (live_bucket now seen) < burst
      then now # window_admits burst (seen @ [now]) later else window_admits burst seen later)"

text \<open>The calls of the throttle and the admitted ones among them.\<close>

type_synonym device_call = "instant \<times> string \<times> device_id"

fun throttle_run ::
  "(string \<Rightarrow> public_limit) \<Rightarrow> device_call list \<Rightarrow> public_limit_state \<Rightarrow> device_call list" where
  "throttle_run limits [] st = []"
| "throttle_run limits ((now, endpoint, device) # calls) st =
     (let (allowed, st') = device_request_allowed now endpoint device (limits endpoint) st
      in if is_ok allowed then (now, endpoint, device) # throttle_run limits calls st'
         else throttle_run limits calls st')"

definition calls_of :: "string \<times> device_id \<Rightarrow> device_call list \<Rightarrow> instant list" where
  "calls_of key calls = map fst (filter (\<lambda>c. snd c = key) calls)"

definition in_window :: "instant \<Rightarrow> instant \<Rightarrow> bool" where
  "in_window now t = (now - RATE_WINDOW < t \<and> t \<le> now)"

lemma window_admits_bound:
  assumes "sorted later" "\<forall>s \<in> set seen. \<forall>t \<in> set later. s \<le> t"
    and "length (filter (in_window now) seen) \<le> burst"
  shows "length (filter (in_window now) (seen @ window_admits burst seen later)) \<le> burst"
  using assms
proof (induction burst seen later rule: window_admits.induct)
  case (2 burst seen t later)
  show ?case
  proof (cases "length (live_bucket t seen) < burst")
    case False
    with 2 show ?thesis by simp
  next
    case True
    have "length (filter (in_window now) (seen @ [t])) \<le> burst"
    proof (cases "in_window now t")
      case False
      with "2.prems" show ?thesis by simp
    next
      case inw: True
      have "length (filter (in_window now) seen) \<le> length (live_bucket t seen)"
        using inw unfolding live_bucket_def
        by (induction seen) (auto simp: in_window_def)
      with True inw show ?thesis by simp
    qed
    moreover have "\<forall>s \<in> set (seen @ [t]). \<forall>u \<in> set later. s \<le> u" using "2.prems" by auto
    ultimately show ?thesis using "2.IH"(1) [OF True] "2.prems"(1) True by simp
  qed
qed simp

lemma live_bucket_append [simp]: "live_bucket now (xs @ ys) = live_bucket now xs @ live_bucket now ys"
  by (simp add: live_bucket_def)

lemma live_bucket_twice: "now \<le> later \<Longrightarrow> live_bucket later (live_bucket now seen) = live_bucket later seen"
  by (induction seen) (auto simp: live_bucket_def)

lemma live_bucket_now [simp]: "live_bucket now [now] = [now]"
  by (simp add: live_bucket_def RATE_WINDOW_def seconds_def nanos_per_second_def)

text \<open>A bucket answers for every later instant as the whole history of its key does.\<close>

definition remembers :: "public_limit_state \<Rightarrow> string \<times> device_id \<Rightarrow> instant \<Rightarrow> instant list \<Rightarrow> bool" where
  "remembers st key since seen =
     (\<forall>later \<ge> since. live_bucket later (ls_device_requests st key) = live_bucket later seen)"

lemma remembers_mono: "remembers st key since seen \<Longrightarrow> since \<le> now \<Longrightarrow> remembers st key now seen"
  by (auto simp: remembers_def)

lemma remembers_step:
  assumes "remembers st key now seen"
    and "device_request_allowed now endpoint device limit st = (allowed, st')"
  shows "remembers st' key now
      (if (endpoint, device) = key \<and> length (live_bucket now seen) < pl_burst limit then seen @ [now] else seen)"
    and "(endpoint, device) = key \<Longrightarrow> is_ok allowed \<longleftrightarrow> length (live_bucket now seen) < pl_burst limit"
  using assms
  by (auto simp: device_request_allowed_def remembers_def Let_def live_bucket_twice split: if_splits)

lemma throttle_run_window:
  assumes "sorted (map fst calls)" "\<forall>c \<in> set calls. since \<le> fst c" "remembers st key since seen"
  shows "calls_of key (throttle_run limits calls st)
    = window_admits (pl_burst (limits (fst key))) seen (calls_of key calls)"
  using assms
proof (induction limits calls st arbitrary: since seen rule: throttle_run.induct)
  case (2 limits now endpoint device calls st)
  obtain allowed st' where step: "device_request_allowed now endpoint device (limits endpoint) st = (allowed, st')"
    by fastforce
  have rem: "remembers st key now seen" using "2.prems" remembers_mono by fastforce
  note after = remembers_step [OF rem step]
  have later: "\<forall>c \<in> set calls. now \<le> fst c" using "2.prems"(1) by auto
  show ?case
  proof (cases "(endpoint, device) = key")
    case True
    then have "fst key = endpoint" by auto
    with True after later 2 step show ?thesis
      by (auto simp: calls_of_def)
  next
    case False
    with after later 2 step show ?thesis
      by (auto simp: calls_of_def)
  qed
qed (simp add: calls_of_def)

section \<open>Properties\<close>

text \<open>
  C25: The per-device quota is a sliding window. Of a device's calls to an endpoint, in the order
  of the clock, exactly those are admitted that find fewer than burst calls admitted in the
  sixty seconds before; calls of other devices and endpoints change nothing. So no window of
  sixty seconds holds more than burst admitted calls.
\<close>
theorem device_quota_window:
  assumes "sorted (map fst calls)" "ls_device_requests st (endpoint, device) = []"
  shows "calls_of (endpoint, device) (throttle_run limits calls st)
           = window_admits (pl_burst (limits endpoint)) [] (calls_of (endpoint, device) calls)
       \<and> length (filter (in_window now) (calls_of (endpoint, device) (throttle_run limits calls st)))
           \<le> pl_burst (limits endpoint)"
proof -
  let ?key = "(endpoint, device)"
  have "remembers st ?key since []" for since
    using assms(2) by (simp add: remembers_def live_bucket_def)
  then have eq: "calls_of ?key (throttle_run limits calls st)
      = window_admits (pl_burst (limits endpoint)) [] (calls_of ?key calls)"
    using throttle_run_window [of calls "Min (insert 0 (fst ` set calls))" st ?key "[]" limits] assms(1)
    by simp
  moreover have "sorted (calls_of ?key calls)"
    using assms(1) unfolding calls_of_def by (metis sorted_filter)
  ultimately show ?thesis
    using window_admits_bound [of "calls_of ?key calls" "[]" now "pl_burst (limits endpoint)"] by simp
qed

definition example_limits :: "string \<Rightarrow> public_limit" where
  "example_limits endpoint = \<lparr>pl_requests = 6, pl_burst = 2\<rparr>"

definition no_requests :: public_limit_state where
  "no_requests = \<lparr>ls_requests = (\<lambda>_. []), ls_device_requests = (\<lambda>_. []), ls_active_voice = 0\<rparr>"

text \<open>Two calls pass, the third within the minute does not; a call of another device does.\<close>

theorem device_quota_window_witness:
  "sorted (map fst [(seconds 0, ''sync'', 7), (seconds 1, ''sync'', 7), (seconds 2, ''sync'', 7), (seconds 3, ''sync'', 8 :: device_id)])
   \<and> calls_of (''sync'', 7)
      (throttle_run example_limits
        [(seconds 0, ''sync'', 7), (seconds 1, ''sync'', 7), (seconds 2, ''sync'', 7), (seconds 3, ''sync'', 8)] no_requests)
     = [seconds 0, seconds 1]"
proof -
  let ?calls = "[(seconds 0, ''sync'', 7), (seconds 1, ''sync'', 7), (seconds 2, ''sync'', 7), (seconds 3, ''sync'', 8 :: device_id)]"
  have "sorted (map fst ?calls)" by (simp add: seconds_def nanos_per_second_def)
  moreover have "ls_device_requests no_requests (''sync'', 7) = []" by (simp add: no_requests_def)
  moreover have "window_admits 2 [] (calls_of (''sync'', 7) ?calls) = [seconds 0, seconds 1]"
    by (simp add: calls_of_def live_bucket_def RATE_WINDOW_def seconds_def nanos_per_second_def)
  ultimately show ?thesis
    using device_quota_window [of ?calls no_requests "''sync''" 7 example_limits 0]
    by (simp add: example_limits_def)
qed

text \<open>Voice slots: at most one hundred sessions hold one, whatever the order of events.\<close>

lemma voice_slots_bounded:
  assumes "ls_active_voice st \<le> GLOBAL_VOICE_SESSIONS"
  shows "ls_active_voice (snd (reserve_voice_slot st)) \<le> GLOBAL_VOICE_SESSIONS"
    and "ls_active_voice (release_voice_slot st) \<le> GLOBAL_VOICE_SESSIONS"
  using assms by (auto simp: reserve_voice_slot_def release_voice_slot_def)

text \<open>
  The gate of the native endpoints: a caller is let through exactly when the resolver knows the
  digest of its bearer token and its own bucket has room; a rejected credential leaves every
  bucket as it was.
\<close>

lemma authenticate_and_throttle_Ok:
  "authenticate_and_throttle token_hash resolver now headers endpoint limit st = (Ok caller, st') \<longleftrightarrow>
     (\<exists>lookup token session.
        resolver = Some lookup \<and> bearer_token headers = Some token \<and> lookup (token_hash token) = Ok (Some session)
        \<and> caller = \<lparr>cp_user_id = as_user_id session, cp_device_id = as_device_id session\<rparr>
        \<and> device_request_allowed now endpoint (as_device_id session) limit st = (Ok (), st'))"
  by (auto simp: authenticate_and_throttle_def authenticate_control_ingress_def authenticate_device_control_def
      bearer_token_def rs_simps split_beta Let_def split: option.splits sum.splits control_auth_error.splits)
     (metis prod.collapse)+

lemma rejected_credential_untouched:
  "bearer_token headers = None \<Longrightarrow>
     snd (authenticate_and_throttle token_hash resolver now headers endpoint limit st) = st"
  by (auto simp: authenticate_and_throttle_def authenticate_control_ingress_def authenticate_device_control_def
      bearer_token_def split: option.splits)

end
