(* ===== verification/Account_Store.thy ===== *)
theory Account_Store
  imports Transport "HOL-Library.Product_Lexorder"
begin

text \<open>
  The account store \<open>persistence/account_postgres/*.rs\<close>: accounts, passkeys, native devices and
  their sessions, browser sessions, pairing requests, WebAuthn challenges, rate-limit buckets and
  the audit trail, with every statement of the source as a function on the tables.

  A table is the list of its rows by primary key. A statement that would break a uniqueness
  constraint of the schema fails and leaves the database as it was; so does a database that
  cannot be reached. Times come from the database clock \<open>ac_now\<close>. Digests, identifiers and
  tokens are arguments: the handlers draw them.
\<close>

section \<open>Tables\<close>

type_synonym 'r row_table = "(uuid \<times> 'r) list"

definition update_rows :: "(uuid \<Rightarrow> 'r \<Rightarrow> bool) \<Rightarrow> ('r \<Rightarrow> 'r) \<Rightarrow> 'r row_table \<Rightarrow> 'r row_table" where
  "update_rows P f t = map (\<lambda>(i, r). (i, if P i r then f r else r)) t"

definition count_rows :: "(uuid \<Rightarrow> 'r \<Rightarrow> bool) \<Rightarrow> 'r row_table \<Rightarrow> nat" where
  "count_rows P t = length (filter (\<lambda>(i, r). P i r) t)"

definition find_row :: "(uuid \<Rightarrow> 'r \<Rightarrow> bool) \<Rightarrow> 'r row_table \<Rightarrow> (uuid \<times> 'r) option" where
  "find_row P t = find (\<lambda>(i, r). P i r) t"

text \<open>\<open>clash\<close> is the uniqueness constraint: what a row that is already there may not be.\<close>

definition insert_row :: "uuid \<Rightarrow> 'r \<Rightarrow> ('r \<Rightarrow> bool) \<Rightarrow> 'r row_table \<Rightarrow> unit + 'r row_table" where
  "insert_row i r clash t =
     (if map_of t i \<noteq> None \<or> (\<exists>(_, r') \<in> set t. clash r') then Err () else Ok (t @ [(i, r)]))"

section \<open>Rows\<close>

datatype account_status = AccountActive | AccountDeleted

record user_row =
  ur_status :: account_status
  ur_display_name :: string
  ur_created_at :: instant
  ur_deleted_at :: "instant option"

record native_device =
  nd_user_id :: user_id
  nd_display_name :: string
  nd_type :: string
  nd_app_version :: "string option"
  nd_secret_hash :: string
  nd_created_at :: instant
  nd_last_seen_at :: "instant option"
  nd_revoked_at :: "instant option"

record native_session =
  ns_user_id :: user_id
  ns_device_id :: device_id
  ns_access_hash :: string
  ns_access_expires_at :: instant
  ns_revoked_at :: "instant option"
  ns_last_seen_at :: "instant option"

record browser_row =
  bs_user_id :: user_id
  bs_token_hash :: string
  bs_csrf_hash :: string
  bs_reauthenticated_at :: instant
  bs_expires_at :: instant
  bs_absolute_expires_at :: instant
  bs_revoked_at :: "instant option"

record pairing_row =
  pq_desktop_hash :: string
  pq_approval_hash :: string
  pq_code_hash :: string
  pq_phrase :: string
  pq_display_name :: string
  pq_type :: string
  pq_app_version :: "string option"
  pq_expires_at :: instant
  pq_approved_by :: "user_id option"
  pq_approved_at :: "instant option"
  pq_consumed_at :: "instant option"
  pq_revoked_at :: "instant option"

record passkey_row =
  pk_user_id :: user_id
  pk_credential :: string
  pk_public_key :: string
  pk_sign_count :: int
  pk_transports :: "string list"
  pk_last_used_at :: "instant option"
  pk_revoked_at :: "instant option"

datatype webauthn_ceremony = Registration | Authentication

record challenge_row =
  wc_hash :: string
  wc_state_blob :: string
  wc_ceremony :: webauthn_ceremony
  wc_rp_id :: string
  wc_origin :: string
  wc_user_id :: "user_id option"
  wc_expires_at :: instant
  wc_consumed_at :: "instant option"
  wc_revoked_at :: "instant option"

record identity_row =
  ai_user_id :: user_id
  ai_kind :: string
  ai_revoked_at :: "instant option"

record audit_row =
  ae_user_id :: "user_id option"
  ae_device_id :: "device_id option"
  ae_event_type :: string

record home_state_row =
  hs_user_id :: user_id
  hs_expires_at :: instant

record home_link_row =
  hl_ciphertext :: string
  hl_nonce :: string
  hl_updated_at :: instant
  hl_revoked_at :: "instant option"

text \<open>OAuth states are keyed by their digest, smart-home links by their account.\<close>

record account_db =
  ac_available :: bool
  ac_now :: instant
  ac_users :: "user_row row_table"
  ac_devices :: "native_device row_table"
  ac_sessions :: "native_session row_table"
  ac_browsers :: "browser_row row_table"
  ac_pairings :: "pairing_row row_table"
  ac_passkeys :: "passkey_row row_table"
  ac_challenges :: "challenge_row row_table"
  ac_identities :: "identity_row row_table"
  ac_home_states :: "(string \<times> home_state_row) list"
  ac_home_links :: "home_link_row row_table"
  ac_buckets :: "(string \<times> instant) \<Rightarrow> nat"
  ac_audit :: "audit_row list"

type_synonym 'a account_op = "account_db \<Rightarrow> (unit + 'a) \<times> account_db"

text \<open>A transaction: an error, or a failed connection, leaves the database as it was.\<close>

definition account_tx :: "(account_db \<Rightarrow> unit + 'a \<times> account_db) \<Rightarrow> 'a account_op" where
  "account_tx body db =
     (if \<not> ac_available db then (Err (), db)
      else case body db of Inl e \<Rightarrow> (Err e, db) | Inr (x, db') \<Rightarrow> (Ok x, db'))"

definition account_query :: "(account_db \<Rightarrow> 'a) \<Rightarrow> account_db \<Rightarrow> unit + 'a" where
  "account_query q db = (if ac_available db then Ok (q db) else Err ())"

definition minutes :: "int \<Rightarrow> int" where "minutes n = seconds (60 * n)"

definition MAX_ACCOUNT_DEVICES :: nat where "MAX_ACCOUNT_DEVICES = 50"

definition BROWSER_SESSION_IDLE_MINUTES :: int where "BROWSER_SESSION_IDLE_MINUTES = 30 * 24 * 60"

definition BROWSER_SESSION_ABSOLUTE_MINUTES :: int where
  "BROWSER_SESSION_ABSOLUTE_MINUTES = 180 * 24 * 60"

definition active_user :: "account_db \<Rightarrow> user_id \<Rightarrow> bool" where
  "active_user db u = is_some_and (map_of (ac_users db) u) (\<lambda>r. ur_status r = AccountActive)"

definition user_name :: "account_db \<Rightarrow> user_id \<Rightarrow> string option" where
  "user_name db u =
     map_option ur_display_name (opt_filter (\<lambda>r. ur_status r = AccountActive) (map_of (ac_users db) u))"

definition is_safe_audit_event :: "string \<Rightarrow> bool" where
  "is_safe_audit_event event_type =
     (event_type \<in> set [''account_registered'', ''passkey_registered'', ''passkey_revoked'',
        ''pairing_completed'', ''device_session_issued'', ''refresh_rotated'', ''refresh_reuse_detected'',
        ''logout'', ''browser_logout'', ''device_revoked'', ''device_renamed'',
        ''account_deletion_accepted'', ''account_deletion_completed'', ''operator_account_deactivated'',
        ''operator_device_revoked'', ''operator_passkey_revoked'', ''yandex_home_connected'',
        ''yandex_home_disconnected''])"

definition audit :: "user_id option \<Rightarrow> device_id option \<Rightarrow> string \<Rightarrow> account_db \<Rightarrow> account_db" where
  "audit u d event_type db =
     db\<lparr>ac_audit := ac_audit db @ [\<lparr>ae_user_id = u, ae_device_id = d, ae_event_type = event_type\<rparr>]\<rparr>"

section \<open>Accounts, devices and native sessions\<close>

definition live_device :: "native_device \<Rightarrow> bool" where
  "live_device d = (nd_revoked_at d = None)"

definition device_of_row :: "(instant \<Rightarrow> string) \<Rightarrow> uuid \<times> native_device \<Rightarrow> owned_device" where
  "device_of_row fmt p =
     \<lparr>od_id = fst p, od_user_id = nd_user_id (snd p), od_display_name = nd_display_name (snd p),
      od_type = nd_type (snd p), od_created_at = fmt (nd_created_at (snd p)),
      od_last_seen_at = map_option fmt (nd_last_seen_at (snd p))\<rparr>"

definition find_owned_device ::
  "(instant \<Rightarrow> string) \<Rightarrow> user_id \<Rightarrow> device_id \<Rightarrow> account_db \<Rightarrow> unit + owned_device option" where
  "find_owned_device fmt u d = account_query (\<lambda>db.
     map_option (device_of_row fmt)
       (find_row (\<lambda>i r. i = d \<and> nd_user_id r = u \<and> live_device r \<and> active_user db u) (ac_devices db)))"

definition live_session :: "account_db \<Rightarrow> string \<Rightarrow> native_session \<Rightarrow> bool" where
  "live_session db access_hash s =
     (ns_access_hash s = access_hash \<and> ns_revoked_at s = None \<and> ac_now db < ns_access_expires_at s
      \<and> active_user db (ns_user_id s)
      \<and> is_some_and (map_of (ac_devices db) (ns_device_id s))
          (\<lambda>d. live_device d \<and> nd_user_id d = ns_user_id s))"

definition find_active_session_by_access_hash ::
  "string \<Rightarrow> account_db \<Rightarrow> unit + active_session option" where
  "find_active_session_by_access_hash access_hash = account_query (\<lambda>db.
     map_option (\<lambda>(i, s). \<lparr>as_session_id = i, as_user_id = ns_user_id s, as_device_id = ns_device_id s\<rparr>)
       (find_row (\<lambda>_. live_session db access_hash) (ac_sessions db)))"

text \<open>The resolver of the control ingress is this query.\<close>

definition resolve_active_native_session :: "account_db \<Rightarrow> session_resolver" where
  "resolve_active_native_session db access_hash = find_active_session_by_access_hash access_hash db"

record account_projection =
  ap_account_name :: string
  ap_created_at :: string
  ap_device_name :: string
  ap_device_type :: string
  ap_device_created_at :: string
  ap_last_seen_at :: "string option"

definition account_projection_of ::
  "(instant \<Rightarrow> string) \<Rightarrow> user_id \<Rightarrow> device_id \<Rightarrow> account_db \<Rightarrow> unit + account_projection option" where
  "account_projection_of fmt u d = account_query (\<lambda>db.
     (case (opt_filter (\<lambda>r. ur_status r = AccountActive) (map_of (ac_users db) u),
            opt_filter (\<lambda>r. nd_user_id r = u \<and> live_device r) (map_of (ac_devices db) d)) of
        (Some a, Some r) \<Rightarrow>
          Some \<lparr>ap_account_name = ur_display_name a, ap_created_at = fmt (ur_created_at a),
                ap_device_name = nd_display_name r, ap_device_type = nd_type r,
                ap_device_created_at = fmt (nd_created_at r),
                ap_last_seen_at = map_option fmt (nd_last_seen_at r)\<rparr>
      | _ \<Rightarrow> None))"

definition account_display_name :: "user_id \<Rightarrow> account_db \<Rightarrow> unit + string option" where
  "account_display_name u = account_query (\<lambda>db. user_name db u)"

definition owned_rows_of :: "account_db \<Rightarrow> user_id \<Rightarrow> native_device row_table" where
  "owned_rows_of db u =
     sort_key (\<lambda>(i, r). (nd_created_at r, i))
       (filter (\<lambda>(_, r). nd_user_id r = u \<and> live_device r \<and> active_user db u) (ac_devices db))"

definition list_owned_devices ::
  "(instant \<Rightarrow> string) \<Rightarrow> user_id \<Rightarrow> account_db \<Rightarrow> unit + owned_device list" where
  "list_owned_devices fmt u = account_query (\<lambda>db. map (device_of_row fmt) (owned_rows_of db u))"

definition revoke_rows_of_device :: "user_id \<Rightarrow> device_id \<Rightarrow> account_db \<Rightarrow> account_db" where
  "revoke_rows_of_device u d db =
     db\<lparr>ac_sessions := update_rows (\<lambda>_ s. ns_user_id s = u \<and> ns_device_id s = d \<and> ns_revoked_at s = None)
          (\<lambda>s. s\<lparr>ns_revoked_at := Some (ac_now db)\<rparr>) (ac_sessions db)\<rparr>"

definition revoke_owned_device :: "user_id \<Rightarrow> device_id \<Rightarrow> bool account_op" where
  "revoke_owned_device u d = account_tx (\<lambda>db.
     (let hit = (\<lambda>i r. i = d \<and> nd_user_id r = u \<and> live_device r \<and> active_user db u)
      in if count_rows hit (ac_devices db) = 0 then Ok (False, db)
         else Ok (True, audit (Some u) (Some d) ''device_revoked''
                (revoke_rows_of_device u d
                  (db\<lparr>ac_devices := update_rows hit (\<lambda>r. r\<lparr>nd_revoked_at := Some (ac_now db)\<rparr>)
                        (ac_devices db)\<rparr>)))))"

definition new_native_session :: "user_id \<Rightarrow> device_id \<Rightarrow> string \<Rightarrow> instant \<Rightarrow> native_session" where
  "new_native_session u d access_hash expires_at =
     \<lparr>ns_user_id = u, ns_device_id = d, ns_access_hash = access_hash, ns_access_expires_at = expires_at,
      ns_revoked_at = None, ns_last_seen_at = None\<rparr>"

definition insert_session :: "uuid \<Rightarrow> native_session \<Rightarrow> account_db \<Rightarrow> unit + account_db" where
  "insert_session i s db =
     and_then (insert_row i s (\<lambda>s'. ns_access_hash s' = ns_access_hash s) (ac_sessions db))
       (\<lambda>t. Ok (db\<lparr>ac_sessions := t\<rparr>))"

text \<open>
  Every live session of the device ends and the new one begins; its expiry is returned with the
  answer.
\<close>

definition replace_session ::
  "user_id \<Rightarrow> device_id \<Rightarrow> uuid \<Rightarrow> string \<Rightarrow> account_db \<Rightarrow> unit + instant option \<times> account_db" where
  "replace_session u d session_id access_hash db =
     (let expires_at = ac_now db + minutes 15;
          db1 = db\<lparr>ac_sessions := update_rows (\<lambda>_ s. ns_device_id s = d \<and> ns_revoked_at s = None)
                     (\<lambda>s. s\<lparr>ns_revoked_at := Some (ac_now db)\<rparr>) (ac_sessions db)\<rparr>
      in and_then (insert_session session_id (new_native_session u d access_hash expires_at) db1) (\<lambda>db2.
         Ok (Some expires_at,
             audit (Some u) (Some d) ''device_session_issued''
               (db2\<lparr>ac_devices := update_rows (\<lambda>i _. i = d)
                      (\<lambda>r. r\<lparr>nd_last_seen_at := Some (ac_now db)\<rparr>) (ac_devices db2)\<rparr>))))"

definition issue_device_session ::
  "device_id \<Rightarrow> string \<Rightarrow> uuid \<Rightarrow> string \<Rightarrow> instant option account_op" where
  "issue_device_session d secret_hash session_id access_hash = account_tx (\<lambda>db.
     (case find_row (\<lambda>i r. i = d \<and> nd_secret_hash r = secret_hash \<and> live_device r
                           \<and> active_user db (nd_user_id r)) (ac_devices db) of
        None \<Rightarrow> Ok (None, db)
      | Some (_, r) \<Rightarrow> replace_session (nd_user_id r) d session_id access_hash db))"

section \<open>Browser sessions\<close>

record new_browser_session =
  nb_session_id :: uuid
  nb_user_id :: user_id
  nb_token_hash :: string
  nb_csrf_hash :: string

definition browser_row_of :: "account_db \<Rightarrow> new_browser_session \<Rightarrow> browser_row" where
  "browser_row_of db b =
     \<lparr>bs_user_id = nb_user_id b, bs_token_hash = nb_token_hash b, bs_csrf_hash = nb_csrf_hash b,
      bs_reauthenticated_at = ac_now db, bs_expires_at = ac_now db + minutes BROWSER_SESSION_IDLE_MINUTES,
      bs_absolute_expires_at = ac_now db + minutes BROWSER_SESSION_ABSOLUTE_MINUTES,
      bs_revoked_at = None\<rparr>"

text \<open>CSRF digests are unique in all rows, cookie digests among the sessions not revoked.\<close>

definition insert_browser :: "new_browser_session \<Rightarrow> account_db \<Rightarrow> unit + account_db" where
  "insert_browser b db =
     and_then (insert_row (nb_session_id b) (browser_row_of db b)
         (\<lambda>r. bs_csrf_hash r = nb_csrf_hash b \<or> bs_revoked_at r = None \<and> bs_token_hash r = nb_token_hash b)
         (ac_browsers db))
       (\<lambda>t. Ok (db\<lparr>ac_browsers := t\<rparr>))"

definition create_browser_session_with_policy :: "new_browser_session \<Rightarrow> bool account_op" where
  "create_browser_session_with_policy b = account_tx (\<lambda>db.
     if active_user db (nb_user_id b)
     then and_then (insert_browser b db) (\<lambda>db'. Ok (True, db')) else Ok (False, db))"

definition renew_browser_session :: "string \<Rightarrow> unit account_op" where
  "renew_browser_session token_hash = account_tx (\<lambda>db.
     Ok ((), db\<lparr>ac_browsers := update_rows
       (\<lambda>_ b. bs_token_hash b = token_hash \<and> bs_revoked_at b = None \<and> ac_now db < bs_expires_at b
              \<and> 2 * (bs_expires_at b - ac_now db) < minutes BROWSER_SESSION_IDLE_MINUTES)
       (\<lambda>b. b\<lparr>bs_expires_at := min (ac_now db + minutes BROWSER_SESSION_IDLE_MINUTES)
                                  (bs_absolute_expires_at b)\<rparr>)
       (ac_browsers db)\<rparr>))"

definition live_browser :: "account_db \<Rightarrow> string \<Rightarrow> browser_row \<Rightarrow> bool" where
  "live_browser db token_hash b =
     (bs_token_hash b = token_hash \<and> bs_revoked_at b = None \<and> ac_now db < bs_expires_at b
      \<and> ac_now db < bs_absolute_expires_at b \<and> active_user db (bs_user_id b))"

definition browser_resolve ::
  "(browser_row \<Rightarrow> bool) \<Rightarrow> string \<Rightarrow> user_id option account_op" where
  "browser_resolve extra token_hash db =
     (case account_query (\<lambda>db. map_option (bs_user_id \<circ> snd)
             (find_row (\<lambda>_ b. live_browser db token_hash b \<and> extra b) (ac_browsers db))) db of
        Inl e \<Rightarrow> (Err e, db)
      | Inr None \<Rightarrow> (Ok None, db)
      | Inr (Some u) \<Rightarrow> (Ok (Some u), snd (renew_browser_session token_hash db)))"

definition browser_session_user :: "string \<Rightarrow> user_id option account_op" where
  "browser_session_user token_hash = browser_resolve (\<lambda>_. True) token_hash"

definition browser_session_user_with_csrf :: "string \<Rightarrow> string \<Rightarrow> user_id option account_op" where
  "browser_session_user_with_csrf token_hash csrf_hash =
     browser_resolve (\<lambda>b. bs_csrf_hash b = csrf_hash) token_hash"

definition idle_browser :: "account_db \<Rightarrow> string \<Rightarrow> browser_row \<Rightarrow> bool" where
  "idle_browser db token_hash b =
     (bs_token_hash b = token_hash \<and> bs_revoked_at b = None \<and> ac_now db < bs_expires_at b
      \<and> active_user db (bs_user_id b))"

definition browser_account_display_name :: "string \<Rightarrow> account_db \<Rightarrow> unit + string option" where
  "browser_account_display_name token_hash = account_query (\<lambda>db.
     Option.bind (find_row (\<lambda>_. idle_browser db token_hash) (ac_browsers db))
       (\<lambda>(_, b). user_name db (bs_user_id b)))"

definition rotate_browser_csrf :: "string \<Rightarrow> string \<Rightarrow> string option account_op" where
  "rotate_browser_csrf token_hash csrf_hash = account_tx (\<lambda>db.
     (case find_row (\<lambda>_. idle_browser db token_hash) (ac_browsers db) of
        None \<Rightarrow> Ok (None, db)
      | Some (_, b) \<Rightarrow>
          if \<exists>(_, b') \<in> set (ac_browsers db). bs_csrf_hash b' = csrf_hash \<and> \<not> idle_browser db token_hash b'
          then Err ()
          else Ok (user_name db (bs_user_id b),
                 db\<lparr>ac_browsers := update_rows (\<lambda>_. idle_browser db token_hash)
                      (\<lambda>b. b\<lparr>bs_csrf_hash := csrf_hash\<rparr>) (ac_browsers db)\<rparr>)))"

record browser_device =
  bd_id :: device_id
  bd_display_name :: string
  bd_type :: string
  bd_created_at :: string
  bd_last_seen_at :: "string option"
  bd_session_status :: string

definition device_session_live :: "account_db \<Rightarrow> device_id \<Rightarrow> bool" where
  "device_session_live db d =
     list_ex (\<lambda>(_, s). ns_device_id s = d \<and> ns_revoked_at s = None \<and> ac_now db < ns_access_expires_at s)
       (ac_sessions db)"

text \<open>\<open>GREATEST\<close> ignores nulls: the latest of the device's and its sessions' activity.\<close>

definition latest_seen :: "account_db \<Rightarrow> uuid \<times> native_device \<Rightarrow> instant option" where
  "latest_seen db p =
     (let seen = List.map_filter id (nd_last_seen_at (snd p)
            # map (ns_last_seen_at \<circ> snd) (filter (\<lambda>(_, s). ns_device_id s = fst p) (ac_sessions db)))
      in if seen = [] then None else Some (foldr max seen (hd seen)))"

definition list_browser_devices ::
  "(instant \<Rightarrow> string) \<Rightarrow> user_id \<Rightarrow> account_db \<Rightarrow> unit + browser_device list" where
  "list_browser_devices fmt u = account_query (\<lambda>db.
     map (\<lambda>p. \<lparr>bd_id = fst p, bd_display_name = nd_display_name (snd p), bd_type = nd_type (snd p),
                bd_created_at = fmt (nd_created_at (snd p)),
                bd_last_seen_at = map_option fmt (latest_seen db p),
                bd_session_status = (if device_session_live db (fst p) then ''active'' else ''inactive'')\<rparr>)
       (owned_rows_of db u))"

definition rename_owned_device :: "user_id \<Rightarrow> device_id \<Rightarrow> string \<Rightarrow> bool account_op" where
  "rename_owned_device u d name = account_tx (\<lambda>db.
     (let hit = (\<lambda>i r. i = d \<and> nd_user_id r = u \<and> live_device r \<and> active_user db u)
      in if count_rows hit (ac_devices db) = 0 then Ok (False, db)
         else Ok (True, audit (Some u) (Some d) ''device_renamed''
                (db\<lparr>ac_devices := update_rows hit (\<lambda>r. r\<lparr>nd_display_name := name\<rparr>) (ac_devices db)\<rparr>))))"

definition logout_browser_session :: "user_id \<Rightarrow> string \<Rightarrow> string \<Rightarrow> bool account_op" where
  "logout_browser_session u token_hash csrf_hash = account_tx (\<lambda>db.
     (let hit = (\<lambda>_ b. bs_user_id b = u \<and> bs_token_hash b = token_hash \<and> bs_csrf_hash b = csrf_hash
                       \<and> bs_revoked_at b = None \<and> ac_now db < bs_expires_at b)
      in if count_rows hit (ac_browsers db) = 0 then Ok (False, db)
         else Ok (True, audit (Some u) None ''browser_logout''
                (db\<lparr>ac_browsers := update_rows hit (\<lambda>b. b\<lparr>bs_revoked_at := Some (ac_now db)\<rparr>)
                      (ac_browsers db)\<rparr>))))"

definition browser_session_is_fresh_for_user ::
  "user_id \<Rightarrow> string \<Rightarrow> string \<Rightarrow> account_db \<Rightarrow> unit + bool" where
  "browser_session_is_fresh_for_user u token_hash csrf_hash = account_query (\<lambda>db.
     list_ex (\<lambda>(_, b). bs_user_id b = u \<and> bs_token_hash b = token_hash \<and> bs_csrf_hash b = csrf_hash
        \<and> bs_revoked_at b = None \<and> ac_now db < bs_expires_at b
        \<and> ac_now db - minutes 2 < bs_reauthenticated_at b \<and> active_user db (bs_user_id b))
       (ac_browsers db))"

section \<open>Pairing\<close>

record new_pairing_request =
  np_request_id :: uuid
  np_desktop_hash :: string
  np_approval_hash :: string
  np_code_hash :: string
  np_phrase :: string
  np_display_name :: string
  np_type :: string
  np_app_version :: "string option"

definition create_pairing_request_for_minutes ::
  "new_pairing_request \<Rightarrow> int \<Rightarrow> instant account_op" where
  "create_pairing_request_for_minutes q lifetime_minutes = account_tx (\<lambda>db.
     (let expires_at = ac_now db + minutes lifetime_minutes
      in and_then (insert_row (np_request_id q)
           \<lparr>pq_desktop_hash = np_desktop_hash q, pq_approval_hash = np_approval_hash q,
            pq_code_hash = np_code_hash q, pq_phrase = np_phrase q, pq_display_name = np_display_name q,
            pq_type = np_type q, pq_app_version = np_app_version q, pq_expires_at = expires_at,
            pq_approved_by = None, pq_approved_at = None, pq_consumed_at = None, pq_revoked_at = None\<rparr>
           (\<lambda>r. pq_desktop_hash r = np_desktop_hash q \<or> pq_approval_hash r = np_approval_hash q
                \<or> pq_code_hash r = np_code_hash q)
           (ac_pairings db))
         (\<lambda>t. Ok (expires_at, db\<lparr>ac_pairings := t\<rparr>))))"

record pairing_preview =
  pv_request_id :: uuid
  pv_display_name :: string
  pv_type :: string
  pv_app_version :: "string option"
  pv_phrase :: string
  pv_expires_at :: string

definition open_request :: "account_db \<Rightarrow> pairing_row \<Rightarrow> bool" where
  "open_request db r =
     (pq_approved_at r = None \<and> pq_consumed_at r = None \<and> pq_revoked_at r = None
      \<and> ac_now db < pq_expires_at r)"

definition lookup_pairing_request ::
  "(instant \<Rightarrow> string) \<Rightarrow> string \<Rightarrow> account_db \<Rightarrow> unit + pairing_preview option" where
  "lookup_pairing_request fmt code_hash = account_query (\<lambda>db.
     map_option (\<lambda>(i, r). \<lparr>pv_request_id = i, pv_display_name = pq_display_name r, pv_type = pq_type r,
         pv_app_version = pq_app_version r, pv_phrase = pq_phrase r, pv_expires_at = fmt (pq_expires_at r)\<rparr>)
       (find_row (\<lambda>_ r. pq_code_hash r = code_hash \<and> open_request db r) (ac_pairings db)))"

text \<open>
  The statement joins the request with the browser session whose cookie and CSRF digests are
  supplied; the owner it writes is that session's account.
\<close>

definition approver :: "account_db \<Rightarrow> string \<Rightarrow> string \<Rightarrow> user_id option" where
  "approver db token_hash csrf_hash =
     map_option (bs_user_id \<circ> snd)
       (find_row (\<lambda>_ b. idle_browser db token_hash b \<and> bs_csrf_hash b = csrf_hash) (ac_browsers db))"

definition approve_pairing_request_with_browser_proof ::
  "uuid \<Rightarrow> string \<Rightarrow> string \<Rightarrow> string \<Rightarrow> string \<Rightarrow> bool account_op" where
  "approve_pairing_request_with_browser_proof i approval_hash phrase token_hash csrf_hash = account_tx (\<lambda>db.
     (case approver db token_hash csrf_hash of
        None \<Rightarrow> Ok (False, db)
      | Some u \<Rightarrow>
          (let hit = (\<lambda>j r. j = i \<and> pq_approval_hash r = approval_hash \<and> pq_phrase r = phrase \<and> open_request db r)
           in Ok (count_rows hit (ac_pairings db) = 1,
                db\<lparr>ac_pairings := update_rows hit
                     (\<lambda>r. r\<lparr>pq_approved_by := Some u, pq_approved_at := Some (ac_now db)\<rparr>) (ac_pairings db)\<rparr>))))"

record new_pairing_session =
  ps_session_id :: uuid
  ps_device_id :: device_id
  ps_access_hash :: string
  ps_secret_hash :: string

record pairing_completion =
  pc_user_id :: user_id
  pc_device_id :: device_id
  pc_session_id :: uuid
  pc_access_expires_at :: instant
  pc_account_name :: string
  pc_display_name :: string
  pc_type :: string

datatype pairing_outcome =
  Pending | NoLongerAvailable | DeviceLimit | InvalidProof | Completed pairing_completion

definition live_devices_of :: "account_db \<Rightarrow> user_id \<Rightarrow> nat" where
  "live_devices_of db u = count_rows (\<lambda>_ r. nd_user_id r = u \<and> live_device r) (ac_devices db)"

definition paired_device :: "account_db \<Rightarrow> user_id \<Rightarrow> pairing_row \<Rightarrow> string \<Rightarrow> native_device" where
  "paired_device db u r secret_hash =
     \<lparr>nd_user_id = u, nd_display_name = pq_display_name r, nd_type = pq_type r,
      nd_app_version = pq_app_version r, nd_secret_hash = secret_hash, nd_created_at = ac_now db,
      nd_last_seen_at = None, nd_revoked_at = None\<rparr>"

definition consume_request :: "uuid \<Rightarrow> account_db \<Rightarrow> account_db" where
  "consume_request i db =
     db\<lparr>ac_pairings := update_rows (\<lambda>j _. j = i) (\<lambda>r. r\<lparr>pq_consumed_at := Some (ac_now db)\<rparr>)
          (ac_pairings db)\<rparr>"

text \<open>The commit path of \<open>complete_pairing\<close>: the device within the cap, its session, the request.\<close>

definition finish_pairing ::
  "uuid \<Rightarrow> pairing_row \<Rightarrow> user_id \<Rightarrow> string \<Rightarrow> new_pairing_session \<Rightarrow> account_db
   \<Rightarrow> unit + pairing_outcome \<times> account_db" where
  "finish_pairing i r u name ps db =
     (if MAX_ACCOUNT_DEVICES \<le> live_devices_of db u then Ok (DeviceLimit, db)
      else
        (let expires_at = ac_now db + minutes 15
         in and_then (insert_row (ps_device_id ps) (paired_device db u r (ps_secret_hash ps))
              (\<lambda>d. nd_secret_hash d = ps_secret_hash ps) (ac_devices db)) (\<lambda>t.
            and_then (insert_session (ps_session_id ps)
              (new_native_session u (ps_device_id ps) (ps_access_hash ps) expires_at)
              (db\<lparr>ac_devices := t\<rparr>)) (\<lambda>db1.
            Ok (Completed \<lparr>pc_user_id = u, pc_device_id = ps_device_id ps, pc_session_id = ps_session_id ps,
                  pc_access_expires_at = expires_at, pc_account_name = name,
                  pc_display_name = pq_display_name r, pc_type = pq_type r\<rparr>,
                audit (Some u) (Some (ps_device_id ps)) ''pairing_completed'' (consume_request i db1))))))"

definition complete_pairing ::
  "uuid \<Rightarrow> string \<Rightarrow> new_pairing_session \<Rightarrow> pairing_outcome account_op" where
  "complete_pairing i desktop_hash ps = account_tx (\<lambda>db.
     (case opt_filter (\<lambda>r. pq_desktop_hash r = desktop_hash) (map_of (ac_pairings db) i) of
        None \<Rightarrow> Ok (InvalidProof, db)
      | Some r \<Rightarrow>
          if pq_revoked_at r \<noteq> None \<or> pq_consumed_at r \<noteq> None \<or> pq_expires_at r \<le> ac_now db
          then Ok (NoLongerAvailable, db)
          else if pq_approved_at r = None then Ok (Pending, db)
          else (case pq_approved_by r of
              None \<Rightarrow> Ok (NoLongerAvailable, db)
            | Some u \<Rightarrow>
                (case user_name db u of
                   None \<Rightarrow> Ok (NoLongerAvailable, db)
                 | Some name \<Rightarrow> finish_pairing i r u name ps db))))"

section \<open>Passkeys and challenges\<close>

definition WEBAUTHN_RP_ID :: string where "WEBAUTHN_RP_ID = ''rockplatform.win''"

definition WEBAUTHN_ORIGIN :: string where "WEBAUTHN_ORIGIN = ''https://rockplatform.win''"

record new_webauthn_challenge =
  nc_challenge_id :: uuid
  nc_hash :: string
  nc_state_blob :: string
  nc_ceremony :: webauthn_ceremony
  nc_rp_id :: string
  nc_origin :: string
  nc_user_id :: "user_id option"

definition create_webauthn_challenge_for_minutes :: "new_webauthn_challenge \<Rightarrow> int \<Rightarrow> bool account_op" where
  "create_webauthn_challenge_for_minutes c lifetime_minutes = account_tx (\<lambda>db.
     and_then (insert_row (nc_challenge_id c)
         \<lparr>wc_hash = nc_hash c, wc_state_blob = nc_state_blob c, wc_ceremony = nc_ceremony c,
          wc_rp_id = nc_rp_id c, wc_origin = nc_origin c, wc_user_id = nc_user_id c,
          wc_expires_at = ac_now db + minutes lifetime_minutes, wc_consumed_at = None, wc_revoked_at = None\<rparr>
         (\<lambda>r. wc_hash r = nc_hash c) (ac_challenges db))
       (\<lambda>t. Ok (True, db\<lparr>ac_challenges := t\<rparr>)))"

definition open_challenge :: "account_db \<Rightarrow> challenge_row \<Rightarrow> bool" where
  "open_challenge db c =
     (wc_consumed_at c = None \<and> wc_revoked_at c = None \<and> ac_now db < wc_expires_at c)"

definition load_webauthn_challenge_state :: "uuid \<Rightarrow> account_db \<Rightarrow> unit + string option" where
  "load_webauthn_challenge_state i = account_query (\<lambda>db.
     map_option wc_state_blob (opt_filter (open_challenge db) (map_of (ac_challenges db) i)))"

definition challenge_hit ::
  "account_db \<Rightarrow> uuid \<Rightarrow> string \<Rightarrow> webauthn_ceremony \<Rightarrow> string \<Rightarrow> string \<Rightarrow> uuid \<Rightarrow> challenge_row \<Rightarrow> bool" where
  "challenge_hit db i challenge_hash ceremony origin rp_id j c =
     (j = i \<and> wc_hash c = challenge_hash \<and> wc_ceremony c = ceremony \<and> wc_origin c = origin
      \<and> wc_rp_id c = rp_id \<and> open_challenge db c)"

definition consume_challenge :: "(uuid \<Rightarrow> challenge_row \<Rightarrow> bool) \<Rightarrow> account_db \<Rightarrow> account_db" where
  "consume_challenge hit db =
     db\<lparr>ac_challenges := update_rows hit (\<lambda>c. c\<lparr>wc_consumed_at := Some (ac_now db)\<rparr>) (ac_challenges db)\<rparr>"

definition consume_webauthn_challenge ::
  "uuid \<Rightarrow> string \<Rightarrow> webauthn_ceremony \<Rightarrow> string \<Rightarrow> string \<Rightarrow> bool account_op" where
  "consume_webauthn_challenge i challenge_hash ceremony origin rp_id = account_tx (\<lambda>db.
     (let hit = challenge_hit db i challenge_hash ceremony origin rp_id
      in Ok (count_rows hit (ac_challenges db) = 1, consume_challenge hit db)))"

record new_passkey_registration =
  nr_user_id :: user_id
  nr_account_name :: string
  nr_challenge_id :: uuid
  nr_challenge_hash :: string
  nr_credential_id :: uuid
  nr_credential :: string
  nr_public_key :: string
  nr_sign_count :: int
  nr_transports :: "string list"
  nr_browser :: new_browser_session

datatype registration_outcome = Created | ChallengeRejected | CredentialAlreadyRegistered

text \<open>
  A duplicate credential (SQLSTATE 23505 of the credential insert) rolls everything back and is
  an answer of its own; any other violation is an error. The browser session belongs to the new
  account: the statement binds \<open>user_id\<close>.
\<close>

definition new_account :: "account_db \<Rightarrow> string \<Rightarrow> user_row" where
  "new_account db name =
     \<lparr>ur_status = AccountActive, ur_display_name = name, ur_created_at = ac_now db, ur_deleted_at = None\<rparr>"

definition new_passkey :: "new_passkey_registration \<Rightarrow> passkey_row" where
  "new_passkey n =
     \<lparr>pk_user_id = nr_user_id n, pk_credential = nr_credential n, pk_public_key = nr_public_key n,
      pk_sign_count = nr_sign_count n, pk_transports = nr_transports n,
      pk_last_used_at = None, pk_revoked_at = None\<rparr>"

definition register_account ::
  "new_passkey_registration \<Rightarrow> (uuid \<Rightarrow> challenge_row \<Rightarrow> bool) \<Rightarrow> account_db
   \<Rightarrow> unit + registration_outcome \<times> account_db" where
  "register_account n hit db =
     and_then (insert_row (nr_user_id n) (new_account db (nr_account_name n)) (\<lambda>_. False) (ac_users db)) (\<lambda>users.
     (case insert_row (nr_credential_id n) (new_passkey n) (\<lambda>k. pk_credential k = nr_credential n) (ac_passkeys db) of
        Inl _ \<Rightarrow> Ok (CredentialAlreadyRegistered, db)
      | Inr keys \<Rightarrow>
          and_then (insert_browser ((nr_browser n)\<lparr>nb_user_id := nr_user_id n\<rparr>)
              ((consume_challenge hit db)\<lparr>ac_users := users, ac_passkeys := keys\<rparr>)) (\<lambda>db'.
          Ok (Created, audit (Some (nr_user_id n)) None ''account_registered'' db'))))"

definition complete_passkey_registration :: "new_passkey_registration \<Rightarrow> registration_outcome account_op" where
  "complete_passkey_registration n = account_tx (\<lambda>db.
     (let hit = (\<lambda>j c. challenge_hit db (nr_challenge_id n) (nr_challenge_hash n) Registration
                   WEBAUTHN_ORIGIN WEBAUTHN_RP_ID j c \<and> wc_user_id c = None)
      in if count_rows hit (ac_challenges db) \<noteq> 1 then Ok (ChallengeRejected, db)
         else register_account n hit db))"

record passkey_credential =
  cr_id :: string
  cr_public_key :: string
  cr_counter :: nat
  cr_transports :: "string list"

text \<open>\<open>u32::try_from\<close> of the stored counter, saturating.\<close>

definition find_passkey_credential_for_user ::
  "user_id \<Rightarrow> string \<Rightarrow> account_db \<Rightarrow> unit + passkey_credential option" where
  "find_passkey_credential_for_user u credential = account_query (\<lambda>db.
     map_option (\<lambda>(_, k). \<lparr>cr_id = pk_credential k, cr_public_key = pk_public_key k,
         cr_counter = (if 0 \<le> pk_sign_count k \<and> pk_sign_count k < 2 ^ 32 then nat (pk_sign_count k) else 2 ^ 32 - 1),
         cr_transports = pk_transports k\<rparr>)
       (find_row (\<lambda>_ k. pk_user_id k = u \<and> pk_credential k = credential \<and> pk_revoked_at k = None)
          (ac_passkeys db)))"

definition advance_passkey_sign_count :: "string \<Rightarrow> int \<Rightarrow> bool account_op" where
  "advance_passkey_sign_count credential new_sign_count = account_tx (\<lambda>db.
     (let hit = (\<lambda>_ k. pk_credential k = credential \<and> pk_revoked_at k = None
                       \<and> pk_sign_count k \<le> new_sign_count \<and> \<not> (0 < pk_sign_count k \<and> new_sign_count = 0))
      in Ok (count_rows hit (ac_passkeys db) = 1,
           db\<lparr>ac_passkeys := update_rows hit
                (\<lambda>k. k\<lparr>pk_sign_count := new_sign_count, pk_last_used_at := Some (ac_now db)\<rparr>)
                (ac_passkeys db)\<rparr>)))"

section \<open>Deletion and operator commands\<close>

definition revoke_account_dependencies :: "user_id \<Rightarrow> account_db \<Rightarrow> account_db" where
  "revoke_account_dependencies u db =
     db\<lparr>ac_devices := update_rows (\<lambda>_ r. nd_user_id r = u \<and> nd_revoked_at r = None)
          (\<lambda>r. r\<lparr>nd_revoked_at := Some (ac_now db)\<rparr>) (ac_devices db),
        ac_sessions := update_rows (\<lambda>_ r. ns_user_id r = u \<and> ns_revoked_at r = None)
          (\<lambda>r. r\<lparr>ns_revoked_at := Some (ac_now db)\<rparr>) (ac_sessions db),
        ac_passkeys := update_rows (\<lambda>_ r. pk_user_id r = u \<and> pk_revoked_at r = None)
          (\<lambda>r. r\<lparr>pk_revoked_at := Some (ac_now db)\<rparr>) (ac_passkeys db),
        ac_browsers := update_rows (\<lambda>_ r. bs_user_id r = u \<and> bs_revoked_at r = None)
          (\<lambda>r. r\<lparr>bs_revoked_at := Some (ac_now db)\<rparr>) (ac_browsers db),
        ac_home_links := update_rows (\<lambda>i r. i = u \<and> hl_revoked_at r = None)
          (\<lambda>r. r\<lparr>hl_revoked_at := Some (ac_now db), hl_updated_at := ac_now db\<rparr>) (ac_home_links db),
        ac_identities := update_rows (\<lambda>_ r. ai_user_id r = u \<and> ai_revoked_at r = None)
          (\<lambda>r. r\<lparr>ai_revoked_at := Some (ac_now db)\<rparr>) (ac_identities db),
        ac_pairings := update_rows (\<lambda>_ r. pq_approved_by r = Some u \<and> pq_revoked_at r = None)
          (\<lambda>r. r\<lparr>pq_revoked_at := Some (ac_now db)\<rparr>) (ac_pairings db),
        ac_challenges := update_rows (\<lambda>_ r. wc_user_id r = Some u \<and> wc_revoked_at r = None)
          (\<lambda>r. r\<lparr>wc_revoked_at := Some (ac_now db)\<rparr>) (ac_challenges db)\<rparr>"

definition tombstone_user :: "user_id \<Rightarrow> account_db \<Rightarrow> account_db" where
  "tombstone_user u db =
     db\<lparr>ac_users := update_rows (\<lambda>i _. i = u)
          (\<lambda>r. r\<lparr>ur_status := AccountDeleted, ur_deleted_at := Some (ac_now db)\<rparr>) (ac_users db)\<rparr>"

definition delete_account :: "user_id \<Rightarrow> bool account_op" where
  "delete_account u = account_tx (\<lambda>db.
     if \<not> active_user db u then Ok (False, db)
     else Ok (True, audit (Some u) None ''account_deletion_completed''
                      (revoke_account_dependencies u (tombstone_user u db))))"

datatype cleanup_action = DeactivateAccount | RevokeDevice | RevokeCredential

fun confirmation_word :: "cleanup_action \<Rightarrow> string" where
  "confirmation_word DeactivateAccount = ''DEACTIVATE ACCOUNT''"
| "confirmation_word RevokeDevice = ''REVOKE DEVICE''"
| "confirmation_word RevokeCredential = ''REVOKE CREDENTIAL''"

text \<open>\<open>show_uuid\<close> is the hyphenated text form of an identifier.\<close>

definition confirmation_for :: "(uuid \<Rightarrow> string) \<Rightarrow> cleanup_action \<Rightarrow> uuid \<Rightarrow> string" where
  "confirmation_for show_uuid action i = confirmation_word action @ '' '' @ show_uuid i"

datatype confirmation_error = Missing | Mismatch

definition validate_confirmation ::
  "(uuid \<Rightarrow> string) \<Rightarrow> cleanup_action \<Rightarrow> uuid \<Rightarrow> string option \<Rightarrow> confirmation_error + unit" where
  "validate_confirmation show_uuid action i supplied =
     (case supplied of
        None \<Rightarrow> Err Missing
      | Some text \<Rightarrow> if text = confirmation_for show_uuid action i then Ok () else Err Mismatch)"

datatype cleanup_error =
  InvalidConfirmation | CleanupDatabase | NotFound | NotActive | ProtectedAccount | LastWorkingPasskey

type_synonym 'a cleanup_op = "account_db \<Rightarrow> (cleanup_error + 'a) \<times> account_db"

definition cleanup_tx ::
  "(uuid \<Rightarrow> string) \<Rightarrow> cleanup_action \<Rightarrow> uuid \<Rightarrow> string \<Rightarrow> (account_db \<Rightarrow> cleanup_error + account_db) \<Rightarrow> unit cleanup_op" where
  "cleanup_tx show_uuid action i text body db =
     (if validate_confirmation show_uuid action i (Some text) \<noteq> Ok () then (Err InvalidConfirmation, db)
      else if \<not> ac_available db then (Err CleanupDatabase, db)
      else case body db of Inl e \<Rightarrow> (Err e, db) | Inr db' \<Rightarrow> (Ok (), db'))"

definition protected_account :: "account_db \<Rightarrow> user_id \<Rightarrow> bool" where
  "protected_account db u =
     list_ex (\<lambda>(_, r). ai_user_id r = u \<and> ai_kind r = ''admin'' \<and> ai_revoked_at r = None) (ac_identities db)"

definition deactivate_account_for_operator ::
  "(uuid \<Rightarrow> string) \<Rightarrow> user_id \<Rightarrow> string \<Rightarrow> unit cleanup_op" where
  "deactivate_account_for_operator show_uuid u text = cleanup_tx show_uuid DeactivateAccount u text (\<lambda>db.
     (case map_of (ac_users db) u of
        None \<Rightarrow> Err NotFound
      | Some r \<Rightarrow>
          if ur_status r \<noteq> AccountActive then Err NotActive
          else if protected_account db u then Err ProtectedAccount
          else Ok (audit (Some u) None ''operator_account_deactivated''
                     (revoke_account_dependencies u (tombstone_user u db)))))"

definition revoke_device_for_operator ::
  "(uuid \<Rightarrow> string) \<Rightarrow> device_id \<Rightarrow> string \<Rightarrow> unit cleanup_op" where
  "revoke_device_for_operator show_uuid d text = cleanup_tx show_uuid RevokeDevice d text (\<lambda>db.
     (case opt_filter live_device (map_of (ac_devices db) d) of
        None \<Rightarrow> Err NotFound
      | Some r \<Rightarrow>
          Ok (audit (Some (nd_user_id r)) (Some d) ''operator_device_revoked''
                (revoke_rows_of_device (nd_user_id r) d
                  (db\<lparr>ac_devices := update_rows (\<lambda>i r. i = d \<and> live_device r)
                        (\<lambda>r. r\<lparr>nd_revoked_at := Some (ac_now db)\<rparr>) (ac_devices db)\<rparr>)))))"

definition live_passkeys_of :: "account_db \<Rightarrow> user_id \<Rightarrow> nat" where
  "live_passkeys_of db u = count_rows (\<lambda>_ k. pk_user_id k = u \<and> pk_revoked_at k = None) (ac_passkeys db)"

definition revoke_credential_for_operator ::
  "(uuid \<Rightarrow> string) \<Rightarrow> uuid \<Rightarrow> string \<Rightarrow> unit cleanup_op" where
  "revoke_credential_for_operator show_uuid i text = cleanup_tx show_uuid RevokeCredential i text (\<lambda>db.
     (case opt_filter (\<lambda>k. pk_revoked_at k = None) (map_of (ac_passkeys db) i) of
        None \<Rightarrow> Err NotFound
      | Some k \<Rightarrow>
          if map_of (ac_users db) (pk_user_id k) = None then Err CleanupDatabase
          else if active_user db (pk_user_id k) \<and> live_passkeys_of db (pk_user_id k) \<le> 1
          then Err LastWorkingPasskey
          else Ok (audit (Some (pk_user_id k)) None ''operator_passkey_revoked''
                     (db\<lparr>ac_passkeys := update_rows (\<lambda>j k. j = i \<and> pk_revoked_at k = None)
                           (\<lambda>k. k\<lparr>pk_revoked_at := Some (ac_now db)\<rparr>) (ac_passkeys db)\<rparr>))))"

section \<open>Smart-home links\<close>

record encrypted_token =
  et_ciphertext :: string
  et_nonce :: string

text \<open>The digest is the primary key, so a digest in use is an error.\<close>

definition create_yandex_home_oauth_state :: "user_id \<Rightarrow> string \<Rightarrow> bool account_op" where
  "create_yandex_home_oauth_state u state_hash = account_tx (\<lambda>db.
     if \<not> active_user db u then Ok (False, db)
     else if map_of (ac_home_states db) state_hash \<noteq> None then Err ()
     else Ok (True, db\<lparr>ac_home_states := ac_home_states db
                        @ [(state_hash, \<lparr>hs_user_id = u, hs_expires_at = ac_now db + minutes 10\<rparr>)]\<rparr>))"

definition consume_yandex_home_oauth_state :: "string \<Rightarrow> user_id option account_op" where
  "consume_yandex_home_oauth_state state_hash = account_tx (\<lambda>db.
     (case opt_filter (\<lambda>r. ac_now db < hs_expires_at r \<and> active_user db (hs_user_id r))
             (map_of (ac_home_states db) state_hash) of
        None \<Rightarrow> Ok (None, db)
      | Some r \<Rightarrow>
          Ok (Some (hs_user_id r), db\<lparr>ac_home_states := AList.delete state_hash (ac_home_states db)\<rparr>)))"

text \<open>The table accepts ciphertexts of 17 to 8192 bytes with a nonce of twelve.\<close>

definition save_yandex_home_connection :: "user_id \<Rightarrow> encrypted_token \<Rightarrow> bool account_op" where
  "save_yandex_home_connection u token = account_tx (\<lambda>db.
     if \<not> active_user db u then Ok (False, db)
     else if \<not> (17 \<le> length (et_ciphertext token) \<and> length (et_ciphertext token) \<le> 8192
                  \<and> length (et_nonce token) = 12) then Err ()
     else Ok (True, audit (Some u) None ''yandex_home_connected''
            (db\<lparr>ac_home_links := AList.update u
                 \<lparr>hl_ciphertext = et_ciphertext token, hl_nonce = et_nonce token,
                  hl_updated_at = ac_now db, hl_revoked_at = None\<rparr> (ac_home_links db)\<rparr>)))"

definition live_home_link :: "account_db \<Rightarrow> user_id \<Rightarrow> home_link_row option" where
  "live_home_link db u =
     (if active_user db u then opt_filter (\<lambda>r. hl_revoked_at r = None) (map_of (ac_home_links db) u) else None)"

definition yandex_home_connection :: "user_id \<Rightarrow> account_db \<Rightarrow> unit + encrypted_token option" where
  "yandex_home_connection u = account_query (\<lambda>db.
     map_option (\<lambda>r. \<lparr>et_ciphertext = hl_ciphertext r, et_nonce = hl_nonce r\<rparr>) (live_home_link db u))"

definition has_yandex_home_connection :: "user_id \<Rightarrow> account_db \<Rightarrow> unit + bool" where
  "has_yandex_home_connection u = account_query (\<lambda>db. live_home_link db u \<noteq> None)"

definition revoke_yandex_home_connection :: "user_id \<Rightarrow> bool account_op" where
  "revoke_yandex_home_connection u = account_tx (\<lambda>db.
     (let hit = (\<lambda>i r. i = u \<and> hl_revoked_at r = None)
      in if count_rows hit (ac_home_links db) \<noteq> 1 then Ok (False, db)
         else Ok (True, audit (Some u) None ''yandex_home_disconnected''
                (db\<lparr>ac_home_links := update_rows hit
                      (\<lambda>r. r\<lparr>hl_revoked_at := Some (ac_now db), hl_updated_at := ac_now db\<rparr>)
                      (ac_home_links db)\<rparr>))))"

section \<open>Rate-limit buckets\<close>

text \<open>
  The bucket of a key begins at the start of the current minute. A first request creates it
  whatever the limit is; later ones count up to the limit. The lifetime only sets the expiry
  column, which no statement reads.
\<close>

definition minute_start :: "instant \<Rightarrow> instant" where
  "minute_start t = t - t mod seconds 60"

definition consume_rate_limit_for_minutes :: "string \<Rightarrow> int \<Rightarrow> nat \<Rightarrow> bool account_op" where
  "consume_rate_limit_for_minutes key_hash lifetime_minutes limit = account_tx (\<lambda>db.
     (let bucket = (key_hash, minute_start (ac_now db)); count = ac_buckets db bucket
      in if count = 0 \<or> count < limit
         then Ok (True, db\<lparr>ac_buckets := (ac_buckets db)(bucket := Suc count)\<rparr>)
         else Ok (False, db)))"

end
