(* ===== verification/Account_Safety.thy ===== *)
theory Account_Safety
  imports Account_Store
begin

text \<open>
  What the account store guarantees over any sequence of its calls: the invariant of the tables
  (device cap, ownership of sessions, one live session per device, nothing alive of a deleted
  account), that revocations, deletions and consumptions are final, that a pairing request yields
  at most one device and only after a browser session of its owner approved it, and what an
  issued credential resolves to.
\<close>

section \<open>Calls and runs\<close>

text \<open>The calls the handlers and the operator tool make, and the passing of time.\<close>

datatype account_call =
    AcClock instant
  | AcOutage bool
  | AcRegister new_passkey_registration
  | AcChallenge new_webauthn_challenge int
  | AcConsume uuid string webauthn_ceremony string string
  | AcAdvance string int
  | AcBrowser new_browser_session
  | AcUseBrowser string
  | AcUseBrowserCsrf string string
  | AcRotate string string
  | AcLogout user_id string string
  | AcRename user_id device_id string
  | AcRevoke user_id device_id
  | AcIssue device_id string uuid string
  | AcPairing new_pairing_request int
  | AcApprove uuid string string string string
  | AcComplete uuid string new_pairing_session
  | AcDelete user_id
  | AcDeactivate user_id string
  | AcRevokeDevice device_id string
  | AcRevokeCredential uuid string
  | AcHomeState user_id string
  | AcHomeConsume string
  | AcHomeSave user_id encrypted_token
  | AcHomeRevoke user_id
  | AcLimit string int nat

fun account_exec :: "(uuid \<Rightarrow> string) \<Rightarrow> account_call \<Rightarrow> account_db \<Rightarrow> account_db" where
  "account_exec sh (AcClock t) db = db\<lparr>ac_now := max (ac_now db) t\<rparr>"
| "account_exec sh (AcOutage up) db = db\<lparr>ac_available := up\<rparr>"
| "account_exec sh (AcRegister n) db = snd (complete_passkey_registration n db)"
| "account_exec sh (AcChallenge c m) db = snd (create_webauthn_challenge_for_minutes c m db)"
| "account_exec sh (AcConsume i h c origin rp) db = snd (consume_webauthn_challenge i h c origin rp db)"
| "account_exec sh (AcAdvance k n) db = snd (advance_passkey_sign_count k n db)"
| "account_exec sh (AcBrowser b) db = snd (create_browser_session_with_policy b db)"
| "account_exec sh (AcUseBrowser t) db = snd (browser_session_user t db)"
| "account_exec sh (AcUseBrowserCsrf t c) db = snd (browser_session_user_with_csrf t c db)"
| "account_exec sh (AcRotate t c) db = snd (rotate_browser_csrf t c db)"
| "account_exec sh (AcLogout u t c) db = snd (logout_browser_session u t c db)"
| "account_exec sh (AcRename u d name) db = snd (rename_owned_device u d name db)"
| "account_exec sh (AcRevoke u d) db = snd (revoke_owned_device u d db)"
| "account_exec sh (AcIssue d secret i h) db = snd (issue_device_session d secret i h db)"
| "account_exec sh (AcPairing q m) db = snd (create_pairing_request_for_minutes q m db)"
| "account_exec sh (AcApprove i a p t c) db = snd (approve_pairing_request_with_browser_proof i a p t c db)"
| "account_exec sh (AcComplete i h ps) db = snd (complete_pairing i h ps db)"
| "account_exec sh (AcDelete u) db = snd (delete_account u db)"
| "account_exec sh (AcDeactivate u text) db = snd (deactivate_account_for_operator sh u text db)"
| "account_exec sh (AcRevokeDevice d text) db = snd (revoke_device_for_operator sh d text db)"
| "account_exec sh (AcRevokeCredential i text) db = snd (revoke_credential_for_operator sh i text db)"
| "account_exec sh (AcHomeState u h) db = snd (create_yandex_home_oauth_state u h db)"
| "account_exec sh (AcHomeConsume h) db = snd (consume_yandex_home_oauth_state h db)"
| "account_exec sh (AcHomeSave u t) db = snd (save_yandex_home_connection u t db)"
| "account_exec sh (AcHomeRevoke u) db = snd (revoke_yandex_home_connection u db)"
| "account_exec sh (AcLimit k m n) db = snd (consume_rate_limit_for_minutes k m n db)"

definition account_run :: "(uuid \<Rightarrow> string) \<Rightarrow> account_call list \<Rightarrow> account_db \<Rightarrow> account_db" where
  "account_run sh calls db = fold (account_exec sh) calls db"

named_theorems account_defs \<open>definitions of the account store's statements\<close>

declare complete_passkey_registration_def [account_defs] create_webauthn_challenge_for_minutes_def [account_defs]
  consume_webauthn_challenge_def [account_defs] advance_passkey_sign_count_def [account_defs]
  create_browser_session_with_policy_def [account_defs] renew_browser_session_def [account_defs]
  rotate_browser_csrf_def [account_defs] logout_browser_session_def [account_defs]
  rename_owned_device_def [account_defs] revoke_owned_device_def [account_defs]
  issue_device_session_def [account_defs] create_pairing_request_for_minutes_def [account_defs]
  approve_pairing_request_with_browser_proof_def [account_defs] complete_pairing_def [account_defs]
  finish_pairing_def [account_defs] delete_account_def [account_defs]
  deactivate_account_for_operator_def [account_defs] revoke_device_for_operator_def [account_defs]
  revoke_credential_for_operator_def [account_defs] consume_rate_limit_for_minutes_def [account_defs]
  cleanup_tx_def [account_defs] insert_session_def [account_defs] insert_browser_def [account_defs]
  audit_def [account_defs] revoke_rows_of_device_def [account_defs] consume_challenge_def [account_defs]
  consume_request_def [account_defs] revoke_account_dependencies_def [account_defs]
  tombstone_user_def [account_defs]

section \<open>Tables\<close>

lemma map_of_update_rows [simp]:
  "map_of (update_rows P f t) i = map_option (\<lambda>r. if P i r then f r else r) (map_of t i)"
  by (induction t) (auto simp: update_rows_def)

lemma set_update_rows: "set (update_rows P f t) = (\<lambda>(i, r). (i, if P i r then f r else r)) ` set t"
  by (simp add: update_rows_def)

lemma ball_update_rows [simp]:
  "(\<forall>p \<in> set (update_rows P f t). Q p) \<longleftrightarrow> (\<forall>p \<in> set t. Q (fst p, if P (fst p) (snd p) then f (snd p) else snd p))"
  by (auto simp: set_update_rows split_beta)

lemma map_fst_update_rows [simp]: "map fst (update_rows P f t) = map fst t"
  by (induction t) (auto simp: update_rows_def)

lemma insert_row_Ok:
  "insert_row i r clash t = Ok t' \<longleftrightarrow> map_of t i = None \<and> (\<forall>p \<in> set t. \<not> clash (snd p)) \<and> t' = t @ [(i, r)]"
  by (auto simp: insert_row_def split_beta)

lemma find_row_Some:
  "find_row P t = Some (i, r) \<Longrightarrow> (i, r) \<in> set t \<and> P i r"
  by (auto simp: find_row_def find_Some_iff) (metis nth_mem)

lemma find_row_None: "find_row P t = None \<longleftrightarrow> (\<forall>p \<in> set t. \<not> P (fst p) (snd p))"
  by (auto simp: find_row_def find_None_iff split_beta)

lemma count_rows_append [simp]: "count_rows P (t @ t') = count_rows P t + count_rows P t'"
  by (simp add: count_rows_def)

lemma count_rows_Nil [simp]: "count_rows P [] = 0"
  by (simp add: count_rows_def)

lemma count_rows_Cons [simp]: "count_rows P (p # t) = (if P (fst p) (snd p) then 1 else 0) + count_rows P t"
  by (simp add: count_rows_def split_beta)

lemma count_rows_0: "count_rows P t = 0 \<longleftrightarrow> (\<forall>p \<in> set t. \<not> P (fst p) (snd p))"
  by (induction t) auto

text \<open>An update that makes no row count that did not count before.\<close>

lemma count_update_rows_le:
  assumes "\<And>i r. U i r \<Longrightarrow> P i (f r) \<Longrightarrow> P i r"
  shows "count_rows P (update_rows U f t) \<le> count_rows P t"
  using assms by (induction t) (auto simp: update_rows_def split: if_splits)

lemma audit_fields [simp]:
  "ac_now (audit u d e db) = ac_now db" "ac_users (audit u d e db) = ac_users db"
  "ac_devices (audit u d e db) = ac_devices db" "ac_sessions (audit u d e db) = ac_sessions db"
  "ac_browsers (audit u d e db) = ac_browsers db" "ac_pairings (audit u d e db) = ac_pairings db"
  "ac_passkeys (audit u d e db) = ac_passkeys db" "ac_challenges (audit u d e db) = ac_challenges db"
  "ac_available (audit u d e db) = ac_available db"
  by (simp_all add: audit_def)

section \<open>What never comes back\<close>

definition table_le :: "('r \<Rightarrow> 'r \<Rightarrow> bool) \<Rightarrow> 'r row_table \<Rightarrow> 'r row_table \<Rightarrow> bool" where
  "table_le R t t' = (\<forall>i r. map_of t i = Some r \<longrightarrow> (\<exists>r'. map_of t' i = Some r' \<and> R r r'))"

definition sticky :: "'a option \<Rightarrow> 'a option \<Rightarrow> bool" where
  "sticky a b = (a \<noteq> None \<longrightarrow> b \<noteq> None)"

definition user_le :: "user_row \<Rightarrow> user_row \<Rightarrow> bool" where
  "user_le r r' = (ur_status r = AccountDeleted \<longrightarrow> ur_status r' = AccountDeleted)"

definition device_le :: "native_device \<Rightarrow> native_device \<Rightarrow> bool" where
  "device_le r r' =
     (nd_user_id r' = nd_user_id r \<and> nd_secret_hash r' = nd_secret_hash r \<and> sticky (nd_revoked_at r) (nd_revoked_at r'))"

definition session_le :: "native_session \<Rightarrow> native_session \<Rightarrow> bool" where
  "session_le r r' =
     (ns_user_id r' = ns_user_id r \<and> ns_device_id r' = ns_device_id r \<and> ns_access_hash r' = ns_access_hash r
      \<and> ns_access_expires_at r' = ns_access_expires_at r \<and> sticky (ns_revoked_at r) (ns_revoked_at r'))"

definition browser_le :: "browser_row \<Rightarrow> browser_row \<Rightarrow> bool" where
  "browser_le r r' =
     (bs_user_id r' = bs_user_id r \<and> bs_token_hash r' = bs_token_hash r
      \<and> bs_absolute_expires_at r' = bs_absolute_expires_at r \<and> sticky (bs_revoked_at r) (bs_revoked_at r'))"

definition pairing_le :: "pairing_row \<Rightarrow> pairing_row \<Rightarrow> bool" where
  "pairing_le r r' =
     (pq_desktop_hash r' = pq_desktop_hash r \<and> pq_approval_hash r' = pq_approval_hash r
      \<and> pq_expires_at r' = pq_expires_at r
      \<and> (pq_approved_at r \<noteq> None \<longrightarrow> pq_approved_by r' = pq_approved_by r \<and> pq_approved_at r' \<noteq> None)
      \<and> sticky (pq_consumed_at r) (pq_consumed_at r') \<and> sticky (pq_revoked_at r) (pq_revoked_at r'))"

definition passkey_le :: "passkey_row \<Rightarrow> passkey_row \<Rightarrow> bool" where
  "passkey_le r r' =
     (pk_user_id r' = pk_user_id r \<and> pk_credential r' = pk_credential r \<and> pk_sign_count r \<le> pk_sign_count r'
      \<and> sticky (pk_revoked_at r) (pk_revoked_at r'))"

definition challenge_le :: "challenge_row \<Rightarrow> challenge_row \<Rightarrow> bool" where
  "challenge_le r r' =
     (wc_hash r' = wc_hash r \<and> wc_expires_at r' = wc_expires_at r
      \<and> sticky (wc_consumed_at r) (wc_consumed_at r') \<and> sticky (wc_revoked_at r) (wc_revoked_at r'))"

definition later :: "account_db \<Rightarrow> account_db \<Rightarrow> bool" where
  "later db db' =
     (ac_now db \<le> ac_now db' \<and> table_le user_le (ac_users db) (ac_users db')
      \<and> table_le device_le (ac_devices db) (ac_devices db')
      \<and> table_le session_le (ac_sessions db) (ac_sessions db')
      \<and> table_le browser_le (ac_browsers db) (ac_browsers db')
      \<and> table_le pairing_le (ac_pairings db) (ac_pairings db')
      \<and> table_le passkey_le (ac_passkeys db) (ac_passkeys db')
      \<and> table_le challenge_le (ac_challenges db) (ac_challenges db'))"

lemmas row_le_defs = user_le_def device_le_def session_le_def browser_le_def pairing_le_def
  passkey_le_def challenge_le_def sticky_def

lemma row_le_refl [simp]:
  "user_le a a" "device_le b b" "session_le c c" "browser_le d d" "pairing_le e e" "passkey_le f f"
  "challenge_le g g"
  by (simp_all add: row_le_defs)

lemma table_le_refl [simp]: "(\<And>r. R r r) \<Longrightarrow> table_le R t t"
  by (simp add: table_le_def)

lemma table_le_trans:
  "table_le R t t' \<Longrightarrow> table_le R t' t'' \<Longrightarrow> (\<And>a b c. R a b \<Longrightarrow> R b c \<Longrightarrow> R a c) \<Longrightarrow> table_le R t t''"
  unfolding table_le_def by meson

lemma table_le_insert: "map_of t i = None \<Longrightarrow> (\<And>r. R r r) \<Longrightarrow> table_le R t (t @ [(i, r)])"
  by (auto simp: table_le_def)

lemma table_le_update:
  "(\<And>i r. P i r \<Longrightarrow> R r (f r)) \<Longrightarrow> (\<And>r. R r r) \<Longrightarrow> table_le R t (update_rows P f t)"
  by (auto simp: table_le_def)

lemma table_leD: "table_le R t t' \<Longrightarrow> map_of t i = Some r \<Longrightarrow> \<exists>r'. map_of t' i = Some r' \<and> R r r'"
  by (simp add: table_le_def)

lemma later_refl [simp]: "later db db"
  by (simp add: later_def)

lemma later_trans: "later a b \<Longrightarrow> later b c \<Longrightarrow> later a c"
  unfolding later_def
  by (intro conjI; (elim conjE)?)
     (auto elim!: table_le_trans simp: row_le_defs intro: order_trans)

lemma account_tx_later:
  assumes "\<And>x db'. body db = Ok (x, db') \<Longrightarrow> later db db'"
  shows "later db (snd (account_tx body db))"
  using assms by (auto simp: account_tx_def split: sum.split prod.split)

lemma cleanup_tx_later:
  assumes "\<And>db'. body db = Ok db' \<Longrightarrow> later db db'"
  shows "later db (snd (cleanup_tx sh action i text body db))"
  using assms by (auto simp: cleanup_tx_def split: sum.split)

lemma table_le_update_insert:
  "map_of t i = None \<Longrightarrow> (\<And>j r. P j r \<Longrightarrow> R r (f r)) \<Longrightarrow> (\<And>r. R r r) \<Longrightarrow>
     table_le R t (update_rows P f t @ [(i, r)])"
  by (auto simp: table_le_def)

lemmas later_rows = table_le_insert table_le_update table_le_update_insert

lemma later_fields:
  "later db (db\<lparr>ac_buckets := b\<rparr>)" "later db (db\<lparr>ac_available := v\<rparr>)"
  "later (audit u d e db) db' \<longleftrightarrow> later db db'" "later db (audit u d e db') \<longleftrightarrow> later db db'"
  by (simp_all add: later_def audit_def)

lemma later_account_dependencies: "later db (revoke_account_dependencies u (tombstone_user u db))"
  by (auto simp: later_def revoke_account_dependencies_def tombstone_user_def row_le_defs intro!: table_le_update)

lemma later_register_account: "register_account n hit db = Ok (x, db') \<Longrightarrow> later db db'"
  by (auto simp: register_account_def and_then_Ok insert_row_Ok insert_browser_def consume_challenge_def
      audit_def later_def row_le_defs split: sum.splits intro!: later_rows)

lemma later_register: "later db (snd (complete_passkey_registration n db))"
  unfolding complete_passkey_registration_def
  by (rule account_tx_later) (auto simp: Let_def later_register_account split: if_splits)

lemma later_challenge:
  "later db (snd (create_webauthn_challenge_for_minutes c m db))"
  "later db (snd (consume_webauthn_challenge i h ceremony origin rp db))"
  unfolding create_webauthn_challenge_for_minutes_def consume_webauthn_challenge_def
  by (rule account_tx_later;
      auto simp: Let_def and_then_Ok insert_row_Ok consume_challenge_def later_def row_le_defs intro!: later_rows)+

lemma later_advance: "later db (snd (advance_passkey_sign_count k n db))"
  unfolding advance_passkey_sign_count_def
  by (rule account_tx_later) (auto simp: Let_def later_def row_le_defs intro!: later_rows)

lemma later_browser:
  "later db (snd (create_browser_session_with_policy b db))"
  "later db (snd (renew_browser_session t db))"
  "later db (snd (rotate_browser_csrf t c db))"
  "later db (snd (logout_browser_session u t c db))"
  unfolding create_browser_session_with_policy_def renew_browser_session_def rotate_browser_csrf_def
    logout_browser_session_def
  by (rule account_tx_later;
      auto simp: Let_def and_then_Ok insert_row_Ok insert_browser_def audit_def later_def row_le_defs
        split: if_splits option.splits intro!: later_rows)+

lemma later_use_browser: "later db (snd (browser_resolve extra t db))"
  using later_browser(2) [of db t] by (auto simp: browser_resolve_def split: sum.split option.split)

lemma later_device:
  "later db (snd (rename_owned_device u d name db))"
  "later db (snd (revoke_owned_device u d db))"
  "later db (snd (issue_device_session d secret i h db))"
  unfolding rename_owned_device_def revoke_owned_device_def issue_device_session_def replace_session_def
  by (rule account_tx_later;
      auto simp: Let_def and_then_Ok insert_row_Ok insert_session_def revoke_rows_of_device_def audit_def
        later_def row_le_defs split: if_splits option.splits intro!: later_rows)+

lemma later_pairing:
  "later db (snd (create_pairing_request_for_minutes q m db))"
  "later db (snd (approve_pairing_request_with_browser_proof i a p t c db))"
  "later db (snd (complete_pairing i h ps db))"
  unfolding create_pairing_request_for_minutes_def approve_pairing_request_with_browser_proof_def
    complete_pairing_def finish_pairing_def
  by (rule account_tx_later;
      auto simp: Let_def and_then_Ok insert_row_Ok insert_session_def consume_request_def audit_def
        later_def row_le_defs open_request_def split: if_splits option.splits intro!: later_rows)+

lemma later_removal:
  "later db (snd (delete_account u db))"
  "later db (snd (deactivate_account_for_operator sh u text db))"
  "later db (snd (revoke_device_for_operator sh d text db))"
  "later db (snd (revoke_credential_for_operator sh i text db))"
proof -
  show "later db (snd (delete_account u db))"
    unfolding delete_account_def
    by (rule account_tx_later) (auto simp: later_fields later_account_dependencies split: if_splits)
  show "later db (snd (deactivate_account_for_operator sh u text db))"
    unfolding deactivate_account_for_operator_def
    by (rule cleanup_tx_later)
       (auto simp: later_fields later_account_dependencies split: if_splits option.splits)
  show "later db (snd (revoke_device_for_operator sh d text db))"
    unfolding revoke_device_for_operator_def
    by (rule cleanup_tx_later)
       (auto simp: audit_def revoke_rows_of_device_def later_def row_le_defs
          split: if_splits option.splits intro!: later_rows)
  show "later db (snd (revoke_credential_for_operator sh i text db))"
    unfolding revoke_credential_for_operator_def
    by (rule cleanup_tx_later)
       (auto simp: audit_def later_def row_le_defs split: if_splits option.splits intro!: later_rows)
qed

lemma later_home:
  "later db (snd (create_yandex_home_oauth_state u h db))"
  "later db (snd (consume_yandex_home_oauth_state h db))"
  "later db (snd (save_yandex_home_connection u token db))"
  "later db (snd (revoke_yandex_home_connection u db))"
  unfolding create_yandex_home_oauth_state_def consume_yandex_home_oauth_state_def save_yandex_home_connection_def
    revoke_yandex_home_connection_def
  by (rule account_tx_later; auto simp: Let_def later_fields later_def split: if_splits option.splits)+

lemma later_exec: "later db (account_exec sh call db)"
proof (cases call)
  case (AcLimit k m n)
  then show ?thesis
    by (auto simp: consume_rate_limit_for_minutes_def Let_def later_fields intro!: account_tx_later split: if_splits)
qed (auto simp: later_register later_challenge later_advance later_browser later_use_browser
    browser_session_user_def browser_session_user_with_csrf_def later_device later_pairing later_removal
    later_home later_fields, simp add: later_def)

lemma later_run: "later db (account_run sh calls db)"
  unfolding account_run_def
proof (induction calls arbitrary: db)
  case (Cons call calls)
  show ?case using later_trans [OF later_exec Cons] by simp
qed simp

section \<open>The invariant\<close>

definition devices_ok :: "(user_id \<Rightarrow> bool) \<Rightarrow> native_device row_table \<Rightarrow> bool" where
  "devices_ok act devs =
     (distinct (map fst devs)
      \<and> (\<forall>p \<in> set devs. live_device (snd p) \<longrightarrow> act (nd_user_id (snd p)))
      \<and> (\<forall>u. count_rows (\<lambda>_ r. nd_user_id r = u \<and> live_device r) devs \<le> MAX_ACCOUNT_DEVICES))"

definition session_owned :: "native_device row_table \<Rightarrow> native_session \<Rightarrow> bool" where
  "session_owned devs s =
     (\<exists>d. map_of devs (ns_device_id s) = Some d \<and> nd_user_id d = ns_user_id s
          \<and> (ns_revoked_at s = None \<longrightarrow> live_device d))"

definition live_of :: "device_id \<Rightarrow> uuid \<Rightarrow> native_session \<Rightarrow> bool" where
  "live_of d i s = (ns_device_id s = d \<and> ns_revoked_at s = None)"

definition sessions_ok :: "native_device row_table \<Rightarrow> native_session row_table \<Rightarrow> bool" where
  "sessions_ok devs sess =
     ((\<forall>p \<in> set sess. session_owned devs (snd p))
      \<and> (\<forall>d. count_rows (live_of d) sess \<le> 1)
      \<and> distinct (map (ns_access_hash \<circ> snd) sess))"

definition browsers_ok :: "(user_id \<Rightarrow> bool) \<Rightarrow> browser_row row_table \<Rightarrow> bool" where
  "browsers_ok act brs =
     (\<forall>p \<in> set brs. (bs_revoked_at (snd p) = None \<longrightarrow> act (bs_user_id (snd p)))
        \<and> bs_expires_at (snd p) \<le> bs_absolute_expires_at (snd p))"

definition passkeys_ok :: "(user_id \<Rightarrow> bool) \<Rightarrow> passkey_row row_table \<Rightarrow> bool" where
  "passkeys_ok act keys =
     (\<forall>p \<in> set keys. pk_revoked_at (snd p) = None \<longrightarrow> act (pk_user_id (snd p)))"

definition pairing_ok :: "(user_id \<Rightarrow> bool) \<Rightarrow> pairing_row \<Rightarrow> bool" where
  "pairing_ok act r =
     ((pq_approved_at r = None) = (pq_approved_by r = None)
      \<and> (pq_consumed_at r \<noteq> None \<longrightarrow> pq_approved_at r \<noteq> None)
      \<and> (\<forall>u. pq_approved_by r = Some u \<longrightarrow> pq_revoked_at r = None \<longrightarrow> act u))"

definition pairings_ok :: "(user_id \<Rightarrow> bool) \<Rightarrow> pairing_row row_table \<Rightarrow> bool" where
  "pairings_ok act prs = (distinct (map fst prs) \<and> (\<forall>p \<in> set prs. pairing_ok act (snd p)))"

text \<open>
  Fifty live devices per account, sessions owned by their device's account and alive only with
  it, one live session per device, distinct access digests, and nothing alive of an account that
  is not active.
\<close>

definition wf_accounts :: "account_db \<Rightarrow> bool" where
  "wf_accounts db =
     (devices_ok (active_user db) (ac_devices db) \<and> sessions_ok (ac_devices db) (ac_sessions db)
      \<and> browsers_ok (active_user db) (ac_browsers db) \<and> passkeys_ok (active_user db) (ac_passkeys db)
      \<and> pairings_ok (active_user db) (ac_pairings db))"

lemma active_user_fields [simp]:
  "active_user (db\<lparr>ac_now := t\<rparr>) = active_user db" "active_user (db\<lparr>ac_available := v\<rparr>) = active_user db"
  "active_user (db\<lparr>ac_devices := ds\<rparr>) = active_user db" "active_user (db\<lparr>ac_sessions := ss\<rparr>) = active_user db"
  "active_user (db\<lparr>ac_browsers := bs\<rparr>) = active_user db" "active_user (db\<lparr>ac_pairings := ps\<rparr>) = active_user db"
  "active_user (db\<lparr>ac_passkeys := ks\<rparr>) = active_user db" "active_user (db\<lparr>ac_challenges := cs\<rparr>) = active_user db"
  "active_user (db\<lparr>ac_identities := is\<rparr>) = active_user db"
  "active_user (db\<lparr>ac_home_states := hs\<rparr>) = active_user db" "active_user (db\<lparr>ac_home_links := hl\<rparr>) = active_user db"
  "active_user (db\<lparr>ac_buckets := bk\<rparr>) = active_user db"
  "active_user (audit u d e db) = active_user db"
  by (simp_all add: active_user_def fun_eq_iff audit_def)

lemma wf_fields [simp]:
  "wf_accounts (db\<lparr>ac_now := t\<rparr>) = wf_accounts db" "wf_accounts (db\<lparr>ac_available := v\<rparr>) = wf_accounts db"
  "wf_accounts (db\<lparr>ac_challenges := cs\<rparr>) = wf_accounts db" "wf_accounts (db\<lparr>ac_buckets := bk\<rparr>) = wf_accounts db"
  "wf_accounts (db\<lparr>ac_home_states := hs\<rparr>) = wf_accounts db" "wf_accounts (db\<lparr>ac_home_links := hl\<rparr>) = wf_accounts db"
  "wf_accounts (audit u d e db) = wf_accounts db"
  by (simp_all add: wf_accounts_def)

lemma wf_tx:
  assumes "wf_accounts db" "\<And>x db'. body db = Ok (x, db') \<Longrightarrow> wf_accounts db'"
  shows "wf_accounts (snd (account_tx body db))"
  using assms by (auto simp: account_tx_def split: sum.split prod.split)

lemma wf_cleanup:
  assumes "wf_accounts db" "\<And>db'. body db = Ok db' \<Longrightarrow> wf_accounts db'"
  shows "wf_accounts (snd (cleanup_tx sh action i text body db))"
  using assms by (auto simp: cleanup_tx_def split: sum.split)

text \<open>Growing the set of active accounts keeps the owner clauses.\<close>

lemma ok_mono:
  assumes "\<And>u. act u \<Longrightarrow> act' u"
  shows "devices_ok act devs \<Longrightarrow> devices_ok act' devs"
    and "browsers_ok act brs \<Longrightarrow> browsers_ok act' brs"
    and "passkeys_ok act keys \<Longrightarrow> passkeys_ok act' keys"
    and "pairings_ok act prs \<Longrightarrow> pairings_ok act' prs"
  using assms by (auto simp: devices_ok_def browsers_ok_def passkeys_ok_def pairings_ok_def pairing_ok_def)

lemma devices_ok_update:
  assumes "devices_ok act devs"
    and "\<And>i r. P i r \<Longrightarrow> nd_user_id (f r) = nd_user_id r \<and> (live_device (f r) \<longrightarrow> live_device r)"
  shows "devices_ok act (update_rows P f devs)"
proof -
  have "count_rows (\<lambda>_ r. nd_user_id r = u \<and> live_device r) (update_rows P f devs)
      \<le> count_rows (\<lambda>_ r. nd_user_id r = u \<and> live_device r) devs" for u
    using assms(2) by (intro count_update_rows_le) auto
  then have "\<forall>u. count_rows (\<lambda>_ r. nd_user_id r = u \<and> live_device r) (update_rows P f devs) \<le> MAX_ACCOUNT_DEVICES"
    using assms(1) unfolding devices_ok_def by (meson order_trans)
  with assms show ?thesis unfolding devices_ok_def by simp
qed

lemma devices_ok_insert:
  assumes "devices_ok act devs" "map_of devs i = None" "act (nd_user_id r)"
    "count_rows (\<lambda>_ d. nd_user_id d = nd_user_id r \<and> live_device d) devs < MAX_ACCOUNT_DEVICES"
  shows "devices_ok act (devs @ [(i, r)])"
  using assms by (auto simp: devices_ok_def map_of_eq_None_iff)

lemma session_owned_update:
  assumes "session_owned devs s"
    and "\<And>i r. P i r \<Longrightarrow> nd_user_id (f r) = nd_user_id r \<and> (live_device r \<longrightarrow> live_device (f r))"
  shows "session_owned (update_rows P f devs) s"
proof -
  from assms(1) obtain r where "map_of devs (ns_device_id s) = Some r" "nd_user_id r = ns_user_id s"
    "ns_revoked_at s = None \<longrightarrow> live_device r"
    by (auto simp: session_owned_def)
  with assms(2) [of "ns_device_id s" r] show ?thesis
    unfolding session_owned_def by (intro exI [of _ "if P (ns_device_id s) r then f r else r"]) simp
qed

lemma sessions_ok_devices:
  assumes "sessions_ok devs sess"
    and "\<And>i r. P i r \<Longrightarrow> nd_user_id (f r) = nd_user_id r \<and> (live_device r \<longrightarrow> live_device (f r))"
  shows "sessions_ok (update_rows P f devs) sess"
  using assms session_owned_update [OF _ assms(2)] by (simp add: sessions_ok_def)

lemma sessions_ok_insert_device:
  assumes "sessions_ok devs sess" "map_of devs i = None"
  shows "sessions_ok (devs @ [(i, r)]) sess"
  using assms by (fastforce simp: sessions_ok_def session_owned_def map_add_def)

lemma sessions_ok_insert:
  assumes "sessions_ok devs sess" "map_of devs (ns_device_id s) = Some d" "nd_user_id d = ns_user_id s"
    "live_device d" "count_rows (live_of (ns_device_id s)) sess = 0"
    "\<forall>p \<in> set sess. ns_access_hash (snd p) \<noteq> ns_access_hash s"
  shows "sessions_ok devs (sess @ [(i, s)])"
  using assms by (auto simp: sessions_ok_def session_owned_def live_of_def)

text \<open>Revoking devices together with their sessions.\<close>

lemma sessions_ok_revoke:
  assumes "sessions_ok devs sess"
    and "\<And>i r. P i r \<Longrightarrow> nd_user_id (f r) = nd_user_id r"
    and "\<And>i s. Q i s \<Longrightarrow> ns_revoked_at (g s) \<noteq> None \<and> ns_user_id (g s) = ns_user_id s
           \<and> ns_device_id (g s) = ns_device_id s \<and> ns_access_hash (g s) = ns_access_hash s"
    and "\<And>i s r. map_of devs (ns_device_id s) = Some r \<Longrightarrow> P (ns_device_id s) r \<Longrightarrow> nd_user_id r = ns_user_id s \<Longrightarrow>
           ns_revoked_at s = None \<Longrightarrow> Q i s"
  shows "sessions_ok (update_rows P f devs) (update_rows Q g sess)"
proof -
  have "count_rows (live_of d) (update_rows Q g sess) \<le> count_rows (live_of d) sess" for d
    using assms(3) by (intro count_update_rows_le) (force simp: live_of_def)
  moreover have "map (ns_access_hash \<circ> snd) (update_rows Q g sess) = map (ns_access_hash \<circ> snd) sess"
    using assms(3) by (auto simp: update_rows_def)
  moreover have "session_owned (update_rows P f devs) (if Q i s then g s else s)"
    if "(i, s) \<in> set sess" for i s
  proof -
    from assms(1) that obtain r where r: "map_of devs (ns_device_id s) = Some r" "nd_user_id r = ns_user_id s"
      "ns_revoked_at s = None \<longrightarrow> live_device r"
      by (auto simp: sessions_ok_def session_owned_def)
    let ?r = "if P (ns_device_id s) r then f r else r"
    have r': "map_of (update_rows P f devs) (ns_device_id s) = Some ?r" "nd_user_id ?r = ns_user_id s"
      using r assms(2) by auto
    show ?thesis
    proof (cases "Q i s")
      case True
      with r' assms(3) [OF True] show ?thesis
        unfolding session_owned_def by (intro exI [of _ ?r]) (auto simp del: map_of_update_rows)
    next
      case False
      with assms(4) [OF r(1) _ r(2), of i] r r' show ?thesis
        unfolding session_owned_def by (intro exI [of _ ?r]) (auto simp del: map_of_update_rows)
    qed
  qed
  then have "\<forall>p \<in> set (update_rows Q g sess). session_owned (update_rows P f devs) (snd p)"
    by auto
  ultimately show ?thesis using assms(1) unfolding sessions_ok_def by (metis order_trans)
qed

section \<open>Every call keeps the invariant\<close>

lemma browsers_ok_update:
  assumes "browsers_ok act brs"
    and "\<And>i b. P i b \<Longrightarrow> bs_user_id (f b) = bs_user_id b \<and> (bs_revoked_at (f b) = None \<longrightarrow> bs_revoked_at b = None)
           \<and> bs_absolute_expires_at (f b) = bs_absolute_expires_at b
           \<and> (bs_expires_at (f b) \<le> bs_expires_at b \<or> bs_expires_at (f b) \<le> bs_absolute_expires_at b)"
  shows "browsers_ok act (update_rows P f brs)"
  unfolding browsers_ok_def ball_update_rows
proof (rule ballI)
  fix p assume p: "p \<in> set brs"
  let ?b = "if P (fst p) (snd p) then f (snd p) else snd p"
  have "bs_user_id ?b = bs_user_id (snd p)" "bs_revoked_at ?b = None \<longrightarrow> bs_revoked_at (snd p) = None"
    "bs_absolute_expires_at ?b = bs_absolute_expires_at (snd p)"
    "bs_expires_at ?b \<le> bs_expires_at (snd p) \<or> bs_expires_at ?b \<le> bs_absolute_expires_at (snd p)"
    using assms(2) [of "fst p" "snd p"] by auto
  with assms(1) p
  show "(bs_revoked_at (snd (fst p, ?b)) = None \<longrightarrow> act (bs_user_id (snd (fst p, ?b))))
      \<and> bs_expires_at (snd (fst p, ?b)) \<le> bs_absolute_expires_at (snd (fst p, ?b))"
    unfolding browsers_ok_def by (fastforce simp del: if_split)
qed

lemma browsers_ok_insert:
  "browsers_ok act brs \<Longrightarrow> act (bs_user_id b) \<Longrightarrow> bs_expires_at b \<le> bs_absolute_expires_at b \<Longrightarrow>
     browsers_ok act (brs @ [(i, b)])"
  by (auto simp: browsers_ok_def)

lemma browser_row_times: "bs_expires_at (browser_row_of db b) \<le> bs_absolute_expires_at (browser_row_of db b)"
  by (simp add: browser_row_of_def minutes_def seconds_def nanos_per_second_def
      BROWSER_SESSION_IDLE_MINUTES_def BROWSER_SESSION_ABSOLUTE_MINUTES_def)

lemma browser_row_user [simp]: "bs_user_id (browser_row_of db b) = nb_user_id b"
  by (simp add: browser_row_of_def)

lemma wf_insert_browser:
  assumes "wf_accounts db" "active_user db (nb_user_id b)" "insert_browser b db = Ok db'"
  shows "wf_accounts db'"
  using assms browser_row_times [of db b]
  by (auto simp: insert_browser_def and_then_Ok insert_row_Ok wf_accounts_def intro!: browsers_ok_insert)

lemma active_user_insert:
  "map_of (ac_users db) u = None \<Longrightarrow> ur_status r = AccountActive \<Longrightarrow>
     active_user (db\<lparr>ac_users := ac_users db @ [(u, r)]\<rparr>) v \<longleftrightarrow> active_user db v \<or> v = u"
  by (auto simp: active_user_def is_some_and_def map_add_def split: option.splits)

lemma wf_register_account:
  assumes wf: "wf_accounts db" and ok: "register_account n hit db = Ok (x, db')"
  shows "wf_accounts db'"
proof -
  let ?u = "new_account db (nr_account_name n)"
  define db1 where "db1 = (consume_challenge hit db)\<lparr>ac_users := ac_users db @ [(nr_user_id n, ?u)],
      ac_passkeys := ac_passkeys db @ [(nr_credential_id n, new_passkey n)]\<rparr>"
  from ok consider "db' = db" | db2 where "map_of (ac_users db) (nr_user_id n) = None"
      "insert_browser ((nr_browser n)\<lparr>nb_user_id := nr_user_id n\<rparr>) db1 = Ok db2"
      "db' = audit (Some (nr_user_id n)) None ''account_registered'' db2"
    unfolding db1_def by (auto simp: register_account_def and_then_Ok insert_row_Ok split: sum.splits)
  then show ?thesis
  proof cases
    case 2
    have act: "active_user db1 v \<longleftrightarrow> active_user db v \<or> v = nr_user_id n" for v
      using active_user_insert [OF 2(1), of ?u]
      by (auto simp: db1_def active_user_def consume_challenge_def new_account_def)
    have same: "ac_devices db1 = ac_devices db" "ac_sessions db1 = ac_sessions db"
      "ac_browsers db1 = ac_browsers db" "ac_pairings db1 = ac_pairings db"
      by (simp_all add: db1_def consume_challenge_def)
    have "passkeys_ok (active_user db1) (ac_passkeys db1)"
      using wf by (auto simp: wf_accounts_def passkeys_ok_def db1_def [THEN arg_cong [of _ _ ac_passkeys]] act new_passkey_def)
    moreover have "\<And>u. active_user db u \<Longrightarrow> active_user db1 u" by (simp add: act)
    ultimately have "wf_accounts db1"
      using wf ok_mono [of "active_user db" "active_user db1"] unfolding wf_accounts_def same by blast
    from wf_insert_browser [OF this _ 2(2)] act 2(3) show ?thesis by simp
  qed (use wf in simp)
qed

lemma wf_register: "wf_accounts db \<Longrightarrow> wf_accounts (snd (complete_passkey_registration n db))"
  unfolding complete_passkey_registration_def
  by (rule wf_tx) (auto simp: Let_def wf_register_account split: if_splits)

lemma wf_challenge:
  "wf_accounts db \<Longrightarrow> wf_accounts (snd (create_webauthn_challenge_for_minutes c m db))"
  "wf_accounts db \<Longrightarrow> wf_accounts (snd (consume_webauthn_challenge i h ceremony origin rp db))"
  unfolding create_webauthn_challenge_for_minutes_def consume_webauthn_challenge_def
  by (rule wf_tx; auto simp: Let_def and_then_Ok consume_challenge_def)+

lemma passkeys_ok_update:
  assumes "passkeys_ok act keys"
    and "\<And>i k. P i k \<Longrightarrow> pk_user_id (f k) = pk_user_id k \<and> (pk_revoked_at (f k) = None \<longrightarrow> pk_revoked_at k = None)"
  shows "passkeys_ok act (update_rows P f keys)"
  using assms by (force simp: passkeys_ok_def set_update_rows)

lemma wf_advance: "wf_accounts db \<Longrightarrow> wf_accounts (snd (advance_passkey_sign_count k n db))"
  unfolding advance_passkey_sign_count_def
  by (rule wf_tx) (auto simp: Let_def wf_accounts_def intro!: passkeys_ok_update)

lemma wf_browser:
  "wf_accounts db \<Longrightarrow> wf_accounts (snd (create_browser_session_with_policy b db))"
  "wf_accounts db \<Longrightarrow> wf_accounts (snd (renew_browser_session t db))"
  "wf_accounts db \<Longrightarrow> wf_accounts (snd (rotate_browser_csrf t c db))"
  "wf_accounts db \<Longrightarrow> wf_accounts (snd (logout_browser_session u t c db))"
  unfolding create_browser_session_with_policy_def renew_browser_session_def rotate_browser_csrf_def
    logout_browser_session_def
     apply (rule wf_tx; auto simp: and_then_Ok wf_insert_browser split: if_splits)
    apply (rule wf_tx; auto simp: wf_accounts_def intro!: browsers_ok_update)
   apply (rule wf_tx; auto simp: wf_accounts_def split: option.splits if_splits intro!: browsers_ok_update)
  apply (rule wf_tx; auto simp: Let_def wf_accounts_def split: if_splits intro!: browsers_ok_update)
  done

lemma wf_use_browser: "wf_accounts db \<Longrightarrow> wf_accounts (snd (browser_resolve extra t db))"
  using wf_browser(2) [of db t] by (auto simp: browser_resolve_def split: sum.split option.split)

lemma wf_rename: "wf_accounts db \<Longrightarrow> wf_accounts (snd (rename_owned_device u d name db))"
  unfolding rename_owned_device_def
  by (rule wf_tx)
     (auto simp: Let_def wf_accounts_def live_device_def split: if_splits
        intro!: devices_ok_update sessions_ok_devices)

text \<open>Revoking a device and its sessions, for the owner and for the operator.\<close>

lemma wf_revoke_device:
  assumes "wf_accounts db"
    and "\<And>i r. map_of (ac_devices db) i = Some r \<Longrightarrow> hit i r \<Longrightarrow> i = d \<and> nd_user_id r = u"
  shows "wf_accounts (revoke_rows_of_device u d
    (db\<lparr>ac_devices := update_rows hit (\<lambda>r. r\<lparr>nd_revoked_at := Some (ac_now db)\<rparr>) (ac_devices db)\<rparr>))"
  using assms unfolding wf_accounts_def revoke_rows_of_device_def
  by (auto simp: live_device_def intro!: devices_ok_update sessions_ok_revoke)

lemma wf_revoke: "wf_accounts db \<Longrightarrow> wf_accounts (snd (revoke_owned_device u d db))"
  unfolding revoke_owned_device_def
  by (rule wf_tx) (auto simp: Let_def split: if_splits intro!: wf_revoke_device)

lemma wf_revoke_operator: "wf_accounts db \<Longrightarrow> wf_accounts (snd (revoke_device_for_operator sh d text db))"
  unfolding revoke_device_for_operator_def
  by (rule wf_cleanup) (auto simp: opt_filter_Some split: option.splits intro!: wf_revoke_device)

lemma wf_revoke_credential: "wf_accounts db \<Longrightarrow> wf_accounts (snd (revoke_credential_for_operator sh i text db))"
  unfolding revoke_credential_for_operator_def
  by (rule wf_cleanup) (auto simp: wf_accounts_def intro!: passkeys_ok_update split: option.splits if_splits)

lemma active_user_tombstone: "active_user (tombstone_user u db) v \<longleftrightarrow> active_user db v \<and> v \<noteq> u"
  by (auto simp: active_user_def tombstone_user_def is_some_and_def split: option.splits)

lemma wf_deleted:
  assumes "wf_accounts db"
  shows "wf_accounts (revoke_account_dependencies u (tombstone_user u db))"
proof -
  let ?db = "revoke_account_dependencies u (tombstone_user u db)"
  have tomb: "ac_devices (tombstone_user u db) = ac_devices db" "ac_sessions (tombstone_user u db) = ac_sessions db"
    "ac_browsers (tombstone_user u db) = ac_browsers db" "ac_passkeys (tombstone_user u db) = ac_passkeys db"
    "ac_pairings (tombstone_user u db) = ac_pairings db" "ac_now (tombstone_user u db) = ac_now db"
    by (simp_all add: tombstone_user_def)
  have "devices_ok (active_user db) (ac_devices ?db)"
    using assms by (auto simp: revoke_account_dependencies_def tomb wf_accounts_def live_device_def intro!: devices_ok_update)
  then have "devices_ok (active_user ?db) (ac_devices ?db)"
    by (auto simp: devices_ok_def active_user_tombstone revoke_account_dependencies_def tomb live_device_def
        split: if_splits)
  moreover have "sessions_ok (ac_devices ?db) (ac_sessions ?db)"
    using assms by (auto simp: revoke_account_dependencies_def tomb wf_accounts_def intro!: sessions_ok_revoke)
  moreover have "browsers_ok (active_user ?db) (ac_browsers ?db)" "passkeys_ok (active_user ?db) (ac_passkeys ?db)"
    "pairings_ok (active_user ?db) (ac_pairings ?db)"
    using assms unfolding wf_accounts_def browsers_ok_def passkeys_ok_def pairings_ok_def pairing_ok_def
    by (auto simp: active_user_tombstone revoke_account_dependencies_def tomb)
  ultimately show ?thesis by (simp add: wf_accounts_def)
qed

lemma wf_delete:
  "wf_accounts db \<Longrightarrow> wf_accounts (snd (delete_account u db))"
  "wf_accounts db \<Longrightarrow> wf_accounts (snd (deactivate_account_for_operator sh u text db))"
  unfolding delete_account_def deactivate_account_for_operator_def
   apply (rule wf_tx; auto simp: wf_deleted split: if_splits)
  apply (rule wf_cleanup; auto simp: wf_deleted split: option.splits if_splits)
  done

lemma pairings_ok_update:
  assumes "pairings_ok act prs" "\<And>p. p \<in> set prs \<Longrightarrow> P (fst p) (snd p) \<Longrightarrow> pairing_ok act (snd p) \<Longrightarrow> pairing_ok act (f (snd p))"
  shows "pairings_ok act (update_rows P f prs)"
  using assms unfolding pairings_ok_def by simp

lemma wf_pairing:
  assumes "wf_accounts db"
  shows "wf_accounts (snd (create_pairing_request_for_minutes q m db))"
    and "wf_accounts (snd (approve_pairing_request_with_browser_proof i a p t c db))"
proof -
  show "wf_accounts (snd (create_pairing_request_for_minutes q m db))"
    unfolding create_pairing_request_for_minutes_def
    by (rule wf_tx [OF assms])
       (use assms in \<open>auto simp: Let_def and_then_Ok insert_row_Ok wf_accounts_def pairings_ok_def pairing_ok_def map_of_eq_None_iff\<close>)
  have "active_user db u" if "approver db t c = Some u" for u
    using that by (auto simp: approver_def idle_browser_def dest: find_row_Some)
  then show "wf_accounts (snd (approve_pairing_request_with_browser_proof i a p t c db))"
    unfolding approve_pairing_request_with_browser_proof_def
    by (intro wf_tx [OF assms])
       (use assms in \<open>auto simp: Let_def wf_accounts_def pairing_ok_def open_request_def split: option.splits
          intro!: pairings_ok_update\<close>)
qed

lemma sessions_ok_no_device:
  assumes "sessions_ok devs sess" "map_of devs d = None"
  shows "count_rows (live_of d) sess = 0"
proof -
  have "ns_device_id (snd p) \<noteq> d" if "p \<in> set sess" for p
    using assms that by (auto simp: sessions_ok_def session_owned_def)
  then show ?thesis by (simp add: count_rows_0 live_of_def)
qed

lemma pairings_ok_consume:
  assumes "pairings_ok act prs" "map_of prs i = Some r" "pq_approved_at r \<noteq> None"
  shows "pairings_ok act (update_rows (\<lambda>j _. j = i) (\<lambda>r. r\<lparr>pq_consumed_at := Some t\<rparr>) prs)"
proof (rule pairings_ok_update [OF assms(1)])
  fix p assume "p \<in> set prs" "fst p = i" and ok: "pairing_ok act (snd p)"
  then have "map_of prs i = Some (snd p)" using assms(1) by (auto simp: pairings_ok_def)
  with ok assms(2,3) show "pairing_ok act ((snd p)\<lparr>pq_consumed_at := Some t\<rparr>)"
    by (auto simp: pairing_ok_def)
qed

lemma wf_finish_pairing:
  assumes wf: "wf_accounts db" and act: "active_user db u" and ok: "finish_pairing i r u name ps db = Ok (x, db')"
    and r: "map_of (ac_pairings db) i = Some r" "pq_approved_at r \<noteq> None"
  shows "wf_accounts db'"
proof (cases "db' = db")
  case False
  let ?d = "paired_device db u r (ps_secret_hash ps)"
  let ?s = "new_native_session u (ps_device_id ps) (ps_access_hash ps) (ac_now db + minutes 15)"
  let ?devs = "ac_devices db @ [(ps_device_id ps, ?d)]"
  from False ok have new: "map_of (ac_devices db) (ps_device_id ps) = None"
    and room: "live_devices_of db u < MAX_ACCOUNT_DEVICES"
    and hash: "\<forall>p \<in> set (ac_sessions db). ns_access_hash (snd p) \<noteq> ns_access_hash ?s"
    and db': "db' = audit (Some u) (Some (ps_device_id ps)) ''pairing_completed'' (consume_request i
        (db\<lparr>ac_devices := ?devs, ac_sessions := ac_sessions db @ [(ps_session_id ps, ?s)]\<rparr>))"
    by (auto simp: finish_pairing_def Let_def and_then_Ok insert_row_Ok insert_session_def split: if_splits)
  have "devices_ok (active_user db) ?devs"
    using wf act new room
    by (intro devices_ok_insert) (auto simp: wf_accounts_def paired_device_def live_devices_of_def)
  moreover have "sessions_ok ?devs (ac_sessions db @ [(ps_session_id ps, ?s)])"
    using wf new hash sessions_ok_no_device [of "ac_devices db" "ac_sessions db" "ps_device_id ps"]
    by (intro sessions_ok_insert [where d = ?d] sessions_ok_insert_device)
       (auto simp: wf_accounts_def new_native_session_def paired_device_def live_device_def map_add_def)
  moreover note pairings_ok_consume [OF _ r, of "active_user db" "ac_now db"]
  ultimately show ?thesis
    using wf by (simp add: db' wf_accounts_def consume_request_def)
qed (use wf in simp)

lemma user_name_active: "user_name db u = Some name \<Longrightarrow> active_user db u"
  by (auto simp: user_name_def active_user_def opt_filter_Some)

lemma complete_pairing_cases:
  assumes "complete_pairing i h ps db = (ans, db')"
  obtains "db' = db" "\<And>c. ans \<noteq> Ok (Completed c)"
  | r u name x where "map_of (ac_pairings db) i = Some r" "pq_desktop_hash r = h" "pq_revoked_at r = None"
      "pq_consumed_at r = None" "ac_now db < pq_expires_at r" "pq_approved_at r \<noteq> None" "pq_approved_by r = Some u"
      "user_name db u = Some name" "finish_pairing i r u name ps db = Ok (x, db')" "ans = Ok x"
  using assms unfolding complete_pairing_def account_tx_def
  by (auto simp: opt_filter_Some split: if_splits option.splits sum.splits)

lemma wf_complete:
  assumes "wf_accounts db"
  shows "wf_accounts (snd (complete_pairing i h ps db))"
proof -
  obtain ans db' where c: "complete_pairing i h ps db = (ans, db')" by fastforce
  from c have "wf_accounts db'"
    by (rule complete_pairing_cases) (use assms wf_finish_pairing user_name_active in blast)+
  with c show ?thesis by simp
qed

lemma update_rows_none [simp]: "update_rows (\<lambda>_ _. False) f t = t"
  by (simp add: update_rows_def)

lemma wf_replace_session:
  assumes wf: "wf_accounts db" and r: "(d, r) \<in> set (ac_devices db)" "live_device r" "nd_user_id r = u"
    and ok: "replace_session u d i h db = Ok (x, db')"
  shows "wf_accounts db'"
proof -
  let ?revoke = "\<lambda>s. s\<lparr>ns_revoked_at := Some (ac_now db)\<rparr>"
  let ?sess = "update_rows (\<lambda>_ s. ns_device_id s = d \<and> ns_revoked_at s = None) ?revoke (ac_sessions db)"
  let ?s = "new_native_session u d h (ac_now db + minutes 15)"
  let ?seen = "\<lambda>r. r\<lparr>nd_last_seen_at := Some (ac_now db)\<rparr>"
  have d: "map_of (ac_devices db) d = Some r"
    using wf r by (auto simp: wf_accounts_def devices_ok_def)
  from ok have hash: "\<forall>p \<in> set ?sess. ns_access_hash (snd p) \<noteq> ns_access_hash ?s"
    and db': "db' = audit (Some u) (Some d) ''device_session_issued''
      (db\<lparr>ac_sessions := ?sess @ [(i, ?s)], ac_devices := update_rows (\<lambda>i _. i = d) ?seen (ac_devices db)\<rparr>)"
    unfolding replace_session_def by (auto simp: Let_def and_then_Ok insert_row_Ok insert_session_def)
  have "sessions_ok (ac_devices db) ?sess"
    using wf sessions_ok_revoke [where P = "\<lambda>_ _. False" and devs = "ac_devices db" and sess = "ac_sessions db"
        and Q = "\<lambda>_ s. ns_device_id s = d \<and> ns_revoked_at s = None" and g = ?revoke]
    by (simp add: wf_accounts_def)
  moreover have "count_rows (live_of d) ?sess = 0" by (auto simp: count_rows_0 live_of_def)
  ultimately have "sessions_ok (ac_devices db) (?sess @ [(i, ?s)])"
    using d r(2,3) hash by (intro sessions_ok_insert) (auto simp: new_native_session_def)
  then have "sessions_ok (update_rows (\<lambda>i _. i = d) ?seen (ac_devices db)) (?sess @ [(i, ?s)])"
    by (rule sessions_ok_devices) (simp add: live_device_def)
  moreover have "devices_ok (active_user db) (update_rows (\<lambda>i _. i = d) ?seen (ac_devices db))"
    using wf by (intro devices_ok_update) (auto simp: wf_accounts_def live_device_def)
  ultimately show ?thesis using wf by (simp add: db' wf_accounts_def)
qed

lemma wf_issue: "wf_accounts db \<Longrightarrow> wf_accounts (snd (issue_device_session d secret i h db))"
  unfolding issue_device_session_def
  by (rule wf_tx) (auto split: option.splits dest!: find_row_Some intro: wf_replace_session)

lemma wf_home:
  "wf_accounts db \<Longrightarrow> wf_accounts (snd (create_yandex_home_oauth_state u h db))"
  "wf_accounts db \<Longrightarrow> wf_accounts (snd (consume_yandex_home_oauth_state h db))"
  "wf_accounts db \<Longrightarrow> wf_accounts (snd (save_yandex_home_connection u token db))"
  "wf_accounts db \<Longrightarrow> wf_accounts (snd (revoke_yandex_home_connection u db))"
  unfolding create_yandex_home_oauth_state_def consume_yandex_home_oauth_state_def save_yandex_home_connection_def
    revoke_yandex_home_connection_def
  by (rule wf_tx; auto simp: Let_def split: if_splits option.splits)+

lemma wf_exec: "wf_accounts db \<Longrightarrow> wf_accounts (account_exec sh call db)"
proof (cases call)
  case (AcLimit k m n)
  then show "wf_accounts db \<Longrightarrow> wf_accounts (account_exec sh call db)"
    by (auto simp: consume_rate_limit_for_minutes_def Let_def intro!: wf_tx split: if_splits)
qed (simp_all add: wf_register wf_challenge wf_advance wf_browser wf_use_browser browser_session_user_def
    browser_session_user_with_csrf_def wf_rename wf_revoke wf_issue wf_pairing wf_complete wf_delete
    wf_revoke_operator wf_revoke_credential wf_home)

lemma wf_run: "wf_accounts db \<Longrightarrow> wf_accounts (account_run sh calls db)"
  unfolding account_run_def by (induction calls arbitrary: db) (auto simp: wf_exec)

section \<open>Approvals\<close>

text \<open>A statement that writes no approval: every approved row was approved by the same account before.\<close>

definition approvals_kept :: "account_db \<Rightarrow> account_db \<Rightarrow> bool" where
  "approvals_kept db db' =
     (\<forall>i r'. map_of (ac_pairings db') i = Some r' \<longrightarrow> pq_approved_at r' \<noteq> None \<longrightarrow>
        (\<exists>r. map_of (ac_pairings db) i = Some r \<and> pq_approved_at r \<noteq> None \<and> pq_approved_by r = pq_approved_by r'))"

lemma approvals_kept_same [simp]: "ac_pairings db' = ac_pairings db \<Longrightarrow> approvals_kept db db'"
  by (auto simp: approvals_kept_def)

lemma approvals_tx:
  "(\<And>x db'. body db = Ok (x, db') \<Longrightarrow> approvals_kept db db') \<Longrightarrow> approvals_kept db (snd (account_tx body db))"
  by (auto simp: account_tx_def split: sum.split prod.split)

lemma approvals_cleanup:
  "(\<And>db'. body db = Ok db' \<Longrightarrow> approvals_kept db db') \<Longrightarrow>
     approvals_kept db (snd (cleanup_tx sh action i text body db))"
  by (auto simp: cleanup_tx_def split: sum.split)

lemma approvals_update:
  assumes "\<And>r. pq_approved_at (f r) = pq_approved_at r \<and> pq_approved_by (f r) = pq_approved_by r"
    and "ac_pairings db' = update_rows P f (ac_pairings db)"
  shows "approvals_kept db db'"
  using assms by (auto simp: approvals_kept_def)

lemma approvals_delete [simp]:
  "approvals_kept db (audit v d e (revoke_account_dependencies u (tombstone_user u db)))"
  by (rule approvals_update [where f = "\<lambda>r. r\<lparr>pq_revoked_at := Some (ac_now db)\<rparr>"])
     (auto simp: revoke_account_dependencies_def tombstone_user_def)

lemma approvals_finish: "finish_pairing i r u name ps db = Ok (x, db') \<Longrightarrow> approvals_kept db db'"
  by (cases "db' = db", simp)
     (rule approvals_update [where f = "\<lambda>r. r\<lparr>pq_consumed_at := Some (ac_now db)\<rparr>" and P = "\<lambda>j _. j = i"],
      auto simp: finish_pairing_def Let_def and_then_Ok insert_session_def consume_request_def split: if_splits)

lemma approvals_complete: "approvals_kept db (snd (complete_pairing i h ps db))"
proof -
  obtain ans db' where c: "complete_pairing i h ps db = (ans, db')" by fastforce
  from c have "approvals_kept db db'"
    by (rule complete_pairing_cases) (auto intro: approvals_finish)
  with c show ?thesis by simp
qed

lemma approvals_create: "approvals_kept db (snd (create_pairing_request_for_minutes q m db))"
  unfolding create_pairing_request_for_minutes_def
  by (rule approvals_tx)
     (auto simp: Let_def and_then_Ok insert_row_Ok approvals_kept_def map_add_def split: option.splits if_splits)

lemma register_account_pairings: "register_account n hit db = Ok (x, db') \<Longrightarrow> ac_pairings db' = ac_pairings db"
  by (auto simp: register_account_def and_then_Ok insert_row_Ok insert_browser_def consume_challenge_def
      split: sum.splits)

lemma approvals_others:
  "approvals_kept db (snd (complete_passkey_registration n db))"
  "approvals_kept db (snd (create_webauthn_challenge_for_minutes c m db))"
  "approvals_kept db (snd (consume_webauthn_challenge i h ceremony origin rp db))"
  "approvals_kept db (snd (advance_passkey_sign_count k cnt db))"
  "approvals_kept db (snd (create_browser_session_with_policy b db))"
  "approvals_kept db (snd (renew_browser_session t db))"
  "approvals_kept db (snd (rotate_browser_csrf t csrf db))"
  "approvals_kept db (snd (logout_browser_session u t csrf db))"
  "approvals_kept db (snd (rename_owned_device u d name db))"
  "approvals_kept db (snd (revoke_owned_device u d db))"
  "approvals_kept db (snd (issue_device_session d secret i h db))"
  "approvals_kept db (snd (delete_account u db))"
  "approvals_kept db (snd (consume_rate_limit_for_minutes key m most db))"
  "approvals_kept db (snd (create_yandex_home_oauth_state u h db))"
  "approvals_kept db (snd (consume_yandex_home_oauth_state h db))"
  "approvals_kept db (snd (save_yandex_home_connection u token db))"
  "approvals_kept db (snd (revoke_yandex_home_connection u db))"
  unfolding complete_passkey_registration_def create_webauthn_challenge_for_minutes_def consume_webauthn_challenge_def
    advance_passkey_sign_count_def create_browser_session_with_policy_def renew_browser_session_def
    rotate_browser_csrf_def logout_browser_session_def rename_owned_device_def revoke_owned_device_def
    issue_device_session_def delete_account_def consume_rate_limit_for_minutes_def
    create_yandex_home_oauth_state_def consume_yandex_home_oauth_state_def save_yandex_home_connection_def
    revoke_yandex_home_connection_def
  by (rule approvals_tx;
      auto simp: Let_def and_then_Ok register_account_pairings insert_browser_def consume_challenge_def
        replace_session_def insert_session_def revoke_rows_of_device_def split: if_splits option.splits)+

lemma approvals_operator:
  "approvals_kept db (snd (deactivate_account_for_operator sh u text db))"
  "approvals_kept db (snd (revoke_device_for_operator sh d text db))"
  "approvals_kept db (snd (revoke_credential_for_operator sh i text db))"
  unfolding deactivate_account_for_operator_def revoke_device_for_operator_def revoke_credential_for_operator_def
  by (rule approvals_cleanup; auto simp: revoke_rows_of_device_def split: if_splits option.splits)+

lemma approvals_use_browser: "approvals_kept db (snd (browser_resolve extra t db))"
  using approvals_others(6) [of db t] by (auto simp: browser_resolve_def split: sum.split option.split)

text \<open>Only an approval call approves, for the account of the browser session it proves.\<close>

definition approves :: "account_db \<Rightarrow> account_call \<Rightarrow> uuid \<Rightarrow> user_id \<Rightarrow> bool" where
  "approves db call i u =
     (\<exists>a p t c r. call = AcApprove i a p t c \<and> approver db t c = Some u
        \<and> map_of (ac_pairings db) i = Some r \<and> pq_approval_hash r = a \<and> pq_phrase r = p \<and> open_request db r)"

lemma approval_step:
  assumes "map_of (ac_pairings (account_exec sh call db)) i = Some r'" "pq_approved_at r' \<noteq> None"
  shows "(\<exists>r. map_of (ac_pairings db) i = Some r \<and> pq_approved_at r \<noteq> None \<and> pq_approved_by r = pq_approved_by r')
    \<or> (\<exists>u. pq_approved_by r' = Some u \<and> approves db call i u)"
proof (cases "\<exists>j a p t c. call = AcApprove j a p t c")
  case True
  then obtain j a p t c where "call = AcApprove j a p t c" by blast
  with assms show ?thesis
    by (auto simp: approve_pairing_request_with_browser_proof_def account_tx_def Let_def approves_def
        split: option.splits if_splits)
next
  case False
  have "approvals_kept db (account_exec sh call db)"
    using False by (cases call)
      (auto simp: approvals_others approvals_operator approvals_complete approvals_create approvals_use_browser
        browser_session_user_def browser_session_user_with_csrf_def)
  with assms show ?thesis by (auto simp: approvals_kept_def)
qed

lemma account_run_snoc: "account_run sh (calls @ [call]) db = account_exec sh call (account_run sh calls db)"
  by (simp add: account_run_def)

lemma approval_origin:
  assumes "map_of (ac_pairings (account_run sh calls db)) i = Some r'" "pq_approved_at r' \<noteq> None"
    and "pq_approved_by r' = Some u"
    and "\<And>r. map_of (ac_pairings db) i = Some r \<Longrightarrow> pq_approved_at r = None"
  shows "\<exists>before call after. calls = before @ call # after \<and> approves (account_run sh before db) call i u"
  using assms(1-3)
proof (induction calls arbitrary: r' rule: rev_induct)
  case Nil
  with assms(4) show ?case by (simp add: account_run_def)
next
  case (snoc call calls)
  from approval_step [OF snoc.prems(1) [unfolded account_run_snoc] snoc.prems(2)] show ?case
  proof
    assume "\<exists>r. map_of (ac_pairings (account_run sh calls db)) i = Some r \<and> pq_approved_at r \<noteq> None
      \<and> pq_approved_by r = pq_approved_by r'"
    with snoc obtain b c a where "calls = b @ c # a" "approves (account_run sh b db) c i u" by fastforce
    then show ?case by (intro exI [of _ b] exI [of _ c] exI [of _ "a @ [call]"]) simp
  next
    assume "\<exists>v. pq_approved_by r' = Some v \<and> approves (account_run sh calls db) call i v"
    with snoc.prems(3) show ?case by (intro exI [of _ calls] exI [of _ call] exI [of _ "[]"]) simp
  qed
qed

section \<open>Resolving credentials\<close>

lemma find_session_Some:
  "find_active_session_by_access_hash h db = Ok (Some a) \<Longrightarrow>
     \<exists>s. (as_session_id a, s) \<in> set (ac_sessions db) \<and> live_session db h s
        \<and> as_user_id a = ns_user_id s \<and> as_device_id a = ns_device_id s"
  by (auto simp: find_active_session_by_access_hash_def account_query_def split: if_splits dest!: find_row_Some)

lemma find_row_unique:
  assumes "(i, r) \<in> set t" "P i r" "\<And>j q. (j, q) \<in> set t \<Longrightarrow> P j q \<Longrightarrow> (j, q) = (i, r)"
  shows "find_row P t = Some (i, r)"
proof (cases "find_row P t")
  case None
  with assms(1,2) show ?thesis by (auto simp: find_row_None)
next
  case (Some p)
  with assms(3) find_row_Some [of P t "fst p" "snd p"] show ?thesis by (cases p) auto
qed

text \<open>With distinct digests a live session is what its digest resolves to.\<close>

lemma distinct_map_eq: "distinct (map f xs) \<Longrightarrow> x \<in> set xs \<Longrightarrow> y \<in> set xs \<Longrightarrow> f x = f y \<Longrightarrow> x = y"
  by (auto simp: distinct_map inj_on_def)

lemma find_session_unique:
  assumes "wf_accounts db" "ac_available db" "(i, s) \<in> set (ac_sessions db)" "live_session db h s"
  shows "find_active_session_by_access_hash h db
    = Ok (Some \<lparr>as_session_id = i, as_user_id = ns_user_id s, as_device_id = ns_device_id s\<rparr>)"
proof -
  have "find_row (\<lambda>_. live_session db h) (ac_sessions db) = Some (i, s)"
  proof (rule find_row_unique [where P = "\<lambda>_. live_session db h", OF assms(3,4)])
    fix j q assume "(j, q) \<in> set (ac_sessions db)" "live_session db h q"
    with assms distinct_map_eq [of "ns_access_hash \<circ> snd" "ac_sessions db" "(j, q)" "(i, s)"]
    show "(j, q) = (i, s)" by (simp add: wf_accounts_def sessions_ok_def live_session_def)
  qed
  with assms(2) show ?thesis by (simp add: find_active_session_by_access_hash_def account_query_def)
qed

lemma account_tx_Ok:
  "account_tx body db = (Ok x, db') \<longleftrightarrow> ac_available db \<and> body db = Ok (x, db')"
  by (auto simp: account_tx_def split: sum.split)

lemma complete_pairing_Completed:
  assumes "complete_pairing i h ps db = (Ok (Completed c), db')"
  obtains r name where
    "ac_available db" "map_of (ac_pairings db) i = Some r" "pq_desktop_hash r = h" "pq_revoked_at r = None"
    "pq_consumed_at r = None" "pq_approved_at r \<noteq> None" "pq_approved_by r = Some (pc_user_id c)"
    "user_name db (pc_user_id c) = Some name" "ac_now db < pq_expires_at r"
    "live_devices_of db (pc_user_id c) < MAX_ACCOUNT_DEVICES"
    "map_of (ac_devices db) (ps_device_id ps) = None" "pc_device_id c = ps_device_id ps"
    "pc_session_id c = ps_session_id ps" "pc_access_expires_at c = ac_now db + minutes 15"
    "db' = audit (Some (pc_user_id c)) (Some (ps_device_id ps)) ''pairing_completed'' (consume_request i
        (db\<lparr>ac_devices := ac_devices db @ [(ps_device_id ps, paired_device db (pc_user_id c) r (ps_secret_hash ps))],
            ac_sessions := ac_sessions db @ [(ps_session_id ps,
              new_native_session (pc_user_id c) (ps_device_id ps) (ps_access_hash ps) (ac_now db + minutes 15))]\<rparr>))"
proof -
  have av: "ac_available db" using assms by (auto simp: complete_pairing_def account_tx_Ok)
  from assms show thesis
  proof (rule complete_pairing_cases)
    fix r u name x
    assume *: "map_of (ac_pairings db) i = Some r" "pq_desktop_hash r = h" "pq_revoked_at r = None"
      "pq_consumed_at r = None" "ac_now db < pq_expires_at r" "pq_approved_at r \<noteq> None" "pq_approved_by r = Some u"
      "user_name db u = Some name" "finish_pairing i r u name ps db = Ok (x, db')"
      and "Ok (Completed c) = (Ok x :: unit + pairing_outcome)"
    then have fin: "finish_pairing i r u name ps db = Ok (Completed c, db')" by simp
    then have ids: "pc_user_id c = u" "pc_device_id c = ps_device_id ps" "pc_session_id c = ps_session_id ps"
      "pc_access_expires_at c = ac_now db + minutes 15"
      by (auto simp: finish_pairing_def Let_def and_then_Ok split: if_splits)
    show thesis
      using * fin unfolding ids(1) [symmetric]
      by (intro that [OF av *(1-4,6) _ _ *(5) _ _ ids(2-4), of name])
         (auto simp: finish_pairing_def Let_def and_then_Ok insert_row_Ok insert_session_def split: if_splits)
  qed auto
qed

section \<open>Properties\<close>

definition empty_accounts :: account_db where
  "empty_accounts =
     \<lparr>ac_available = True, ac_now = 0, ac_users = [], ac_devices = [], ac_sessions = [], ac_browsers = [],
      ac_pairings = [], ac_passkeys = [], ac_challenges = [], ac_identities = [], ac_home_states = [],
      ac_home_links = [], ac_buckets = (\<lambda>_. 0),
      ac_audit = []\<rparr>"


text \<open>A live account, a browser session and a request of a second device.\<close>

definition example_accounts :: account_db where
  "example_accounts = empty_accounts\<lparr>
     ac_users := [(5, \<lparr>ur_status = AccountActive, ur_display_name = ''A'', ur_created_at = 0, ur_deleted_at = None\<rparr>)],
     ac_browsers := [(9, \<lparr>bs_user_id = 5, bs_token_hash = ''t'', bs_csrf_hash = ''c'', bs_reauthenticated_at = 0,
       bs_expires_at = 100, bs_absolute_expires_at = 200, bs_revoked_at = None\<rparr>)],
     ac_pairings := [(7, \<lparr>pq_desktop_hash = ''d'', pq_approval_hash = ''a'', pq_code_hash = ''s'', pq_phrase = ''P'',
       pq_display_name = ''PC'', pq_type = ''pc'', pq_app_version = None, pq_expires_at = 50,
       pq_approved_by = None, pq_approved_at = None, pq_consumed_at = None, pq_revoked_at = None\<rparr>)]\<rparr>"

definition example_pairing_session :: new_pairing_session where
  "example_pairing_session = \<lparr>ps_session_id = 11, ps_device_id = 12, ps_access_hash = ''h'', ps_secret_hash = ''x''\<rparr>"

definition example_completion :: pairing_completion where
  "example_completion = \<lparr>pc_user_id = 5, pc_device_id = 12, pc_session_id = 11,
     pc_access_expires_at = minutes 15, pc_account_name = ''A'', pc_display_name = ''PC'', pc_type = ''pc''\<rparr>"

definition example_approved :: account_db where
  "example_approved = account_exec (\<lambda>_. []) (AcApprove 7 ''a'' ''P'' ''t'' ''c'') example_accounts"

lemmas example_account_defs = example_approved_def example_accounts_def empty_accounts_def
  approve_pairing_request_with_browser_proof_def account_tx_def approver_def find_row_def idle_browser_def
  active_user_def open_request_def update_rows_def count_rows_def

lemma example_approved_wf: "wf_accounts example_approved"
  by (simp add: example_account_defs wf_accounts_def devices_ok_def sessions_ok_def
      browsers_ok_def passkeys_ok_def pairings_ok_def pairing_ok_def)

lemma example_completed:
  "fst (complete_pairing 7 ''d'' example_pairing_session example_approved) = Ok (Completed example_completion)"
  by (simp add: example_account_defs complete_pairing_def finish_pairing_def user_name_def live_devices_of_def
      insert_row_def insert_session_def example_pairing_session_def example_completion_def MAX_ACCOUNT_DEVICES_def Let_def)

text \<open>
  C14: Pairing needs the owner's approval and happens once. When a request that was not approved
  in some state is completed later, one of the calls in between approved it, with its approval
  secret and phrase, while it was open, and with the cookie and CSRF digests of a live browser
  session of the account that gets the device. A completed request cannot be completed again.
\<close>
theorem pairing_approved_once:
  assumes "complete_pairing i h ps (account_run sh calls db) = (Ok (Completed c), db')"
    and "\<And>r. map_of (ac_pairings db) i = Some r \<Longrightarrow> pq_approved_at r = None"
  shows "(\<exists>before call after. calls = before @ call # after
            \<and> approves (account_run sh before db) call i (pc_user_id c))
       \<and> (\<forall>more h2 ps2 c2. fst (complete_pairing i h2 ps2 (account_run sh more db')) \<noteq> Ok (Completed c2))"
proof -
  from assms(1) obtain r where r: "map_of (ac_pairings (account_run sh calls db)) i = Some r"
      "pq_approved_at r \<noteq> None" "pq_approved_by r = Some (pc_user_id c)"
    and db': "map_of (ac_pairings db') i = Some (r\<lparr>pq_consumed_at := Some (ac_now (account_run sh calls db))\<rparr>)"
    by (rule complete_pairing_Completed) (simp add: consume_request_def)
  have "fst (complete_pairing i h2 ps2 (account_run sh more db')) \<noteq> Ok (Completed c2)" for more h2 ps2 c2
  proof
    assume "fst (complete_pairing i h2 ps2 (account_run sh more db')) = Ok (Completed c2)"
    then obtain db2 where "complete_pairing i h2 ps2 (account_run sh more db') = (Ok (Completed c2), db2)"
      by (metis prod.collapse)
    then obtain r2 where "map_of (ac_pairings (account_run sh more db')) i = Some r2" "pq_consumed_at r2 = None"
      by (rule complete_pairing_Completed)
    moreover have "table_le pairing_le (ac_pairings db') (ac_pairings (account_run sh more db'))"
      using later_run [of db' sh more] by (simp add: later_def)
    ultimately show False using table_leD [OF _ db'] by (fastforce simp: pairing_le_def sticky_def)
  qed
  with approval_origin [OF r assms(2)] show ?thesis by blast
qed

theorem pairing_approved_once_witness:
  "\<exists>before call after. [AcApprove 7 ''a'' ''P'' ''t'' ''c''] = before @ call # after
     \<and> approves (account_run (\<lambda>_. []) before example_accounts) call 7 5"
proof -
  obtain db' where "complete_pairing 7 ''d'' example_pairing_session example_approved
      = (Ok (Completed example_completion), db')"
    using example_completed by (metis prod.collapse)
  then have "complete_pairing 7 ''d'' example_pairing_session
      (account_run (\<lambda>_. []) [AcApprove 7 ''a'' ''P'' ''t'' ''c''] example_accounts)
      = (Ok (Completed example_completion), db')"
    by (simp only: account_run_def fold.simps example_approved_def o_apply id_apply)
  moreover have "map_of (ac_pairings example_accounts) 7 = Some r \<Longrightarrow> pq_approved_at r = None" for r
    by (auto simp: example_accounts_def)
  ultimately show ?thesis
    using pairing_approved_once [of 7 "''d''" example_pairing_session "\<lambda>_. []"
        "[AcApprove 7 ''a'' ''P'' ''t'' ''c'']" example_accounts example_completion db']
    by (simp only: example_completion_def pairing_completion.simps)
qed

lemma wf_device_ids: "wf_accounts db \<Longrightarrow> distinct (map fst (ac_devices db))"
  by (simp add: wf_accounts_def devices_ok_def)

text \<open>What a revoked device or a deleted account has at any later time.\<close>

lemma revoked_device_later:
  assumes "map_of (ac_devices db) d = Some r" "nd_revoked_at r \<noteq> None" "later db db'" "wf_accounts db'"
  shows "find_active_session_by_access_hash h db' = Ok (Some a) \<Longrightarrow> as_device_id a \<noteq> d"
    and "fst (issue_device_session d secret i h db') \<noteq> Ok (Some t)"
proof -
  from assms(1-3) obtain r' where r': "map_of (ac_devices db') d = Some r'" "nd_revoked_at r' \<noteq> None"
    unfolding later_def by (metis table_leD device_le_def sticky_def)
  show "as_device_id a \<noteq> d" if "find_active_session_by_access_hash h db' = Ok (Some a)"
    using find_session_Some [OF that] r' by (auto simp: live_session_def is_some_and_def live_device_def)
  have "find_row (\<lambda>j q. j = d \<and> nd_secret_hash q = secret \<and> live_device q \<and> active_user db' (nd_user_id q)) (ac_devices db') = None"
    using r' map_of_is_SomeI [OF wf_device_ids [OF assms(4)]]
    by (fastforce simp: find_row_None live_device_def)
  then show "fst (issue_device_session d secret i h db') \<noteq> Ok (Some t)"
    by (simp add: issue_device_session_def account_tx_def)
qed

lemma deleted_account_later:
  assumes "map_of (ac_users db) u = Some r" "ur_status r = AccountDeleted" "later db db'" "wf_accounts db'"
  shows "find_active_session_by_access_hash h db' = Ok (Some a) \<Longrightarrow> as_user_id a \<noteq> u"
    and "fst (browser_session_user tok db') \<noteq> Ok (Some u)"
proof -
  from assms(1-3) have dead: "\<not> active_user db' u"
    using table_leD [of user_le "ac_users db" "ac_users db'" u r]
    by (auto simp: later_def active_user_def user_le_def is_some_and_def)
  show "as_user_id a \<noteq> u" if "find_active_session_by_access_hash h db' = Ok (Some a)"
    using find_session_Some [OF that] dead by (auto simp: live_session_def)
  show "fst (browser_session_user tok db') \<noteq> Ok (Some u)"
    using dead by (auto simp: browser_session_user_def browser_resolve_def account_query_def live_browser_def
        split: option.split sum.split dest!: find_row_Some)
qed

lemma wf_empty_accounts: "wf_accounts empty_accounts"
  by (simp add: wf_accounts_def empty_accounts_def devices_ok_def sessions_ok_def browsers_ok_def
      passkeys_ok_def pairings_ok_def)

lemma revoke_owned_device_row:
  assumes "wf_accounts db" "revoke_owned_device u d db = (Ok True, db')"
  shows "\<exists>r. map_of (ac_devices db') d = Some r \<and> nd_revoked_at r \<noteq> None"
proof -
  let ?hit = "\<lambda>i r. i = d \<and> nd_user_id r = u \<and> live_device r \<and> active_user db u"
  from assms(2) have "count_rows ?hit (ac_devices db) \<noteq> 0"
    and db': "ac_devices db' = update_rows ?hit (\<lambda>r. r\<lparr>nd_revoked_at := Some (ac_now db)\<rparr>) (ac_devices db)"
    by (auto simp: revoke_owned_device_def account_tx_Ok Let_def revoke_rows_of_device_def split: if_splits)
  then obtain p where "p \<in> set (ac_devices db)" "?hit (fst p) (snd p)" by (auto simp: count_rows_0)
  with map_of_is_SomeI [OF wf_device_ids [OF assms(1)], of d "snd p"] show ?thesis
    by (cases p) (auto simp: db')
qed

lemma delete_account_row:
  assumes "delete_account u db = (Ok True, db')"
  shows "\<exists>r. map_of (ac_users db') u = Some r \<and> ur_status r = AccountDeleted"
  using assms
  by (auto simp: delete_account_def account_tx_Ok active_user_def is_some_and_def revoke_account_dependencies_def
      tombstone_user_def split: if_splits option.splits)

text \<open>
  C15: Revocation and deletion are final. Whatever calls the store has served before and serves
  afterwards: once a device was revoked, no access digest resolves to it again and its secret
  gets it no new session; once an account was deleted, no access digest and no browser cookie
  resolves to the account again.
\<close>
theorem revocation_final:
  "let db = account_run sh before empty_accounts in
     (revoke_owned_device u d db = (Ok True, db1) \<longrightarrow>
        (\<forall>calls h a. find_active_session_by_access_hash h (account_run sh calls db1) = Ok (Some a) \<longrightarrow> as_device_id a \<noteq> d)
      \<and> (\<forall>calls secret i h t. fst (issue_device_session d secret i h (account_run sh calls db1)) \<noteq> Ok (Some t)))
   \<and> (delete_account u db = (Ok True, db2) \<longrightarrow>
        (\<forall>calls h a. find_active_session_by_access_hash h (account_run sh calls db2) = Ok (Some a) \<longrightarrow> as_user_id a \<noteq> u)
      \<and> (\<forall>calls tok. fst (browser_session_user tok (account_run sh calls db2)) \<noteq> Ok (Some u)))"
proof -
  let ?db = "account_run sh before empty_accounts"
  have wf: "wf_accounts ?db" by (rule wf_run [OF wf_empty_accounts])
  have 1: "(find_active_session_by_access_hash h (account_run sh calls db1) = Ok (Some a) \<longrightarrow> as_device_id a \<noteq> d)
      \<and> fst (issue_device_session d secret i h (account_run sh calls db1)) \<noteq> Ok (Some t)"
    if "revoke_owned_device u d ?db = (Ok True, db1)" for calls h a secret i t
  proof -
    from revoke_owned_device_row [OF wf that] obtain r
      where r: "map_of (ac_devices db1) d = Some r" "nd_revoked_at r \<noteq> None" by blast
    have "wf_accounts db1" using wf_revoke [OF wf, of u d] that by simp
    then show ?thesis using revoked_device_later [OF r later_run wf_run] by blast
  qed
  have 2: "(find_active_session_by_access_hash h (account_run sh calls db2) = Ok (Some a) \<longrightarrow> as_user_id a \<noteq> u)
      \<and> fst (browser_session_user tok (account_run sh calls db2)) \<noteq> Ok (Some u)"
    if "delete_account u ?db = (Ok True, db2)" for calls h a tok
  proof -
    from delete_account_row [OF that] obtain r
      where r: "map_of (ac_users db2) u = Some r" "ur_status r = AccountDeleted" by blast
    have "wf_accounts db2" using wf_delete [OF wf] that by (metis snd_conv)
    then show ?thesis using deleted_account_later [OF r later_run wf_run] by blast
  qed
  from 1 2 show ?thesis unfolding Let_def by blast
qed

text \<open>A registration, a pairing and its approval, from an empty database.\<close>

definition example_calls :: "account_call list" where
  "example_calls =
     [AcChallenge \<lparr>nc_challenge_id = 2, nc_hash = ''n'', nc_state_blob = [], nc_ceremony = Registration,
        nc_rp_id = WEBAUTHN_RP_ID, nc_origin = WEBAUTHN_ORIGIN, nc_user_id = None\<rparr> 5,
      AcRegister \<lparr>nr_user_id = 5, nr_account_name = ''A'', nr_challenge_id = 2, nr_challenge_hash = ''n'',
        nr_credential_id = 3, nr_credential = ''k'', nr_public_key = ''p'', nr_sign_count = 0, nr_transports = [],
        nr_browser = \<lparr>nb_session_id = 9, nb_user_id = 5, nb_token_hash = ''t'', nb_csrf_hash = ''c''\<rparr>\<rparr>,
      AcPairing \<lparr>np_request_id = 7, np_desktop_hash = ''d'', np_approval_hash = ''a'', np_code_hash = ''s'',
        np_phrase = ''P'', np_display_name = ''PC'', np_type = ''pc'', np_app_version = None\<rparr> 10,
      AcApprove 7 ''a'' ''P'' ''t'' ''c'']"

lemma example_run:
  "fst (complete_pairing 7 ''d'' example_pairing_session (account_run (\<lambda>_. []) example_calls empty_accounts))
     = Ok (Completed example_completion)"
  by code_simp

lemma example_revocations:
  "fst (revoke_owned_device 5 12 (account_run (\<lambda>_. [])
      (example_calls @ [AcComplete 7 ''d'' example_pairing_session]) empty_accounts)) = Ok True"
  "fst (delete_account 5 (account_run (\<lambda>_. [])
      (example_calls @ [AcComplete 7 ''d'' example_pairing_session]) empty_accounts)) = Ok True"
  by code_simp+

theorem revocation_final_witness:
  "let db = account_run (\<lambda>_. []) (example_calls @ [AcComplete 7 ''d'' example_pairing_session]) empty_accounts in
     (\<exists>db1. revoke_owned_device 5 12 db = (Ok True, db1)
        \<and> (\<forall>calls secret i h t. fst (issue_device_session 12 secret i h (account_run (\<lambda>_. []) calls db1)) \<noteq> Ok (Some t)))
   \<and> (\<exists>db2. delete_account 5 db = (Ok True, db2)
        \<and> (\<forall>calls tok. fst (browser_session_user tok (account_run (\<lambda>_. []) calls db2)) \<noteq> Ok (Some 5)))"
  using example_revocations
    revocation_final [of "\<lambda>_. []" "example_calls @ [AcComplete 7 ''d'' example_pairing_session]" 5 12]
  unfolding Let_def by (metis prod.collapse)

lemma example_counts:
  "let db = account_run (\<lambda>_. []) (example_calls @ [AcComplete 7 ''d'' example_pairing_session]) empty_accounts in
     count_rows (live_of 12) (ac_sessions db) = 1 \<and> fst (hd (ac_sessions db)) = 11
   \<and> ac_sessions db \<noteq> [] \<and> ns_revoked_at (snd (hd (ac_sessions db))) = None \<and> ns_user_id (snd (hd (ac_sessions db))) = 5"
  by code_simp


lemma minutes_pos [simp]: "0 < minutes 15"
  by (simp add: minutes_def seconds_def nanos_per_second_def)

lemma issue_device_session_Some:
  assumes "wf_accounts db" "issue_device_session d secret i h db = (Ok (Some t), db')"
  shows "\<exists>r. map_of (ac_devices db) d = Some r \<and> nd_secret_hash r = secret
      \<and> find_active_session_by_access_hash h db' = Ok (Some \<lparr>as_session_id = i, as_user_id = nd_user_id r, as_device_id = d\<rparr>)"
    and "find_active_session_by_access_hash h' db' = Ok (Some a) \<Longrightarrow> as_device_id a = d \<Longrightarrow> h' = h"
proof -
  from assms(2) obtain r where row: "(d, r) \<in> set (ac_devices db)" "nd_secret_hash r = secret" "live_device r"
      "active_user db (nd_user_id r)"
    and rep: "replace_session (nd_user_id r) d i h db = Ok (Some t, db')" and av: "ac_available db"
    by (auto simp: issue_device_session_def account_tx_Ok split: option.splits dest!: find_row_Some)
  let ?new = "new_native_session (nd_user_id r) d h (ac_now db + minutes 15)"
  have r: "map_of (ac_devices db) d = Some r" using map_of_is_SomeI [OF wf_device_ids [OF assms(1)] row(1)] .
  from rep have db': "ac_sessions db' = update_rows (\<lambda>_ s. ns_device_id s = d \<and> ns_revoked_at s = None)
        (\<lambda>s. s\<lparr>ns_revoked_at := Some (ac_now db)\<rparr>) (ac_sessions db) @ [(i, ?new)]"
      "ac_devices db' = update_rows (\<lambda>j _. j = d) (\<lambda>r. r\<lparr>nd_last_seen_at := Some (ac_now db)\<rparr>) (ac_devices db)"
      "ac_now db' = ac_now db" "ac_users db' = ac_users db" "ac_available db' = ac_available db"
    by (auto simp: replace_session_def Let_def and_then_Ok insert_session_def insert_row_Ok)
  have "live_session db' h ?new"
    using row r by (simp add: live_session_def new_native_session_def db' active_user_def live_device_def)
  moreover have "wf_accounts db'" using wf_issue [OF assms(1)] assms(2) by (metis snd_conv)
  ultimately show "\<exists>r. map_of (ac_devices db) d = Some r \<and> nd_secret_hash r = secret
      \<and> find_active_session_by_access_hash h db' = Ok (Some \<lparr>as_session_id = i, as_user_id = nd_user_id r, as_device_id = d\<rparr>)"
    using find_session_unique [of db' i ?new h] r row av by (simp add: db' new_native_session_def)
  show "h' = h" if "find_active_session_by_access_hash h' db' = Ok (Some a)" "as_device_id a = d"
    using find_session_Some [OF that(1)] that(2)
    by (auto simp: db' live_session_def set_update_rows new_native_session_def split: if_splits)
qed

lemma session_ends:
  assumes "wf_accounts db" "(i, s) \<in> set (ac_sessions db)" "ns_access_expires_at s \<le> t" "ac_available db"
  shows "find_active_session_by_access_hash (ns_access_hash s) (db\<lparr>ac_now := t\<rparr>) = Ok None"
proof -
  have "find_row (\<lambda>_. live_session (db\<lparr>ac_now := t\<rparr>) (ns_access_hash s)) (ac_sessions db) = None"
    unfolding find_row_None
  proof (intro ballI notI)
    fix p assume "p \<in> set (ac_sessions db)" "live_session (db\<lparr>ac_now := t\<rparr>) (ns_access_hash s) (snd p)"
    with assms distinct_map_eq [of "ns_access_hash \<circ> snd" "ac_sessions db" p "(i, s)"] show False
      by (simp add: wf_accounts_def sessions_ok_def live_session_def)
  qed
  with assms(4) show ?thesis by (simp add: find_active_session_by_access_hash_def account_query_def)
qed



text \<open>The requests of one key at the given times, with what the limiter answered.\<close>

fun limited_requests :: "string \<Rightarrow> int \<Rightarrow> nat \<Rightarrow> instant list \<Rightarrow> account_db \<Rightarrow> (instant \<times> (unit + bool)) list" where
  "limited_requests key m limit [] db = []"
| "limited_requests key m limit (t # ts) db =
     (let (answer, db') = consume_rate_limit_for_minutes key m limit (db\<lparr>ac_now := t\<rparr>)
      in (t, answer) # limited_requests key m limit ts db')"

lemma limited_requests_count:
  assumes "ac_available db"
  shows "length (filter (\<lambda>(t, answer). minute_start t = w \<and> answer = Ok True) (limited_requests key m limit ts db))
       = min (length (filter (\<lambda>t. minute_start t = w) ts)) (max 1 limit - ac_buckets db (key, w))"
  using assms
proof (induction ts arbitrary: db)
  case (Cons t ts)
  show ?case
  proof (cases "ac_buckets db (key, minute_start t) = 0 \<or> ac_buckets db (key, minute_start t) < limit")
    case True
    with Cons.prems Cons.IH [of "db\<lparr>ac_now := t, ac_buckets := (ac_buckets db)((key, minute_start t) := Suc (ac_buckets db (key, minute_start t)))\<rparr>"]
    show ?thesis by (auto simp: consume_rate_limit_for_minutes_def account_tx_def Let_def)
  next
    case False
    with Cons.prems Cons.IH [of "db\<lparr>ac_now := t\<rparr>"]
    show ?thesis by (auto simp: consume_rate_limit_for_minutes_def account_tx_def Let_def)
  qed
qed simp

text \<open>
  C26: The database-backed rate limit counts calendar minutes. Of the requests of a key whose
  bucket is fresh, exactly the first limit of each minute are admitted (one when the limit is
  0), whatever lifetime the caller asks for: a limit of ten with a lifetime of fifteen minutes
  admits ten requests in every minute, 150 in fifteen minutes.
\<close>
theorem rate_limit_per_minute:
  assumes "ac_available db" "ac_buckets db (key, w) = 0"
  shows "length (filter (\<lambda>(t, answer). minute_start t = w \<and> answer = Ok True) (limited_requests key lifetime limit ts db))
       = min (length (filter (\<lambda>t. minute_start t = w) ts)) (max 1 limit)"
  using limited_requests_count [OF assms(1), of w key lifetime limit ts] assms(2) by simp

theorem rate_limit_per_minute_witness:
  "length (filter (\<lambda>(t, answer). minute_start t = seconds 60 \<and> answer = Ok True)
     (limited_requests ''pairing'' 15 2 [seconds 10, seconds 60, seconds 61, seconds 70, seconds 130] empty_accounts)) = 2"
proof -
  have "length (filter (\<lambda>(t, answer). minute_start t = seconds 60 \<and> answer = Ok True)
     (limited_requests ''pairing'' 15 2 [seconds 10, seconds 60, seconds 61, seconds 70, seconds 130] empty_accounts))
    = min (length (filter (\<lambda>t. minute_start t = seconds 60) [seconds 10, seconds 60, seconds 61, seconds 70, seconds 130])) (max 1 2)"
    by (rule rate_limit_per_minute) (simp_all add: empty_accounts_def)
  then show ?thesis by (simp add: minute_start_def seconds_def nanos_per_second_def)
qed

end
