(* ===== verification/Account_Http.thy ===== *)
theory Account_Http
  imports Account_Safety
begin

text \<open>
  The HTTP handlers of accounts, browser sessions, passkeys and pairing (http/account.rs,
  http/auth.rs, http/pairing.rs) over the account store and the connection registry. A handler
  makes several calls to the store; other requests are served in between, so the environment
  holds the calls the store executed before each of them. The WebAuthn verifier is third-party
  code and an argument, like JSON decoding, token digests and the values of fresh identifiers.
\<close>

section \<open>Requests and the world\<close>

record account_env =
  ah_store :: bool
  ah_proxy_token :: "string option"
  ah_token_hash :: "string \<Rightarrow> string"
  ah_fmt :: "instant \<Rightarrow> string"
  ah_new_uuid :: "nat \<Rightarrow> uuid"
  ah_simple :: "uuid \<Rightarrow> string"
  ah_show :: "uuid \<Rightarrow> string"
  ah_others :: "nat \<Rightarrow> account_call list"
  ah_channels :: channel_env

record account_world =
  aw_db :: account_db
  aw_registry :: registry_state

type_synonym 'a account_handler = "account_world \<Rightarrow> (http_error + 'a) \<times> account_world"

text \<open>Early returns: a failed step ends the handler with its response.\<close>

definition h_return :: "'a \<Rightarrow> 'a account_handler" where
  "h_return x w = (Ok x, w)"

definition h_fail :: "http_error \<Rightarrow> 'a account_handler" where
  "h_fail e w = (Err e, w)"

definition h_bind :: "'a account_handler \<Rightarrow> ('a \<Rightarrow> 'b account_handler) \<Rightarrow> 'b account_handler" where
  "h_bind m f w = (case m w of (Inl e, w') \<Rightarrow> (Err e, w') | (Inr x, w') \<Rightarrow> f x w')"

definition h_require :: "bool \<Rightarrow> http_error \<Rightarrow> 'a account_handler \<Rightarrow> 'a account_handler" where
  "h_require b e m = (if b then m else h_fail e)"

definition h_some :: "'a option \<Rightarrow> http_error \<Rightarrow> ('a \<Rightarrow> 'b account_handler) \<Rightarrow> 'b account_handler" where
  "h_some v e f = (case v of None \<Rightarrow> h_fail e | Some x \<Rightarrow> f x)"

definition h_lift :: "http_error + 'a \<Rightarrow> ('a \<Rightarrow> 'b account_handler) \<Rightarrow> 'b account_handler" where
  "h_lift r f = (case r of Inl e \<Rightarrow> h_fail e | Inr x \<Rightarrow> f x)"

text \<open>
  The \<open>n\<close>-th store call of a handler: the store first serves the other requests, then this call;
  the continuation gets the result or the failure of the store.
\<close>

definition h_store ::
  "account_env \<Rightarrow> nat \<Rightarrow> 'a account_op \<Rightarrow> (unit + 'a \<Rightarrow> 'b account_handler) \<Rightarrow> 'b account_handler" where
  "h_store env n statement f w =
     (let (r, db) = statement (account_run (ah_show env) (ah_others env n) (aw_db w))
      in f r (w\<lparr>aw_db := db\<rparr>))"

definition query_op :: "(account_db \<Rightarrow> unit + 'a) \<Rightarrow> 'a account_op" where
  "query_op q db = (q db, db)"

definition untrusted_request :: http_error where
  "untrusted_request = http_failure 403 ''untrusted_request''"

definition session_required :: http_error where
  "session_required = http_failure 401 ''authentication_required''"

definition auth_unavailable :: http_error where
  "auth_unavailable = http_failure 503 ''auth_unavailable''"

definition csrf_failed :: http_error where
  "csrf_failed = http_failure 403 ''csrf_failed''"

definition BROWSER_COOKIE :: string where "BROWSER_COOKIE = ''rockserver_browser''"

definition csrf_header :: "header_map \<Rightarrow> string option" where
  "csrf_header headers =
     opt_filter (\<lambda>value. value \<noteq> [] \<and> length value \<le> 256) (header_str ''x-csrf-token'' headers)"

definition first_party :: "account_env \<Rightarrow> header_map \<Rightarrow> bool" where
  "first_party env headers =
     (is_trusted_browser_request headers \<and> trusted_proxy_header_matches headers (ah_proxy_token env))"

section \<open>Browser account centre\<close>

record browser_account_dto =
  ba_account_name :: string
  ba_device_limit :: nat
  ba_devices :: "browser_device list"
  ba_yandex_home_connected :: bool

definition browser_account :: "account_env \<Rightarrow> header_map \<Rightarrow> browser_account_dto account_handler" where
  "browser_account env headers =
     h_require (trusted_proxy_header_matches headers (ah_proxy_token env)) untrusted_request (
     h_some (cookie_value headers BROWSER_COOKIE) session_required (\<lambda>cookie.
     h_require (ah_store env) auth_unavailable (
     h_store env 0 (query_op (browser_account_display_name (ah_token_hash env cookie))) (\<lambda>named.
     (case named of Inl _ \<Rightarrow> h_fail auth_unavailable | Inr None \<Rightarrow> h_fail session_required
      | Inr (Some name) \<Rightarrow>
     h_store env 1 (browser_session_user (ah_token_hash env cookie)) (\<lambda>owner.
     (case owner of Inl _ \<Rightarrow> h_fail auth_unavailable | Inr None \<Rightarrow> h_fail session_required
      | Inr (Some u) \<Rightarrow>
     h_store env 2 (query_op (list_browser_devices (ah_fmt env) u)) (\<lambda>devices.
     h_store env 3 (query_op (has_yandex_home_connection u)) (\<lambda>linked.
     (case (devices, linked) of
        (Inr ds, Inr l) \<Rightarrow>
          h_return \<lparr>ba_account_name = name, ba_device_limit = MAX_ACCOUNT_DEVICES, ba_devices = ds,
                    ba_yandex_home_connected = l\<rparr>
      | _ \<Rightarrow> h_fail auth_unavailable))))))))))"

definition browser_mutation_owner :: "account_env \<Rightarrow> header_map \<Rightarrow> user_id account_handler" where
  "browser_mutation_owner env headers =
     h_require (first_party env headers) untrusted_request (
     h_some (cookie_value headers BROWSER_COOKIE) session_required (\<lambda>cookie.
     h_some (csrf_header headers) csrf_failed (\<lambda>csrf.
     h_require (ah_store env) auth_unavailable (
     h_store env 0 (browser_session_user_with_csrf (ah_token_hash env cookie) (ah_token_hash env csrf)) (\<lambda>owner.
     (case owner of Inl _ \<Rightarrow> h_fail auth_unavailable | Inr None \<Rightarrow> h_fail session_required
      | Inr (Some u) \<Rightarrow> h_return u))))))"

definition validated_device_display_name :: "string \<Rightarrow> string option" where
  "validated_device_display_name value =
     (let name = str_trim value
      in if name \<noteq> [] \<and> length (chars name) \<le> 128 \<and> \<not> list_ex is_control (chars name)
         then Some name else None)"

definition device_not_found :: http_error where
  "device_not_found = http_failure 404 ''device_not_found''"

definition rename_browser_device :: "account_env \<Rightarrow> header_map \<Rightarrow> device_id \<Rightarrow> string \<Rightarrow> unit account_handler" where
  "rename_browser_device env headers d value =
     h_bind (browser_mutation_owner env headers) (\<lambda>u.
     h_some (validated_device_display_name value) (http_failure 422 ''invalid_device_name'') (\<lambda>name.
     h_require (ah_store env) auth_unavailable (
     h_store env 1 (rename_owned_device u d name) (\<lambda>renamed.
     (case renamed of Inr True \<Rightarrow> h_return () | Inr False \<Rightarrow> h_fail device_not_found
      | Inl _ \<Rightarrow> h_fail auth_unavailable)))))"

text \<open>A revoked device also loses its control connection.\<close>

definition drop_connection :: "account_env \<Rightarrow> user_id \<Rightarrow> device_id \<Rightarrow> unit account_handler" where
  "drop_connection env u d w =
     (Ok (), w\<lparr>aw_registry := fst (revoke (ah_channels env) u d (aw_registry w))\<rparr>)"

definition revoke_and_drop :: "account_env \<Rightarrow> user_id \<Rightarrow> device_id \<Rightarrow> unit account_handler" where
  "revoke_and_drop env u d =
     h_store env 1 (revoke_owned_device u d) (\<lambda>revoked.
     (case revoked of Inr True \<Rightarrow> drop_connection env u d | Inr False \<Rightarrow> h_fail device_not_found
      | Inl _ \<Rightarrow> h_fail auth_unavailable))"

definition revoke_browser_device :: "account_env \<Rightarrow> header_map \<Rightarrow> device_id \<Rightarrow> unit account_handler" where
  "revoke_browser_device env headers d =
     h_bind (browser_mutation_owner env headers) (\<lambda>u.
     h_require (ah_store env) auth_unavailable (revoke_and_drop env u d))"

definition logout_browser_session_request :: "account_env \<Rightarrow> header_map \<Rightarrow> unit account_handler" where
  "logout_browser_session_request env headers =
     h_bind (browser_mutation_owner env headers) (\<lambda>u.
     h_some (cookie_value headers BROWSER_COOKIE) unauthorized_response (\<lambda>cookie.
     h_some (header_str ''x-csrf-token'' headers) unauthorized_response (\<lambda>csrf.
     h_require (ah_store env) auth_unavailable (
     h_store env 1 (logout_browser_session u (ah_token_hash env cookie) (ah_token_hash env csrf)) (\<lambda>ended.
     (case ended of Inr True \<Rightarrow> h_return () | Inr False \<Rightarrow> h_fail unauthorized_response
      | Inl _ \<Rightarrow> h_fail auth_unavailable))))))"

section \<open>Native account requests\<close>

text \<open>The active session of the bearer token; a failing lookup counts as none.\<close>

definition match_native_session ::
  "account_env \<Rightarrow> header_map \<Rightarrow> (active_session option \<Rightarrow> 'b account_handler) \<Rightarrow> 'b account_handler" where
  "match_native_session env headers f =
     (case bearer_token headers of
        None \<Rightarrow> f None
      | Some token \<Rightarrow>
          if \<not> ah_store env then f None
          else h_store env 0 (query_op (find_active_session_by_access_hash (ah_token_hash env token)))
                 (\<lambda>found. f (case found of Inl _ \<Rightarrow> None | Inr session \<Rightarrow> session)))"

record account_profile_dto =
  af_session :: active_session
  af_projection :: account_projection

definition account_profile :: "account_env \<Rightarrow> header_map \<Rightarrow> account_profile_dto account_handler" where
  "account_profile env headers =
     match_native_session env headers (\<lambda>found.
     h_some found unauthorized_response (\<lambda>session.
     h_require (ah_store env) auth_unavailable (
     h_store env 1 (query_op (account_projection_of (ah_fmt env) (as_user_id session) (as_device_id session))) (\<lambda>projection.
     (case projection of Inl _ \<Rightarrow> h_fail auth_unavailable | Inr None \<Rightarrow> h_fail unauthorized_response
      | Inr (Some p) \<Rightarrow> h_return \<lparr>af_session = session, af_projection = p\<rparr>)))))"

definition delete_account_request :: "account_env \<Rightarrow> header_map \<Rightarrow> unit account_handler" where
  "delete_account_request env headers =
     h_require (first_party env headers) untrusted_request (
     h_require (ah_store env) auth_unavailable (
     match_native_session env headers (\<lambda>found.
     h_some found unauthorized_response (\<lambda>session.
     h_some (cookie_value headers BROWSER_COOKIE) unauthorized_response (\<lambda>cookie.
     h_some (csrf_header headers) csrf_failed (\<lambda>csrf.
     h_store env 1 (query_op (browser_session_is_fresh_for_user (as_user_id session)
         (ah_token_hash env cookie) (ah_token_hash env csrf))) (\<lambda>fresh.
     (case fresh of Inl _ \<Rightarrow> h_fail auth_unavailable
      | Inr False \<Rightarrow> h_fail (http_failure 403 ''reauthentication_required'')
      | Inr True \<Rightarrow>
     h_store env 2 (delete_account (as_user_id session)) (\<lambda>deleted.
     (case deleted of Inr True \<Rightarrow> h_return () | Inr False \<Rightarrow> h_fail unauthorized_response
      | Inl _ \<Rightarrow> h_fail auth_unavailable))))))))))"

definition list_devices :: "account_env \<Rightarrow> header_map \<Rightarrow> owned_device list account_handler" where
  "list_devices env headers =
     h_require (ah_store env) auth_unavailable (
     match_native_session env headers (\<lambda>found.
     h_some found unauthorized_response (\<lambda>session.
     h_store env 1 (query_op (list_owned_devices (ah_fmt env) (as_user_id session))) (\<lambda>devices.
     (case devices of Inl _ \<Rightarrow> h_fail auth_unavailable | Inr ds \<Rightarrow> h_return ds)))))"

definition revoke_device :: "account_env \<Rightarrow> header_map \<Rightarrow> device_id \<Rightarrow> unit account_handler" where
  "revoke_device env headers d =
     h_require (ah_store env) auth_unavailable (
     match_native_session env headers (\<lambda>found.
     h_some found unauthorized_response (\<lambda>session. revoke_and_drop env (as_user_id session) d)))"

section \<open>Pairing requests\<close>

definition PAIRING_LIFETIME_MINUTES :: int where "PAIRING_LIFETIME_MINUTES = 10"

definition PAIRING_CREATE_LIMIT :: nat where "PAIRING_CREATE_LIMIT = 10"

definition PAIRING_RATE_LIMIT_MINUTES :: int where "PAIRING_RATE_LIMIT_MINUTES = 15"

text \<open>A UUID is a number of 128 bits; its bytes are in network order.\<close>

definition uuid_byte :: "uuid \<Rightarrow> nat \<Rightarrow> nat" where
  "uuid_byte i n = i div 256 ^ (15 - n) mod 256"

definition pairing_words :: "string list" where
  "pairing_words =
     [''AMBER'', ''BIRCH'', ''CORAL'', ''DAWN'', ''EMBER'', ''FJORD'', ''GROVE'', ''HARBOR'', ''IVORY'',
      ''JUNIPER'', ''KITE'', ''LUNAR'', ''MAPLE'', ''NOVA'', ''OCEAN'', ''PINE'']"

definition pairing_phrase :: "uuid \<Rightarrow> string" where
  "pairing_phrase i =
     pairing_words ! (uuid_byte i 0 mod 16) @ ''-'' @ pairing_words ! (uuid_byte i 1 mod 16)"

definition to_ascii_uppercase :: "char \<Rightarrow> char" where
  "to_ascii_uppercase c = (if 97 \<le> byte c \<and> byte c \<le> 122 then char_of (byte c - 32) else c)"

record create_pairing_dto =
  cp_display_name :: string
  cp_type :: string
  cp_app_version :: "string option"

record created_pairing_dto =
  cd_request_id :: uuid
  cd_desktop_token :: string
  cd_approval_secret :: string
  cd_short_code :: string
  cd_phrase :: string
  cd_display_name :: string
  cd_type :: string
  cd_expires_at :: string

definition create_pairing_valid :: "create_pairing_dto \<Rightarrow> bool" where
  "create_pairing_valid p =
     (\<not> (str_trim (cp_display_name p) = [] \<or> 128 < length (cp_display_name p)
         \<or> str_trim (cp_type p) = [] \<or> 64 < length (cp_type p)
         \<or> is_some_and (cp_app_version p) (\<lambda>value. 64 < length value)))"

definition pairing_unavailable :: http_error where
  "pairing_unavailable = http_failure 503 ''pairing_unavailable''"

definition new_pairing_request_of :: "account_env \<Rightarrow> create_pairing_dto \<Rightarrow> created_pairing_dto \<times> new_pairing_request" where
  "new_pairing_request_of env p =
     (let request_id = ah_new_uuid env 0;
          desktop_token = ah_simple env (ah_new_uuid env 1);
          approval_secret = ah_simple env (ah_new_uuid env 2);
          short_code = map to_ascii_uppercase (take 8 (ah_simple env (ah_new_uuid env 3)));
          phrase = pairing_phrase request_id
      in (\<lparr>cd_request_id = request_id, cd_desktop_token = desktop_token, cd_approval_secret = approval_secret,
           cd_short_code = short_code, cd_phrase = phrase, cd_display_name = str_trim (cp_display_name p),
           cd_type = str_trim (cp_type p), cd_expires_at = []\<rparr>,
          \<lparr>np_request_id = request_id, np_desktop_hash = ah_token_hash env desktop_token,
           np_approval_hash = ah_token_hash env approval_secret, np_code_hash = ah_token_hash env short_code,
           np_phrase = phrase, np_display_name = str_trim (cp_display_name p), np_type = str_trim (cp_type p),
           np_app_version = cp_app_version p\<rparr>))"

definition create_pairing_request ::
  "account_env \<Rightarrow> (string \<Rightarrow> 'j option) \<Rightarrow> ('j \<Rightarrow> create_pairing_dto option) \<Rightarrow> header_map \<Rightarrow> string
   \<Rightarrow> created_pairing_dto account_handler" where
  "create_pairing_request env parse decode headers body =
     h_lift (parse_json_request parse decode headers body) (\<lambda>p.
     h_require (create_pairing_valid p) (http_failure 422 ''validation_failed'') (
     h_require (ah_store env) auth_unavailable (
     h_store env 0 (consume_rate_limit_for_minutes
         (ah_token_hash env (''pairing-create:'' @ request_rate_limit_scope headers (ah_proxy_token env)))
         PAIRING_RATE_LIMIT_MINUTES PAIRING_CREATE_LIMIT) (\<lambda>allowed.
     (case allowed of
        Inl _ \<Rightarrow> h_fail pairing_unavailable
      | Inr False \<Rightarrow> h_fail (with_retry_after (nat PAIRING_RATE_LIMIT_MINUTES * 60) (http_failure 429 ''rate_limited''))
      | Inr True \<Rightarrow>
          (let (created, request) = new_pairing_request_of env p
           in h_store env 1 (create_pairing_request_for_minutes request PAIRING_LIFETIME_MINUTES) (\<lambda>expires.
              (case expires of Inl _ \<Rightarrow> h_fail pairing_unavailable
               | Inr t \<Rightarrow> h_return (created\<lparr>cd_expires_at := ah_fmt env t\<rparr>)))))))))"

record pairing_preview_dto =
  pp_preview :: pairing_preview
  pp_short_code :: string
  pp_account_name :: "string option"

definition pairing_not_found :: http_error where
  "pairing_not_found = http_failure 404 ''pairing_not_found''"

definition lookup_pairing_request_handler ::
  "account_env \<Rightarrow> header_map \<Rightarrow> string \<Rightarrow> pairing_preview_dto account_handler" where
  "lookup_pairing_request_handler env headers code =
     h_require (length code = 8 \<and> list_all is_hex_digit code) pairing_not_found (
     h_require (ah_store env) auth_unavailable (
     (let preview = (\<lambda>account_name.
            h_store env 1 (query_op (lookup_pairing_request (ah_fmt env)
                (ah_token_hash env (map to_ascii_uppercase code)))) (\<lambda>found.
            (case found of Inl _ \<Rightarrow> h_fail pairing_unavailable | Inr None \<Rightarrow> h_fail pairing_not_found
             | Inr (Some p) \<Rightarrow> h_return \<lparr>pp_preview = p, pp_short_code = map to_ascii_uppercase code,
                  pp_account_name = account_name\<rparr>)))
      in case cookie_value headers BROWSER_COOKIE of
           None \<Rightarrow> preview None
         | Some cookie \<Rightarrow>
             h_store env 0 (query_op (browser_account_display_name (ah_token_hash env cookie))) (\<lambda>named.
             preview (case named of Inl _ \<Rightarrow> None | Inr name \<Rightarrow> name)))))"

definition approve_pairing_request ::
  "account_env \<Rightarrow> header_map \<Rightarrow> uuid \<Rightarrow> string \<Rightarrow> string \<Rightarrow> unit account_handler" where
  "approve_pairing_request env headers i approval_secret phrase =
     h_require (first_party env headers) untrusted_request (
     h_some (cookie_value headers BROWSER_COOKIE) session_required (\<lambda>cookie.
     h_some (csrf_header headers) csrf_failed (\<lambda>csrf.
     h_require (ah_store env) auth_unavailable (
     h_store env 0 (approve_pairing_request_with_browser_proof i (ah_token_hash env approval_secret) phrase
         (ah_token_hash env cookie) (ah_token_hash env csrf)) (\<lambda>approved.
     (case approved of Inr True \<Rightarrow> h_return () | Inr False \<Rightarrow> h_fail (http_failure 409 ''pairing_not_approvable'')
      | Inl _ \<Rightarrow> h_fail pairing_unavailable))))))"

record pairing_completion_dto =
  pt_completion :: pairing_completion
  pt_access_token :: string
  pt_device_secret :: string

definition pairing_rejected :: http_error where
  "pairing_rejected = http_failure 401 ''pairing_rejected''"

definition complete_pairing_request ::
  "account_env \<Rightarrow> uuid \<Rightarrow> string \<Rightarrow> pairing_completion_dto account_handler" where
  "complete_pairing_request env i desktop_token =
     h_require (16 \<le> length desktop_token \<and> length desktop_token \<le> 128) pairing_rejected (
     h_require (ah_store env) auth_unavailable (
     (let access_token = ah_simple env (ah_new_uuid env 0);
          device_secret = ah_simple env (ah_new_uuid env 1) @ ah_simple env (ah_new_uuid env 2)
      in h_store env 0 (complete_pairing i (ah_token_hash env desktop_token)
           \<lparr>ps_session_id = ah_new_uuid env 4, ps_device_id = ah_new_uuid env 3,
            ps_access_hash = ah_token_hash env access_token, ps_secret_hash = ah_token_hash env device_secret\<rparr>) (\<lambda>outcome.
         (case outcome of
            Inl _ \<Rightarrow> h_fail pairing_unavailable
          | Inr (Completed c) \<Rightarrow>
              h_return \<lparr>pt_completion = c, pt_access_token = access_token, pt_device_secret = device_secret\<rparr>
          | Inr Pending \<Rightarrow> h_fail (http_failure 202 ''pairing_pending'')
          | Inr NoLongerAvailable \<Rightarrow> h_fail (http_failure 410 ''pairing_expired'')
          | Inr DeviceLimit \<Rightarrow> h_fail (http_failure 409 ''device_limit_reached'')
          | Inr InvalidProof \<Rightarrow> h_fail pairing_rejected)))))"

section \<open>Passkeys and browser sessions\<close>

record 's registration_context =
  rc_user_id :: user_id
  rc_account_name :: string
  rc_state :: 's

record 's authentication_context =
  xc_user_id :: "user_id option"
  xc_state :: 's

text \<open>
  What the handlers use of the \<open>passkey-auth\<close> crate and of serde: the two ceremonies with their
  states and browser responses, and the stored form of the states.
\<close>

record ('rs, 'rr, 'xs, 'xr) webauthn =
  wv_start_registration :: "uuid \<Rightarrow> string \<Rightarrow> string \<times> 'rs"
  wv_registration_challenge :: "'rs \<Rightarrow> string"
  wv_finish_registration :: "'rs \<Rightarrow> 'rr \<Rightarrow> passkey_credential option"
  wv_start_authentication :: "string \<times> 'xs"
  wv_authentication_challenge :: "'xs \<Rightarrow> string"
  wv_finish_authentication :: "'xs \<Rightarrow> 'xr \<Rightarrow> passkey_credential \<Rightarrow> nat option"
  wv_user_handle :: "'xr \<Rightarrow> string option"
  wv_response_id :: "'xr \<Rightarrow> string"
  wv_from_b64url :: "string \<Rightarrow> string option"
  wv_encode_registration :: "'rs registration_context \<Rightarrow> string option"
  wv_decode_registration :: "string \<Rightarrow> 'rs registration_context option"
  wv_encode_authentication :: "'xs authentication_context \<Rightarrow> string option"
  wv_decode_authentication :: "string \<Rightarrow> 'xs authentication_context option"

datatype user_handle_error = HandleMissing | HandleInvalid

definition uuid_from_slice :: "string \<Rightarrow> uuid option" where
  "uuid_from_slice bytes =
     (if length bytes = 16 then Some (foldl (\<lambda>n c. n * 256 + byte c) 0 bytes) else None)"

definition user_id_from_handle :: "(string \<Rightarrow> string option) \<Rightarrow> string option \<Rightarrow> user_handle_error + user_id" where
  "user_id_from_handle from_b64url user_handle =
     and_then (ok_or HandleMissing user_handle) (\<lambda>handle.
     and_then (ok_or HandleInvalid (from_b64url handle)) (\<lambda>bytes.
     ok_or HandleInvalid (uuid_from_slice bytes)))"

definition registration_name :: "string \<Rightarrow> string option" where
  "registration_name value =
     (let name = str_trim value in if name = [] \<or> 128 < length name then None else Some name)"

definition CHALLENGE_MINUTES :: int where "CHALLENGE_MINUTES = 5"

definition registration_options ::
  "account_env \<Rightarrow> ('rs, 'rr, 'xs, 'xr) webauthn \<Rightarrow> (string \<Rightarrow> 'j option) \<Rightarrow> ('j \<Rightarrow> string option) \<Rightarrow> header_map
   \<Rightarrow> string \<Rightarrow> (uuid \<times> string) account_handler" where
  "registration_options env v parse decode headers body =
     h_lift (parse_json_request parse decode headers body) (\<lambda>value.
     h_some (registration_name value) (http_failure 422 ''validation_failed'') (\<lambda>name.
     h_require (first_party env headers) untrusted_request (
     h_require (ah_store env) auth_unavailable (
     (let u = ah_new_uuid env 0; (options, st) = wv_start_registration v u name
      in h_some (wv_encode_registration v \<lparr>rc_user_id = u, rc_account_name = name, rc_state = st\<rparr>)
           (http_failure 500 ''auth_unavailable'') (\<lambda>encoded.
         h_store env 0 (create_webauthn_challenge_for_minutes
             \<lparr>nc_challenge_id = ah_new_uuid env 1,
              nc_hash = ah_token_hash env (wv_registration_challenge v st),
              nc_state_blob = encoded, nc_ceremony = Registration, nc_rp_id = WEBAUTHN_RP_ID,
              nc_origin = WEBAUTHN_ORIGIN, nc_user_id = None\<rparr> CHALLENGE_MINUTES) (\<lambda>created.
         (case created of Inr True \<Rightarrow> h_return (ah_new_uuid env 1, options)
          | _ \<Rightarrow> h_fail auth_unavailable))))))))"

definition challenge_rejected :: http_error where
  "challenge_rejected = http_failure 401 ''challenge_rejected''"

definition webauthn_rejected :: http_error where
  "webauthn_rejected = http_failure 401 ''webauthn_rejected''"

record browser_login_dto =
  bl_account_name :: "string option"
  bl_csrf_token :: string
  bl_cookie :: string

definition new_browser_of :: "account_env \<Rightarrow> user_id \<Rightarrow> new_browser_session" where
  "new_browser_of env u =
     \<lparr>nb_session_id = ah_new_uuid env 2, nb_user_id = u,
      nb_token_hash = ah_token_hash env (ah_simple env (ah_new_uuid env 0)),
      nb_csrf_hash = ah_token_hash env (ah_simple env (ah_new_uuid env 1))\<rparr>"

definition registration_verify ::
  "account_env \<Rightarrow> ('rs, 'rr, 'xs, 'xr) webauthn \<Rightarrow> header_map \<Rightarrow> uuid \<Rightarrow> 'rr \<Rightarrow> browser_login_dto account_handler" where
  "registration_verify env v headers challenge_id response =
     h_require (first_party env headers) untrusted_request (
     h_require (ah_store env) auth_unavailable (
     h_store env 0 (query_op (load_webauthn_challenge_state challenge_id)) (\<lambda>loaded.
     h_some (case loaded of Inl _ \<Rightarrow> None | Inr encoded \<Rightarrow> encoded) challenge_rejected (\<lambda>encoded.
     h_some (wv_decode_registration v encoded) challenge_rejected (\<lambda>c.
     h_some (wv_finish_registration v (rc_state c) response) webauthn_rejected (\<lambda>credential.
     h_store env 1 (complete_passkey_registration
         \<lparr>nr_user_id = rc_user_id c, nr_account_name = rc_account_name c, nr_challenge_id = challenge_id,
          nr_challenge_hash = ah_token_hash env (wv_registration_challenge v (rc_state c)),
          nr_credential_id = ah_new_uuid env 3, nr_credential = cr_id credential,
          nr_public_key = cr_public_key credential, nr_sign_count = int (cr_counter credential),
          nr_transports = cr_transports credential, nr_browser = new_browser_of env (rc_user_id c)\<rparr>) (\<lambda>outcome.
     (case outcome of
        Inl _ \<Rightarrow> h_fail auth_unavailable
      | Inr ChallengeRejected \<Rightarrow> h_fail challenge_rejected
      | Inr CredentialAlreadyRegistered \<Rightarrow> h_fail (http_failure 409 ''credential_rejected'')
      | Inr Created \<Rightarrow>
          h_return \<lparr>bl_account_name = Some (rc_account_name c), bl_csrf_token = ah_simple env (ah_new_uuid env 1),
                    bl_cookie = ah_simple env (ah_new_uuid env 0)\<rparr>))))))))"

definition authentication_options ::
  "account_env \<Rightarrow> ('rs, 'rr, 'xs, 'xr) webauthn \<Rightarrow> header_map \<Rightarrow> (uuid \<times> string) account_handler" where
  "authentication_options env v headers =
     h_require (first_party env headers) untrusted_request (
     h_require (ah_store env) auth_unavailable (
     (let (options, st) = wv_start_authentication v
      in h_some (wv_encode_authentication v \<lparr>xc_user_id = None, xc_state = st\<rparr>)
           (http_failure 500 ''auth_unavailable'') (\<lambda>encoded.
         h_store env 0 (create_webauthn_challenge_for_minutes
             \<lparr>nc_challenge_id = ah_new_uuid env 0,
              nc_hash = ah_token_hash env (wv_authentication_challenge v st),
              nc_state_blob = encoded, nc_ceremony = Authentication, nc_rp_id = WEBAUTHN_RP_ID,
              nc_origin = WEBAUTHN_ORIGIN, nc_user_id = None\<rparr> CHALLENGE_MINUTES) (\<lambda>created.
         (case created of Inr True \<Rightarrow> h_return (ah_new_uuid env 0, options)
          | _ \<Rightarrow> h_fail auth_unavailable))))))"

text \<open>The last three store calls; a store failure counts as a refusal.\<close>

definition start_browser_session ::
  "account_env \<Rightarrow> ('rs, 'rr, 'xs, 'xr) webauthn \<Rightarrow> uuid \<Rightarrow> 'xs authentication_context \<Rightarrow> user_id \<Rightarrow> string \<Rightarrow> nat
   \<Rightarrow> browser_login_dto account_handler" where
  "start_browser_session env v challenge_id c u credential_id new_counter =
     h_store env 2 (consume_webauthn_challenge challenge_id
         (ah_token_hash env (wv_authentication_challenge v (xc_state c))) Authentication
         WEBAUTHN_ORIGIN WEBAUTHN_RP_ID) (\<lambda>consumed.
     h_require (consumed = Inr True) challenge_rejected (
     h_store env 3 (advance_passkey_sign_count credential_id (int new_counter)) (\<lambda>advanced.
     h_require (advanced = Inr True) challenge_rejected (
     h_store env 4 (create_browser_session_with_policy (new_browser_of env u)) (\<lambda>created.
     h_require (created = Inr True) auth_unavailable (
     h_return \<lparr>bl_account_name = None, bl_csrf_token = ah_simple env (ah_new_uuid env 1),
               bl_cookie = ah_simple env (ah_new_uuid env 0)\<rparr>))))))"

definition authentication_verify ::
  "account_env \<Rightarrow> ('rs, 'rr, 'xs, 'xr) webauthn \<Rightarrow> header_map \<Rightarrow> uuid \<Rightarrow> 'xr \<Rightarrow> browser_login_dto account_handler" where
  "authentication_verify env v headers challenge_id response =
     h_require (first_party env headers) untrusted_request (
     h_require (ah_store env) auth_unavailable (
     h_store env 0 (query_op (load_webauthn_challenge_state challenge_id)) (\<lambda>loaded.
     h_some (case loaded of Inl _ \<Rightarrow> None | Inr encoded \<Rightarrow> encoded) challenge_rejected (\<lambda>encoded.
     h_some (wv_decode_authentication v encoded) challenge_rejected (\<lambda>c.
     h_lift (map_err (\<lambda>_. webauthn_rejected) (user_id_from_handle (wv_from_b64url v) (wv_user_handle v response))) (\<lambda>u.
     h_require (\<not> is_some_and (xc_user_id c) (\<lambda>expected. expected \<noteq> u)) webauthn_rejected (
     h_some (wv_from_b64url v (wv_response_id v response)) webauthn_rejected (\<lambda>credential_id.
     h_store env 1 (query_op (find_passkey_credential_for_user u credential_id)) (\<lambda>found.
     h_some (case found of Inl _ \<Rightarrow> None | Inr credential \<Rightarrow> credential) webauthn_rejected (\<lambda>credential.
     h_some (wv_finish_authentication v (xc_state c) response credential) webauthn_rejected (\<lambda>new_counter.
     start_browser_session env v challenge_id c u credential_id new_counter)))))))))))"

definition browser_session :: "account_env \<Rightarrow> header_map \<Rightarrow> (string \<times> string) account_handler" where
  "browser_session env headers =
     h_require (first_party env headers) untrusted_request (
     h_some (cookie_value headers BROWSER_COOKIE) session_required (\<lambda>cookie.
     h_require (ah_store env) auth_unavailable (
     (let csrf_token = ah_simple env (ah_new_uuid env 0)
      in h_store env 0 (rotate_browser_csrf (ah_token_hash env cookie) (ah_token_hash env csrf_token)) (\<lambda>rotated.
         (case rotated of Inl _ \<Rightarrow> h_fail auth_unavailable | Inr None \<Rightarrow> h_fail session_required
          | Inr (Some name) \<Rightarrow> h_return (name, csrf_token)))))))"

definition create_device_session ::
  "account_env \<Rightarrow> (string \<Rightarrow> 'j option) \<Rightarrow> ('j \<Rightarrow> (device_id \<times> string) option) \<Rightarrow> header_map \<Rightarrow> string
   \<Rightarrow> (string \<times> string) account_handler" where
  "create_device_session env parse decode headers body =
     h_lift (parse_json_request parse decode headers body) (\<lambda>(d, secret).
     h_require (32 \<le> length secret \<and> length secret \<le> 512) unauthorized_response (
     h_require (ah_store env) auth_unavailable (
     (let access_token = ah_simple env (ah_new_uuid env 0)
      in h_store env 0 (issue_device_session d (ah_token_hash env secret) (ah_new_uuid env 1)
             (ah_token_hash env access_token)) (\<lambda>issued.
         (case issued of Inl _ \<Rightarrow> h_fail auth_unavailable
          | Inr None \<Rightarrow> h_fail (http_failure 401 ''device_credential_invalid'')
          | Inr (Some t) \<Rightarrow> h_return (access_token, ah_fmt env t)))))))"

section \<open>Smart-home link\<close>

record home_property =
  hp_type :: string
  hp_instance :: string
  hp_name :: string
  hp_value :: json
  hp_unit :: "string option"
  hp_formatted_value :: string
  hp_updated_at :: "string option"

record home_device =
  hd_id :: string
  hd_name :: string
  hd_type :: "string option"
  hd_room_name :: "string option"
  hd_properties :: "home_property list"

datatype yandex_home_error =
    HomeUnavailable | InvalidAuthorizationCode | AuthorizationRejected | UpstreamUnavailable | StoredTokenInvalid

text \<open>The client of the provider: network calls and AES-GCM, an argument of the handlers.\<close>

record home_client =
  hc_authorization_url :: "string \<Rightarrow> string option"
  hc_exchange_code :: "string \<Rightarrow> encrypted_token option"
  hc_home_devices :: "encrypted_token \<Rightarrow> yandex_home_error + home_device list"

record home_sensor_dto =
  sd_device_name :: string
  sd_room_name :: "string option"
  sd_property :: home_property
  sd_temperature :: "f64 option"

record home_sensors_dto =
  sn_devices :: "home_device list"
  sn_sensors :: "home_sensor_dto list"

definition yandex_unavailable :: http_error where
  "yandex_unavailable = http_failure 503 ''yandex_home_unavailable''"

definition begin_authorization ::
  "account_env \<Rightarrow> home_client option \<Rightarrow> header_map \<Rightarrow> string account_handler" where
  "begin_authorization env home headers =
     h_bind (browser_mutation_owner env headers) (\<lambda>u.
     h_some home yandex_unavailable (\<lambda>client.
     h_require (ah_store env) auth_unavailable (
     (let oauth_state = ah_simple env (ah_new_uuid env 0)
      in h_store env 1 (create_yandex_home_oauth_state u (ah_token_hash env oauth_state)) (\<lambda>created.
         (case created of Inl _ \<Rightarrow> h_fail auth_unavailable | Inr False \<Rightarrow> h_fail session_required
          | Inr True \<Rightarrow> h_some (hc_authorization_url client oauth_state) yandex_unavailable h_return))))))"

text \<open>The callback always redirects; the result says whether to the success page.\<close>

definition save_link :: "account_env \<Rightarrow> home_client \<Rightarrow> string \<Rightarrow> user_id \<Rightarrow> bool account_handler" where
  "save_link env client code owner =
     (case hc_exchange_code client code of
        None \<Rightarrow> h_return False
      | Some token \<Rightarrow>
          h_store env 2 (save_yandex_home_connection owner token) (\<lambda>saved. h_return (saved = Inr True)))"

definition authorization_callback ::
  "account_env \<Rightarrow> home_client option \<Rightarrow> header_map \<Rightarrow> string option \<Rightarrow> string option \<Rightarrow> bool account_handler" where
  "authorization_callback env home headers code st =
     (if \<not> trusted_proxy_header_matches headers (ah_proxy_token env) then h_return False
      else case (home, ah_store env, opt_filter (\<lambda>v. v \<noteq> [] \<and> length v \<le> 128) st,
                 opt_filter (\<lambda>v. v \<noteq> [] \<and> length v \<le> 2048) code) of
        (Some client, True, Some oauth_state, Some code') \<Rightarrow>
          h_store env 0 (consume_yandex_home_oauth_state (ah_token_hash env oauth_state)) (\<lambda>consumed.
          (case consumed of
             Inr (Some owner) \<Rightarrow>
               (case cookie_value headers BROWSER_COOKIE of
                  None \<Rightarrow> save_link env client code' owner
                | Some cookie \<Rightarrow>
                    h_store env 1 (browser_session_user (ah_token_hash env cookie)) (\<lambda>visitor.
                    (case visitor of
                       Inr (Some u) \<Rightarrow> if u \<noteq> owner then h_return False else save_link env client code' owner
                     | _ \<Rightarrow> save_link env client code' owner)))
           | _ \<Rightarrow> h_return False))
      | _ \<Rightarrow> h_return False)"

definition sensor_dtos :: "home_device \<Rightarrow> home_sensor_dto list" where
  "sensor_dtos d =
     map (\<lambda>p. \<lparr>sd_device_name = hd_name d, sd_room_name = hd_room_name d, sd_property = p,
                sd_temperature = (if hp_instance p = ''temperature'' then as_f64 (hp_value p) else None)\<rparr>)
       (hd_properties d)"

definition sensors :: "account_env \<Rightarrow> home_client option \<Rightarrow> header_map \<Rightarrow> home_sensors_dto account_handler" where
  "sensors env home headers =
     h_require (trusted_proxy_header_matches headers (ah_proxy_token env)) untrusted_request (
     h_some (cookie_value headers BROWSER_COOKIE) session_required (\<lambda>cookie.
     h_require (ah_store env) auth_unavailable (
     h_store env 0 (browser_session_user (ah_token_hash env cookie)) (\<lambda>owner.
     (case owner of Inl _ \<Rightarrow> h_fail auth_unavailable | Inr None \<Rightarrow> h_fail session_required
      | Inr (Some u) \<Rightarrow>
     h_some home yandex_unavailable (\<lambda>client.
     h_store env 1 (query_op (yandex_home_connection u)) (\<lambda>linked.
     (case linked of Inl _ \<Rightarrow> h_fail auth_unavailable
      | Inr None \<Rightarrow> h_fail (http_failure 404 ''yandex_home_not_connected'')
      | Inr (Some token) \<Rightarrow>
          (case hc_home_devices client token of
             Inr devices \<Rightarrow> h_return \<lparr>sn_devices = devices, sn_sensors = concat (map sensor_dtos devices)\<rparr>
           | Inl e \<Rightarrow>
               if e = AuthorizationRejected \<or> e = StoredTokenInvalid
               then h_store env 2 (revoke_yandex_home_connection u)
                      (\<lambda>_. h_fail (http_failure 409 ''yandex_home_reconnect_required''))
               else h_fail (http_failure 502 ''yandex_home_unavailable''))))))))))"

definition disconnect_home :: "account_env \<Rightarrow> header_map \<Rightarrow> unit account_handler" where
  "disconnect_home env headers =
     h_bind (browser_mutation_owner env headers) (\<lambda>u.
     h_require (ah_store env) auth_unavailable (
     h_store env 1 (revoke_yandex_home_connection u) (\<lambda>revoked.
     (case revoked of Inl _ \<Rightarrow> h_fail auth_unavailable | Inr _ \<Rightarrow> h_return ()))))"

section \<open>Lemmas on handlers\<close>

lemma h_return_Ok [simp]: "h_return x w = (Ok y, w') \<longleftrightarrow> x = y \<and> w' = w"
  by (auto simp: h_return_def)

lemma h_fail_Ok [simp]: "h_fail e w \<noteq> (Ok y, w')"
  by (simp add: h_fail_def)

lemma h_bind_Ok: "h_bind m f w = (Ok y, w') \<longleftrightarrow> (\<exists>x w1. m w = (Ok x, w1) \<and> f x w1 = (Ok y, w'))"
  by (auto simp: h_bind_def split: prod.splits sum.splits)

lemma h_require_Ok: "h_require b e m w = (Ok y, w') \<longleftrightarrow> b \<and> m w = (Ok y, w')"
  by (simp add: h_require_def)

lemma h_some_Ok: "h_some v e f w = (Ok y, w') \<longleftrightarrow> (\<exists>x. v = Some x \<and> f x w = (Ok y, w'))"
  by (simp add: h_some_def split: option.split)

lemma h_lift_Ok: "h_lift r f w = (Ok y, w') \<longleftrightarrow> (\<exists>x. r = Ok x \<and> f x w = (Ok y, w'))"
  by (simp add: h_lift_def split: sum.split)

lemma h_store_Ok:
  "h_store env n statement f w = (Ok y, w') \<longleftrightarrow>
     (\<exists>r db. statement (account_run (ah_show env) (ah_others env n) (aw_db w)) = (r, db) \<and> f r (w\<lparr>aw_db := db\<rparr>) = (Ok y, w'))"
  by (auto simp: h_store_def Let_def split: prod.splits)

lemma case_result_Ok:
  "(case r of Inl _ \<Rightarrow> h_fail e | Inr x \<Rightarrow> g x) w = (Ok y, w') \<longleftrightarrow> (\<exists>x. r = Inr x \<and> g x w = (Ok y, w'))"
  "(case v of None \<Rightarrow> h_fail e | Some x \<Rightarrow> g x) w = (Ok y, w') \<longleftrightarrow> (\<exists>x. v = Some x \<and> g x w = (Ok y, w'))"
  "(case b of True \<Rightarrow> m | False \<Rightarrow> h_fail e) w = (Ok y, w') \<longleftrightarrow> b \<and> m w = (Ok y, w')"
  by (auto split: sum.split option.split bool.split)

lemma found_Some: "(case r of Inl _ \<Rightarrow> None | Inr v \<Rightarrow> v) = Some x \<longleftrightarrow> r = Inr (Some x)"
  by (auto split: sum.split)

lemmas handler_Ok = found_Some case_result_Ok h_bind_Ok h_require_Ok h_some_Ok h_lift_Ok h_store_Ok

text \<open>The proof a state-changing browser request carries, judged against the store.\<close>

definition browser_proof :: "account_env \<Rightarrow> header_map \<Rightarrow> account_db \<Rightarrow> user_id \<Rightarrow> bool" where
  "browser_proof env headers db u =
     (first_party env headers
      \<and> (\<exists>cookie csrf i b. cookie_value headers BROWSER_COOKIE = Some cookie \<and> csrf_header headers = Some csrf
          \<and> (i, b) \<in> set (ac_browsers db) \<and> live_browser db (ah_token_hash env cookie) b
          \<and> bs_csrf_hash b = ah_token_hash env csrf \<and> bs_user_id b = u))"

lemma browser_resolve_Some:
  assumes "browser_resolve extra t db = (Ok (Some u), db')"
  shows "\<exists>i b. (i, b) \<in> set (ac_browsers db) \<and> live_browser db t b \<and> extra b \<and> bs_user_id b = u"
    and "db' = snd (renew_browser_session t db)"
  using assms by (auto simp: browser_resolve_def account_query_def split: sum.splits option.splits if_splits dest!: find_row_Some)

lemma browser_mutation_owner_Ok:
  assumes "browser_mutation_owner env headers w = (Ok u, w')"
  shows "browser_proof env headers (account_run (ah_show env) (ah_others env 0) (aw_db w)) u"
    and "aw_registry w' = aw_registry w" "ah_store env"
    and "wf_accounts (aw_db w) \<Longrightarrow> wf_accounts (aw_db w')"
proof -
  let ?db = "account_run (ah_show env) (ah_others env 0) (aw_db w)"
  from assms obtain cookie csrf db where *: "first_party env headers" "ah_store env"
      "cookie_value headers BROWSER_COOKIE = Some cookie" "csrf_header headers = Some csrf"
      "browser_resolve (\<lambda>b. bs_csrf_hash b = ah_token_hash env csrf) (ah_token_hash env cookie) ?db = (Ok (Some u), db)"
      "w' = w\<lparr>aw_db := db\<rparr>"
    unfolding browser_mutation_owner_def
    by (auto simp: handler_Ok browser_session_user_with_csrf_def)
  from browser_resolve_Some(1) [OF *(5)] show "browser_proof env headers ?db u"
    using * unfolding browser_proof_def by blast
  show "aw_registry w' = aw_registry w" "ah_store env" using * by simp_all
  show "wf_accounts (aw_db w')" if "wf_accounts (aw_db w)"
    using wf_use_browser [OF wf_run [OF that], of "\<lambda>b. bs_csrf_hash b = ah_token_hash env csrf"
        "ah_token_hash env cookie" "ah_show env" "ah_others env 0"] *(5,6) by simp
qed

lemma revoke_and_drop_Ok:
  assumes "revoke_and_drop env u d w = (Ok (), w')" "wf_accounts (aw_db w)"
  shows "active_for (aw_registry w') u d = None"
    and "find_active_session_by_access_hash h (account_run sh calls (aw_db w')) = Ok (Some a) \<Longrightarrow> as_device_id a \<noteq> d"
    and "fst (issue_device_session d secret i h (account_run sh calls (aw_db w'))) \<noteq> Ok (Some t)"
proof -
  let ?db = "account_run (ah_show env) (ah_others env 1) (aw_db w)"
  from assms(1) have r: "revoke_owned_device u d ?db = (Ok True, aw_db w')"
    and reg: "aw_registry w' = fst (revoke (ah_channels env) u d (aw_registry w))"
    unfolding revoke_and_drop_def drop_connection_def
    by (auto simp: handler_Ok)
  show "active_for (aw_registry w') u d = None"
    unfolding reg by (auto simp: revoke_def active_for_def delete_conv split: option.splits)
  have wf: "wf_accounts ?db" by (rule wf_run [OF assms(2)])
  from revoke_owned_device_row [OF wf r] obtain row
    where row: "map_of (ac_devices (aw_db w')) d = Some row" "nd_revoked_at row \<noteq> None" by blast
  have "wf_accounts (aw_db w')" using wf_revoke [OF wf, of u d] r by simp
  note gone = revoked_device_later [OF row later_run wf_run [OF this]]
  show "find_active_session_by_access_hash h (account_run sh calls (aw_db w')) = Ok (Some a) \<Longrightarrow> as_device_id a \<noteq> d"
    by (rule gone(1))
  show "fst (issue_device_session d secret i h (account_run sh calls (aw_db w'))) \<noteq> Ok (Some t)"
    by (rule gone(2))
qed

section \<open>Revoking a device\<close>

definition example_headers :: header_map where
  "example_headers =
     [(''origin'', ''https://rockplatform.win''), (''x-forwarded-proto'', ''https''), (''x-rockserver-proxy'', ''p''),
      (''cookie'', ''rockserver_browser=t''), (''x-csrf-token'', ''c''), (''authorization'', ''Bearer h'')]"

definition example_account_env :: account_env where
  "example_account_env =
     \<lparr>ah_store = True, ah_proxy_token = Some ''p'', ah_token_hash = (\<lambda>s. s), ah_fmt = (\<lambda>_. []),
      ah_new_uuid = (\<lambda>n. 20 + n), ah_simple = (\<lambda>i. replicate i (CHR ''z'')), ah_show = (\<lambda>_. []),
      ah_others = (\<lambda>_. []), ah_channels = (\<lambda>_ _. True)\<rparr>"

definition example_account_world :: account_world where
  "example_account_world =
     \<lparr>aw_db = account_run (\<lambda>_. []) (example_calls @ [AcComplete 7 ''d'' example_pairing_session]) empty_accounts,
      aw_registry = empty_registry\<rparr>"

text \<open>
  A device revoked in the browser is gone everywhere. When the handler answers with success,
  the request came from the first-party origin through the proxy with the cookie and CSRF token
  of a live browser session of some account at that moment; afterwards the registry has no
  connection of the device for that account, no access token of the device resolves again and its
  secret gets no session, whatever other requests the store serves before, between and after the
  calls of the handler.
\<close>
theorem browser_revocation_effective:
  assumes "aw_db w = account_run (ah_show env) before empty_accounts"
    and "revoke_browser_device env headers d w = (Ok (), w')"
  shows "\<exists>u. browser_proof env headers (account_run (ah_show env) (ah_others env 0) (aw_db w)) u
     \<and> active_for (aw_registry w') u d = None
     \<and> (\<forall>calls h a. find_active_session_by_access_hash h (account_run (ah_show env) calls (aw_db w')) = Ok (Some a) \<longrightarrow>
          as_device_id a \<noteq> d)
     \<and> (\<forall>calls secret i h t. fst (issue_device_session d secret i h (account_run (ah_show env) calls (aw_db w'))) \<noteq> Ok (Some t))"
proof -
  have wf: "wf_accounts (aw_db w)" unfolding assms(1) by (rule wf_run [OF wf_empty_accounts])
  from assms(2) obtain u w1 where o: "browser_mutation_owner env headers w = (Ok u, w1)"
    and r: "revoke_and_drop env u d w1 = (Ok (), w')"
    unfolding revoke_browser_device_def by (auto simp: handler_Ok)
  note owner = browser_mutation_owner_Ok [OF o]
  from owner(1) revoke_and_drop_Ok [OF r owner(4) [OF wf]] show ?thesis by blast
qed

lemma example_revoked: "fst (revoke_browser_device example_account_env example_headers 12 example_account_world) = Ok ()"
  by code_simp

theorem browser_revocation_effective_witness:
  "\<exists>w'. revoke_browser_device example_account_env example_headers 12 example_account_world = (Ok (), w')
     \<and> (\<forall>calls h a. find_active_session_by_access_hash h (account_run (\<lambda>_. []) calls (aw_db w')) = Ok (Some a) \<longrightarrow>
          as_device_id a \<noteq> 12)"
proof -
  obtain w' where w': "revoke_browser_device example_account_env example_headers 12 example_account_world = (Ok (), w')"
    using example_revoked by (metis prod.collapse)
  have "aw_db example_account_world = account_run (ah_show example_account_env)
      (example_calls @ [AcComplete 7 ''d'' example_pairing_session]) empty_accounts"
    by (simp add: example_account_world_def example_account_env_def)
  from browser_revocation_effective [OF this w'] w' show ?thesis
    by (auto simp: example_account_env_def)
qed

section \<open>Deleting an account\<close>

text \<open>
  C18: An account is deleted only with both of its proofs. When the handler answers with success,
  the bearer token resolved to a session of an account, and a first-party browser request showed
  a live session of the same account whose passkey was used within the last two minutes. No
  access token and no cookie of the account resolves ever again. The registry is not touched:
  the control connections of its devices stay as they were.
\<close>
theorem deletion_needs_both_proofs:
  assumes "aw_db w = account_run (ah_show env) before empty_accounts"
    and "delete_account_request env headers w = (Ok (), w')"
  shows "\<exists>token a cookie csrf db1 i b. first_party env headers \<and> bearer_token headers = Some token
     \<and> find_active_session_by_access_hash (ah_token_hash env token)
         (account_run (ah_show env) (ah_others env 0) (aw_db w)) = Ok (Some a)
     \<and> cookie_value headers BROWSER_COOKIE = Some cookie \<and> csrf_header headers = Some csrf
     \<and> db1 = account_run (ah_show env) (ah_others env 0 @ ah_others env 1) (aw_db w)
     \<and> (i, b) \<in> set (ac_browsers db1) \<and> bs_user_id b = as_user_id a \<and> bs_revoked_at b = None
     \<and> bs_token_hash b = ah_token_hash env cookie \<and> bs_csrf_hash b = ah_token_hash env csrf
     \<and> ac_now db1 - minutes 2 < bs_reauthenticated_at b
     \<and> (\<forall>calls h a'. find_active_session_by_access_hash h (account_run (ah_show env) calls (aw_db w')) = Ok (Some a') \<longrightarrow>
          as_user_id a' \<noteq> as_user_id a)
     \<and> (\<forall>calls t. fst (browser_session_user t (account_run (ah_show env) calls (aw_db w'))) \<noteq> Ok (Some (as_user_id a)))
     \<and> aw_registry w' = aw_registry w"
proof -
  let ?sh = "ah_show env"
  let ?db0 = "account_run ?sh (ah_others env 0) (aw_db w)"
  let ?db1 = "account_run ?sh (ah_others env 1) ?db0"
  let ?db2 = "account_run ?sh (ah_others env 2) ?db1"
  from assms(2) obtain token a cookie csrf where *: "first_party env headers" "bearer_token headers = Some token"
      "find_active_session_by_access_hash (ah_token_hash env token) ?db0 = Ok (Some a)"
      "cookie_value headers BROWSER_COOKIE = Some cookie" "csrf_header headers = Some csrf"
      "browser_session_is_fresh_for_user (as_user_id a) (ah_token_hash env cookie) (ah_token_hash env csrf) ?db1 = Ok True"
      "delete_account (as_user_id a) ?db2 = (Ok True, aw_db w')" "aw_registry w' = aw_registry w"
    unfolding delete_account_request_def match_native_session_def
    by (auto simp: handler_Ok query_op_def split: option.splits sum.splits if_splits)
  have db1: "?db1 = account_run ?sh (ah_others env 0 @ ah_others env 1) (aw_db w)"
    by (simp add: account_run_def)
  from *(6) obtain i b where b: "(i, b) \<in> set (ac_browsers ?db1)" "bs_user_id b = as_user_id a" "bs_revoked_at b = None"
      "bs_token_hash b = ah_token_hash env cookie" "bs_csrf_hash b = ah_token_hash env csrf"
      "ac_now ?db1 - minutes 2 < bs_reauthenticated_at b"
    by (auto simp: browser_session_is_fresh_for_user_def account_query_def list_ex_iff split: if_splits)
  have "wf_accounts ?db2"
    unfolding assms(1) by (intro wf_run wf_empty_accounts)
  then have wf': "wf_accounts (aw_db w')" using wf_delete(1) *(7) by (metis snd_conv)
  from delete_account_row [OF *(7)] obtain r
    where r: "map_of (ac_users (aw_db w')) (as_user_id a) = Some r" "ur_status r = AccountDeleted" by blast
  note gone = deleted_account_later [OF r later_run wf_run [OF wf']]
  from gone(1) have "\<forall>calls h a'. find_active_session_by_access_hash h (account_run ?sh calls (aw_db w')) = Ok (Some a') \<longrightarrow>
      as_user_id a' \<noteq> as_user_id a" by blast
  moreover from gone(2) have "\<forall>calls t. fst (browser_session_user t (account_run ?sh calls (aw_db w'))) \<noteq> Ok (Some (as_user_id a))"
    by blast
  ultimately show ?thesis using *(1-5,8) b db1 by (intro exI conjI) assumption+
qed

lemma example_deleted: "fst (delete_account_request example_account_env example_headers example_account_world) = Ok ()"
  by code_simp

theorem deletion_needs_both_proofs_witness:
  "\<exists>w' a. delete_account_request example_account_env example_headers example_account_world = (Ok (), w')
     \<and> find_active_session_by_access_hash ''h'' (aw_db example_account_world) = Ok (Some a)
     \<and> (\<forall>calls t. fst (browser_session_user t (account_run (\<lambda>_. []) calls (aw_db w'))) \<noteq> Ok (Some (as_user_id a)))"
proof -
  obtain w' where w': "delete_account_request example_account_env example_headers example_account_world = (Ok (), w')"
    using example_deleted by (metis prod.collapse)
  have db: "aw_db example_account_world = account_run (ah_show example_account_env)
      (example_calls @ [AcComplete 7 ''d'' example_pairing_session]) empty_accounts"
    by (simp add: example_account_world_def example_account_env_def)
  have h: "bearer_token example_headers = Some ''h''" by code_simp
  from deletion_needs_both_proofs [OF db w'] obtain token a where "bearer_token example_headers = Some token"
      "find_active_session_by_access_hash (ah_token_hash example_account_env token)
         (account_run (ah_show example_account_env) (ah_others example_account_env 0) (aw_db example_account_world)) = Ok (Some a)"
      "\<forall>calls t. fst (browser_session_user t (account_run (ah_show example_account_env) calls (aw_db w'))) \<noteq> Ok (Some (as_user_id a))"
    by blast
  moreover have "ah_show example_account_env = (\<lambda>_. [])" "ah_others example_account_env 0 = []"
      "ah_token_hash example_account_env token = token"
    by (simp_all add: example_account_env_def)
  moreover have "account_run sh [] db = db" for sh db by (simp add: account_run_def)
  ultimately show ?thesis using h w' by (metis option.inject)
qed

section \<open>Signing in with a passkey\<close>

text \<open>Challenge identifiers stay unique.\<close>

definition challenge_ids :: "account_db \<Rightarrow> bool" where
  "challenge_ids db = distinct (map fst (ac_challenges db))"

lemma challenge_ids_same: "ac_challenges db' = ac_challenges db \<Longrightarrow> challenge_ids db' = challenge_ids db"
  by (simp add: challenge_ids_def)

lemma challenges_same:
  "ac_challenges (snd (advance_passkey_sign_count k n db)) = ac_challenges db"
  "ac_challenges (snd (create_browser_session_with_policy b db)) = ac_challenges db"
  "ac_challenges (snd (renew_browser_session t db)) = ac_challenges db"
  "ac_challenges (snd (rotate_browser_csrf t csrf db)) = ac_challenges db"
  "ac_challenges (snd (logout_browser_session u t csrf db)) = ac_challenges db"
  "ac_challenges (snd (rename_owned_device u d name db)) = ac_challenges db"
  "ac_challenges (snd (revoke_owned_device u d db)) = ac_challenges db"
  "ac_challenges (snd (issue_device_session d secret i h db)) = ac_challenges db"
  "ac_challenges (snd (create_pairing_request_for_minutes q m db)) = ac_challenges db"
  "ac_challenges (snd (approve_pairing_request_with_browser_proof i a ph t csrf db)) = ac_challenges db"
  "ac_challenges (snd (complete_pairing i h ps db)) = ac_challenges db"
  "ac_challenges (snd (create_yandex_home_oauth_state u h db)) = ac_challenges db"
  "ac_challenges (snd (consume_yandex_home_oauth_state h db)) = ac_challenges db"
  "ac_challenges (snd (save_yandex_home_connection u token db)) = ac_challenges db"
  "ac_challenges (snd (revoke_yandex_home_connection u db)) = ac_challenges db"
  "ac_challenges (snd (consume_rate_limit_for_minutes key m most db)) = ac_challenges db"
  unfolding advance_passkey_sign_count_def create_browser_session_with_policy_def renew_browser_session_def
    rotate_browser_csrf_def logout_browser_session_def rename_owned_device_def revoke_owned_device_def
    issue_device_session_def create_pairing_request_for_minutes_def approve_pairing_request_with_browser_proof_def
    complete_pairing_def create_yandex_home_oauth_state_def consume_yandex_home_oauth_state_def
    save_yandex_home_connection_def revoke_yandex_home_connection_def consume_rate_limit_for_minutes_def
  by (auto simp: account_tx_def Let_def and_then_Ok and_then_def insert_browser_def finish_pairing_def consume_request_def
        replace_session_def insert_session_def revoke_rows_of_device_def split: if_splits option.splits sum.splits)

lemmas challenge_ids_others = challenges_same [THEN challenge_ids_same]

lemma challenge_ids_fields [simp]:
  "challenge_ids (db\<lparr>ac_now := t\<rparr>) = challenge_ids db" "challenge_ids (db\<lparr>ac_available := v\<rparr>) = challenge_ids db"
  by (simp_all add: challenge_ids_def)

lemma challenge_ids_operator:
  "challenge_ids (snd (deactivate_account_for_operator sh u text db)) = challenge_ids db"
  "challenge_ids (snd (revoke_device_for_operator sh d text db)) = challenge_ids db"
  "challenge_ids (snd (revoke_credential_for_operator sh i text db)) = challenge_ids db"
  "challenge_ids (snd (delete_account u db)) = challenge_ids db"
  unfolding deactivate_account_for_operator_def revoke_device_for_operator_def revoke_credential_for_operator_def
    delete_account_def
  by (auto simp: cleanup_tx_def account_tx_def challenge_ids_def revoke_account_dependencies_def tombstone_user_def
      revoke_rows_of_device_def Let_def split: if_splits option.splits sum.splits)

lemma challenge_ids_ceremony:
  assumes "challenge_ids db"
  shows "challenge_ids (snd (create_webauthn_challenge_for_minutes c m db))"
    and "challenge_ids (snd (consume_webauthn_challenge i h ceremony origin rp db))"
    and "challenge_ids (snd (complete_passkey_registration n db))"
  using assms
  unfolding create_webauthn_challenge_for_minutes_def consume_webauthn_challenge_def complete_passkey_registration_def
  by (auto simp: account_tx_def challenge_ids_def Let_def and_then_Ok and_then_def insert_row_def consume_challenge_def
      register_account_def insert_browser_def map_of_eq_None_iff split: if_splits option.splits sum.splits)

lemma challenge_ids_resolve: "challenge_ids (snd (browser_resolve extra t db)) = challenge_ids db"
  by (auto simp: browser_resolve_def challenges_same challenge_ids_def split: sum.split option.split)

lemma challenge_ids_run: "challenge_ids db \<Longrightarrow> challenge_ids (account_run sh calls db)"
  unfolding account_run_def
proof (induction calls arbitrary: db)
  case (Cons call calls)
  have "challenge_ids (account_exec sh call db)"
    using Cons.prems by (cases call)
      (simp_all add: challenge_ids_ceremony challenge_ids_operator challenge_ids_resolve browser_session_user_def
        browser_session_user_with_csrf_def challenge_ids_others)
  with Cons.IH show ?case by simp
qed simp

text \<open>A consumed challenge is rejected by every later sign-in, and a session that was just begun resolves.\<close>

lemma consumed_challenge_row:
  assumes "challenge_ids db" "consume_webauthn_challenge i h ceremony origin rp db = (Ok True, db')"
  shows "\<exists>r. map_of (ac_challenges db') i = Some r \<and> wc_consumed_at r \<noteq> None"
proof -
  let ?hit = "challenge_hit db i h ceremony origin rp"
  from assms(2) have "count_rows ?hit (ac_challenges db) = 1" and db': "db' = consume_challenge ?hit db"
    by (auto simp: consume_webauthn_challenge_def account_tx_Ok Let_def)
  then have "count_rows ?hit (ac_challenges db) \<noteq> 0" by simp
  then obtain p where "p \<in> set (ac_challenges db)" "?hit (fst p) (snd p)" unfolding count_rows_0 by blast
  then have "map_of (ac_challenges db) i = Some (snd p)" "?hit i (snd p)"
    using map_of_is_SomeI [OF assms(1) [unfolded challenge_ids_def], of i "snd p"]
    by (auto simp: challenge_hit_def)
  then show ?thesis by (simp add: db' consume_challenge_def)
qed

lemma consumed_challenge_rejected:
  assumes "map_of (ac_challenges db) i = Some r" "wc_consumed_at r \<noteq> None" "later db (aw_db w)"
  shows "authentication_verify env v headers i response w \<noteq> (Ok l, w')"
proof -
  let ?db = "account_run (ah_show env) (ah_others env 0) (aw_db w)"
  have "later db ?db" using assms(3) later_run by (rule later_trans)
  then obtain r' where "map_of (ac_challenges ?db) i = Some r'" "wc_consumed_at r' \<noteq> None"
    using table_leD [of challenge_le "ac_challenges db" "ac_challenges ?db" i r] assms(1,2)
    by (auto simp: later_def challenge_le_def sticky_def)
  then show ?thesis
    unfolding authentication_verify_def
    by (auto simp: handler_Ok query_op_def load_webauthn_challenge_state_def account_query_def open_challenge_def
        split: if_splits)
qed

lemma created_browser_resolves:
  assumes "create_browser_session_with_policy b db = (Ok True, db')"
  shows "fst (browser_session_user (nb_token_hash b) db') = Ok (Some (nb_user_id b))"
proof -
  let ?row = "browser_row_of db b"
  from assms have c: "active_user db (nb_user_id b)" "ac_available db"
      "db' = db\<lparr>ac_browsers := ac_browsers db @ [(nb_session_id b, ?row)]\<rparr>"
    and fresh: "\<forall>p \<in> set (ac_browsers db). \<not> (bs_revoked_at (snd p) = None \<and> bs_token_hash (snd p) = nb_token_hash b)"
    by (auto simp: create_browser_session_with_policy_def account_tx_Ok insert_browser_def and_then_Ok insert_row_Ok
        split: if_splits)
  have "live_browser db' (nb_token_hash b) ?row"
    using c by (simp add: live_browser_def browser_row_of_def minutes_def seconds_def nanos_per_second_def
        BROWSER_SESSION_IDLE_MINUTES_def BROWSER_SESSION_ABSOLUTE_MINUTES_def)
  then have "find_row (\<lambda>_ r. live_browser db' (nb_token_hash b) r \<and> True) (ac_browsers db') = Some (nb_session_id b, ?row)"
    using fresh by (intro find_row_unique [where P = "\<lambda>_ r. live_browser db' (nb_token_hash b) r \<and> True"])
      (auto simp: c(3) live_browser_def)
  then show ?thesis
    using c by (simp add: browser_session_user_def browser_resolve_def account_query_def browser_row_of_def)
qed


text \<open>A verifier that accepts one assertion of the account registered above.\<close>

definition example_verifier :: "(string, unit, string, unit) webauthn" where
  "example_verifier =
     \<lparr>wv_start_registration = (\<lambda>_ _. ([], [])), wv_registration_challenge = (\<lambda>s. s),
      wv_finish_registration = (\<lambda>_ _. None), wv_start_authentication = ([], ''x''),
      wv_authentication_challenge = (\<lambda>s. s), wv_finish_authentication = (\<lambda>_ _ _. Some 1),
      wv_user_handle = (\<lambda>_. Some ''handle''), wv_response_id = (\<lambda>_. ''id''),
      wv_from_b64url = (\<lambda>s. if s = ''handle'' then Some (replicate 15 (CHR 0x00) @ [CHR 0x05]) else Some ''k''),
      wv_encode_registration = (\<lambda>_. Some []), wv_decode_registration = (\<lambda>_. None),
      wv_encode_authentication = (\<lambda>_. Some ''b''),
      wv_decode_authentication = (\<lambda>_. Some \<lparr>xc_user_id = None, xc_state = ''x''\<rparr>)\<rparr>"

definition example_login_calls :: "account_call list" where
  "example_login_calls = example_calls @
     [AcChallenge \<lparr>nc_challenge_id = 6, nc_hash = ''x'', nc_state_blob = ''b'', nc_ceremony = Authentication,
        nc_rp_id = WEBAUTHN_RP_ID, nc_origin = WEBAUTHN_ORIGIN, nc_user_id = None\<rparr> 5]"

definition example_login_world :: account_world where
  "example_login_world =
     \<lparr>aw_db = account_run (\<lambda>_. []) example_login_calls empty_accounts, aw_registry = empty_registry\<rparr>"

lemma example_login:
  "is_ok (fst (authentication_verify example_account_env example_verifier example_headers 6 () example_login_world))"
  by code_simp

lemma example_handle:
  "user_id_from_handle (wv_from_b64url example_verifier) (wv_user_handle example_verifier ()) = Ok 5"
  by code_simp


end
