(* ===== verification/Relay_Access.thy ===== *)
theory Relay_Access
  imports Relay_Stream Account_Http
begin

text \<open>
  How the relay reaches a station (http/relay.rs, http/relay/security.rs, http/relay/upstream.rs):
  who may ask for a stream, which addresses are contacted, the redirects, and the header of legacy
  ICY sources. URL parsing, DNS, HTTP and sockets are the network, an argument whose answers may
  differ from one resolution to the next.
\<close>

section \<open>Public addresses\<close>

datatype ip_addr = V4 ipv4 | V6 "nat list"

type_synonym socket_addr = "ip_addr \<times> nat"

text \<open>The predicates of the standard library on IPv4 addresses.\<close>

fun ipv4_is_private :: "ipv4 \<Rightarrow> bool" where
  "ipv4_is_private (a, b, c, d) = (a = 10 \<or> (a = 172 \<and> 16 \<le> b \<and> b \<le> 31) \<or> (a = 192 \<and> b = 168))"

fun ipv4_is_documentation :: "ipv4 \<Rightarrow> bool" where
  "ipv4_is_documentation (a, b, c, d) =
     ((a, b, c) = (192, 0, 2) \<or> (a, b, c) = (198, 51, 100) \<or> (a, b, c) = (203, 0, 113))"

fun ipv4_is_loopback :: "ipv4 \<Rightarrow> bool" where
  "ipv4_is_loopback (a, b, c, d) = (a = 127)"

fun ipv4_is_multicast :: "ipv4 \<Rightarrow> bool" where
  "ipv4_is_multicast (a, b, c, d) = (224 \<le> a \<and> a \<le> 239)"

fun public_v4 :: "ipv4 \<Rightarrow> bool" where
  "public_v4 (a, b, c, d) =
     (\<not> (ipv4_is_private (a, b, c, d) \<or> ipv4_is_loopback (a, b, c, d)
         \<or> (a = 169 \<and> b = 254) \<or> (a, b, c, d) = (255, 255, 255, 255)
         \<or> ipv4_is_documentation (a, b, c, d) \<or> (a, b, c, d) = (0, 0, 0, 0)
         \<or> ipv4_is_multicast (a, b, c, d)
         \<or> a = 0 \<or> 224 \<le> a \<or> (a = 100 \<and> 64 \<le> b \<and> b \<le> 127) \<or> (a = 169 \<and> b = 254)
         \<or> (a = 192 \<and> b = 0) \<or> (a = 198 \<and> 18 \<le> b \<and> b \<le> 19)))"

definition to_ipv4_mapped :: "nat list \<Rightarrow> ipv4 option" where
  "to_ipv4_mapped s =
     (if take 6 s = [0, 0, 0, 0, 0, 65535]
      then Some (s ! 6 div 256, s ! 6 mod 256, s ! 7 div 256, s ! 7 mod 256) else None)"

definition ipv6_is_loopback :: "nat list \<Rightarrow> bool" where
  "ipv6_is_loopback s = (s = [0, 0, 0, 0, 0, 0, 0, 1])"

fun public_ip :: "ip_addr \<Rightarrow> bool" where
  "public_ip (V4 v) = public_v4 v"
| "public_ip (V6 s) =
     (case to_ipv4_mapped s of
        Some mapped \<Rightarrow> public_v4 mapped
      | None \<Rightarrow>
          \<not> (ipv6_is_loopback s \<or> s = replicate 8 0 \<or> s ! 0 div 256 = 255
              \<or> s ! 0 AND 65024 = 64512 \<or> s ! 0 AND 65472 = 65152 \<or> s ! 0 AND 65472 = 65152
              \<or> (s ! 0 = 100 \<and> s ! 1 = 65435) \<or> s ! 0 = 8194 \<or> (s ! 0 = 8193 \<and> s ! 1 = 3512)))"

fun ip_is_loopback :: "ip_addr \<Rightarrow> bool" where
  "ip_is_loopback (V4 v) = ipv4_is_loopback v"
| "ip_is_loopback (V6 s) = ipv6_is_loopback s"

section \<open>The network\<close>

record url =
  ur_scheme :: string
  ur_username :: string
  ur_password :: "string option"
  ur_fragment :: "string option"
  ur_host :: "string option"
  ur_port :: "nat option"

datatype get_outcome =
    ClientFailed | GetTimedOut | GetFailed | Reply nat header_map "read_outcome list"

text \<open>
  What the network answers after the \<open>n\<close>-th resolution: the addresses of a host and port, the
  response of a pinned request, and the bytes of a raw connection.
\<close>

record network =
  nw_lookup :: "nat \<Rightarrow> string \<Rightarrow> nat \<Rightarrow> socket_addr list option"
  nw_get :: "nat \<Rightarrow> url \<Rightarrow> get_outcome"
  nw_icy :: "nat \<Rightarrow> read_outcome list option"
  nw_join :: "url \<Rightarrow> string \<Rightarrow> url option"
  nw_header_name :: "string \<Rightarrow> string option"
  nw_header_value :: "string \<Rightarrow> string option"

text \<open>Resolutions made so far, and every connection with its resolution, host, port and address.\<close>

record net_state =
  nt_resolutions :: nat
  nt_contacts :: "(nat \<times> string \<times> nat \<times> socket_addr) list"

definition contact :: "string \<Rightarrow> nat \<Rightarrow> socket_addr \<Rightarrow> net_state \<Rightarrow> net_state" where
  "contact host port address st =
     st\<lparr>nt_contacts := nt_contacts st @ [(nt_resolutions st - 1, host, port, address)]\<rparr>"

definition admissible :: "bool \<Rightarrow> socket_addr \<Rightarrow> bool" where
  "admissible allow_loopback address =
     (public_ip (fst address) \<or> allow_loopback \<and> ip_is_loopback (fst address))"

definition checked_endpoint ::
  "network \<Rightarrow> url \<Rightarrow> bool \<Rightarrow> net_state \<Rightarrow> (unit + string \<times> nat \<times> socket_addr) \<times> net_state" where
  "checked_endpoint net url allow_loopback st =
     (if ur_scheme url \<notin> {''http'', ''https''} \<or> ur_username url \<noteq> [] \<or> ur_password url \<noteq> None
         \<or> ur_fragment url \<noteq> None then (Err (), st)
      else case (ur_host url, ur_port url) of
        (Some host, Some port) \<Rightarrow>
          (let st' = st\<lparr>nt_resolutions := Suc (nt_resolutions st)\<rparr>
           in case nw_lookup net (nt_resolutions st) host port of
                None \<Rightarrow> (Err (), st')
              | Some addresses \<Rightarrow>
                  if addresses = [] \<or> list_ex (\<lambda>a. \<not> admissible allow_loopback a) addresses
                  then (Err (), st')
                  else (Ok (host, port, hd addresses), st'))
      | _ \<Rightarrow> (Err (), st))"

section \<open>Legacy ICY sources\<close>

definition MAX_HEADERS :: nat where "MAX_HEADERS = 16 * 1024"

definition CRLF :: string where "CRLF = [CHR 0x0D, CHR 0x0A]"

fun head_end :: "bytes \<Rightarrow> nat option" where
  "head_end [] = None"
| "head_end (c # cs) = (if starts_with (c # cs) (CRLF @ CRLF) then Some 0 else map_option Suc (head_end cs))"

fun read_head :: "bytes \<Rightarrow> read_outcome list \<Rightarrow> (bytes \<times> nat \<times> read_outcome list) option" where
  "read_head acc [] = None"
| "read_head acc (ReadFailed # reads) = None"
| "read_head acc (Chunk b # reads) =
     (if MAX_HEADERS \<le> length acc \<or> b = [] then None
      else case head_end (acc @ b) of
        Some n \<Rightarrow> Some (acc @ b, n + 4, reads)
      | None \<Rightarrow> read_head (acc @ b) reads)"

function split_crlf :: "string \<Rightarrow> string list" where
  "split_crlf s =
     (case find (\<lambda>n. starts_with (drop n s) CRLF) [0..<length s] of
        None \<Rightarrow> [s] | Some n \<Rightarrow> take n s # split_crlf (drop (n + 2) s))"
  by pat_completeness auto
termination by (relation "measure length") (auto simp: find_Some_iff)

declare split_crlf.simps [simp del]

fun parse_headers :: "network \<Rightarrow> string list \<Rightarrow> unit + header_map" where
  "parse_headers net [] = Ok []"
| "parse_headers net (line # rest) =
     and_then (ok_or () (split_once CHR '':'' line)) (\<lambda>(name, value).
     and_then (ok_or () (nw_header_name net name)) (\<lambda>n.
     and_then (ok_or () (nw_header_value net (str_trim value))) (\<lambda>v.
     and_then (parse_headers net rest) (\<lambda>hs. Ok ((n, v) # hs)))))"

definition accept_icy :: "network \<Rightarrow> read_outcome list \<Rightarrow> unit + header_map \<times> reader" where
  "accept_icy net reads =
     and_then (ok_or () (read_head [] reads)) (\<lambda>(bytes, stop, rest).
     and_then (require (stop \<le> MAX_HEADERS) ()) (\<lambda>_.
     and_then (ok_or () (from_utf8 (take stop bytes))) (\<lambda>head.
     (case split_crlf (take (length head - 4) head) of
        [] \<Rightarrow> Err ()
      | status # lines \<Rightarrow>
          and_then (require (status = ''ICY 200 OK'') ()) (\<lambda>_.
          and_then (parse_headers net lines) (\<lambda>headers.
          and_then (require (map_of headers ''transfer-encoding'' = None) ()) (\<lambda>_.
          Ok (headers, reader_from_icy rest (drop stop bytes)))))))))"

definition open_icy ::
  "network \<Rightarrow> url \<Rightarrow> bool \<Rightarrow> net_state \<Rightarrow> (unit + header_map \<times> reader) \<times> net_state" where
  "open_icy net url allow_loopback st =
     (if ur_scheme url \<noteq> ''http'' then (Err (), st)
      else case checked_endpoint net url allow_loopback st of
        (Inl e, st') \<Rightarrow> (Err e, st')
      | (Inr (host, port, address), st') \<Rightarrow>
          (and_then (ok_or () (nw_icy net (nt_resolutions st))) (accept_icy net), contact host port address st'))"

section \<open>Opening a station\<close>

definition MAX_REDIRECTS :: nat where "MAX_REDIRECTS = 3"

definition header_bytes :: "header_map \<Rightarrow> nat" where
  "header_bytes headers = sum_list (map (\<lambda>(k, v). length k + length v) headers)"

text \<open>The loop over the hops; the first argument counts the redirects still allowed.\<close>

fun open_hops ::
  "nat \<Rightarrow> network \<Rightarrow> url \<Rightarrow> bool \<Rightarrow> net_state \<Rightarrow> (unit + header_map \<times> reader) \<times> net_state" where
  "open_hops left net url allow_loopback st =
     (case checked_endpoint net url allow_loopback st of
        (Inl e, st1) \<Rightarrow> (Err e, st1)
      | (Inr (host, port, address), st1) \<Rightarrow>
          (case nw_get net (nt_resolutions st) url of
             ClientFailed \<Rightarrow> (Err (), st1)
           | GetTimedOut \<Rightarrow> (Err (), contact host port address st1)
           | GetFailed \<Rightarrow> open_icy net url allow_loopback (contact host port address st1)
           | Reply status headers body \<Rightarrow>
               (let st2 = contact host port address st1
                in if 300 \<le> status \<and> status \<le> 399 then
                     (case left of
                        0 \<Rightarrow> (Err (), st2)
                      | Suc left' \<Rightarrow>
                          (case Option.bind (header_str ''location'' headers) (nw_join net url) of
                             None \<Rightarrow> (Err (), st2)
                           | Some target \<Rightarrow> open_hops left' net target allow_loopback st2))
                   else if \<not> (200 \<le> status \<and> status \<le> 299) \<or> MAX_HEADERS < header_bytes headers
                   then (Err (), st2)
                   else (Ok (headers, reader_new body), st2))))"

declare open_hops.simps [simp del]

definition open_upstream ::
  "network \<Rightarrow> url \<Rightarrow> bool \<Rightarrow> net_state \<Rightarrow> (unit + header_map \<times> reader) \<times> net_state" where
  "open_upstream net url allow_loopback st = open_hops MAX_REDIRECTS net url allow_loopback st"

section \<open>Requests\<close>

record relay_env =
  re_resolver :: "session_resolver option"
  re_store :: bool
  re_proxy_token :: "string option"
  re_token_hash :: "string \<Rightarrow> string"
  re_public_station :: "string \<Rightarrow> unit + string option"
  re_parse_url :: "string \<Rightarrow> url option"
  re_allow_loopback :: bool

definition relay_authorized ::
  "relay_env \<Rightarrow> header_map \<Rightarrow> account_db \<Rightarrow> bool \<times> account_db" where
  "relay_authorized env headers db =
     (if map_of headers ''authorization'' \<noteq> None then
        (case re_resolver env of
           None \<Rightarrow> (False, db)
         | Some resolver \<Rightarrow> (is_ok (authenticate_control_ingress (re_token_hash env) headers resolver), db))
      else case (cookie_value headers ''rockserver_browser'', re_store env) of
        (Some cookie, True) \<Rightarrow>
          if \<not> trusted_proxy_header_matches headers (re_proxy_token env) then (False, db)
          else (case browser_session_user (re_token_hash env cookie) db of
                  (Inr (Some _), db') \<Rightarrow> (True, db') | (_, db') \<Rightarrow> (False, db'))
      | _ \<Rightarrow> (False, db))"

definition station_access ::
  "relay_env \<Rightarrow> string \<Rightarrow> string option \<Rightarrow> header_map \<Rightarrow> account_db \<Rightarrow> (http_error + string) \<times> account_db" where
  "station_access env station_id query headers db =
     (if query \<noteq> None then (Err (http_failure 400 ''invalid_query''), db)
      else if station_id = [] \<or> 128 < length station_id then (Err (http_failure 400 ''invalid_station_id''), db)
      else case relay_authorized env headers db of
        (False, db') \<Rightarrow> (Err (http_failure 401 ''authentication_required''), db')
      | (True, db') \<Rightarrow>
          (case re_public_station env station_id of
             Inl _ \<Rightarrow> Err (http_failure 503 ''catalog_unavailable'')
           | Inr None \<Rightarrow> Err (http_failure 404 ''station_not_found'')
           | Inr (Some stream_url) \<Rightarrow> Ok stream_url, db'))"

definition MAX_METAINT :: nat where "MAX_METAINT = 1024 * 1024"

definition MAX_CONNECTIONS :: nat where "MAX_CONNECTIONS = 64"

definition parse_usize :: "string \<Rightarrow> nat option" where
  "parse_usize s =
     (let ds = (case s of [] \<Rightarrow> [] | c # cs \<Rightarrow> if c = CHR ''+'' then cs else s)
      in if ds = [] \<or> \<not> list_all is_ascii_digit ds \<or> USIZE_MAX < digits_value 0 ds then None
         else Some (digits_value 0 ds))"

definition metadata_interval :: "header_map \<Rightarrow> nat option" where
  "metadata_interval headers =
     opt_filter (\<lambda>n. 1 \<le> n \<and> n \<le> MAX_METAINT)
       (Option.bind (header_str ''icy-metaint'' headers) parse_usize)"

record stream_response =
  sr_content_type :: string
  sr_icy_metaint :: "nat option"
  sr_reader :: reader
  sr_metaint :: "nat option"
  sr_wants_icy :: bool

record relay_world =
  ry_db :: account_db
  ry_slots :: nat
  ry_net :: net_state

definition with_relay_db :: "account_db \<Rightarrow> relay_world \<Rightarrow> relay_world" where
  "with_relay_db db w = w\<lparr>ry_db := db\<rparr>"

text \<open>
  The handler up to the start of the pump; the slot it takes is given back when the relay task
  ends. Without success no slot stays taken: the permit is dropped with the response.
\<close>

definition stream ::
  "relay_env \<Rightarrow> network \<Rightarrow> string \<Rightarrow> string option \<Rightarrow> header_map \<Rightarrow> relay_world
   \<Rightarrow> (http_error + stream_response) \<times> relay_world" where
  "stream env net station_id query headers w =
     (case station_access env station_id query headers (ry_db w) of
        (Inl e, db) \<Rightarrow> (Err e, with_relay_db db w)
      | (Inr text, db) \<Rightarrow>
          (case re_parse_url env text of
             None \<Rightarrow> (Err (http_failure 502 ''invalid_upstream''), with_relay_db db w)
           | Some url \<Rightarrow>
               if ry_slots w = 0
               then (Err (with_retry_after 5 (http_failure 429 ''relay_capacity'')), with_relay_db db w)
               else (case open_upstream net url (re_allow_loopback env) (ry_net w) of
                   (Inl _, st) \<Rightarrow>
                     (Err (http_failure 502 ''upstream_unavailable''), (with_relay_db db w)\<lparr>ry_net := st\<rparr>)
                 | (Inr (upstream, body), st) \<Rightarrow>
                     (let wants_icy = (map_of headers ''icy-metadata'' = Some ''1'');
                          metaint = metadata_interval upstream
                      in (Ok \<lparr>sr_content_type =
                                (case map_of upstream ''content-type'' of Some t \<Rightarrow> t | None \<Rightarrow> ''application/octet-stream''),
                              sr_icy_metaint = (if wants_icy then metaint else None),
                              sr_reader = body, sr_metaint = metaint, sr_wants_icy = wants_icy\<rparr>,
                          (with_relay_db db w)\<lparr>ry_net := st, ry_slots := ry_slots w - 1\<rparr>)))))"

section \<open>Agreement with stream admission\<close>

text \<open>
  The address check of the relay and the admission of stream addresses in commands refuse the
  same IPv4 blocks, except that the relay refuses all of 192.0.0.0/16 and lets 192.88.99.0/24 pass.
\<close>

lemma public_v4_exact:
  assumes "wf_ipv4 (a, b, c, d)"
  shows "public_v4 (a, b, c, d) \<longleftrightarrow>
     (public_ipv4 (a, b, c, d) \<or> (a, b, c) = (192, 88, 99)) \<and> \<not> (a = 192 \<and> b = 0)"
  using assms unfolding validate_stream_ipv4_public [OF assms, symmetric]
  by (simp add: validate_stream_ipv4_def Let_def) presburger

section \<open>Which addresses are contacted\<close>

definition checked_contact :: "network \<Rightarrow> bool \<Rightarrow> nat \<times> string \<times> nat \<times> socket_addr \<Rightarrow> bool" where
  "checked_contact net allow_loopback c =
     (case c of (n, host, port, address) \<Rightarrow>
        \<exists>rest. nw_lookup net n host port = Some (address # rest)
          \<and> list_all (admissible allow_loopback) (address # rest))"

text \<open>The contacts a step adds: each checked in a resolution of its own, made for it.\<close>

definition adds_checked :: "network \<Rightarrow> bool \<Rightarrow> nat \<Rightarrow> net_state \<Rightarrow> net_state \<Rightarrow> bool" where
  "adds_checked net allow_loopback most st st' =
     (\<exists>new. nt_contacts st' = nt_contacts st @ new \<and> length new \<le> most
        \<and> list_all (checked_contact net allow_loopback) new
        \<and> sorted_wrt (<) (map fst new) \<and> nt_resolutions st \<le> nt_resolutions st'
        \<and> list_all (\<lambda>c. nt_resolutions st \<le> fst c \<and> fst c < nt_resolutions st') new)"

lemma adds_nothing:
  "nt_contacts st' = nt_contacts st \<Longrightarrow> nt_resolutions st \<le> nt_resolutions st' \<Longrightarrow> adds_checked net allow most st st'"
  by (simp add: adds_checked_def)

lemma adds_checked_trans:
  assumes "adds_checked net allow m st st'" "adds_checked net allow n st' st''" "m + n \<le> k"
  shows "adds_checked net allow k st st''"
proof -
  from assms(1) obtain new where a: "nt_contacts st' = nt_contacts st @ new" "length new \<le> m"
    "list_all (checked_contact net allow) new" "sorted_wrt (<) (map fst new)" "nt_resolutions st \<le> nt_resolutions st'"
    "list_all (\<lambda>c. nt_resolutions st \<le> fst c \<and> fst c < nt_resolutions st') new"
    unfolding adds_checked_def by blast
  from assms(2) obtain new' where b: "nt_contacts st'' = nt_contacts st' @ new'" "length new' \<le> n"
    "list_all (checked_contact net allow) new'" "sorted_wrt (<) (map fst new')" "nt_resolutions st' \<le> nt_resolutions st''"
    "list_all (\<lambda>c. nt_resolutions st' \<le> fst c \<and> fst c < nt_resolutions st'') new'"
    unfolding adds_checked_def by blast
  have "sorted_wrt (<) (map fst (new @ new'))"
    using a(4,6) b(4,6) by (force simp: sorted_wrt_append list_all_iff)
  moreover have "list_all (\<lambda>c. nt_resolutions st \<le> fst c \<and> fst c < nt_resolutions st'') (new @ new')"
    using a(5,6) b(5,6) by (force simp: list_all_iff)
  ultimately show ?thesis
    unfolding adds_checked_def using a b assms(3) by (intro exI [of _ "new @ new'"]) auto
qed

lemma checked_endpoint_Ok:
  assumes "checked_endpoint net url allow st = (Ok (host, port, address), st')"
  shows "nt_contacts st' = nt_contacts st" "nt_resolutions st' = Suc (nt_resolutions st)"
    "checked_contact net allow (nt_resolutions st, host, port, address)"
  using assms
  by (auto simp: checked_endpoint_def checked_contact_def Let_def neq_Nil_conv list_all_iff list_ex_iff
      split: if_splits option.splits)

lemma checked_endpoint_Err:
  assumes "checked_endpoint net url allow st = (Err e, st')"
  shows "adds_checked net allow most st st'"
  using assms
  by (intro adds_nothing) (auto simp: checked_endpoint_def Let_def split: if_splits option.splits)

lemma adds_contact:
  assumes "checked_endpoint net url allow st = (Ok (host, port, address), st')"
  shows "adds_checked net allow (Suc 0) st (contact host port address st')"
  using checked_endpoint_Ok [OF assms] by (simp add: adds_checked_def contact_def)

lemma open_icy_checked: "adds_checked net allow 1 st (snd (open_icy net url allow st))"
  unfolding open_icy_def
  by (auto intro: adds_nothing adds_contact checked_endpoint_Err split: prod.split sum.split)

lemma open_hops_state:
  assumes "checked_endpoint net url allow st = (Ok (host, port, address), st1)"
  shows "snd (open_hops left net url allow st) = st1
     \<or> snd (open_hops left net url allow st) = contact host port address st1
     \<or> snd (open_hops left net url allow st) = snd (open_icy net url allow (contact host port address st1))
     \<or> (\<exists>left' target. left = Suc left' \<and>
          snd (open_hops left net url allow st) = snd (open_hops left' net target allow (contact host port address st1)))"
  using assms
  by (subst (1 2 3 4) open_hops.simps) (auto simp: Let_def split: get_outcome.splits nat.splits option.splits)

lemma open_hops_checked: "adds_checked net allow (left + 2) st (snd (open_hops left net url allow st))"
proof (induction left arbitrary: url st rule: less_induct)
  case (less left)
  obtain r st1 where c: "checked_endpoint net url allow st = (r, st1)" by (cases "checked_endpoint net url allow st")
  show ?case
  proof (cases r)
    case (Inl e)
    with c show ?thesis
      using checked_endpoint_Err [of net url allow st e st1] by (subst open_hops.simps) simp
  next
    case (Inr x)
    obtain host port address where x: "x = (host, port, address)" by (cases x)
    let ?st2 = "contact host port address st1"
    have c': "checked_endpoint net url allow st = (Ok (host, port, address), st1)" using c Inr x by simp
    note one = adds_contact [OF c']
    from open_hops_state [OF c', of left] consider
        "snd (open_hops left net url allow st) = st1"
      | "snd (open_hops left net url allow st) = ?st2"
      | "snd (open_hops left net url allow st) = snd (open_icy net url allow ?st2)"
      | left' target where "left = Suc left'"
          "snd (open_hops left net url allow st) = snd (open_hops left' net target allow ?st2)" by blast
    then show ?thesis
    proof cases
      case 1
      with checked_endpoint_Ok [OF c'] show ?thesis by (simp add: adds_nothing)
    next
      case 2
      have "adds_checked net allow 0 ?st2 ?st2" by (rule adds_nothing) simp_all
      with 2 adds_checked_trans [OF one, of 0] show ?thesis by simp
    next
      case 3
      with adds_checked_trans [OF one open_icy_checked] show ?thesis by simp
    next
      case 4
      with adds_checked_trans [OF one less.IH] show ?thesis by simp
    qed
  qed
qed

text \<open>
  C20: The relay contacts only addresses it has checked. Whatever the catalogue names, the servers
  redirect to and DNS answers (a host may resolve differently each time): every connection of an
  attempt goes to the first address of a resolution made for it, all of whose addresses were
  public (or loopback where that is allowed), and at most five connections are made, four requests
  and one legacy retry.
\<close>
theorem relay_contacts_checked:
  "let st = snd (open_upstream net url allow_loopback \<lparr>nt_resolutions = 0, nt_contacts = []\<rparr>) in
     list_all (checked_contact net allow_loopback) (nt_contacts st)
   \<and> distinct (map fst (nt_contacts st)) \<and> length (nt_contacts st) \<le> 5"
  using open_hops_checked [of net allow_loopback MAX_REDIRECTS "\<lparr>nt_resolutions = 0, nt_contacts = []\<rparr>" url]
  by (auto simp: Let_def open_upstream_def adds_checked_def MAX_REDIRECTS_def strict_sorted_iff)

section \<open>The header of legacy sources\<close>

lemma head_end_Some: "head_end s = Some n \<Longrightarrow> starts_with (drop n s) (CRLF @ CRLF)"
  by (induction s arbitrary: n) (auto split: if_splits)

lemma crlf_length: "starts_with (drop n s) (CRLF @ CRLF) \<Longrightarrow> n + 4 \<le> length s"
  by (auto simp: starts_with_def CRLF_def dest: arg_cong [of _ _ length])

lemma read_head_Some:
  "read_head acc reads = Some (bytes, stop, rest) \<Longrightarrow>
     bytes @ body_bytes rest = acc @ body_bytes reads \<and> 4 \<le> stop \<and> stop \<le> length bytes
     \<and> starts_with (drop (stop - 4) bytes) (CRLF @ CRLF)"
  by (induction acc reads rule: read_head.induct)
     (auto split: if_splits option.splits dest: head_end_Some crlf_length [OF head_end_Some])

lemma split_crlf_first: "split_crlf s = status # lines \<Longrightarrow> starts_with s status"
  by (subst (asm) split_crlf.simps) (auto simp: starts_with_def find_Some_iff split: option.splits)

lemma starts_with_iff: "starts_with s p \<longleftrightarrow> (\<exists>t. s = p @ t)"
  by (metis starts_with_def append_take_drop_id append_eq_conv_conj)

lemma starts_with_take: "starts_with (take n s) p \<Longrightarrow> starts_with s p"
  by (metis starts_with_iff append_take_drop_id append_assoc)

lemma from_utf8_Some: "from_utf8 x = Some y \<Longrightarrow> y = x"
  by (auto simp: from_utf8_def split: if_splits)

lemma accept_icy_Ok:
  assumes "accept_icy net reads = Ok (headers, body)"
  shows "\<exists>head first rest. body = reader_from_icy rest first \<and> body_bytes reads = head @ first @ body_bytes rest
     \<and> length head \<le> MAX_HEADERS \<and> starts_with head ''ICY 200 OK'' \<and> drop (length head - 4) head = CRLF @ CRLF"
proof -
  from assms obtain bytes stop rest head status lines where
      r: "read_head [] reads = Some (bytes, stop, rest)" "stop \<le> MAX_HEADERS" "from_utf8 (take stop bytes) = Some head"
      "split_crlf (take (length head - 4) head) = status # lines" "status = ''ICY 200 OK''"
      "body = reader_from_icy rest (drop stop bytes)"
    by (auto simp: accept_icy_def and_then_Ok ok_or_Ok neq_Nil_conv split: list.splits)
  note h = read_head_Some [OF r(1)] from_utf8_Some [OF r(3)]
  have "starts_with (take (length head - 4) head) status" by (rule split_crlf_first [OF r(4)])
  then have "starts_with head ''ICY 200 OK''"
    using r(5) by (metis starts_with_take)
  moreover have "drop (length head - 4) head = CRLF @ CRLF"
  proof -
    have "length (CRLF @ CRLF) = 4" by (simp add: CRLF_def)
    with h show ?thesis unfolding starts_with_def by (simp only: length_take min_absorb2 drop_take diff_diff_cancel)
  qed
  moreover have "body_bytes reads = head @ drop stop bytes @ body_bytes rest"
    using h by (metis append_Nil append_assoc append_take_drop_id)
  moreover have "length head \<le> MAX_HEADERS" using h r(2) by simp
  ultimately show ?thesis using r(6) by blast
qed

text \<open>
  C21: No byte of a legacy station is lost. When the relay accepts an ICY source, the bytes it
  received are a header that begins with ICY 200 OK, ends with an empty line and has at most
  16 KiB, followed by the audio; what a client that stays receives is exactly the audio as the
  announced metadata interval divides it, however the header and the body are cut into reads.
\<close>
theorem icy_source_relayed:
  assumes "accept_icy net reads = Ok (headers, body)" "length (body_bytes reads) \<le> USIZE_MAX"
  shows "\<exists>head audio. body_bytes reads = head @ audio \<and> starts_with head ''ICY 200 OK''
     \<and> drop (length head - 4) head = CRLF @ CRLF \<and> length head \<le> MAX_HEADERS
     \<and> concat (cl_sent (pm_client (pump clock body (metadata_interval headers) wants_icy station relay None)))
       = (case metadata_interval headers of
            Some n \<Rightarrow> demux_bytes wants_icy (icy_frames n n audio) | None \<Rightarrow> audio)"
proof -
  from accept_icy_Ok [OF assms(1)] obtain head first rest where h: "body = reader_from_icy rest first"
      "body_bytes reads = head @ first @ body_bytes rest" "length head \<le> MAX_HEADERS"
      "starts_with head ''ICY 200 OK''" "drop (length head - 4) head = CRLF @ CRLF" by blast
  then have "length (first @ body_bytes rest) \<le> USIZE_MAX" using assms(2) by simp
  from pump_demux [OF this, of clock _ wants_icy station relay] h show ?thesis
    by (intro exI [of _ head] exI [of _ "first @ body_bytes rest"]) (auto split: option.split)
qed

text \<open>
  C22: Reading the header ends. Whatever a server sends, the loop decides after at most 16384 reads:
  what would come after them is neither looked at nor waited for.
\<close>
theorem icy_header_terminates:
  assumes "length reads = MAX_HEADERS"
  shows "read_head [] (reads @ extra) = map_option (\<lambda>(bytes, stop, rest). (bytes, stop, rest @ extra)) (read_head [] reads)"
proof -
  have "read_head acc (reads @ extra) = map_option (\<lambda>(bytes, stop, rest). (bytes, stop, rest @ extra)) (read_head acc reads)"
    if "MAX_HEADERS \<le> length acc + length reads" for acc
    using that
  proof (induction acc reads rule: read_head.induct)
    case (1 acc)
    then show ?case by (cases extra rule: list.exhaust; simp) (metis read_head.simps(2,3) read_outcome.exhaust)
  next
    case (3 acc b reads)
    then show ?case by (cases "b = []") (auto split: option.split simp: Suc_le_eq neq_Nil_conv)
  qed simp
  with assms show ?thesis by simp
qed

section \<open>Who may open a stream\<close>

definition relay_session :: "relay_env \<Rightarrow> header_map \<Rightarrow> account_db \<Rightarrow> bool" where
  "relay_session env headers db \<longleftrightarrow>
     (\<exists>resolver caller. re_resolver env = Some resolver
        \<and> authenticate_control_ingress (re_token_hash env) headers resolver = Ok caller)
   \<or> (map_of headers ''authorization'' = None \<and> trusted_proxy_header_matches headers (re_proxy_token env)
      \<and> (\<exists>cookie i b. cookie_value headers ''rockserver_browser'' = Some cookie
           \<and> (i, b) \<in> set (ac_browsers db) \<and> live_browser db (re_token_hash env cookie) b))"

lemma relay_authorized_session: "fst (relay_authorized env headers db) \<Longrightarrow> relay_session env headers db"
  by (auto simp: relay_authorized_def relay_session_def is_ok_def browser_session_user_def
      split: if_splits option.splits sum.splits bool.splits prod.splits dest!: browser_resolve_Some(1))

lemma station_access_Ok:
  assumes "station_access env station_id query headers db = (Ok upstream, db')"
  shows "relay_session env headers db" "re_public_station env station_id = Ok (Some upstream)"
    "query = None" "station_id \<noteq> []" "length station_id \<le> 128"
  using assms relay_authorized_session [of env headers db]
  by (auto simp: station_access_def split: if_splits option.splits sum.splits bool.splits prod.splits)

text \<open>
  C23: The relay contacts a station only for a current session. When a request makes the relay
  connect anywhere, it had no query string, it carried the bearer token of a live device session
  or, without one, the cookie of a live browser session through the trusted proxy, the catalogue
  knows the station publicly, and a relay slot was free.
\<close>
theorem relay_needs_session:
  assumes "ry_net (snd (stream env net station_id query headers w)) \<noteq> ry_net w"
  shows "relay_session env headers (ry_db w) \<and> query = None \<and> 0 < ry_slots w
     \<and> (\<exists>upstream url. re_public_station env station_id = Ok (Some upstream) \<and> re_parse_url env upstream = Some url)"
proof -
  from assms obtain upstream db url where a:
      "station_access env station_id query headers (ry_db w) = (Ok upstream, db)"
      "re_parse_url env upstream = Some url" "ry_slots w \<noteq> 0"
    by (auto simp: stream_def with_relay_db_def Let_def split: sum.splits prod.splits option.splits if_splits)
  with station_access_Ok [OF a(1)] show ?thesis by auto
qed

section \<open>Examples\<close>

definition example_reads :: "read_outcome list" where
  "example_reads =
     [Chunk ''ICY 20'', Chunk (''0 OK'' @ CRLF @ ''icy-metaint: 1'' @ CRLF @ CRLF @ ''a'' @ [CHR 0x00]), Chunk ''b'']"

definition example_url :: url where
  "example_url = \<lparr>ur_scheme = ''http'', ur_username = [], ur_password = None, ur_fragment = None,
     ur_host = Some ''radio'', ur_port = Some 80\<rparr>"

definition example_network :: network where
  "example_network =
     \<lparr>nw_lookup = (\<lambda>_ _ _. Some [(V4 (1, 1, 1, 1), 80)]), nw_get = (\<lambda>_ _. GetFailed),
      nw_icy = (\<lambda>_. Some example_reads), nw_join = (\<lambda>_ _. None), nw_header_name = Some, nw_header_value = Some\<rparr>"

definition example_relay_env :: relay_env where
  "example_relay_env =
     \<lparr>re_resolver = None, re_store = True, re_proxy_token = Some ''p'', re_token_hash = (\<lambda>s. s),
      re_public_station = (\<lambda>_. Ok (Some ''http://radio'')), re_parse_url = (\<lambda>_. Some example_url),
      re_allow_loopback = False\<rparr>"

definition example_relay_world :: relay_world where
  "example_relay_world =
     \<lparr>ry_db = aw_db example_account_world, ry_slots = MAX_CONNECTIONS,
      ry_net = \<lparr>nt_resolutions = 0, nt_contacts = []\<rparr>\<rparr>"

definition example_head :: string where
  "example_head = ''ICY 200 OK'' @ CRLF @ ''icy-metaint: 1'' @ CRLF @ CRLF"

lemma example_read:
  "read_head [] example_reads = Some (example_head @ ''a'' @ [CHR 0x00], 30, [Chunk ''b''])"
  by (simp add: example_reads_def example_head_def CRLF_def starts_with_def MAX_HEADERS_def)

lemma example_parsed:
  "utf8_valid (map byte example_head)"
  "split_crlf (take 26 example_head) = [''ICY 200 OK'', ''icy-metaint: 1'']"
  "parse_headers example_network [''icy-metaint: 1''] = Ok [(''icy-metaint'', ''1'')]"
  by code_simp+

lemma example_accepted:
  "accept_icy example_network example_reads = Ok ([(''icy-metaint'', ''1'')], reader_from_icy [Chunk ''b''] (''a'' @ [CHR 0x00]))"
proof -
  have "length example_head = 30" by code_simp
  then show ?thesis
    unfolding accept_icy_def example_read
    by (simp add: from_utf8_def example_parsed MAX_HEADERS_def require_def del: parse_headers.simps)
qed

theorem icy_source_relayed_witness:
  "\<exists>body head audio. accept_icy example_network example_reads = Ok ([(''icy-metaint'', ''1'')], body)
     \<and> body_bytes example_reads = head @ audio \<and> starts_with head ''ICY 200 OK''
     \<and> concat (cl_sent (pm_client (pump example_clock body (Some 1) False ''s'' empty_relay None)))
         = demux_bytes False (icy_frames 1 1 audio)"
proof -
  obtain body where b: "accept_icy example_network example_reads = Ok ([(''icy-metaint'', ''1'')], body)"
    using example_accepted by blast
  have "length (body_bytes example_reads) \<le> USIZE_MAX" by (simp add: USIZE_MAX_def example_reads_def CRLF_def)
  note relayed = icy_source_relayed [OF b this, of example_clock False "''s''" empty_relay]
  have "metadata_interval [(''icy-metaint'', ''1'')] = Some 1"
    by (simp add: metadata_interval_def header_str_def header_text_def parse_usize_def USIZE_MAX_def MAX_METAINT_def
        is_ascii_digit_def byte_def)
  with relayed b show ?thesis by auto
qed

theorem icy_header_terminates_witness:
  "read_head [] (replicate MAX_HEADERS (Chunk ''x'') @ [Chunk ''y''])
     = map_option (\<lambda>(bytes, stop, rest). (bytes, stop, rest @ [Chunk ''y''])) (read_head [] (replicate MAX_HEADERS (Chunk ''x'')))"
  by (rule icy_header_terminates) simp

lemma example_streamed:
  "length (nt_contacts (ry_net (snd (stream example_relay_env (example_network\<lparr>nw_get := (\<lambda>_ _. GetTimedOut)\<rparr>) ''s'' None
      (filter (\<lambda>(k, _). k \<noteq> ''authorization'') example_headers) example_relay_world)))) = 1"
  by code_simp

theorem relay_needs_session_witness:
  "relay_session example_relay_env (filter (\<lambda>(k, _). k \<noteq> ''authorization'') example_headers) (aw_db example_account_world)"
proof -
  have "ry_net (snd (stream example_relay_env (example_network\<lparr>nw_get := (\<lambda>_ _. GetTimedOut)\<rparr>) ''s'' None
      (filter (\<lambda>(k, _). k \<noteq> ''authorization'') example_headers) example_relay_world)) \<noteq> ry_net example_relay_world"
    using example_streamed by (auto simp: example_relay_world_def)
  from relay_needs_session [OF this] show ?thesis by (simp add: example_relay_world_def)
qed

end
