(* ===== verification/Account_Ingress.thy ===== *)
theory Account_Ingress
  imports Account_Http Control_Session
begin

text \<open>
  The control ingress over the account store. What the control endpoints rely on is stated as an
  interface: a source of sessions that never resolves a barred account or device, and bars that
  stay while the store evolves. The account store provides it: a device once revoked and an
  account once deleted are barred for good.
\<close>

locale session_source =
  fixes sessions :: "'s \<Rightarrow> session_resolver"
    and evolves :: "'s \<Rightarrow> 's \<Rightarrow> bool"
    and barred :: "'s \<Rightarrow> user_id \<Rightarrow> device_id \<Rightarrow> bool"
  assumes bar_holds: "sessions s h = Ok (Some a) \<Longrightarrow> \<not> barred s (as_user_id a) (as_device_id a)"
    and bar_stays: "barred s u d \<Longrightarrow> evolves s s' \<Longrightarrow> barred s' u d"
begin

lemma principal_not_barred:
  "authenticate_device_control token_hash authorization (sessions s) = Ok p \<Longrightarrow> \<not> barred s (cp_user_id p) (cp_device_id p)"
  using bar_holds [of s]
  by (auto simp: authenticate_device_control_def and_then_Ok ok_or_Ok split: option.splits)

lemma connect_refused:
  "barred s u d \<Longrightarrow> evolves s s' \<Longrightarrow>
     control_connect token_hash (Some (sessions s')) authorization \<noteq> Ok \<lparr>cp_user_id = u, cp_device_id = d\<rparr>"
  using bar_stays [of s u d s'] principal_not_barred [of token_hash authorization s']
  by (auto simp: control_connect_def split: sum.splits control_auth_error.splits)

lemma throttled_refused:
  "barred s u d \<Longrightarrow> evolves s s' \<Longrightarrow>
     fst (authenticate_and_throttle token_hash (Some (sessions s')) now headers endpoint limit st)
       \<noteq> Ok \<lparr>cp_user_id = u, cp_device_id = d\<rparr>"
  using bar_stays [of s u d s'] principal_not_barred [of token_hash "header_str ''authorization'' headers" s']
  by (auto simp: authenticate_and_throttle_def authenticate_control_ingress_def and_then_Ok Let_def
      split: sum.splits control_auth_error.splits prod.splits)

lemma directory_refused:
  "barred s u d \<Longrightarrow> evolves s s' \<Longrightarrow>
     authenticate_control_ingress token_hash headers (sessions s') \<noteq> Ok \<lparr>cp_user_id = u, cp_device_id = d\<rparr>"
  using bar_stays [of s u d s'] principal_not_barred [of token_hash "header_str ''authorization'' headers" s']
  by (auto simp: authenticate_control_ingress_def)

end

definition account_barred :: "account_db \<Rightarrow> user_id \<Rightarrow> device_id \<Rightarrow> bool" where
  "account_barred db u d \<longleftrightarrow>
     wf_accounts db \<and> ((\<exists>r. map_of (ac_devices db) d = Some r \<and> nd_revoked_at r \<noteq> None)
        \<or> (\<exists>r. map_of (ac_users db) u = Some r \<and> ur_status r = AccountDeleted))"

definition account_evolves :: "account_db \<Rightarrow> account_db \<Rightarrow> bool" where
  "account_evolves db db' = (\<exists>sh calls. db' = account_run sh calls db)"

lemma account_barred_run: "account_barred db u d \<Longrightarrow> account_barred (account_run sh calls db) u d"
  using later_run [of db sh calls] wf_run [of db sh calls]
    table_leD [of device_le "ac_devices db" "ac_devices (account_run sh calls db)" d]
    table_leD [of user_le "ac_users db" "ac_users (account_run sh calls db)" u]
  by (fastforce simp: account_barred_def later_def device_le_def user_le_def sticky_def)

interpretation account_sessions: session_source resolve_active_native_session account_evolves account_barred
proof
  fix db h a assume "resolve_active_native_session db h = Ok (Some a)"
  then obtain i s where "(i, s) \<in> set (ac_sessions db)" "live_session db h s"
      "as_user_id a = ns_user_id s" "as_device_id a = ns_device_id s"
    unfolding resolve_active_native_session_def by (blast dest: find_session_Some)
  then show "\<not> account_barred db (as_user_id a) (as_device_id a)"
    by (auto simp: account_barred_def live_session_def active_user_def is_some_and_def live_device_def split: option.splits)
next
  fix db u d db' assume "account_barred db u d" "account_evolves db db'"
  then show "account_barred db' u d" by (auto simp: account_evolves_def account_barred_run)
qed

lemma revoked_is_barred:
  assumes "aw_db w = account_run (ah_show env) before empty_accounts" "revoke_browser_device env headers d w = (Ok (), w')"
  shows "account_barred (aw_db w') u d"
proof -
  have wf: "wf_accounts (aw_db w)" unfolding assms(1) by (rule wf_run [OF wf_empty_accounts])
  from assms(2) obtain v w1 where o: "browser_mutation_owner env headers w = (Ok v, w1)"
    and r: "revoke_and_drop env v d w1 = (Ok (), w')"
    unfolding revoke_browser_device_def by (auto simp: handler_Ok)
  let ?db = "account_run (ah_show env) (ah_others env 1) (aw_db w1)"
  have wf1: "wf_accounts ?db" by (rule wf_run [OF browser_mutation_owner_Ok(4) [OF o wf]])
  from r have "revoke_owned_device v d ?db = (Ok True, aw_db w')"
    unfolding revoke_and_drop_def drop_connection_def by (auto simp: handler_Ok)
  with wf1 revoke_owned_device_row [OF wf1, of v d "aw_db w'"] wf_revoke [OF wf1, of v d] show ?thesis
    by (auto simp: account_barred_def)
qed

lemma deleted_is_barred:
  assumes "aw_db w = account_run (ah_show env) before empty_accounts" "delete_account u (aw_db w) = (Ok True, db')"
  shows "account_barred db' u d"
  using assms delete_account_row [OF assms(2)] wf_delete(1) [of "aw_db w" u] wf_run [OF wf_empty_accounts]
  by (auto simp: account_barred_def)

end
