(* ===== verification/Spec2Isabelle.thy ===== *)
theory Spec2Isabelle
  imports Control_Plane Personal_Limits Voice_Device Relay_Access Account_Ingress
begin

text \<open>
  RockServer, the server of a home-radio platform: devices (players, displays, sensors, remote
  controls) hold a WebSocket to it, publish what they are and what they do, and receive commands;
  people own accounts, pair devices with them in a browser, speak to them, and keep favourites and
  history on all of them; a relay forwards station streams. The program is Rust on Tokio, Axum and
  PostgreSQL; this development models its logic, from \<open>src/src\<close>, and proves what makes it correct.

  \<^bold>\<open>How the code is translated.\<close> A struct is a record, an enum a datatype, a \<open>Result\<close> a sum (\<open>Ok\<close> and
  \<open>Err\<close>), a function one definition of the same name. State behind a mutex, a table or a socket is a
  record that is passed and returned; a lock section or a database transaction is one step, and where
  a handler makes several, other steps happen in between (as events of a run, or as the calls the
  store serves before each call of the handler). A string is its UTF-8 bytes, \<open>u64\<close> and smaller
  integers are words, an instant counts nanoseconds, a \<open>Uuid\<close> is a number. Third-party code is an
  argument of the definitions: serde decoders, the RFC 3339 parser, digests, the WebAuthn verifier,
  DNS and HTTP, the channels of Tokio (which sends succeed), the text of timestamps, fresh
  identifiers. The tables of PostgreSQL are modelled with the keys and checks of the migrations.

  \<^bold>\<open>The base.\<close> Prelude: integers, results, ordered sets, association lists, UTF-8, floats. Json: the
  values and conversions of \<open>serde_json\<close> that hand-written codecs use.

  \<^bold>\<open>Device control, protocol\<close> (\<open>device_control/*.rs\<close>). Foundation: validation primitives, revision
  ordering, lifecycle messages. Manifest: device declarations, their validation and the capability
  codec (validation is exact, the codec is lossless). Stream_Uri: the admission of stream addresses
  down to the literal parsers (admitted hosts are public). Device_State: runtime states and readings.
  Command: command bodies, validation and codec (round trip, with the one exception it has).

  \<^bold>\<open>Device control, services.\<close> Presence (\<open>device_control_presence.rs\<close>): the connection registry; its
  event history agrees with it. State_Hub (\<open>device_control_state.rs\<close>): live state and its broadcast;
  full snapshots converge. Control_Store (\<open>device_control/store.rs\<close> and its PostgreSQL
  implementation): manifests, states, command reservations; the locale \<open>command_lifecycle_store\<close> is
  the contract of a command store, interpreted as \<open>pg\<close>. Router, Router_Lifecycle and Router_Safety
  (\<open>device_control_command/\<close>): submission, delivery, acknowledgement, result, loss and timeout. The
  locale \<open>router_backend\<close> (interpreted as \<open>pgr\<close>) carries the router's invariant over any store with
  that contract: one terminal result per command, 16 commands per account and 8 per target, dispatch
  only to authorised targets of the same account, resolved stream addresses seen by the target alone.
  Directory (\<open>http/directory.rs\<close>, \<open>device_control_auth.rs\<close>): authentication and what a device may see.

  \<^bold>\<open>The control session\<close> (\<open>http/control.rs\<close>, \<open>http/control/*.rs\<close>). Control_Session: the upgrade, the
  handshake, every branch of the loop and the clean-up. Session_Safety: a specification by abstract
  actions and the refinement of every handler to it; the locale \<open>router_keeps\<close> (interpreted as
  \<open>pgs\<close>) says what router steps leave alone. Control_Plane: any number of sessions interleaved, the
  invariant of the whole, and the protocol rules (no heartbeat before a stored full state, a session
  takes exactly its own connection offline).

  \<^bold>\<open>Personal data\<close> (\<open>personal_data/*.rs\<close>, \<open>http/sync.rs\<close>). Personal_Data: validation and the delta
  protocol. Personal_Store: the in-memory and the PostgreSQL store. Personal_Sync: both refine a
  last-writer-wins cell (the locale \<open>lww_store\<close>, interpreted for favourites and history of both), they
  agree with each other, and a client that follows the protocol catches up. Personal_Limits: at most
  500 live records of a kind, and the deletion that blocks an account.

  \<^bold>\<open>Voice\<close> (\<open>device_control_intent.rs\<close>, \<open>http/voice/*.rs\<close>). Intent: resolution of typed intents
  against a directory (what is planned passes the router, actuators are only confirmed).
  Voice_Device: the device end of a voice session.

  \<^bold>\<open>HTTP boundary\<close> (\<open>http/transport.rs\<close>, \<open>http/state.rs\<close>, \<open>http/control_auth.rs\<close>). Transport: headers,
  cookies, trusted origin and proxy, bounded bodies, the in-memory quotas (a sliding window, proved
  against a specification over the whole history) and the voice slots.

  \<^bold>\<open>Accounts\<close> (\<open>auth/*.rs\<close>, \<open>persistence/account_postgres/*.rs\<close>, \<open>account_cleanup.rs\<close>). Account_Store:
  the tables and every statement. Account_Safety: over any sequence of calls the invariant of the
  tables, that revocation, deletion and consumption are final, that a pairing needs its owner's
  approval and happens once, what issued credentials resolve to, and the rate limit per minute.
  Account_Http (\<open>http/account.rs\<close>, \<open>http/auth.rs\<close>, \<open>http/pairing.rs\<close>, \<open>http/yandex_home.rs\<close>): every
  handler, with other requests served between its store calls; sign-in uses its challenge up,
  revocation and deletion need their proofs and work. Account_Ingress: the locale \<open>session_source\<close> is
  what the control endpoints rely on; the account store is interpreted as \<open>account_sessions\<close>.

  \<^bold>\<open>The relay\<close> (\<open>http/relay.rs\<close>, \<open>http/relay/*.rs\<close>). Relay_Stream: the reader, the loop that separates
  audio from ICY metadata (equal to a demultiplexer of the whole body, however it is cut), the title
  table and its events. Relay_Access: who may open a stream, which addresses are contacted, the
  redirects, the header of legacy sources.

  \<^bold>\<open>Bounds.\<close> No definition needs fuel: loops are recursions over what was received, with a measure
  where they are not structural (the reader and the pump by what is left to read, trimming and
  splitting by the length). Numbers of the code (16 and 8 commands in flight, 24 hours, 500 records,
  50 devices, 1024 titles, 3 redirects, 16 KiB of header) are definitions with the names of the code.

  \<^bold>\<open>Not modelled.\<close> Search and ranking, catalogue import and export, station icons, the administration
  console and process set-up are left out: they are query building, text heuristics, file and image
  handling, rendering and wiring; the clients of external services are network calls and inference.
  The catalogue appears as what a lookup of a public station answers. Audio upload and speech
  recognition end outside this development; it starts again at the recognised command. The read-only
  operator preview is a report. Waiting is modelled by its outcomes: a timeout is a value, fairness
  and durations of the scheduler are not.
\<close>

section \<open>Revoked devices and the control plane\<close>

text \<open>
  C17: A device revoked in the browser cannot come back to the control plane. After the handler has
  answered with success the registry holds no connection of the device for the account that
  revoked it, and from then on, whatever the account store serves, no request for a control socket
  and no throttled control request is admitted for the device.
\<close>
theorem revoked_device_cannot_connect:
  assumes "aw_db w = account_run (ah_show env) before empty_accounts"
    and "revoke_browser_device env headers d w = (Ok (), w')"
  shows "(\<exists>u. browser_proof env headers (account_run (ah_show env) (ah_others env 0) (aw_db w)) u
            \<and> active_for (aw_registry w') u d = None)
       \<and> (\<forall>sh calls u token_hash authorization.
            control_connect token_hash (Some (resolve_active_native_session (account_run sh calls (aw_db w')))) authorization
              \<noteq> Ok \<lparr>cp_user_id = u, cp_device_id = d\<rparr>)
       \<and> (\<forall>sh calls u token_hash now request endpoint limit st.
            fst (authenticate_and_throttle token_hash (Some (resolve_active_native_session (account_run sh calls (aw_db w'))))
              now request endpoint limit st) \<noteq> Ok \<lparr>cp_user_id = u, cp_device_id = d\<rparr>)"
proof -
  have evolves: "account_evolves (aw_db w') (account_run sh calls (aw_db w'))" for sh calls
    by (auto simp: account_evolves_def)
  note barred = revoked_is_barred [OF assms]
  have wf: "wf_accounts (aw_db w)" unfolding assms(1) by (rule wf_run [OF wf_empty_accounts])
  from assms(2) obtain u w1 where o: "browser_mutation_owner env headers w = (Ok u, w1)"
    and r: "revoke_and_drop env u d w1 = (Ok (), w')"
    unfolding revoke_browser_device_def by (auto simp: handler_Ok)
  note owner = browser_mutation_owner_Ok [OF o]
  from owner(1) revoke_and_drop_Ok(1) [OF r owner(4) [OF wf]]
    account_sessions.connect_refused [OF barred evolves] account_sessions.throttled_refused [OF barred evolves]
  show ?thesis by blast
qed

theorem revoked_device_cannot_connect_witness:
  "\<exists>w'. revoke_browser_device example_account_env example_headers 12 example_account_world = (Ok (), w')
     \<and> (\<forall>authorization. control_connect (\<lambda>s. s) (Some (resolve_active_native_session (account_run (\<lambda>_. []) [] (aw_db w'))))
          authorization \<noteq> Ok \<lparr>cp_user_id = 5, cp_device_id = 12\<rparr>)"
proof -
  obtain w' where w': "revoke_browser_device example_account_env example_headers 12 example_account_world = (Ok (), w')"
    using example_revoked by (metis prod.collapse)
  have "aw_db example_account_world = account_run (ah_show example_account_env)
      (example_calls @ [AcComplete 7 ''d'' example_pairing_session]) empty_accounts"
    by (simp add: example_account_world_def example_account_env_def)
  from revoked_device_cannot_connect [OF this w'] w' show ?thesis by blast
qed

end
